(* ===== verification/Prelude.thy ===== *)
theory Prelude
  imports Main "HOL-Library.Word" "HOL-Library.AList"
begin

text \<open>
  Shared vocabulary of the development: the fixed-width integers of the C sources
  (\<^verbatim>\<open>__u64\<close>, \<^verbatim>\<open>__u32\<close>, bytes), little-endian encoding of words as byte lists,
  and the generic facts on words, lists and association lists that the component
  theories use. Three collections carry the automation: \<open>bpf_simps\<close> for the laws of
  the BPF maps, \<open>wf_intros\<close> for preservation of well-formedness, and \<open>frame_simps\<close>
  for the fields that an operation leaves alone.
\<close>

unbundle bit_operations_syntax

type_synonym u8 = "8 word"
type_synonym u32 = "32 word"
type_synonym u64 = "64 word"

named_theorems bpf_simps \<open>laws of the BPF map operations\<close>
named_theorems wf_intros \<open>preservation of well-formedness by the operations\<close>
named_theorems frame_simps \<open>fields an operation does not touch\<close>

section \<open>Words\<close>

lemma unat_div_u64: "unat ((a::u64) div b) = unat a div unat b"
  by (simp add: unat_div_distrib)

lemma unat_less_2_64: "unat (a::u64) < 18446744073709551616"
  using unsigned_less [of a] by simp

lemma unat_sub_mono_u64: "b \<le> a \<Longrightarrow> unat ((a::u64) - b) = unat a - unat b"
  by (simp add: unat_sub)

lemma div_mono_u64: "(a::u64) \<le> b \<Longrightarrow> a div c \<le> b div c"
  by (simp add: word_le_nat_alt unat_div_u64 div_le_mono)

text \<open>The ring index: masking with 63 is reduction modulo 64, and survives the cast to 32 bits.\<close>

lemma unat_mask_63: "unat ((e::u64) AND 63) = unat e mod 64"
proof -
  have "e AND 63 = take_bit 6 e"
    by (simp add: take_bit_eq_mask mask_eq_exp_minus_1)
  then show ?thesis
    by (simp only: unsigned_take_bit_eq) (simp add: take_bit_eq_mod)
qed

lemma unat_ucast_mask_63: "unat (ucast ((e::u64) AND 63) :: u32) = unat e mod 64"
proof -
  have "unat (ucast (e AND 63) :: u32) = take_bit 32 (unat (e AND 63))"
    by (simp add: unsigned_ucast_eq)
  also have "\<dots> = unat e mod 64"
    by (simp add: unat_mask_63 take_bit_nat_eq_self)
  finally show ?thesis .
qed

section \<open>Little-endian bytes\<close>

fun le_decode :: "u8 list \<Rightarrow> 'a::len word" where
  "le_decode [] = 0"
| "le_decode (b # bs) = ucast b OR push_bit 8 (le_decode bs)"

fun le_encode :: "nat \<Rightarrow> 'a::len word \<Rightarrow> u8 list" where
  "le_encode 0 w = []"
| "le_encode (Suc n) w = ucast w # le_encode n (drop_bit 8 w)"

lemma length_le_encode [simp]: "length (le_encode n w) = n"
  by (induction n arbitrary: w) auto

lemma le_decode_encode: "le_decode (le_encode n w) = take_bit (8 * n) (w :: 'a::len word)"
proof (induction n arbitrary: w)
  case 0
  then show ?case by simp
next
  case (Suc n)
  have "ucast (ucast w :: u8) OR push_bit 8 (take_bit (8 * n) (drop_bit 8 w))
      = take_bit (8 * Suc n) (w :: 'a word)"
    by (rule bit_word_eqI)
      (auto simp: bit_or_iff bit_push_bit_iff bit_take_bit_iff bit_drop_bit_eq bit_ucast_iff)
  with Suc show ?case by simp
qed

lemma le_decode_encode_u64 [simp]: "le_decode (le_encode 8 (w :: u64)) = w"
  using take_bit_length_eq [of w] by (simp add: le_decode_encode)

lemma le_decode_encode_u32 [simp]: "le_decode (le_encode 4 (w :: u32)) = w"
  using take_bit_length_eq [of w] by (simp add: le_decode_encode)

section \<open>Lists and association lists\<close>

lemma sum_list_update_word:
  "i < length xs \<Longrightarrow> sum_list (xs[i := v]) = sum_list xs - xs ! i + (v :: 'a::len word)"
proof (induction xs arbitrary: i)
  case Nil
  then show ?case by simp
next
  case (Cons x xs)
  then show ?case by (cases i) (auto simp: algebra_simps)
qed

lemma map_of_filter_neq:
  "map_of (filter (\<lambda>(k', v). k' \<noteq> k) m) k' = (if k' = k then None else map_of m k')"
  by (induction m) auto

lemma map_of_map_at:
  "map_of (map (\<lambda>(k', v). (k', if k' = k then f v else v)) m) k' =
     (if k' = k then map_option f (map_of m k') else map_of m k')"
  by (induction m) auto

lemma fst_set_map_at: "fst ` set (map (\<lambda>(k', v). (k', if k' = k then f v else v)) m) = fst ` set m"
  by (auto simp: image_iff) (force+)

lemma sum_upt_single:
  "c < n \<Longrightarrow> (\<Sum>j \<leftarrow> [0..<n]. h j + (if j = c then d else (0::u64))) = (\<Sum>j \<leftarrow> [0..<n]. h j) + d"
proof (induction n)
  case 0
  then show ?case by simp
next
  case (Suc n)
  have "(\<Sum>j \<leftarrow> [0..<n]. h j + (if j = n then d else 0)) = (\<Sum>j \<leftarrow> [0..<n]. h j)"
    by (intro arg_cong [where f = sum_list] map_cong) auto
  with Suc show ?case by (cases "c = n") (auto simp: algebra_simps)
qed

text \<open>Storing a list of entries with distinct keys into a map.\<close>

lemma map_of_fold_update:
  "distinct (map fst kvs) \<Longrightarrow>
     map_of (fold (\<lambda>(k, v). AList.update k v) kvs m) k =
     (case map_of kvs k of None \<Rightarrow> map_of m k | Some v \<Rightarrow> Some v)"
proof (induction kvs arbitrary: m)
  case (Cons e kvs)
  obtain i v where e: "e = (i, v)" by (cases e)
  have "map_of kvs i = None" using Cons.prems e by (simp add: map_of_eq_None_iff)
  with Cons e show ?case by (auto simp: update_conv' split: option.split)
qed simp

end
