(* ===== verification/Bpf_Runtime.thy ===== *)
theory Bpf_Runtime
  imports Prelude
begin

text \<open>
  What the four BPF programs use of the BPF run time, as documented for the helpers of
  \<^verbatim>\<open>bpf-helpers(7)\<close> and for the map types of \<^verbatim>\<open>Documentation/bpf\<close>: the invocation
  context, hash maps, per-CPU hash maps and per-CPU arrays, and reads of kernel memory.
  What the kernel decides on its own is a parameter: the clock, the CPU, the current
  cgroup and whether an element can be allocated come with the context
  \<open>bpf_ctx\<close>, the contents of kernel memory and the field offsets of the running kernel
  (fixed by CO-RE relocation at load time) with \<open>kernel\<close>.

  The two locales at the end are the contracts the monitors rely on: a
  \<open>percpu_accumulator\<close> (find or create an entry, then update this CPU's copy of it) and
  a \<open>stamp_store\<close> (remember a value under a key, take it out once).
\<close>

section \<open>Invocation context\<close>

record bpf_ctx =
  bpf_ktime_get_ns :: u64
  bpf_get_smp_processor_id :: nat
  bpf_get_current_cgroup_id :: u64
  bpf_alloc_elem :: "string \<Rightarrow> bool"

text \<open>
  Every program reads the clock at most once per run, so the time of the run is a field.
  \<open>bpf_alloc_elem x m\<close> says whether the kernel finds an element for a new key of map \<open>m\<close>
  in this run; the capacity \<^verbatim>\<open>max_entries\<close> is checked besides.
\<close>

section \<open>Hash maps\<close>

datatype update_flag = BPF_ANY | BPF_NOEXIST

definition hash_lookup :: "('k \<times> 'v) list \<Rightarrow> 'k \<Rightarrow> 'v option" where
  "hash_lookup m k = map_of m k"

definition hash_update ::
  "nat \<Rightarrow> bool \<Rightarrow> update_flag \<Rightarrow> 'k \<Rightarrow> 'v \<Rightarrow> ('k \<times> 'v) list \<Rightarrow> int \<times> ('k \<times> 'v) list" where
  "hash_update max_entries alloc flag k v m =
     (if map_of m k \<noteq> None then
        (if flag = BPF_NOEXIST then (-17, m)
         else (0, map (\<lambda>(k', v'). (k', if k' = k then v else v')) m))
      else if length m < max_entries \<and> alloc then (0, (k, v) # m)
      else (-7, m))"

definition hash_delete :: "'k \<Rightarrow> ('k \<times> 'v) list \<Rightarrow> ('k \<times> 'v) list" where
  "hash_delete k m = filter (\<lambda>(k', v). k' \<noteq> k) m"

text \<open>When an update goes through: the key is there, or there is room for it.\<close>

definition hash_room :: "nat \<Rightarrow> bool \<Rightarrow> 'k \<Rightarrow> ('k \<times> 'v) list \<Rightarrow> bool" where
  "hash_room max_entries alloc k m \<longleftrightarrow> map_of m k \<noteq> None \<or> (length m < max_entries \<and> alloc)"

lemma hash_lookup_update [bpf_simps]:
  "hash_lookup (snd (hash_update n a BPF_ANY k v m)) k' =
     (if k' = k \<and> hash_room n a k m then Some v else hash_lookup m k')"
  by (auto simp: hash_lookup_def hash_update_def hash_room_def map_of_map_at)

lemma hash_lookup_delete [bpf_simps]:
  "hash_lookup (hash_delete k m) k' = (if k' = k then None else hash_lookup m k')"
  by (simp add: hash_lookup_def hash_delete_def map_of_filter_neq)

lemma length_hash_update: "length (snd (hash_update n a fl k v m)) \<le> Suc (length m)"
  by (simp add: hash_update_def)

lemma length_hash_delete:
  "distinct (map fst m) \<Longrightarrow> hash_lookup m k \<noteq> None \<Longrightarrow> Suc (length (hash_delete k m)) = length m"
proof (induction m)
  case Nil
  then show ?case by (simp add: hash_lookup_def)
next
  case (Cons e m)
  obtain j v where e: "e = (j, v)" by (cases e)
  show ?case
  proof (cases "j = k")
    case True
    then have "hash_delete k m = m"
      using Cons.prems e by (force simp: hash_delete_def filter_id_conv)
    with True e show ?thesis by (simp add: hash_delete_def)
  next
    case False
    with Cons e show ?thesis by (simp add: hash_delete_def hash_lookup_def)
  qed
qed

text \<open>The capacity and the uniqueness of keys are invariants of every operation.\<close>

definition hash_wf :: "nat \<Rightarrow> ('k \<times> 'v) list \<Rightarrow> bool" where
  "hash_wf max_entries m \<longleftrightarrow> distinct (map fst m) \<and> length m \<le> max_entries"

lemma hash_wf_Nil [simp]: "hash_wf n []"
  by (simp add: hash_wf_def)

lemma map_fst_map_at: "map fst (map (\<lambda>(k', v). (k', if k' = k then f v else v)) m) = map fst m"
  by (induction m) auto

lemma hash_wf_map_at [wf_intros]:
  "hash_wf n m \<Longrightarrow> hash_wf n (map (\<lambda>(k', v). (k', if k' = k then f v else v)) m)"
  by (simp only: hash_wf_def map_fst_map_at length_map)

lemma hash_wf_update [wf_intros]: "hash_wf n m \<Longrightarrow> hash_wf n (snd (hash_update n a fl k v m))"
  by (auto simp: hash_update_def map_of_eq_None_iff hash_wf_map_at)
    (auto simp: hash_wf_def)

lemma hash_wf_delete [wf_intros]: "hash_wf n m \<Longrightarrow> hash_wf n (hash_delete k m)"
  by (auto simp: hash_wf_def hash_delete_def distinct_map_filter
      intro: le_trans [OF length_filter_le])

text \<open>The total of a measure over all entries, and how storing and deleting change it.\<close>

definition hash_total :: "('v \<Rightarrow> u64) \<Rightarrow> ('k \<times> 'v) list \<Rightarrow> u64" where
  "hash_total mu m = sum_list (map (\<lambda>(k, v). mu v) m)"

definition hash_measure :: "('v \<Rightarrow> u64) \<Rightarrow> ('k \<times> 'v) list \<Rightarrow> 'k \<Rightarrow> u64" where
  "hash_measure mu m k = (case hash_lookup m k of None \<Rightarrow> 0 | Some v \<Rightarrow> mu v)"

lemma hash_total_Nil [simp]: "hash_total mu [] = 0"
  by (simp add: hash_total_def)

lemma hash_total_Cons [simp]: "hash_total mu ((k, v) # m) = mu v + hash_total mu m"
  by (simp add: hash_total_def)

lemma hash_total_delete:
  assumes "distinct (map fst m)"
  shows "hash_total mu (hash_delete k m) + hash_measure mu m k = hash_total mu m"
  using assms
proof (induction m)
  case Nil
  then show ?case by (simp add: hash_delete_def hash_measure_def hash_lookup_def)
next
  case (Cons e m)
  obtain j v where e: "e = (j, v)" by (cases e)
  show ?case
  proof (cases "j = k")
    case True
    then have "hash_delete k m = m"
      using Cons.prems e by (force simp: hash_delete_def filter_id_conv)
    with True e show ?thesis by (simp add: hash_delete_def hash_measure_def hash_lookup_def)
  next
    case False
    with Cons e show ?thesis
      by (simp add: hash_delete_def hash_measure_def hash_lookup_def add.assoc)
  qed
qed

lemma hash_total_map_at:
  assumes "distinct (map fst m)" and "map_of m k = Some w"
  shows "hash_total mu (map (\<lambda>(k', v). (k', if k' = k then f v else v)) m) + mu w =
     hash_total mu m + mu (f w)"
  using assms
proof (induction m)
  case Nil
  then show ?case by simp
next
  case (Cons e m)
  obtain j v where e: "e = (j, v)" by (cases e)
  show ?case
  proof (cases "j = k")
    case True
    then have "map (\<lambda>(k', v). (k', if k' = k then f v else v)) m = m"
      using Cons.prems e by (force intro!: map_idI)
    with True e Cons.prems show ?thesis by (simp add: ac_simps)
  next
    case False
    with Cons e show ?thesis by (simp add: ac_simps)
  qed
qed

lemma hash_total_put:
  assumes "distinct (map fst m)"
  shows "hash_total mu (snd (hash_update n a BPF_ANY k v m)) +
       (if hash_room n a k m then hash_measure mu m k else 0) =
     hash_total mu m + (if hash_room n a k m then mu v else 0)"
proof (cases "map_of m k")
  case None
  then show ?thesis
    by (simp add: hash_update_def hash_room_def hash_measure_def hash_lookup_def)
next
  case (Some w)
  then show ?thesis
    using hash_total_map_at [OF assms Some, of mu "\<lambda>_. v"]
    by (simp add: hash_update_def hash_room_def hash_measure_def hash_lookup_def)
qed

section \<open>Per-CPU hash maps\<close>

text \<open>
  The value of a key is one copy per CPU. A program sees the copy of the CPU it runs on;
  a new element starts as the given value on that CPU and as zeros elsewhere. A looked-up
  pointer stays valid for the run, so a store through it is \<open>percpu_write\<close>.
\<close>

type_synonym ('k, 'v) percpu_hash = "('k \<times> (nat \<Rightarrow> 'v)) list"

definition percpu_lookup :: "('k, 'v) percpu_hash \<Rightarrow> nat \<Rightarrow> 'k \<Rightarrow> 'v option" where
  "percpu_lookup m cpu k = map_option (\<lambda>g. g cpu) (map_of m k)"

definition percpu_create ::
  "nat \<Rightarrow> bool \<Rightarrow> 'v \<Rightarrow> nat \<Rightarrow> 'k \<Rightarrow> 'v \<Rightarrow> ('k, 'v) percpu_hash \<Rightarrow> int \<times> ('k, 'v) percpu_hash" where
  "percpu_create max_entries alloc zero cpu k v m =
     hash_update max_entries alloc BPF_NOEXIST k ((\<lambda>_. zero)(cpu := v)) m"

definition percpu_write ::
  "nat \<Rightarrow> 'k \<Rightarrow> ('v \<Rightarrow> 'v) \<Rightarrow> ('k, 'v) percpu_hash \<Rightarrow> ('k, 'v) percpu_hash" where
  "percpu_write cpu k f m = map (\<lambda>(k', g). (k', if k' = k then g(cpu := f (g cpu)) else g)) m"

text \<open>An absent key reads as the zero value, which is what user space makes of it.\<close>

definition percpu_val :: "'v \<Rightarrow> ('k, 'v) percpu_hash \<Rightarrow> nat \<Rightarrow> 'k \<Rightarrow> 'v" where
  "percpu_val zero m cpu k = (case map_of m k of None \<Rightarrow> zero | Some g \<Rightarrow> g cpu)"

definition percpu_has :: "('k, 'v) percpu_hash \<Rightarrow> 'k \<Rightarrow> bool" where
  "percpu_has m k \<longleftrightarrow> map_of m k \<noteq> None"

lemma percpu_lookup_val:
  "percpu_lookup m c k = (if percpu_has m k then Some (percpu_val z m c k) else None)"
  by (auto simp: percpu_lookup_def percpu_has_def percpu_val_def)

lemma percpu_val_absent: "\<not> percpu_has m k \<Longrightarrow> percpu_val z m c k = z"
  by (simp add: percpu_has_def percpu_val_def)

lemma percpu_has_create [bpf_simps]:
  "percpu_has (snd (percpu_create n a z c k v m)) k' \<longleftrightarrow>
     percpu_has m k' \<or> (k' = k \<and> hash_room n a k m)"
  by (auto simp: percpu_has_def percpu_create_def hash_update_def hash_room_def)

lemma percpu_val_create_zero [bpf_simps]:
  "percpu_val z (snd (percpu_create n a z c k z m)) c' k' = percpu_val z m c' k'"
  by (auto simp: percpu_val_def percpu_create_def hash_update_def fun_upd_def)

lemma percpu_has_write [bpf_simps]: "percpu_has (percpu_write c k f m) k' = percpu_has m k'"
  by (simp add: percpu_has_def percpu_write_def map_of_map_at)

lemma percpu_val_write [bpf_simps]:
  "percpu_val z (percpu_write c k f m) c' k' =
     (if c' = c \<and> k' = k \<and> percpu_has m k then f (percpu_val z m c k) else percpu_val z m c' k')"
  by (auto simp: percpu_val_def percpu_has_def percpu_write_def map_of_map_at split: option.split)

lemma percpu_has_delete [bpf_simps]: "percpu_has (hash_delete k m) k' \<longleftrightarrow> k' \<noteq> k \<and> percpu_has m k'"
  by (simp add: percpu_has_def hash_delete_def map_of_filter_neq)

lemma percpu_val_delete [bpf_simps]:
  "percpu_val z (hash_delete k m) c' k' = (if k' = k then z else percpu_val z m c' k')"
  by (simp add: percpu_val_def hash_delete_def map_of_filter_neq)

lemma percpu_val_Nil [simp]: "percpu_val z [] c k = z"
  by (simp add: percpu_val_def)

lemma hash_wf_create [wf_intros]: "hash_wf n m \<Longrightarrow> hash_wf n (snd (percpu_create n a z c k v m))"
  by (simp add: percpu_create_def hash_wf_update)

lemma hash_wf_write [wf_intros]: "hash_wf n m \<Longrightarrow> hash_wf n (percpu_write c k f m)"
  by (simp add: percpu_write_def hash_wf_map_at)

text \<open>
  Find the entry or create it as zero, then store through the pointer: the shape every
  accumulation of the monitors has. \<open>percpu_upsert\<close> is its effect on the map.
\<close>

definition percpu_upsert :: "nat \<Rightarrow> bool \<Rightarrow> 'v \<Rightarrow> nat \<Rightarrow> 'k \<Rightarrow> ('v \<Rightarrow> 'v) \<Rightarrow>
    ('k, 'v) percpu_hash \<Rightarrow> ('k, 'v) percpu_hash" where
  "percpu_upsert n a z c k f m =
     (let m' = (if percpu_has m k then m else snd (percpu_create n a z c k z m))
      in if percpu_has m' k then percpu_write c k f m' else m')"

lemma percpu_has_room: "percpu_has m k \<Longrightarrow> hash_room n a k m"
  by (simp add: percpu_has_def hash_room_def)

lemma percpu_val_upsert [bpf_simps]:
  "percpu_val z (percpu_upsert n a z c k f m) c' k' =
     (if c' = c \<and> k' = k \<and> hash_room n a k m then f (percpu_val z m c k) else percpu_val z m c' k')"
  by (auto simp: percpu_upsert_def Let_def bpf_simps percpu_has_room)

lemma percpu_has_upsert [bpf_simps]:
  "percpu_has (percpu_upsert n a z c k f m) k' \<longleftrightarrow> percpu_has m k' \<or> (k' = k \<and> hash_room n a k m)"
  by (auto simp: percpu_upsert_def Let_def bpf_simps percpu_has_room)

lemma hash_wf_upsert [wf_intros]: "hash_wf n m \<Longrightarrow> hash_wf n (percpu_upsert n a z c k f m)"
  by (simp add: percpu_upsert_def Let_def hash_wf_write hash_wf_create)

lemma percpu_write_write:
  "percpu_write c k g (percpu_write c k f m) = percpu_write c k (g \<circ> f) m"
  by (auto simp: percpu_write_def)

text \<open>The total of a measure over all keys of one CPU's copies.\<close>

definition percpu_total :: "('v \<Rightarrow> u64) \<Rightarrow> ('k, 'v) percpu_hash \<Rightarrow> nat \<Rightarrow> u64" where
  "percpu_total mu m c = hash_total (\<lambda>g. mu (g c)) m"

lemma percpu_total_write:
  assumes "distinct (map fst m)" and "percpu_has m k" and "\<And>v. mu (f v) = mu v + d"
  shows "percpu_total mu (percpu_write c' k f m) c = percpu_total mu m c + (if c = c' then d else 0)"
proof -
  from assms(2) obtain g where "map_of m k = Some g" by (auto simp: percpu_has_def)
  from hash_total_map_at [OF assms(1) this, of "\<lambda>g. mu (g c)" "\<lambda>g. g(c' := f (g c'))"] assms(3)
  show ?thesis by (auto simp: percpu_total_def percpu_write_def algebra_simps split: if_splits)
qed

lemma percpu_total_upsert:
  assumes "hash_wf n m" and "mu z = 0" and "\<And>v. mu (f v) = mu v + d"
  shows "percpu_total mu (percpu_upsert n a z c' k f m) c =
     percpu_total mu m c + (if c = c' \<and> hash_room n a k m then d else 0)"
proof (cases "percpu_has m k")
  case True
  with assms show ?thesis
    by (simp add: percpu_upsert_def percpu_total_write hash_wf_def percpu_has_room)
next
  case False
  let ?m = "snd (percpu_create n a z c' k z m)"
  have "percpu_total mu ?m c = percpu_total mu m c"
    using False assms
    by (simp add: percpu_create_def hash_update_def percpu_has_def percpu_total_def)
  moreover have "hash_wf n ?m" using assms(1) by (rule hash_wf_create)
  ultimately show ?thesis
    using False assms
    by (auto simp: percpu_upsert_def Let_def percpu_total_write hash_wf_def percpu_has_create)
qed

lemma percpu_total_delete:
  assumes "distinct (map fst m)" and "mu z = 0"
  shows "percpu_total mu (hash_delete k m) c + mu (percpu_val z m c k) = percpu_total mu m c"
  using hash_total_delete [OF assms(1), of "\<lambda>g. mu (g c)" k] assms(2)
  by (simp add: percpu_total_def percpu_val_def hash_measure_def hash_lookup_def split: option.splits)

section \<open>Per-CPU arrays\<close>

text \<open>One element per index, each with a copy per CPU; an index out of range looks up as NULL.\<close>

definition percpu_array_lookup :: "(nat \<Rightarrow> 'v) list \<Rightarrow> nat \<Rightarrow> u32 \<Rightarrow> 'v option" where
  "percpu_array_lookup a cpu i = (if unat i < length a then Some ((a ! unat i) cpu) else None)"

definition percpu_array_write :: "nat \<Rightarrow> u32 \<Rightarrow> 'v \<Rightarrow> (nat \<Rightarrow> 'v) list \<Rightarrow> (nat \<Rightarrow> 'v) list" where
  "percpu_array_write cpu i v a =
     (if unat i < length a then a[unat i := (a ! unat i)(cpu := v)] else a)"

lemma percpu_array_lookup_write [bpf_simps]:
  "percpu_array_lookup (percpu_array_write c i v a) c' i' =
     (if c' = c \<and> i' = i \<and> unat i < length a then Some v else percpu_array_lookup a c' i')"
  by (auto simp: percpu_array_lookup_def percpu_array_write_def nth_list_update dest: unsigned_word_eqI)

lemma length_percpu_array_write [simp]: "length (percpu_array_write c i v a) = length a"
  by (simp add: percpu_array_write_def)

section \<open>Kernel memory\<close>

text \<open>
  Kernel memory is a partial function from addresses to bytes, undefined where a read
  faults. \<open>koff s f\<close> is the offset of field \<open>f\<close> in \<^verbatim>\<open>struct s\<close> on the running
  kernel. A faulting \<^verbatim>\<open>bpf_probe_read_kernel\<close> zeroes its destination, and
  \<^verbatim>\<open>BPF_CORE_READ\<close> ignores the error, so a chain through a bad pointer reads 0.
\<close>

record kernel =
  kmem :: "u64 \<Rightarrow> u8 option"
  koff :: "string \<Rightarrow> string \<Rightarrow> u64"

definition probe_read :: "kernel \<Rightarrow> nat \<Rightarrow> u64 \<Rightarrow> u8 list" where
  "probe_read K n a =
     (let bs = map (\<lambda>i. kmem K (a + of_nat i)) [0..<n]
      in if None \<in> set bs then replicate n 0 else map the bs)"

definition core_read_u64 :: "kernel \<Rightarrow> u64 \<Rightarrow> string \<Rightarrow> string \<Rightarrow> u64" where
  "core_read_u64 K p s f = le_decode (probe_read K 8 (p + koff K s f))"

definition core_read_u32 :: "kernel \<Rightarrow> u64 \<Rightarrow> string \<Rightarrow> string \<Rightarrow> u32" where
  "core_read_u32 K p s f = le_decode (probe_read K 4 (p + koff K s f))"

lemma length_probe_read [simp]: "length (probe_read K n a) = n"
  by (simp add: probe_read_def Let_def)

section \<open>Contracts\<close>

locale percpu_accumulator =
  fixes bump :: "bpf_ctx \<Rightarrow> 'k \<Rightarrow> 'a \<Rightarrow> 's \<Rightarrow> 's"
    and act :: "bpf_ctx \<Rightarrow> 'a \<Rightarrow> 'v \<Rightarrow> 'v"
    and val :: "'s \<Rightarrow> nat \<Rightarrow> 'k \<Rightarrow> 'v"
    and ready :: "bpf_ctx \<Rightarrow> 'k \<Rightarrow> 's \<Rightarrow> bool"
    and holds :: "'s \<Rightarrow> 'k \<Rightarrow> bool"
    and invar :: "'s \<Rightarrow> bool"
  assumes val_bump: "invar s \<Longrightarrow> val (bump x k a s) c k' =
      (if c = bpf_get_smp_processor_id x \<and> k' = k \<and> ready x k s
       then act x a (val s c k) else val s c k')"
    and holds_bump: "invar s \<Longrightarrow> holds (bump x k a s) k' \<longleftrightarrow> holds s k' \<or> (k' = k \<and> ready x k s)"
    and holds_ready: "holds s k \<Longrightarrow> ready x k s"
    and invar_bump: "invar s \<Longrightarrow> invar (bump x k a s)"
begin

text \<open>A sequence of updates, and those among them that reach the copy of CPU \<open>c\<close> at key \<open>k\<close>.\<close>

primrec bumps :: "(bpf_ctx \<times> 'k \<times> 'a) list \<Rightarrow> 's \<Rightarrow> 's" where
  "bumps [] s = s"
| "bumps (e # es) s = bumps es (bump (fst e) (fst (snd e)) (snd (snd e)) s)"

primrec applied :: "nat \<Rightarrow> 'k \<Rightarrow> (bpf_ctx \<times> 'k \<times> 'a) list \<Rightarrow> 's \<Rightarrow> (bpf_ctx \<times> 'a) list" where
  "applied c k [] s = []"
| "applied c k (e # es) s =
     (if c = bpf_get_smp_processor_id (fst e) \<and> k = fst (snd e) \<and> ready (fst e) k s
      then [(fst e, snd (snd e))] else []) @
     applied c k es (bump (fst e) (fst (snd e)) (snd (snd e)) s)"

lemma invar_bumps: "invar s \<Longrightarrow> invar (bumps es s)"
  by (induction es arbitrary: s) (auto simp: invar_bump)

lemma val_bumps:
  "invar s \<Longrightarrow> val (bumps es s) c k = fold (\<lambda>(x, a). act x a) (applied c k es s) (val s c k)"
  by (induction es arbitrary: s) (auto simp: val_bump invar_bump)

text \<open>Once the entry exists, every update from CPU \<open>c\<close> for \<open>k\<close> is applied, in order.\<close>

lemma applied_holds:
  "invar s \<Longrightarrow> holds s k \<Longrightarrow> applied c k es s =
     map (\<lambda>(x, k', a). (x, a)) (filter (\<lambda>(x, k', a). bpf_get_smp_processor_id x = c \<and> k' = k) es)"
proof (induction es arbitrary: s)
  case Nil
  then show ?case by simp
next
  case (Cons e es)
  obtain x k' a where e: "e = (x, k', a)" by (cases e)
  have "invar (bump x k' a s)" and "holds (bump x k' a s) k"
    using Cons.prems by (simp_all add: invar_bump holds_bump)
  moreover have "ready x k s" using Cons.prems by (simp add: holds_ready)
  ultimately show ?case by (simp add: e Cons.IH eq_commute)
qed

lemma bump_other_cpu:
  "invar s \<Longrightarrow> c \<noteq> bpf_get_smp_processor_id x \<Longrightarrow> val (bump x k a s) c k' = val s c k'"
  by (simp add: val_bump)

lemma bump_other_key: "invar s \<Longrightarrow> k' \<noteq> k \<Longrightarrow> val (bump x k a s) c k' = val s c k'"
  by (simp add: val_bump)

lemma bump_refused: "invar s \<Longrightarrow> \<not> ready x k s \<Longrightarrow> val (bump x k a s) c k' = val s c k'"
  by (auto simp: val_bump)

text \<open>Updates from two CPUs commute once both entries exist: no lock is needed.\<close>

lemma bump_commute:
  assumes "invar s" and "bpf_get_smp_processor_id x \<noteq> bpf_get_smp_processor_id y"
    and "holds s k" and "holds s j"
  shows "val (bump x k p (bump y j q s)) c i = val (bump y j q (bump x k p s)) c i"
proof -
  have "ready x k s" and "ready y j s" and "ready x k (bump y j q s)" and "ready y j (bump x k p s)"
    using assms by (simp_all add: holds_ready holds_bump)
  with assms show ?thesis by (auto simp: val_bump invar_bump)
qed

end

locale stamp_store =
  fixes get :: "'s \<Rightarrow> 'k \<Rightarrow> 'v option"
    and put :: "bpf_ctx \<Rightarrow> 'k \<Rightarrow> 'v \<Rightarrow> 's \<Rightarrow> 's"
    and take_out :: "'k \<Rightarrow> 's \<Rightarrow> 's"
    and room :: "bpf_ctx \<Rightarrow> 'k \<Rightarrow> 's \<Rightarrow> bool"
  assumes get_put: "get (put x k v s) k' = (if k' = k \<and> room x k s then Some v else get s k')"
    and get_take_out: "get (take_out k s) k' = (if k' = k then None else get s k')"
begin

lemma put_then_take: "get (take_out k (put x k v s)) k = None"
  by (simp add: get_take_out)

lemma latest_put: "room x k s \<Longrightarrow> get (put x k v s) k = Some v"
  by (simp add: get_put)

lemma put_preserves:
  assumes "\<And>j w. get s j = Some w \<Longrightarrow> P j w" and "P k v"
  shows "get (put x k v s) j = Some w \<Longrightarrow> P j w"
  using assms by (auto simp: get_put split: if_splits)

lemma take_out_preserves:
  assumes "\<And>j w. get s j = Some w \<Longrightarrow> P j w"
  shows "get (take_out k s) j = Some w \<Longrightarrow> P j w"
  using assms by (auto simp: get_take_out split: if_splits)

end

end
