(* ===== verification/Log2_Histogram.thy ===== *)
theory Log2_Histogram
  imports Prelude
begin

text \<open>
  The log2 latency histogram that \<^verbatim>\<open>sched_monitor.bpf.c\<close> and \<^verbatim>\<open>blkio_monitor.bpf.c\<close>
  share: the bucket of a value, computed by a shift loop, and the counting of a value into
  the slot array. The lemmas give the bucket's exact range, the bound on the index that
  keeps the array access inside \<^verbatim>\<open>slots[MAX_SLOTS]\<close>, and the sum of the slots.
\<close>

section \<open>The bucket of a value\<close>

definition MAX_SLOTS :: nat where
  "MAX_SLOTS = 27"

lemma unat_drop_1 [simp]: "unat (drop_bit (Suc 0) (v::u64)) = unat v div 2"
proof -
  have "unat (drop_bit (Suc 0) v) = drop_bit (Suc 0) (unat v)"
    by (simp only: unsigned_drop_bit_eq take_bit_nat_eq_self [OF unsigned_less])
  then show ?thesis by (simp add: drop_bit_eq_div)
qed

function log2_loop :: "u64 \<Rightarrow> u64 \<Rightarrow> u64" where
  "log2_loop val bucket =
     (if val > 1 \<and> bucket < of_nat MAX_SLOTS - 1
      then log2_loop (drop_bit 1 val) (bucket + 1) else bucket)"
  by pat_completeness auto
termination
  by (relation "measure (\<lambda>(v, b). unat v)")
    (auto simp: word_less_nat_alt)

declare log2_loop.simps [simp del]

definition log2_bucket :: "u64 \<Rightarrow> u64" where
  "log2_bucket val = log2_loop val 0"

text \<open>One more event in the slot of a bucket, after the guard that caps the index.\<close>

definition cap_bucket :: "u64 \<Rightarrow> u64" where
  "cap_bucket bucket = (if bucket \<ge> of_nat MAX_SLOTS then of_nat MAX_SLOTS - 1 else bucket)"

definition slots_inc :: "u64 \<Rightarrow> u64 list \<Rightarrow> u64 list" where
  "slots_inc bucket slots = slots[unat bucket := slots ! unat bucket + 1]"

section \<open>What the loop computes\<close>

lemma log2_loop_bounds:
  assumes "unat b \<le> 26"
  shows "unat b \<le> unat (log2_loop v b) \<and> unat (log2_loop v b) \<le> 26"
  using assms
proof (induction v b rule: log2_loop.induct)
  case (1 v b)
  show ?case
  proof (cases "v > 1 \<and> b < of_nat MAX_SLOTS - 1")
    case True
    then have b: "unat b < 26"
      by (simp add: MAX_SLOTS_def word_less_nat_alt)
    then have "unat (b + 1) = Suc (unat b)"
      by (simp add: unat_word_ariths)
    with 1 True b show ?thesis by (simp add: log2_loop.simps [of v b])
  next
    case False
    then have "log2_loop v b = b" by (subst log2_loop.simps) (rule if_not_P)
    with "1.prems" show ?thesis by simp
  qed
qed

lemma log2_loop_range:
  assumes "unat b \<le> 26" and "r = unat (log2_loop v b) - unat b"
  shows "(0 < v \<longrightarrow> 2 ^ r \<le> unat v) \<and> (unat b + r < 26 \<longrightarrow> unat v < 2 ^ Suc r)"
  using assms
proof (induction v b arbitrary: r rule: log2_loop.induct)
  case (1 v b)
  show ?case
  proof (cases "v > 1 \<and> b < of_nat MAX_SLOTS - 1")
    case True
    then have b: "unat b < 26" and v: "1 < unat v"
      by (simp_all add: MAX_SLOTS_def word_less_nat_alt)
    then have Sb: "unat (b + 1) = Suc (unat b)"
      by (simp add: unat_word_ariths)
    define q where "q = unat (log2_loop (drop_bit 1 v) (b + 1)) - unat (b + 1)"
    have IH: "(0 < drop_bit 1 v \<longrightarrow> 2 ^ q \<le> unat v div 2) \<and>
        (Suc (unat b) + q < 26 \<longrightarrow> unat v div 2 < 2 ^ Suc q)"
      using "1.IH" [OF True _ q_def] b Sb by simp
    have "Suc (unat b) \<le> unat (log2_loop (drop_bit 1 v) (b + 1))"
      using log2_loop_bounds [of "b + 1" "drop_bit 1 v"] b Sb by simp
    then have r: "r = Suc q"
      using "1.prems" True Sb q_def by (simp add: log2_loop.simps [of v b])
    have "0 < drop_bit 1 v"
      using v by (simp add: word_less_nat_alt)
    with IH r show ?thesis by auto
  next
    case False
    then have "log2_loop v b = b" by (subst log2_loop.simps) (rule if_not_P)
    with "1.prems" have r: "r = 0" by simp
    from False have "\<not> 1 < unat v \<or> \<not> unat b < 26"
      by (simp add: MAX_SLOTS_def word_less_nat_alt)
    with r show ?thesis by (auto simp: word_less_nat_alt)
  qed
qed

lemma log2_bucket_le: "unat (log2_bucket v) \<le> 26"
  using log2_loop_bounds [of 0 v] by (simp add: log2_bucket_def)

lemma log2_bucket_range:
  "(0 < v \<longrightarrow> 2 ^ unat (log2_bucket v) \<le> unat v) \<and>
   (unat (log2_bucket v) < 26 \<longrightarrow> unat v < 2 ^ Suc (unat (log2_bucket v)))"
  using log2_loop_range [of 0 _ v] by (simp add: log2_bucket_def)

text \<open>The capping guard after the loop never fires.\<close>

lemma cap_log2_bucket [simp]: "cap_bucket (log2_bucket v) = log2_bucket v"
  using log2_bucket_le [of v] by (simp add: cap_bucket_def MAX_SLOTS_def word_le_nat_alt)

section \<open>Slot arrays\<close>

definition slots_ok :: "u64 list \<Rightarrow> bool" where
  "slots_ok xs \<longleftrightarrow> length xs = MAX_SLOTS"

lemma slots_ok_zero [simp]: "slots_ok (replicate MAX_SLOTS 0)"
  by (simp add: slots_ok_def)

lemma slots_ok_inc [wf_intros, simp]: "slots_ok (slots_inc b xs) = slots_ok xs"
  by (simp add: slots_ok_def slots_inc_def)

lemma sum_slots_inc:
  "slots_ok xs \<Longrightarrow> sum_list (slots_inc (log2_bucket v) xs) = sum_list xs + 1"
  using log2_bucket_le [of v]
  by (simp add: slots_ok_def slots_inc_def sum_list_update_word MAX_SLOTS_def)

lemma nth_slots_inc:
  "slots_ok xs \<Longrightarrow> i < MAX_SLOTS \<Longrightarrow>
     slots_inc b xs ! i = xs ! i + (if i = unat b then 1 else 0)"
  by (simp add: slots_ok_def slots_inc_def nth_list_update)

text \<open>What one recorded value does to the slots: exactly one of them, the one of its range.\<close>

lemma slots_inc_range:
  assumes "slots_ok xs"
  shows "\<exists>i < MAX_SLOTS. (\<forall>j < MAX_SLOTS. slots_inc (log2_bucket v) xs ! j =
        xs ! j + (if j = i then 1 else 0)) \<and>
      (0 < unat v \<longrightarrow> 2 ^ i \<le> unat v) \<and> (i < MAX_SLOTS - 1 \<longrightarrow> unat v < 2 ^ Suc i)"
  using log2_bucket_range [of v] log2_bucket_le [of v] nth_slots_inc [OF assms]
  by (intro exI [of _ "unat (log2_bucket v)"]) (simp add: MAX_SLOTS_def word_less_nat_alt)

end
