(* ===== verification/Sched_Monitor.thy ===== *)
theory Sched_Monitor
  imports Bpf_Runtime Log2_Histogram
begin

text \<open>
  The scheduler monitor, \<^verbatim>\<open>src/internal/ebpf/bpf/sched_monitor.bpf.c\<close>: its six maps as
  one record, the static helpers, and the three tracepoint programs. The state is passed
  explicitly; a \<^verbatim>\<open>struct task_struct *\<close> argument is an address in kernel memory. Every
  program returns 0, so the model returns the state only. A pointer into a map value is
  the place it points to: the key, the CPU and, for a time bucket, the ring index.
\<close>

section \<open>Data\<close>

definition MAX_CGROUPS :: nat where "MAX_CGROUPS = 4096"
definition MAX_TASKS :: nat where "MAX_TASKS = 65536"
definition NUM_BUCKETS :: nat where "NUM_BUCKETS = 64"
definition BUCKET_NS :: u64 where "BUCKET_NS = 100000000"
definition MAX_ACTIVE_CGROUPS :: nat where "MAX_ACTIVE_CGROUPS = 512"

record sched_hist =
  slots :: "u64 list"
  total_us :: u64
  count :: u64

record sched_bucket =
  epoch :: u64
  runq_lat_ns :: u64
  cpu_ns :: u64
  runq_count :: u32
  ctx_switches :: u32

record sched_buckets =
  bkts :: "sched_bucket list"

definition empty_hist :: sched_hist where
  "empty_hist = \<lparr>slots = replicate MAX_SLOTS 0, total_us = 0, count = 0\<rparr>"

definition zero_bucket :: sched_bucket where
  "zero_bucket = \<lparr>epoch = 0, runq_lat_ns = 0, cpu_ns = 0, runq_count = 0, ctx_switches = 0\<rparr>"

definition zero_buckets :: sched_buckets where
  "zero_buckets = \<lparr>bkts = replicate NUM_BUCKETS zero_bucket\<rparr>"

record sched_state =
  runq_latency_map :: "(u64, sched_hist) percpu_hash"
  wakeup_ts_map :: "(u32 \<times> u64) list"
  cpu_time_map :: "(u64, u64) percpu_hash"
  cpu_slice_start :: "(nat \<Rightarrow> u64) list"
  sched_timeline_map :: "(u64, sched_buckets) percpu_hash"
  timeline_zero :: "(nat \<Rightarrow> sched_buckets) list"

text \<open>The state right after loading: empty hash maps, zeroed one-element arrays.\<close>

definition sched_init :: sched_state where
  "sched_init = \<lparr>runq_latency_map = [], wakeup_ts_map = [], cpu_time_map = [],
     cpu_slice_start = [\<lambda>_. 0], sched_timeline_map = [], timeline_zero = [\<lambda>_. zero_buckets]\<rparr>"

section \<open>Helpers\<close>

definition save_wakeup_time :: "bpf_ctx \<Rightarrow> u32 \<Rightarrow> sched_state \<Rightarrow> sched_state" where
  "save_wakeup_time x pid s =
     s\<lparr>wakeup_ts_map := snd (hash_update MAX_TASKS (bpf_alloc_elem x ''wakeup_ts_map'') BPF_ANY
        pid (bpf_ktime_get_ns x) (wakeup_ts_map s))\<rparr>"

definition add_cpu_time :: "bpf_ctx \<Rightarrow> u64 \<Rightarrow> u64 \<Rightarrow> sched_state \<Rightarrow> sched_state" where
  "add_cpu_time x cgroup_id nanoseconds s =
     (let cpu = bpf_get_smp_processor_id x;
          add = (\<lambda>s. s\<lparr>cpu_time_map :=
             percpu_write cpu cgroup_id (\<lambda>tot. tot + nanoseconds) (cpu_time_map s)\<rparr>)
      in case percpu_lookup (cpu_time_map s) cpu cgroup_id of
           Some tot \<Rightarrow> add s
         | None \<Rightarrow>
             (let s' = s\<lparr>cpu_time_map := snd (percpu_create MAX_CGROUPS
                    (bpf_alloc_elem x ''cpu_time_map'') 0 cpu cgroup_id 0 (cpu_time_map s))\<rparr>
              in case percpu_lookup (cpu_time_map s') cpu cgroup_id of
                   None \<Rightarrow> s'
                 | Some tot \<Rightarrow> add s'))"

text \<open>The ring index of a time bucket, and the lazy reset of a slot that holds an older window.\<close>

definition bucket_index :: "u64 \<Rightarrow> u32" where
  "bucket_index ep = ucast (ep AND (of_nat NUM_BUCKETS - 1))"

definition bucket_reset :: "u64 \<Rightarrow> sched_bucket \<Rightarrow> sched_bucket" where
  "bucket_reset ep bkt =
     (if epoch bkt \<noteq> ep
      then bkt\<lparr>epoch := ep, runq_lat_ns := 0, cpu_ns := 0, runq_count := 0, ctx_switches := 0\<rparr>
      else bkt)"

definition bucket_write :: "bpf_ctx \<Rightarrow> u64 \<Rightarrow> u32 \<Rightarrow> (sched_bucket \<Rightarrow> sched_bucket) \<Rightarrow>
    sched_state \<Rightarrow> sched_state" where
  "bucket_write x cgroup_id idx f s =
     s\<lparr>sched_timeline_map := percpu_write (bpf_get_smp_processor_id x) cgroup_id
        (\<lambda>bs. bs\<lparr>bkts := (bkts bs)[unat idx := f (bkts bs ! unat idx)]\<rparr>) (sched_timeline_map s)\<rparr>"

definition get_timeline_bucket ::
  "bpf_ctx \<Rightarrow> u64 \<Rightarrow> u64 \<Rightarrow> sched_state \<Rightarrow> u32 option \<times> sched_state" where
  "get_timeline_bucket x cgroup_id now s =
     (let cpu = bpf_get_smp_processor_id x;
          ep = now div BUCKET_NS;
          idx = bucket_index ep;
          found = (\<lambda>s. (Some idx, bucket_write x cgroup_id idx (bucket_reset ep) s))
      in case percpu_lookup (sched_timeline_map s) cpu cgroup_id of
           Some bs \<Rightarrow> found s
         | None \<Rightarrow>
             (case percpu_array_lookup (timeline_zero s) cpu 0 of
                None \<Rightarrow> (None, s)
              | Some tmpl \<Rightarrow>
                  (let s' = s\<lparr>sched_timeline_map := snd (percpu_create MAX_ACTIVE_CGROUPS
                         (bpf_alloc_elem x ''sched_timeline_map'') zero_buckets cpu cgroup_id tmpl
                         (sched_timeline_map s))\<rparr>
                   in case percpu_lookup (sched_timeline_map s') cpu cgroup_id of
                        None \<Rightarrow> (None, s')
                      | Some bs \<Rightarrow> found s')))"

section \<open>Programs\<close>

definition task_pid :: "kernel \<Rightarrow> u64 \<Rightarrow> u32" where
  "task_pid K task = core_read_u32 K task ''task_struct'' ''pid''"

definition task_cgroup_id :: "kernel \<Rightarrow> u64 \<Rightarrow> u64" where
  "task_cgroup_id K task =
     (let cgroups = core_read_u64 K task ''task_struct'' ''cgroups'';
          dfl_cgrp = core_read_u64 K cgroups ''css_set'' ''dfl_cgrp'';
          kn = core_read_u64 K dfl_cgrp ''cgroup'' ''kn''
      in core_read_u64 K kn ''kernfs_node'' ''id'')"

definition handle_sched_wakeup :: "kernel \<Rightarrow> bpf_ctx \<Rightarrow> u64 \<Rightarrow> sched_state \<Rightarrow> sched_state" where
  "handle_sched_wakeup K x task s = save_wakeup_time x (task_pid K task) s"

definition handle_sched_wakeup_new :: "kernel \<Rightarrow> bpf_ctx \<Rightarrow> u64 \<Rightarrow> sched_state \<Rightarrow> sched_state" where
  "handle_sched_wakeup_new K x task s = save_wakeup_time x (task_pid K task) s"

text \<open>The two bucket updates of a switch, and the histogram update that ends it.\<close>

definition charge_bucket :: "u64 \<Rightarrow> sched_bucket \<Rightarrow> sched_bucket" where
  "charge_bucket slice_ns bkt =
     bkt\<lparr>cpu_ns := cpu_ns bkt + slice_ns, ctx_switches := ctx_switches bkt + 1\<rparr>"

definition wait_bucket :: "u64 \<Rightarrow> sched_bucket \<Rightarrow> sched_bucket" where
  "wait_bucket wait_ns bkt =
     bkt\<lparr>runq_lat_ns := runq_lat_ns bkt + wait_ns, runq_count := runq_count bkt + 1\<rparr>"

definition hist_add :: "u64 \<Rightarrow> sched_hist \<Rightarrow> sched_hist" where
  "hist_add wait_us hist =
     (let bucket = cap_bucket (log2_bucket wait_us)
      in hist\<lparr>slots := slots_inc bucket (slots hist),
           total_us := total_us hist + wait_us, count := count hist + 1\<rparr>)"

definition record_wait :: "bpf_ctx \<Rightarrow> u64 \<Rightarrow> u64 \<Rightarrow> sched_state \<Rightarrow> sched_state" where
  "record_wait x cgroup_id wait_us s =
     (let cpu = bpf_get_smp_processor_id x;
          add = (\<lambda>s. s\<lparr>runq_latency_map :=
             percpu_write cpu cgroup_id (hist_add wait_us) (runq_latency_map s)\<rparr>)
      in case percpu_lookup (runq_latency_map s) cpu cgroup_id of
           Some hist \<Rightarrow> add s
         | None \<Rightarrow>
             (let s' = s\<lparr>runq_latency_map := snd (percpu_create MAX_CGROUPS
                    (bpf_alloc_elem x ''runq_latency_map'') empty_hist cpu cgroup_id empty_hist
                    (runq_latency_map s))\<rparr>
              in case percpu_lookup (runq_latency_map s') cpu cgroup_id of
                   None \<Rightarrow> s'
                 | Some hist \<Rightarrow> add s'))"

definition charge_timeline :: "bpf_ctx \<Rightarrow> u64 \<Rightarrow> (sched_bucket \<Rightarrow> sched_bucket) \<Rightarrow>
    sched_state \<Rightarrow> sched_state" where
  "charge_timeline x cgroup_id f s =
     (case get_timeline_bucket x cgroup_id (bpf_ktime_get_ns x) s of
        (None, s') \<Rightarrow> s'
      | (Some idx, s') \<Rightarrow> bucket_write x cgroup_id idx f s')"

definition charge_prev :: "kernel \<Rightarrow> bpf_ctx \<Rightarrow> u64 \<Rightarrow> sched_state \<Rightarrow> sched_state" where
  "charge_prev K x prev s =
     (let now = bpf_ktime_get_ns x; cpu = bpf_get_smp_processor_id x; index = 0
      in case percpu_array_lookup (cpu_slice_start s) cpu index of
           None \<Rightarrow> s
         | Some slice_start \<Rightarrow>
             (let prev_pid = task_pid K prev;
                  s' = (if slice_start \<noteq> 0 \<and> prev_pid \<noteq> 0
                        then let cgroup_id = task_cgroup_id K prev;
                                 slice_ns = now - slice_start
                             in charge_timeline x cgroup_id (charge_bucket slice_ns)
                                  (add_cpu_time x cgroup_id slice_ns s)
                        else s)
              in s'\<lparr>cpu_slice_start := percpu_array_write cpu index now (cpu_slice_start s')\<rparr>))"

definition wait_next :: "kernel \<Rightarrow> bpf_ctx \<Rightarrow> u64 \<Rightarrow> sched_state \<Rightarrow> sched_state" where
  "wait_next K x nxt s =
     (let now = bpf_ktime_get_ns x; next_pid = task_pid K nxt
      in case hash_lookup (wakeup_ts_map s) next_pid of
           None \<Rightarrow> s
         | Some wakeup_time \<Rightarrow>
             (let wait_ns = now - wakeup_time;
                  wait_us = wait_ns div 1000;
                  s1 = s\<lparr>wakeup_ts_map := hash_delete next_pid (wakeup_ts_map s)\<rparr>;
                  cgroup_id = task_cgroup_id K nxt;
                  s2 = charge_timeline x cgroup_id (wait_bucket wait_ns) s1
              in record_wait x cgroup_id wait_us s2))"

definition handle_sched_switch ::
  "kernel \<Rightarrow> bpf_ctx \<Rightarrow> bool \<Rightarrow> u64 \<Rightarrow> u64 \<Rightarrow> sched_state \<Rightarrow> sched_state" where
  "handle_sched_switch K x preempt prev nxt s = wait_next K x nxt (charge_prev K x prev s)"

section \<open>The effect of each helper on its map\<close>

text \<open>
  Each accumulation is an update of one map; what the other maps hold follows by the
  record laws. The maps are read through \<open>percpu_val\<close>: the copy of a CPU at a key, zero
  where there is no entry.
\<close>

abbreviation cpu_room :: "bpf_ctx \<Rightarrow> u64 \<Rightarrow> sched_state \<Rightarrow> bool" where
  "cpu_room x k s \<equiv> hash_room MAX_CGROUPS (bpf_alloc_elem x ''cpu_time_map'') k (cpu_time_map s)"

abbreviation hist_room :: "bpf_ctx \<Rightarrow> u64 \<Rightarrow> sched_state \<Rightarrow> bool" where
  "hist_room x k s \<equiv>
     hash_room MAX_CGROUPS (bpf_alloc_elem x ''runq_latency_map'') k (runq_latency_map s)"

abbreviation ring_room :: "bpf_ctx \<Rightarrow> u64 \<Rightarrow> sched_state \<Rightarrow> bool" where
  "ring_room x k s \<equiv>
     hash_room MAX_ACTIVE_CGROUPS (bpf_alloc_elem x ''sched_timeline_map'') k (sched_timeline_map s)"

abbreviation cpu_val :: "sched_state \<Rightarrow> nat \<Rightarrow> u64 \<Rightarrow> u64" where
  "cpu_val s \<equiv> percpu_val 0 (cpu_time_map s)"

abbreviation hist_val :: "sched_state \<Rightarrow> nat \<Rightarrow> u64 \<Rightarrow> sched_hist" where
  "hist_val s \<equiv> percpu_val empty_hist (runq_latency_map s)"

abbreviation ring_val :: "sched_state \<Rightarrow> nat \<Rightarrow> u64 \<Rightarrow> sched_buckets" where
  "ring_val s \<equiv> percpu_val zero_buckets (sched_timeline_map s)"

lemma add_cpu_time_eq:
  "add_cpu_time x k ns s = s\<lparr>cpu_time_map :=
     percpu_upsert MAX_CGROUPS (bpf_alloc_elem x ''cpu_time_map'') 0 (bpf_get_smp_processor_id x)
       k (\<lambda>tot. tot + ns) (cpu_time_map s)\<rparr>"
  by (simp add: add_cpu_time_def percpu_upsert_def percpu_lookup_val [where z = 0] Let_def)

lemma record_wait_eq:
  "record_wait x k w s = s\<lparr>runq_latency_map :=
     percpu_upsert MAX_CGROUPS (bpf_alloc_elem x ''runq_latency_map'') empty_hist
       (bpf_get_smp_processor_id x) k (hist_add w) (runq_latency_map s)\<rparr>"
  by (simp add: record_wait_def percpu_upsert_def percpu_lookup_val [where z = empty_hist] Let_def)

text \<open>One charge to a ring: reset the slot of the window if it is stale, then apply the update.\<close>

definition ring_update :: "u64 \<Rightarrow> (sched_bucket \<Rightarrow> sched_bucket) \<Rightarrow> sched_buckets \<Rightarrow> sched_buckets" where
  "ring_update ep f bs =
     (let i = unat (bucket_index ep)
      in bs\<lparr>bkts := (bkts bs)[i := f (bucket_reset ep (bkts bs ! i))]\<rparr>)"

lemma write_reset_write:
  "bucket_write x k (bucket_index ep) f (bucket_write x k (bucket_index ep) (bucket_reset ep) s) =
     s\<lparr>sched_timeline_map := percpu_write (bpf_get_smp_processor_id x) k (ring_update ep f)
        (sched_timeline_map s)\<rparr>"
proof -
  let ?i = "unat (bucket_index ep)"
  have "(l[?i := g (l ! ?i)])[?i := f (l[?i := g (l ! ?i)] ! ?i)] = l[?i := f (g (l ! ?i))]"
    for l :: "sched_bucket list" and g
    by (cases "?i < length l") (simp_all add: list_update_beyond)
  then show ?thesis
    by (simp add: bucket_write_def percpu_write_write ring_update_def [abs_def] Let_def comp_def)
qed

lemma charge_timeline_eq:
  assumes "timeline_zero s = [\<lambda>_. zero_buckets]"
  shows "charge_timeline x k f s = s\<lparr>sched_timeline_map :=
     percpu_upsert MAX_ACTIVE_CGROUPS (bpf_alloc_elem x ''sched_timeline_map'') zero_buckets
       (bpf_get_smp_processor_id x) k (ring_update (bpf_ktime_get_ns x div BUCKET_NS) f)
       (sched_timeline_map s)\<rparr>"
  using assms
  by (auto simp: charge_timeline_def get_timeline_bucket_def percpu_upsert_def Let_def
      percpu_lookup_val [where z = zero_buckets] percpu_array_lookup_def write_reset_write)

section \<open>Well-formedness\<close>

text \<open>
  A histogram counts every wait in exactly one slot; slot \<open>i\<close> of a ring is untouched or
  holds a window whose number is \<open>i\<close> modulo the ring size.
\<close>

definition hist_ok :: "sched_hist \<Rightarrow> bool" where
  "hist_ok h \<longleftrightarrow> slots_ok (slots h) \<and> sum_list (slots h) = count h"

definition ring_ok :: "sched_buckets \<Rightarrow> bool" where
  "ring_ok bs \<longleftrightarrow> length (bkts bs) = NUM_BUCKETS \<and>
     (\<forall>i < NUM_BUCKETS. bkts bs ! i = zero_bucket \<or>
        unat (epoch (bkts bs ! i)) mod NUM_BUCKETS = i)"

text \<open>What the operations need of the arrays, and the whole invariant of the monitor's state.\<close>

definition arrays_ok :: "sched_state \<Rightarrow> bool" where
  "arrays_ok s \<longleftrightarrow> length (cpu_slice_start s) = 1 \<and> timeline_zero s = [\<lambda>_. zero_buckets]"

definition sched_wf :: "sched_state \<Rightarrow> bool" where
  "sched_wf s \<longleftrightarrow> arrays_ok s \<and>
     hash_wf MAX_CGROUPS (runq_latency_map s) \<and> hash_wf MAX_TASKS (wakeup_ts_map s) \<and>
     hash_wf MAX_CGROUPS (cpu_time_map s) \<and> hash_wf MAX_ACTIVE_CGROUPS (sched_timeline_map s) \<and>
     (\<forall>c k. hist_ok (hist_val s c k)) \<and> (\<forall>c k. ring_ok (ring_val s c k))"

lemma hist_ok_empty [simp]: "hist_ok empty_hist"
  by (simp add: hist_ok_def empty_hist_def sum_list_replicate)

lemma hist_ok_add [wf_intros]: "hist_ok h \<Longrightarrow> hist_ok (hist_add w h)"
  by (simp add: hist_ok_def hist_add_def Let_def sum_slots_inc)

lemma ring_ok_zero [simp]: "ring_ok zero_buckets"
  by (simp add: ring_ok_def zero_buckets_def)

lemma bucket_index_mod: "unat (bucket_index ep) = unat ep mod NUM_BUCKETS"
  using unat_ucast_mask_63 [of ep] by (simp add: bucket_index_def NUM_BUCKETS_def)

lemma epoch_reset [simp]: "epoch (bucket_reset ep bkt) = ep"
  by (simp add: bucket_reset_def)

lemma epoch_charge [simp]: "epoch (charge_bucket ns bkt) = epoch bkt"
  by (simp add: charge_bucket_def)

lemma epoch_wait [simp]: "epoch (wait_bucket ns bkt) = epoch bkt"
  by (simp add: wait_bucket_def)

lemma ring_ok_update [wf_intros]:
  assumes "ring_ok bs" and "\<And>bkt. epoch (f bkt) = epoch bkt"
  shows "ring_ok (ring_update ep f bs)"
  using assms
  by (auto simp: ring_ok_def ring_update_def Let_def bucket_index_mod nth_list_update NUM_BUCKETS_def)

section \<open>Interpretation of the contracts\<close>

interpretation cpu_acc: percpu_accumulator
  add_cpu_time "\<lambda>x ns v. v + ns" cpu_val cpu_room "\<lambda>s. percpu_has (cpu_time_map s)" "\<lambda>s. True"
  by unfold_locales (auto simp: add_cpu_time_eq bpf_simps percpu_has_room)

interpretation hist_acc: percpu_accumulator
  record_wait "\<lambda>x. hist_add" hist_val hist_room "\<lambda>s. percpu_has (runq_latency_map s)" "\<lambda>s. True"
  by unfold_locales (auto simp: record_wait_eq bpf_simps percpu_has_room)

interpretation ring_acc: percpu_accumulator
  charge_timeline "\<lambda>x. ring_update (bpf_ktime_get_ns x div BUCKET_NS)" ring_val ring_room
  "\<lambda>s. percpu_has (sched_timeline_map s)" arrays_ok
  by unfold_locales (auto simp: charge_timeline_eq arrays_ok_def bpf_simps percpu_has_room)

text \<open>Wake-up stamps: put by the wake-up programs, taken out by the switch that ends the wait.\<close>

definition take_wakeup_time :: "u32 \<Rightarrow> sched_state \<Rightarrow> sched_state" where
  "take_wakeup_time pid s = s\<lparr>wakeup_ts_map := hash_delete pid (wakeup_ts_map s)\<rparr>"

definition stamp_now :: "bpf_ctx \<Rightarrow> u32 \<Rightarrow> u64 \<Rightarrow> sched_state \<Rightarrow> sched_state" where
  "stamp_now x pid t s = save_wakeup_time (x\<lparr>bpf_ktime_get_ns := t\<rparr>) pid s"

abbreviation wakeup_room :: "bpf_ctx \<Rightarrow> u32 \<Rightarrow> sched_state \<Rightarrow> bool" where
  "wakeup_room x pid s \<equiv>
     hash_room MAX_TASKS (bpf_alloc_elem x ''wakeup_ts_map'') pid (wakeup_ts_map s)"

interpretation wakeups: stamp_store
  "\<lambda>s. hash_lookup (wakeup_ts_map s)" stamp_now take_wakeup_time wakeup_room
  by unfold_locales
    (simp_all add: stamp_now_def save_wakeup_time_def take_wakeup_time_def bpf_simps)

end
