(* ===== verification/Demo_Kernel.thy ===== *)
theory Demo_Kernel
  imports Bpf_Runtime
begin

text \<open>
  A small concrete kernel for the closed instances of the theorems: two tasks with PIDs 7
  and 9 in cgroup 42, the idle task, one block request of 4096 bytes, one socket of
  cgroup 42 and a cgroup path. Everything else of its memory reads as zero.
\<close>

definition demo_bytes :: "(u64 \<times> u8) list" where
  "demo_bytes =
     [(0x1000, 7), (0x1009, 0x20),             \<comment> \<open>task: pid 7, cgroups at 0x2000\<close>
      (0x8000, 9), (0x8009, 0x20),             \<comment> \<open>task: pid 9, cgroups at 0x2000\<close>
      (0x2001, 0x30),                          \<comment> \<open>css_set: dfl_cgrp at 0x3000\<close>
      (0x3001, 0x40),                          \<comment> \<open>cgroup: kn at 0x4000\<close>
      (0x4000, 42),                            \<comment> \<open>kernfs_node: id 42\<close>
      (0x6001, 0x10),                          \<comment> \<open>request: __data_len 4096\<close>
      (0x7011, 0x30),                          \<comment> \<open>sock: sk_cgrp_data.cgroup at 0x3000\<close>
      (0x9000, 0x2f), (0x9001, 0x61)]          \<comment> \<open>the path string /a\<close>"

definition demo_off :: "string \<Rightarrow> string \<Rightarrow> u64" where
  "demo_off s f = (if s = ''task_struct'' \<and> f = ''cgroups'' then 8
     else if s = ''sock'' \<and> f = ''sk_cgrp_data'' then 16 else 0)"

definition demo_kernel :: kernel where
  "demo_kernel = \<lparr>kmem = (\<lambda>a. Some (case map_of demo_bytes a of None \<Rightarrow> 0 | Some v \<Rightarrow> v)),
     koff = demo_off\<rparr>"

definition demo_ctx :: "nat \<Rightarrow> u64 \<Rightarrow> bpf_ctx" where
  "demo_ctx cpu t = \<lparr>bpf_ktime_get_ns = t, bpf_get_smp_processor_id = cpu,
     bpf_get_current_cgroup_id = 42, bpf_alloc_elem = (\<lambda>_. True)\<rparr>"

lemma demo_ctx_simps [simp]:
  "bpf_ktime_get_ns (demo_ctx c t) = t"
  "bpf_get_smp_processor_id (demo_ctx c t) = c"
  "bpf_get_current_cgroup_id (demo_ctx c t) = 42"
  "bpf_alloc_elem (demo_ctx c t) m"
  by (simp_all add: demo_ctx_def)

end
