(* ===== verification/Sched_System.thy ===== *)
theory Sched_System
  imports Sched_Monitor Demo_Kernel
begin

text \<open>
  The scheduler monitor as a system: its programs run on any CPU in the order of their
  clock readings, interleaved with the deletions by which user space ends an interval
  (\<^verbatim>\<open>m.Delete\<close> in \<^verbatim>\<open>src/internal/ebpf/sched.go\<close>). The theory shows which fields each
  program touches, that every step keeps \<open>sched_wf\<close>, and that in every reachable state
  no stamp lies in the future, so that the unsigned subtractions of a switch never wrap.
\<close>

section \<open>Steps\<close>

datatype sched_op =
    Wakeup kernel bpf_ctx u64
  | Wakeup_New kernel bpf_ctx u64
  | Switch kernel bpf_ctx bool u64 u64
  | Delete_Latency u64
  | Delete_Cpu u64
  | Delete_Timeline u64

fun sched_exec :: "sched_op \<Rightarrow> sched_state \<Rightarrow> sched_state" where
  "sched_exec (Wakeup K x task) s = handle_sched_wakeup K x task s"
| "sched_exec (Wakeup_New K x task) s = handle_sched_wakeup_new K x task s"
| "sched_exec (Switch K x preempt prev nxt) s = handle_sched_switch K x preempt prev nxt s"
| "sched_exec (Delete_Latency k) s = s\<lparr>runq_latency_map := hash_delete k (runq_latency_map s)\<rparr>"
| "sched_exec (Delete_Cpu k) s = s\<lparr>cpu_time_map := hash_delete k (cpu_time_map s)\<rparr>"
| "sched_exec (Delete_Timeline k) s =
     s\<lparr>sched_timeline_map := hash_delete k (sched_timeline_map s)\<rparr>"

fun op_ctx :: "sched_op \<Rightarrow> bpf_ctx option" where
  "op_ctx (Wakeup K x task) = Some x"
| "op_ctx (Wakeup_New K x task) = Some x"
| "op_ctx (Switch K x preempt prev nxt) = Some x"
| "op_ctx _ = None"

text \<open>The clock after a step: the reading of the program that ran, unchanged by a deletion.\<close>

definition op_clock :: "u64 \<Rightarrow> sched_op \<Rightarrow> u64" where
  "op_clock t e = (case op_ctx e of None \<Rightarrow> t | Some x \<Rightarrow> bpf_ktime_get_ns x)"

inductive sched_reach :: "u64 \<Rightarrow> sched_state \<Rightarrow> bool" where
  loaded: "sched_reach 0 sched_init"
| step: "sched_reach t s \<Longrightarrow> t \<le> op_clock t e \<Longrightarrow> sched_reach (op_clock t e) (sched_exec e s)"

primrec sched_run :: "sched_op list \<Rightarrow> sched_state \<Rightarrow> sched_state" where
  "sched_run [] s = s"
| "sched_run (e # es) s = sched_run es (sched_exec e s)"

primrec clock_ok :: "u64 \<Rightarrow> sched_op list \<Rightarrow> bool" where
  "clock_ok t [] \<longleftrightarrow> True"
| "clock_ok t (e # es) \<longleftrightarrow> t \<le> op_clock t e \<and> clock_ok (op_clock t e) es"

primrec run_clock :: "u64 \<Rightarrow> sched_op list \<Rightarrow> u64" where
  "run_clock t [] = t"
| "run_clock t (e # es) = run_clock (op_clock t e) es"

lemma sched_reach_run:
  "sched_reach t s \<Longrightarrow> clock_ok t es \<Longrightarrow> sched_reach (run_clock t es) (sched_run es s)"
  by (induction es arbitrary: t s) (auto intro: sched_reach.step)

lemma sched_run_append: "sched_run (xs @ ys) s = sched_run ys (sched_run xs s)"
  by (induction xs arbitrary: s) auto

section \<open>Which fields the programs touch\<close>

abbreviation slice_start :: "sched_state \<Rightarrow> nat \<Rightarrow> u64" where
  "slice_start s c \<equiv> (cpu_slice_start s ! 0) c"

lemma slice_lookup:
  "arrays_ok s \<Longrightarrow> percpu_array_lookup (cpu_slice_start s) c 0 = Some (slice_start s c)"
  by (simp add: arrays_ok_def percpu_array_lookup_def)

text \<open>The slice that ends at a switch, if one is charged: the cgroup and its length.\<close>

definition ended_slice :: "kernel \<Rightarrow> bpf_ctx \<Rightarrow> u64 \<Rightarrow> sched_state \<Rightarrow> (u64 \<times> u64) option" where
  "ended_slice K x prev s =
     (let start = slice_start s (bpf_get_smp_processor_id x)
      in if start \<noteq> 0 \<and> task_pid K prev \<noteq> 0
         then Some (task_cgroup_id K prev, bpf_ktime_get_ns x - start) else None)"

text \<open>The wait that ends at a switch, if the next task was stamped: the cgroup and its length.\<close>

definition ended_wait :: "kernel \<Rightarrow> bpf_ctx \<Rightarrow> u64 \<Rightarrow> sched_state \<Rightarrow> (u64 \<times> u64) option" where
  "ended_wait K x nxt s =
     map_option (\<lambda>t. (task_cgroup_id K nxt, bpf_ktime_get_ns x - t))
       (hash_lookup (wakeup_ts_map s) (task_pid K nxt))"

lemma charge_prev_eq:
  assumes "arrays_ok s"
  shows "charge_prev K x prev s =
     (let s' = (case ended_slice K x prev s of None \<Rightarrow> s
                | Some (cg, ns) \<Rightarrow> charge_timeline x cg (charge_bucket ns) (add_cpu_time x cg ns s))
      in s'\<lparr>cpu_slice_start := percpu_array_write (bpf_get_smp_processor_id x) 0
            (bpf_ktime_get_ns x) (cpu_slice_start s')\<rparr>)"
  using assms by (simp add: charge_prev_def slice_lookup ended_slice_def Let_def)

lemma wait_next_eq:
  "wait_next K x nxt s =
     (case ended_wait K x nxt s of None \<Rightarrow> s
      | Some (cg, ns) \<Rightarrow> record_wait x cg (ns div 1000)
          (charge_timeline x cg (wait_bucket ns) (take_wakeup_time (task_pid K nxt) s)))"
  by (simp add: wait_next_def ended_wait_def take_wakeup_time_def Let_def split: option.split)

lemma frame_charge_timeline [frame_simps]:
  assumes "arrays_ok s"
  shows "runq_latency_map (charge_timeline x k f s) = runq_latency_map s"
    and "wakeup_ts_map (charge_timeline x k f s) = wakeup_ts_map s"
    and "cpu_time_map (charge_timeline x k f s) = cpu_time_map s"
    and "cpu_slice_start (charge_timeline x k f s) = cpu_slice_start s"
    and "timeline_zero (charge_timeline x k f s) = timeline_zero s"
  using assms by (simp_all add: charge_timeline_eq arrays_ok_def)

lemma frame_add_cpu_time [frame_simps]:
  "runq_latency_map (add_cpu_time x k n s) = runq_latency_map s"
  "wakeup_ts_map (add_cpu_time x k n s) = wakeup_ts_map s"
  "sched_timeline_map (add_cpu_time x k n s) = sched_timeline_map s"
  "cpu_slice_start (add_cpu_time x k n s) = cpu_slice_start s"
  "timeline_zero (add_cpu_time x k n s) = timeline_zero s"
  by (simp_all add: add_cpu_time_eq)

lemma frame_record_wait [frame_simps]:
  "cpu_time_map (record_wait x k w s) = cpu_time_map s"
  "wakeup_ts_map (record_wait x k w s) = wakeup_ts_map s"
  "sched_timeline_map (record_wait x k w s) = sched_timeline_map s"
  "cpu_slice_start (record_wait x k w s) = cpu_slice_start s"
  "timeline_zero (record_wait x k w s) = timeline_zero s"
  by (simp_all add: record_wait_eq)

lemma frame_take_wakeup_time [frame_simps]:
  "runq_latency_map (take_wakeup_time p s) = runq_latency_map s"
  "cpu_time_map (take_wakeup_time p s) = cpu_time_map s"
  "sched_timeline_map (take_wakeup_time p s) = sched_timeline_map s"
  "cpu_slice_start (take_wakeup_time p s) = cpu_slice_start s"
  "timeline_zero (take_wakeup_time p s) = timeline_zero s"
  by (simp_all add: take_wakeup_time_def)

lemma frame_save_wakeup_time [frame_simps]:
  "runq_latency_map (save_wakeup_time x p s) = runq_latency_map s"
  "cpu_time_map (save_wakeup_time x p s) = cpu_time_map s"
  "sched_timeline_map (save_wakeup_time x p s) = sched_timeline_map s"
  "cpu_slice_start (save_wakeup_time x p s) = cpu_slice_start s"
  "timeline_zero (save_wakeup_time x p s) = timeline_zero s"
  by (simp_all add: save_wakeup_time_def)

lemma arrays_ok_frames [frame_simps]:
  "arrays_ok (add_cpu_time x k n s) = arrays_ok s"
  "arrays_ok (record_wait x k w s) = arrays_ok s"
  "arrays_ok (take_wakeup_time p s) = arrays_ok s"
  "arrays_ok (save_wakeup_time x p s) = arrays_ok s"
  by (simp_all add: arrays_ok_def frame_simps)

lemma arrays_ok_slice:
  "arrays_ok (s\<lparr>cpu_slice_start := percpu_array_write c i v (cpu_slice_start s)\<rparr>) = arrays_ok s"
  by (simp add: arrays_ok_def)

lemmas arrays_ok_timeline [frame_simps, wf_intros] = ring_acc.invar_bump

section \<open>Every step keeps the invariant\<close>

lemma sched_wf_init: "sched_wf sched_init"
  by (simp add: sched_wf_def sched_init_def arrays_ok_def)

lemma sched_wf_arrays: "sched_wf s \<Longrightarrow> arrays_ok s"
  by (simp add: sched_wf_def)

lemma sched_wf_add_cpu_time [wf_intros]: "sched_wf s \<Longrightarrow> sched_wf (add_cpu_time x k n s)"
  by (simp add: sched_wf_def frame_simps) (simp add: add_cpu_time_eq hash_wf_upsert)

lemma sched_wf_record_wait [wf_intros]:
  assumes "sched_wf s"
  shows "sched_wf (record_wait x k w s)"
proof -
  have "\<And>c k. hist_ok (hist_val s c k)"
    using assms by (simp add: sched_wf_def)
  then have "hist_ok (hist_val (record_wait x k w s) c k')" for c k'
    by (simp add: hist_acc.val_bump hist_ok_add)
  moreover have "hash_wf MAX_CGROUPS (runq_latency_map (record_wait x k w s))"
    using assms by (simp add: sched_wf_def record_wait_eq hash_wf_upsert)
  ultimately show ?thesis
    using assms by (simp add: sched_wf_def frame_simps)
qed

lemma sched_wf_charge_timeline [wf_intros]:
  assumes "sched_wf s" and "\<And>bkt. epoch (f bkt) = epoch bkt"
  shows "sched_wf (charge_timeline x k f s)"
proof -
  have "\<And>c k. ring_ok (ring_val s c k)" and "arrays_ok s"
    using assms by (simp_all add: sched_wf_def)
  then have "ring_ok (ring_val (charge_timeline x k f s) c k')" for c k'
    using assms by (simp add: ring_acc.val_bump ring_ok_update)
  moreover have "hash_wf MAX_ACTIVE_CGROUPS (sched_timeline_map (charge_timeline x k f s))"
    using assms by (simp add: sched_wf_def arrays_ok_def charge_timeline_eq hash_wf_upsert)
  ultimately show ?thesis
    using assms by (simp add: sched_wf_def frame_simps)
qed

lemma sched_wf_take_wakeup_time [wf_intros]: "sched_wf s \<Longrightarrow> sched_wf (take_wakeup_time p s)"
  by (simp add: sched_wf_def frame_simps) (simp add: take_wakeup_time_def hash_wf_delete)

lemma sched_wf_save_wakeup_time [wf_intros]: "sched_wf s \<Longrightarrow> sched_wf (save_wakeup_time x p s)"
  by (simp add: sched_wf_def frame_simps) (simp add: save_wakeup_time_def hash_wf_update)

lemma sched_wf_slice [wf_intros]:
  "sched_wf s \<Longrightarrow> sched_wf (s\<lparr>cpu_slice_start := percpu_array_write c i v (cpu_slice_start s)\<rparr>)"
  by (simp add: sched_wf_def arrays_ok_slice)

lemma sched_wf_charge_prev [wf_intros]: "sched_wf s \<Longrightarrow> sched_wf (charge_prev K x prev s)"
  by (auto simp: charge_prev_eq sched_wf_arrays Let_def wf_intros split: option.split)

lemma sched_wf_wait_next [wf_intros]: "sched_wf s \<Longrightarrow> sched_wf (wait_next K x nxt s)"
  by (auto simp: wait_next_eq wf_intros split: option.split)

lemma sched_wf_exec: "sched_wf s \<Longrightarrow> sched_wf (sched_exec e s)"
proof (cases e)
  case (Switch K x p prev nxt)
  then show "sched_wf s \<Longrightarrow> ?thesis" by (simp add: handle_sched_switch_def wf_intros)
qed (auto simp: handle_sched_wakeup_def handle_sched_wakeup_new_def wf_intros,
    auto simp: sched_wf_def arrays_ok_def hash_wf_delete percpu_val_delete)

section \<open>The effect of a context switch, map by map\<close>

lemma slice_write:
  "arrays_ok s \<Longrightarrow> (percpu_array_write c 0 v (cpu_slice_start s) ! 0) c' =
     (if c' = c then v else slice_start s c')"
  by (simp add: arrays_ok_def percpu_array_write_def)

lemma arrays_ok_charge_prev [frame_simps]: "arrays_ok s \<Longrightarrow> arrays_ok (charge_prev K x prev s)"
  by (auto simp: charge_prev_eq Let_def arrays_ok_slice frame_simps split: option.split)

lemma frame_charge_prev [frame_simps]:
  assumes "arrays_ok s"
  shows "runq_latency_map (charge_prev K x prev s) = runq_latency_map s"
    and "wakeup_ts_map (charge_prev K x prev s) = wakeup_ts_map s"
  using assms by (auto simp: charge_prev_eq Let_def frame_simps split: option.split)

lemma frame_wait_next [frame_simps]:
  assumes "arrays_ok s"
  shows "cpu_time_map (wait_next K x nxt s) = cpu_time_map s"
    and "cpu_slice_start (wait_next K x nxt s) = cpu_slice_start s"
  using assms by (auto simp: wait_next_eq frame_simps split: option.split)

lemma ended_wait_charge_prev:
  "arrays_ok s \<Longrightarrow> ended_wait K x nxt (charge_prev K x prev s) = ended_wait K x nxt s"
  by (simp add: ended_wait_def frame_simps)

lemma charge_prev_cpu_time_map:
  "arrays_ok s \<Longrightarrow> cpu_time_map (charge_prev K x prev s) =
     (case ended_slice K x prev s of None \<Rightarrow> cpu_time_map s
      | Some (cg, ns) \<Rightarrow> cpu_time_map (add_cpu_time x cg ns s))"
  by (auto simp: charge_prev_eq Let_def frame_simps split: option.split)

lemma charge_prev_slice_start:
  "arrays_ok s \<Longrightarrow> slice_start (charge_prev K x prev s) c =
     (if c = bpf_get_smp_processor_id x then bpf_ktime_get_ns x else slice_start s c)"
  by (auto simp: charge_prev_eq Let_def slice_write frame_simps split: option.split)

lemma switch_cpu_time_map:
  "arrays_ok s \<Longrightarrow> cpu_time_map (handle_sched_switch K x preempt prev nxt s) =
     (case ended_slice K x prev s of None \<Rightarrow> cpu_time_map s
      | Some (cg, ns) \<Rightarrow> cpu_time_map (add_cpu_time x cg ns s))"
  by (simp add: handle_sched_switch_def frame_simps charge_prev_cpu_time_map)

lemma switch_slice_start:
  "arrays_ok s \<Longrightarrow> slice_start (handle_sched_switch K x preempt prev nxt s) c =
     (if c = bpf_get_smp_processor_id x then bpf_ktime_get_ns x else slice_start s c)"
  by (simp add: handle_sched_switch_def frame_simps charge_prev_slice_start)

lemma switch_runq_latency_map:
  assumes "arrays_ok s"
  shows "runq_latency_map (handle_sched_switch K x preempt prev nxt s) =
     (case ended_wait K x nxt s of None \<Rightarrow> runq_latency_map s
      | Some (cg, ns) \<Rightarrow> runq_latency_map (record_wait x cg (ns div 1000) s))"
proof -
  have "runq_latency_map (record_wait x cg w (charge_timeline x cg f
           (take_wakeup_time p (charge_prev K x prev s)))) = runq_latency_map (record_wait x cg w s)"
    for cg w f p
    using assms by (simp add: record_wait_eq frame_simps)
  with assms show ?thesis
    by (auto simp: handle_sched_switch_def wait_next_eq ended_wait_charge_prev frame_simps
        split: option.split)
qed

lemma switch_wakeup_ts_map:
  assumes "arrays_ok s"
  shows "wakeup_ts_map (handle_sched_switch K x preempt prev nxt s) =
     (case ended_wait K x nxt s of None \<Rightarrow> wakeup_ts_map s
      | Some _ \<Rightarrow> hash_delete (task_pid K nxt) (wakeup_ts_map s))"
proof -
  have "wakeup_ts_map (take_wakeup_time p (charge_prev K x prev s)) = hash_delete p (wakeup_ts_map s)"
    for p
    using assms by (simp add: take_wakeup_time_def frame_simps)
  with assms show ?thesis
    by (auto simp: handle_sched_switch_def wait_next_eq ended_wait_charge_prev frame_simps
        split: option.split)
qed

text \<open>The timeline sees the slice first and the wait second, both in the window of the switch.\<close>

lemma switch_sched_timeline_map:
  assumes "arrays_ok s"
  shows "sched_timeline_map (handle_sched_switch K x preempt prev nxt s) =
     (let s1 = (case ended_slice K x prev s of None \<Rightarrow> s
                | Some (cg, ns) \<Rightarrow> charge_timeline x cg (charge_bucket ns) s)
      in sched_timeline_map (case ended_wait K x nxt s of None \<Rightarrow> s1
           | Some (cg, ns) \<Rightarrow> charge_timeline x cg (wait_bucket ns) s1))"
proof -
  have same: "sched_timeline_map (charge_timeline x cg f u) = sched_timeline_map (charge_timeline x cg f v)"
    if "arrays_ok u" "arrays_ok v" "sched_timeline_map u = sched_timeline_map v" for cg f u v
    using that by (simp add: charge_timeline_eq arrays_ok_def)
  define s1 where "s1 = (case ended_slice K x prev s of None \<Rightarrow> s
                | Some (cg, ns) \<Rightarrow> charge_timeline x cg (charge_bucket ns) s)"
  have s1: "arrays_ok s1" "sched_timeline_map (charge_prev K x prev s) = sched_timeline_map s1"
    using assms
    by (auto simp: s1_def charge_prev_eq Let_def frame_simps intro!: same split: option.split)
  with assms show ?thesis
    by (auto simp: handle_sched_switch_def wait_next_eq ended_wait_charge_prev frame_simps Let_def
        simp flip: s1_def intro!: same split: option.split)
qed

section \<open>A concrete run\<close>

text \<open>Task 7 is woken at 1000 ns, runs from 5000 ns and is switched out at 300000000 ns, on CPU 0.\<close>

definition demo_ops :: "sched_op list" where
  "demo_ops =
     [Wakeup demo_kernel (demo_ctx 0 1000) 0x1000,
      Switch demo_kernel (demo_ctx 0 5000) False 0x5000 0x1000,
      Switch demo_kernel (demo_ctx 0 300000000) False 0x1000 0x5000]"

lemma demo_task [simp]:
  "task_pid demo_kernel 0x1000 = 7" "task_cgroup_id demo_kernel 0x1000 = 42"
  "task_pid demo_kernel 0x5000 = 0" "task_cgroup_id demo_kernel 0x5000 = 0"
  "task_pid demo_kernel 0x8000 = 9" "task_cgroup_id demo_kernel 0x8000 = 42"
  by code_simp+

lemma demo_clock [simp]: "clock_ok 0 demo_ops" "run_clock 0 demo_ops = 300000000"
  by (simp_all add: demo_ops_def op_clock_def)

lemma demo_reach: "sched_reach 300000000 (sched_run demo_ops sched_init)"
  using sched_reach_run [OF sched_reach.loaded demo_clock(1)] by simp

lemmas sched_eval = handle_sched_wakeup_def handle_sched_wakeup_new_def handle_sched_switch_def
  save_wakeup_time_def charge_prev_def wait_next_def sched_init_def add_cpu_time_def record_wait_def
  charge_timeline_def get_timeline_bucket_def bucket_index_def bucket_write_def
  hash_update_def hash_lookup_def hash_delete_def hash_room_def percpu_array_lookup_def
  percpu_array_write_def percpu_lookup_def percpu_create_def percpu_write_def percpu_val_def
  percpu_has_def MAX_TASKS_def MAX_CGROUPS_def MAX_ACTIVE_CGROUPS_def BUCKET_NS_def NUM_BUCKETS_def
  Let_def

end
