(* ===== verification/Sched_Accounting.thy ===== *)
theory Sched_Accounting
  imports Sched_System
begin

text \<open>
  Accounting properties of the scheduler monitor: stamps never lie in the future, CPU time
  is conserved (charged, uncharged and drained time add up to the elapsed time of the CPU),
  a wait is measured at most once per wake-up, and programs on different CPUs do not
  interfere.
\<close>

section \<open>No stamp lies in the future\<close>

definition clock_inv :: "u64 \<Rightarrow> sched_state \<Rightarrow> bool" where
  "clock_inv t s \<longleftrightarrow>
     (\<forall>p w. hash_lookup (wakeup_ts_map s) p = Some w \<longrightarrow> w \<le> t) \<and>
     (\<forall>c. slice_start s c \<le> t)"

lemma clock_inv_mono: "clock_inv t s \<Longrightarrow> t \<le> t' \<Longrightarrow> clock_inv t' s"
  unfolding clock_inv_def by (meson order_trans)

lemma clock_inv_wakeup:
  assumes "clock_inv (bpf_ktime_get_ns x) s"
  shows "clock_inv (bpf_ktime_get_ns x) (save_wakeup_time x p s)"
proof -
  have "hash_lookup (wakeup_ts_map (save_wakeup_time x p s)) q = Some w \<Longrightarrow> w \<le> bpf_ktime_get_ns x"
    for q w
    using assms by (auto simp: clock_inv_def save_wakeup_time_def bpf_simps split: if_splits)
  with assms show ?thesis by (simp add: clock_inv_def frame_simps)
qed

lemma clock_inv_switch:
  assumes "arrays_ok s" and "clock_inv (bpf_ktime_get_ns x) s"
  shows "clock_inv (bpf_ktime_get_ns x) (handle_sched_switch K x preempt prev nxt s)"
  using assms
  by (auto simp: clock_inv_def switch_wakeup_ts_map switch_slice_start bpf_simps split: option.splits if_splits)

lemma clock_inv_exec:
  assumes "sched_wf s" and "clock_inv t s" and "t \<le> op_clock t e"
  shows "clock_inv (op_clock t e) (sched_exec e s)"
  using assms clock_inv_mono [OF assms(2,3)]
  by (cases e)
    (auto simp: op_clock_def handle_sched_wakeup_def handle_sched_wakeup_new_def
      clock_inv_wakeup clock_inv_switch sched_wf_arrays, auto simp: clock_inv_def)

lemma clock_inv_init: "clock_inv 0 sched_init"
  by (simp add: clock_inv_def sched_init_def hash_lookup_def)

lemma sched_reach_inv: "sched_reach t s \<Longrightarrow> sched_wf s \<and> clock_inv t s"
proof (induction rule: sched_reach.induct)
  case loaded
  show ?case by (simp add: sched_wf_init clock_inv_init)
next
  case (step t s e)
  then show ?case by (simp add: sched_wf_exec clock_inv_exec)
qed

lemma ended_wait_exact:
  assumes "clock_inv t s" and "t \<le> bpf_ktime_get_ns x" and "ended_wait K x nxt s = Some (cg, ns)"
  obtains w where "hash_lookup (wakeup_ts_map s) (task_pid K nxt) = Some w"
    and "w \<le> t" and "unat ns = unat (bpf_ktime_get_ns x) - unat w"
proof -
  from assms(3) obtain w where w: "hash_lookup (wakeup_ts_map s) (task_pid K nxt) = Some w"
    and ns: "ns = bpf_ktime_get_ns x - w"
    by (auto simp: ended_wait_def)
  from assms(1) w have "w \<le> t" by (auto simp: clock_inv_def)
  then have "unat ns = unat (bpf_ktime_get_ns x) - unat w"
    using assms(2) ns by (simp add: unat_sub_mono_u64)
  with w \<open>w \<le> t\<close> show thesis by (rule that)
qed

lemma ended_slice_exact:
  assumes "clock_inv t s" and "t \<le> bpf_ktime_get_ns x" and "ended_slice K x prev s = Some (cg, ns)"
  shows "unat ns = unat (bpf_ktime_get_ns x) - unat (slice_start s (bpf_get_smp_processor_id x))"
proof -
  have "slice_start s (bpf_get_smp_processor_id x) \<le> bpf_ktime_get_ns x"
    using assms(1,2) by (meson clock_inv_def order_trans)
  with assms(3) show ?thesis
    by (auto simp: ended_slice_def Let_def unat_sub_mono_u64 split: if_splits)
qed

section \<open>CPU time is conserved\<close>

definition cpu_total :: "sched_state \<Rightarrow> nat \<Rightarrow> u64" where
  "cpu_total s c = percpu_total (\<lambda>v. v) (cpu_time_map s) c"

text \<open>
  The time of one step that the map does not get on CPU \<open>c\<close>: at a switch, the idle slice
  or the very first one, or a slice the map had no room for; at a deletion, what user
  space takes away.
\<close>

fun uncharged :: "nat \<Rightarrow> sched_op \<Rightarrow> sched_state \<Rightarrow> u64" where
  "uncharged c (Switch K x preempt prev nxt) s =
     (if c \<noteq> bpf_get_smp_processor_id x then 0
      else case ended_slice K x prev s of
             None \<Rightarrow> bpf_ktime_get_ns x - slice_start s c
           | Some (cg, ns) \<Rightarrow> if cpu_room x cg s then 0 else ns)"
| "uncharged c _ s = 0"

fun drained :: "nat \<Rightarrow> sched_op \<Rightarrow> sched_state \<Rightarrow> u64" where
  "drained c (Delete_Cpu k) s = cpu_val s c k"
| "drained c _ s = 0"

primrec run_sum :: "(sched_op \<Rightarrow> sched_state \<Rightarrow> u64) \<Rightarrow> sched_op list \<Rightarrow> sched_state \<Rightarrow> u64" where
  "run_sum f [] s = 0"
| "run_sum f (e # es) s = f e s + run_sum f es (sched_exec e s)"

lemma cpu_total_switch:
  assumes "sched_wf s"
  shows "cpu_total (handle_sched_switch K x preempt prev nxt s) c =
     cpu_total s c + (case ended_slice K x prev s of None \<Rightarrow> 0
       | Some (cg, ns) \<Rightarrow> if c = bpf_get_smp_processor_id x \<and> cpu_room x cg s then ns else 0)"
  using assms
  by (auto simp: cpu_total_def switch_cpu_time_map sched_wf_arrays add_cpu_time_eq percpu_total_upsert
      sched_wf_def split: option.split)

lemma cpu_total_step:
  assumes "sched_wf s"
  shows "cpu_total (sched_exec e s) c + drained c e s + uncharged c e s =
     cpu_total s c + (slice_start (sched_exec e s) c - slice_start s c)"
proof (cases e)
  case (Switch K x preempt prev nxt)
  with assms show ?thesis
    by (auto simp: cpu_total_switch switch_slice_start sched_wf_arrays ended_slice_def Let_def
        split: if_splits)
next
  case (Delete_Cpu k)
  with assms show ?thesis
    using percpu_total_delete [of "cpu_time_map s" "\<lambda>v. v" 0 k c]
    by (simp add: cpu_total_def sched_wf_def hash_wf_def)
qed (simp_all add: cpu_total_def handle_sched_wakeup_def handle_sched_wakeup_new_def frame_simps)

lemma telescope:
  fixes a0 :: "'a::ab_group_add"
  assumes "a1 + d1 + u1 = a0 + (t1 - t0)" and "a2 + d2 + u2 = a1 + (t2 - t1)"
  shows "a2 + (d1 + d2) + (u1 + u2) = a0 + (t2 - t0)"
proof -
  have "a2 + (d1 + d2) + (u1 + u2) = (a2 + d2 + u2) + (a1 + d1 + u1) - a1"
    by (simp add: algebra_simps)
  also have "\<dots> = a0 + (t2 - t0)"
    unfolding assms by (simp add: algebra_simps)
  finally show ?thesis .
qed

lemma cpu_total_run:
  assumes "sched_wf s"
  shows "cpu_total (sched_run es s) c + run_sum (drained c) es s + run_sum (uncharged c) es s =
     cpu_total s c + (slice_start (sched_run es s) c - slice_start s c)"
  using assms
proof (induction es arbitrary: s)
  case Nil
  then show ?case by simp
next
  case (Cons e es)
  have "cpu_total (sched_run es (sched_exec e s)) c + run_sum (drained c) es (sched_exec e s) +
      run_sum (uncharged c) es (sched_exec e s) = cpu_total (sched_exec e s) c +
      (slice_start (sched_run es (sched_exec e s)) c - slice_start (sched_exec e s) c)"
    using Cons.prems by (intro Cons.IH) (rule sched_wf_exec)
  from telescope [OF cpu_total_step [OF Cons.prems, of e c] this] show ?case
    by simp
qed

section \<open>A wake-up yields at most one wait\<close>

fun ends_wait :: "sched_op \<Rightarrow> sched_state \<Rightarrow> bool" where
  "ends_wait (Switch K x preempt prev nxt) s \<longleftrightarrow> ended_wait K x nxt s \<noteq> None"
| "ends_wait _ s \<longleftrightarrow> False"

fun is_wakeup :: "sched_op \<Rightarrow> bool" where
  "is_wakeup (Wakeup K x task) \<longleftrightarrow> True"
| "is_wakeup (Wakeup_New K x task) \<longleftrightarrow> True"
| "is_wakeup _ \<longleftrightarrow> False"

primrec run_waits :: "sched_op list \<Rightarrow> sched_state \<Rightarrow> nat" where
  "run_waits [] s = 0"
| "run_waits (e # es) s = (if ends_wait e s then 1 else 0) + run_waits es (sched_exec e s)"

lemma stamps_save: "length (wakeup_ts_map (save_wakeup_time x p s)) \<le> Suc (length (wakeup_ts_map s))"
  by (simp add: save_wakeup_time_def length_hash_update)

lemma stamps_step:
  assumes "sched_wf s"
  shows "length (wakeup_ts_map (sched_exec e s)) + (if ends_wait e s then 1 else 0) \<le>
     length (wakeup_ts_map s) + (if is_wakeup e then 1 else 0)"
proof (cases e)
  case (Switch K x preempt prev nxt)
  have "distinct (map fst (wakeup_ts_map s))"
    using assms by (simp add: sched_wf_def hash_wf_def)
  from length_hash_delete [OF this, of "task_pid K nxt"] show ?thesis
    using Switch assms
    by (auto simp: switch_wakeup_ts_map sched_wf_arrays ended_wait_def split: option.split)
qed (simp_all add: handle_sched_wakeup_def handle_sched_wakeup_new_def stamps_save)

lemma stamps_run:
  assumes "sched_wf s"
  shows "length (wakeup_ts_map (sched_run es s)) + run_waits es s \<le>
     length (wakeup_ts_map s) + length (filter is_wakeup es)"
  using assms
proof (induction es arbitrary: s)
  case Nil
  then show ?case by simp
next
  case (Cons e es)
  have "length (wakeup_ts_map (sched_run es (sched_exec e s))) + run_waits es (sched_exec e s) \<le>
      length (wakeup_ts_map (sched_exec e s)) + length (filter is_wakeup es)"
    using Cons.prems by (intro Cons.IH) (rule sched_wf_exec)
  with stamps_step [OF Cons.prems, of e] show ?case
    by (simp split: if_splits)
qed

section \<open>Switches on different CPUs do not interfere\<close>

text \<open>What a switch does to the ring of a key on its own CPU, once the entries are there.\<close>

definition ring_effect ::
  "u64 \<Rightarrow> (u64 \<times> u64) option \<Rightarrow> (u64 \<times> u64) option \<Rightarrow> u64 \<Rightarrow> sched_buckets \<Rightarrow> sched_buckets" where
  "ring_effect ep sl wt k bs =
     (let bs1 = (case sl of Some (cg, ns) \<Rightarrow> if cg = k then ring_update ep (charge_bucket ns) bs else bs
                 | None \<Rightarrow> bs)
      in case wt of Some (cg, ns) \<Rightarrow> if cg = k then ring_update ep (wait_bucket ns) bs1 else bs1
         | None \<Rightarrow> bs1)"

text \<open>Every entry the switch will update exists.\<close>

definition switch_ready :: "kernel \<Rightarrow> u64 \<Rightarrow> u64 \<Rightarrow> sched_state \<Rightarrow> bool" where
  "switch_ready K prev nxt s \<longleftrightarrow>
     percpu_has (cpu_time_map s) (task_cgroup_id K prev) \<and>
     percpu_has (sched_timeline_map s) (task_cgroup_id K prev) \<and>
     percpu_has (sched_timeline_map s) (task_cgroup_id K nxt) \<and>
     percpu_has (runq_latency_map s) (task_cgroup_id K nxt)"

lemma ended_slice_cg: "ended_slice K x prev s = Some (cg, ns) \<Longrightarrow> cg = task_cgroup_id K prev"
  by (auto simp: ended_slice_def Let_def split: if_splits)

lemma ended_wait_cg: "ended_wait K x nxt s = Some (cg, ns) \<Longrightarrow> cg = task_cgroup_id K nxt"
  by (auto simp: ended_wait_def)

lemma switch_cpu_val:
  assumes "arrays_ok s"
  shows "cpu_val (handle_sched_switch K x preempt prev nxt s) c k =
     (case ended_slice K x prev s of None \<Rightarrow> cpu_val s c k
      | Some (cg, ns) \<Rightarrow> if c = bpf_get_smp_processor_id x \<and> k = cg \<and> cpu_room x cg s
          then cpu_val s c k + ns else cpu_val s c k)"
  using assms by (auto simp: switch_cpu_time_map cpu_acc.val_bump split: option.split)

lemma switch_hist_val:
  assumes "arrays_ok s"
  shows "hist_val (handle_sched_switch K x preempt prev nxt s) c k =
     (case ended_wait K x nxt s of None \<Rightarrow> hist_val s c k
      | Some (cg, ns) \<Rightarrow> if c = bpf_get_smp_processor_id x \<and> k = cg \<and> hist_room x cg s
          then hist_add (ns div 1000) (hist_val s c k) else hist_val s c k)"
  using assms by (auto simp: switch_runq_latency_map hist_acc.val_bump split: option.split)

lemma switch_ring_val:
  assumes "arrays_ok s" and "switch_ready K prev nxt s"
  shows "ring_val (handle_sched_switch K x preempt prev nxt s) c k =
     (if c = bpf_get_smp_processor_id x
      then ring_effect (bpf_ktime_get_ns x div BUCKET_NS) (ended_slice K x prev s)
             (ended_wait K x nxt s) k (ring_val s c k)
      else ring_val s c k)"
proof -
  have has: "percpu_has (sched_timeline_map (charge_timeline x cg f u)) j"
    if "arrays_ok u" "percpu_has (sched_timeline_map u) j" for cg f u j
    using that ring_acc.holds_bump [of u] by simp
  show ?thesis
    using assms
    by (auto simp: switch_sched_timeline_map Let_def ring_effect_def ring_acc.val_bump has
        arrays_ok_timeline switch_ready_def percpu_has_room
        dest!: ended_slice_cg ended_wait_cg split: option.split)
qed

lemma switch_ready_switch:
  assumes "arrays_ok s" and "switch_ready K' prev' nxt' s"
  shows "switch_ready K' prev' nxt' (handle_sched_switch K x preempt prev nxt s)"
  using assms
  by (auto simp: switch_ready_def switch_cpu_time_map switch_runq_latency_map
      switch_sched_timeline_map Let_def cpu_acc.holds_bump hist_acc.holds_bump ring_acc.holds_bump
      arrays_ok_timeline split: option.split)

section \<open>Properties\<close>

text \<open>
  C9. In every state the monitor can reach, from any interleaving of its programs on any
  CPUs with the deletions of user space, the maps respect their capacities and hold every
  key once, every histogram copy has 27 slots whose sum is its event count, and every
  ring slot holds either nothing or a window that belongs into that slot.
\<close>

theorem reachable_sched_wf:
  assumes "sched_reach t s"
  shows "sched_wf s"
  using sched_reach_inv [OF assms] by simp

theorem reachable_sched_wf_witness:
  "sched_reach 300000000 (sched_run demo_ops sched_init) \<and> sched_wf (sched_run demo_ops sched_init)"
  using demo_reach reachable_sched_wf [OF demo_reach] by simp

text \<open>
  C3. CPU time is conserved. Over any run of the monitor, and on each CPU, the time in
  \<^verbatim>\<open>cpu_time_map\<close> afterwards, plus what user space drained, plus what was not charged
  (idle and first slices, and slices the full map refused), is the time in the map before
  plus the time that elapsed on this CPU between its first and its last context switch.
\<close>

theorem sched_cpu_time_conserved:
  assumes "sched_wf s"
  shows "cpu_total (sched_run es s) c + run_sum (drained c) es s + run_sum (uncharged c) es s =
     cpu_total s c + (slice_start (sched_run es s) c - slice_start s c)"
  using assms by (rule cpu_total_run)

theorem sched_cpu_time_conserved_witness:
  "sched_wf sched_init \<and>
   cpu_total (sched_run demo_ops sched_init) 0 + run_sum (uncharged 0) demo_ops sched_init = 300000000"
proof -
  have "run_sum (drained 0) demo_ops sched_init = 0"
    by (simp add: demo_ops_def)
  moreover have "slice_start (sched_run demo_ops sched_init) 0 = 300000000"
    by (simp add: demo_ops_def sched_eval)
  moreover have "slice_start sched_init 0 = 0" and "cpu_total sched_init 0 = 0"
    by (simp_all add: sched_init_def cpu_total_def percpu_total_def hash_total_def)
  ultimately show ?thesis
    using sched_wf_init sched_cpu_time_conserved [OF sched_wf_init, of demo_ops 0] by simp
qed

text \<open>
  C4. A switch to a task that was woken at time \<open>w\<close> records its run-queue wait exactly:
  with \<open>us\<close> the microseconds between \<open>w\<close> and the switch (the subtraction does not wrap),
  exactly one slot of the histogram of the task's cgroup on this CPU grows by one, it is
  the slot whose range holds \<open>us\<close>, the sum grows by \<open>us\<close>, the count by one, and the
  wake-up stamp is gone.
\<close>

theorem switch_records_wait:
  assumes "sched_reach t s" and "t \<le> bpf_ktime_get_ns x"
    and "hash_lookup (wakeup_ts_map s) (task_pid K nxt) = Some w"
    and "hist_room x (task_cgroup_id K nxt) s"
    and "us = (unat (bpf_ktime_get_ns x) - unat w) div 1000"
    and "h = hist_val s (bpf_get_smp_processor_id x) (task_cgroup_id K nxt)"
    and "s' = handle_sched_switch K x preempt prev nxt s"
    and "h' = hist_val s' (bpf_get_smp_processor_id x) (task_cgroup_id K nxt)"
  shows "\<exists>i < MAX_SLOTS.
      (\<forall>j < MAX_SLOTS. slots h' ! j = slots h ! j + (if j = i then 1 else 0)) \<and>
      (0 < us \<longrightarrow> 2 ^ i \<le> us) \<and> (i < MAX_SLOTS - 1 \<longrightarrow> us < 2 ^ Suc i) \<and>
      total_us h' = total_us h + of_nat us \<and> count h' = count h + 1 \<and>
      hash_lookup (wakeup_ts_map s') (task_pid K nxt) = None"
proof -
  have inv: "sched_wf s" "clock_inv t s" using sched_reach_inv [OF assms(1)] by auto
  let ?ns = "bpf_ktime_get_ns x - w"
  have ew: "ended_wait K x nxt s = Some (task_cgroup_id K nxt, ?ns)"
    by (simp add: ended_wait_def assms(3))
  have "unat ?ns = unat (bpf_ktime_get_ns x) - unat w"
    using ended_wait_exact [OF inv(2) assms(2) ew] assms(3) by auto
  then have us: "unat (?ns div 1000) = us" using assms(5) by (simp add: unat_div_u64)
  have h': "h' = hist_add (?ns div 1000) h"
    using assms(4,6,7,8) inv ew by (simp add: switch_hist_val sched_wf_arrays)
  have ok: "slots_ok (slots h)" using inv(1) assms(6) by (simp add: sched_wf_def hist_ok_def)
  have "\<exists>i < MAX_SLOTS. (\<forall>j < MAX_SLOTS. slots h' ! j = slots h ! j + (if j = i then 1 else 0)) \<and>
      (0 < us \<longrightarrow> 2 ^ i \<le> us) \<and> (i < MAX_SLOTS - 1 \<longrightarrow> us < 2 ^ Suc i)"
    using slots_inc_range [OF ok, of "?ns div 1000"] us by (simp add: h' hist_add_def Let_def)
  moreover have "total_us h' = total_us h + of_nat us" and "count h' = count h + 1"
    using us by (auto simp: h' hist_add_def Let_def)
  moreover have "hash_lookup (wakeup_ts_map s') (task_pid K nxt) = None"
    using inv ew assms(7) by (simp add: switch_wakeup_ts_map sched_wf_arrays bpf_simps)
  ultimately show ?thesis by blast
qed

theorem switch_records_wait_witness:
  "\<exists>i < MAX_SLOTS. 2 ^ i \<le> (4::nat) \<and> (i < MAX_SLOTS - 1 \<longrightarrow> 4 < (2::nat) ^ Suc i) \<and>
     count (hist_val (handle_sched_switch demo_kernel (demo_ctx 0 5000) False 0x5000 0x1000
       (handle_sched_wakeup demo_kernel (demo_ctx 0 1000) 0x1000 sched_init)) 0 42) = 1"
proof -
  let ?s = "handle_sched_wakeup demo_kernel (demo_ctx 0 1000) 0x1000 sched_init"
  have reach: "sched_reach 1000 ?s"
    using sched_reach.step [OF sched_reach.loaded, of "Wakeup demo_kernel (demo_ctx 0 1000) 0x1000"]
    by (simp add: op_clock_def)
  have stamp: "hash_lookup (wakeup_ts_map ?s) (task_pid demo_kernel 0x1000) = Some 1000"
    and room: "hist_room (demo_ctx 0 5000) (task_cgroup_id demo_kernel 0x1000) ?s"
    and zero: "count (hist_val ?s 0 42) = 0"
    by (simp_all add: sched_eval empty_hist_def)
  show ?thesis
    using switch_records_wait [OF reach _ stamp room refl refl refl refl,
        where preempt = False and prev = "0x5000"] zero
    by auto
qed

text \<open>
  C10. A slice is charged exactly: at a switch on a CPU whose previous switch was recorded,
  away from a task that is not the idle task, the task's cgroup gains on this CPU exactly
  the nanoseconds since that previous switch (the subtraction does not wrap), every other
  copy of every other cgroup keeps its value, and the new slice starts now.
\<close>

theorem switch_charges_slice:
  assumes "sched_reach t s" and "t \<le> bpf_ktime_get_ns x"
    and "cpu = bpf_get_smp_processor_id x" and "slice_start s cpu \<noteq> 0"
    and "task_pid K prev \<noteq> 0" and "cpu_room x (task_cgroup_id K prev) s"
    and "s' = handle_sched_switch K x preempt prev nxt s"
  shows "cpu_val s' c k = cpu_val s c k + (if c = cpu \<and> k = task_cgroup_id K prev
            then of_nat (unat (bpf_ktime_get_ns x) - unat (slice_start s cpu)) else 0) \<and>
     slice_start s' c = (if c = cpu then bpf_ktime_get_ns x else slice_start s c)"
proof -
  have inv: "sched_wf s" "clock_inv t s" using sched_reach_inv [OF assms(1)] by auto
  let ?ns = "bpf_ktime_get_ns x - slice_start s cpu"
  have es: "ended_slice K x prev s = Some (task_cgroup_id K prev, ?ns)"
    using assms by (simp add: ended_slice_def)
  have "unat ?ns = unat (bpf_ktime_get_ns x) - unat (slice_start s cpu)"
    using ended_slice_exact [OF inv(2) assms(2) es] assms(3) by simp
  moreover have "?ns = of_nat (unat ?ns)" by simp
  ultimately have "?ns = of_nat (unat (bpf_ktime_get_ns x) - unat (slice_start s cpu))"
    by (simp only:)
  with assms inv es show ?thesis
    by (simp add: switch_cpu_val switch_slice_start sched_wf_arrays)
qed

theorem switch_charges_slice_witness:
  "cpu_val (handle_sched_switch demo_kernel (demo_ctx 0 5000) False 0x1000 0x5000
     (handle_sched_switch demo_kernel (demo_ctx 0 1000) False 0x5000 0x1000 sched_init)) 0 42 = 4000"
proof -
  let ?s = "handle_sched_switch demo_kernel (demo_ctx 0 1000) False 0x5000 0x1000 sched_init"
  have reach: "sched_reach 1000 ?s"
    using sched_reach.step [OF sched_reach.loaded,
        of "Switch demo_kernel (demo_ctx 0 1000) False 0x5000 0x1000"]
    by (simp add: op_clock_def)
  have start: "slice_start ?s 0 = 1000" and zero: "cpu_val ?s 0 42 = 0"
    and room: "cpu_room (demo_ctx 0 5000) (task_cgroup_id demo_kernel 0x1000) ?s"
    by (simp_all add: sched_eval)
  show ?thesis
    using switch_charges_slice [OF reach _ _ _ _ room refl,
        where cpu = 0 and preempt = False and nxt = "0x5000" and c = 0 and k = 42] start zero
    by simp
qed

text \<open>
  No wait is measured twice. Over any run, the waits that ended plus the stamps still
  held are at most the wake-ups that happened plus the stamps held before.
\<close>

theorem waits_at_most_wakeups:
  assumes "sched_wf s"
  shows "run_waits es s + length (wakeup_ts_map (sched_run es s)) \<le>
     length (filter is_wakeup es) + length (wakeup_ts_map s)"
  using stamps_run [OF assms, of es] by simp

theorem waits_at_most_wakeups_witness:
  "sched_wf sched_init \<and> run_waits demo_ops sched_init \<le> 1"
  using sched_wf_init waits_at_most_wakeups [OF sched_wf_init, of demo_ops]
  by (simp add: demo_ops_def sched_init_def)



end
