(* ===== verification/Sched_Timeline.thy ===== *)
theory Sched_Timeline
  imports Sched_Accounting
begin

text \<open>
  The 64-slot ring of 100 ms windows refines an unbounded timeline. The specification is a
  map from window numbers to what was charged in that window; the ring keeps the last 64
  windows of it. The simulation is proved for one charge and lifted to context switches
  and to whole runs; \<open>charge_log\<close> reads the specification off a run as the list of the
  charges the rings accepted.
\<close>

section \<open>The unbounded timeline\<close>

type_synonym timeline = "u64 \<Rightarrow> sched_bucket"

definition fresh_bucket :: "u64 \<Rightarrow> sched_bucket" where
  "fresh_bucket ep = zero_bucket\<lparr>epoch := ep\<rparr>"

definition timeline_charge :: "u64 \<Rightarrow> (sched_bucket \<Rightarrow> sched_bucket) \<Rightarrow> timeline \<Rightarrow> timeline" where
  "timeline_charge ep f A = A(ep := f (A ep))"

text \<open>
  \<open>ring_sim bs A last\<close>: no charge lies after window \<open>last\<close>; an occupied slot shows the
  timeline at its own window; and every window with charges among the last 64 is in the
  ring.
\<close>

definition ring_sim :: "sched_buckets \<Rightarrow> timeline \<Rightarrow> u64 \<Rightarrow> bool" where
  "ring_sim bs A lst \<longleftrightarrow>
     length (bkts bs) = NUM_BUCKETS \<and>
     (\<forall>ep. epoch (A ep) = ep) \<and>
     (\<forall>ep. lst < ep \<longrightarrow> A ep = fresh_bucket ep) \<and>
     (\<forall>i < NUM_BUCKETS. bkts bs ! i = zero_bucket \<or>
        (let ep = epoch (bkts bs ! i)
         in unat ep mod NUM_BUCKETS = i \<and> ep \<le> lst \<and> bkts bs ! i = A ep)) \<and>
     (\<forall>ep \<le> lst. unat lst < unat ep + NUM_BUCKETS \<longrightarrow> A ep \<noteq> fresh_bucket ep \<longrightarrow>
        bkts bs ! (unat ep mod NUM_BUCKETS) = A ep)"

lemma epoch_fresh [simp]: "epoch (fresh_bucket ep) = ep"
  by (simp add: fresh_bucket_def)

lemma bucket_reset_fresh: "epoch bkt \<noteq> ep \<Longrightarrow> bucket_reset ep bkt = fresh_bucket ep"
  by (simp add: bucket_reset_def fresh_bucket_def zero_bucket_def)

lemma bucket_reset_same: "epoch bkt = ep \<Longrightarrow> bucket_reset ep bkt = bkt"
  by (simp add: bucket_reset_def)

lemma ring_sim_zero: "ring_sim zero_buckets fresh_bucket lst"
  by (auto simp: ring_sim_def zero_buckets_def)

lemma ring_sim_mono:
  assumes "ring_sim bs A lst" and "lst \<le> lst'"
  shows "ring_sim bs A lst'"
proof -
  have le: "unat lst \<le> unat lst'" using assms(2) by (simp add: word_le_nat_alt)
  have "bkts bs ! (unat ep mod NUM_BUCKETS) = A ep"
    if "ep \<le> lst'" "unat lst' < unat ep + NUM_BUCKETS" "A ep \<noteq> fresh_bucket ep" for ep
  proof -
    have "ep \<le> lst" using assms(1) that(3) by (auto simp: ring_sim_def not_less [symmetric])
    with that le assms(1) show ?thesis by (auto simp: ring_sim_def)
  qed
  with assms show ?thesis
    by (fastforce simp: ring_sim_def Let_def)
qed

text \<open>The slot of the current window, after the lazy reset, shows the timeline there.\<close>

lemma ring_sim_slot:
  assumes sim: "ring_sim bs A lst" and le: "lst \<le> ep"
  shows "bucket_reset ep (bkts bs ! (unat ep mod NUM_BUCKETS)) = A ep"
proof -
  let ?i = "unat ep mod NUM_BUCKETS"
  have i: "?i < NUM_BUCKETS" by (simp add: NUM_BUCKETS_def)
  have fresh: "A ep = fresh_bucket ep" if "bkts bs ! ?i \<noteq> A ep"
  proof (rule ccontr)
    assume nf: "A ep \<noteq> fresh_bucket ep"
    with sim have "ep \<le> lst" by (auto simp: ring_sim_def not_less [symmetric])
    with le have "ep = lst" by simp
    with sim nf that show False by (auto simp: ring_sim_def NUM_BUCKETS_def)
  qed
  have ep: "epoch (A ep) = ep" using sim by (simp add: ring_sim_def)
  show ?thesis
  proof (cases "epoch (bkts bs ! ?i) = ep")
    case False
    then have "bkts bs ! ?i \<noteq> A ep" using ep by auto
    with False fresh show ?thesis by (simp add: bucket_reset_fresh)
  next
    case True
    then consider "bkts bs ! ?i = zero_bucket" | "bkts bs ! ?i = A ep"
      using sim i by (auto simp: ring_sim_def Let_def)
    then show ?thesis
    proof cases
      case 1
      then have "ep = 0" using True by (simp add: zero_bucket_def)
      then have "fresh_bucket ep = zero_bucket" by (simp add: fresh_bucket_def zero_bucket_def)
      with 1 True fresh show ?thesis by (cases "bkts bs ! ?i = A ep") (auto simp: bucket_reset_same)
    next
      case 2
      with True show ?thesis by (simp add: bucket_reset_same)
    qed
  qed
qed

lemma ring_sim_charge:
  assumes sim: "ring_sim bs A lst" and le: "lst \<le> ep" and f: "\<And>bkt. epoch (f bkt) = epoch bkt"
  shows "ring_sim (ring_update ep f bs) (timeline_charge ep f A) ep"
proof -
  let ?i = "unat ep mod NUM_BUCKETS" and ?A = "timeline_charge ep f A"
  let ?b = "bkts (ring_update ep f bs)"
  have sim': "ring_sim bs A ep" using ring_sim_mono [OF sim le] .
  have len: "length (bkts bs) = NUM_BUCKETS" and i: "?i < NUM_BUCKETS"
    using sim by (simp_all add: ring_sim_def NUM_BUCKETS_def)
  have b: "?b = (bkts bs)[?i := f (A ep)]"
    by (simp add: ring_update_def bucket_index_mod ring_sim_slot [OF sim le])
  have ep: "epoch (A e) = e" for e using sim by (simp add: ring_sim_def)
  have here: "?b ! ?i = ?A ep" using len i by (simp add: b timeline_charge_def)
  have slots: "?b ! j = zero_bucket \<or> (let e = epoch (?b ! j)
      in unat e mod NUM_BUCKETS = j \<and> e \<le> ep \<and> ?b ! j = ?A e)" if j: "j < NUM_BUCKETS" for j
  proof (cases "j = ?i")
    case True
    with len i show ?thesis by (simp add: b f ep Let_def timeline_charge_def)
  next
    case False
    then have "?b ! j = bkts bs ! j" by (simp add: b)
    with sim' j False show ?thesis
      by (auto simp: ring_sim_def timeline_charge_def Let_def)
  qed
  have recent: "?b ! (unat e mod NUM_BUCKETS) = ?A e"
    if e: "e \<le> ep" "unat ep < unat e + NUM_BUCKETS" "?A e \<noteq> fresh_bucket e" for e
  proof (cases "e = ep")
    case True
    with here show ?thesis by simp
  next
    case False
    then have "e < ep" using e(1) by (simp add: order_less_le)
    then have "unat e < unat ep" by (simp add: word_less_nat_alt)
    then have "unat e mod NUM_BUCKETS \<noteq> ?i"
      using e(2) mod_eq_dvd_iff_nat [of "unat e" "unat ep" NUM_BUCKETS]
      by (auto dest: dvd_imp_le)
    then show ?thesis
      using sim' e False by (auto simp: ring_sim_def timeline_charge_def b)
  qed
  have "\<forall>e. epoch (?A e) = e" and "\<forall>e. ep < e \<longrightarrow> ?A e = fresh_bucket e"
    using sim' by (auto simp: ring_sim_def timeline_charge_def f)
  with slots recent len show ?thesis
    by (simp add: ring_sim_def b)
qed

section \<open>The log of a run\<close>

datatype charge = Cpu_Slice u64 | Runq_Wait u64

fun bucket_add :: "charge \<Rightarrow> sched_bucket \<Rightarrow> sched_bucket" where
  "bucket_add (Cpu_Slice ns) = charge_bucket ns"
| "bucket_add (Runq_Wait ns) = wait_bucket ns"

text \<open>A charge that a ring accepted: the CPU, the cgroup, the window and what was charged.\<close>

type_synonym log_entry = "nat \<times> u64 \<times> u64 \<times> charge"

definition accepted :: "bpf_ctx \<Rightarrow> u64 \<Rightarrow> charge \<Rightarrow> sched_state \<Rightarrow> log_entry list" where
  "accepted x cg ch s =
     (if ring_room x cg s
      then [(bpf_get_smp_processor_id x, cg, bpf_ktime_get_ns x div BUCKET_NS, ch)] else [])"

definition switch_log :: "kernel \<Rightarrow> bpf_ctx \<Rightarrow> u64 \<Rightarrow> u64 \<Rightarrow> sched_state \<Rightarrow> log_entry list" where
  "switch_log K x prev nxt s =
     (let s1 = (case ended_slice K x prev s of None \<Rightarrow> s
                | Some (cg, ns) \<Rightarrow> charge_timeline x cg (charge_bucket ns) s)
      in (case ended_slice K x prev s of None \<Rightarrow> [] | Some (cg, ns) \<Rightarrow> accepted x cg (Cpu_Slice ns) s) @
         (case ended_wait K x nxt s of None \<Rightarrow> [] | Some (cg, ns) \<Rightarrow> accepted x cg (Runq_Wait ns) s1))"

text \<open>Deleting a cgroup's rings forgets its charges.\<close>

fun log_step :: "sched_op \<Rightarrow> sched_state \<Rightarrow> log_entry list \<Rightarrow> log_entry list" where
  "log_step (Switch K x preempt prev nxt) s L = L @ switch_log K x prev nxt s"
| "log_step (Delete_Timeline k) s L = filter (\<lambda>(c, cg, ep, ch). cg \<noteq> k) L"
| "log_step _ s L = L"

primrec charge_log :: "sched_op list \<Rightarrow> sched_state \<Rightarrow> log_entry list \<Rightarrow> log_entry list" where
  "charge_log [] s L = L"
| "charge_log (e # es) s L = charge_log es (sched_exec e s) (log_step e s L)"

definition window_charges :: "log_entry list \<Rightarrow> nat \<Rightarrow> u64 \<Rightarrow> u64 \<Rightarrow> charge list" where
  "window_charges L c k ep =
     map (\<lambda>(c, cg, ep, ch). ch) (filter (\<lambda>(c', cg, ep', ch). c' = c \<and> cg = k \<and> ep' = ep) L)"

definition window_of :: "log_entry list \<Rightarrow> nat \<Rightarrow> u64 \<Rightarrow> timeline" where
  "window_of L c k ep = fold bucket_add (window_charges L c k ep) (fresh_bucket ep)"

definition cpu_of :: "charge \<Rightarrow> u64" where
  "cpu_of ch = (case ch of Cpu_Slice ns \<Rightarrow> ns | Runq_Wait _ \<Rightarrow> 0)"

definition wait_of :: "charge \<Rightarrow> u64" where
  "wait_of ch = (case ch of Cpu_Slice _ \<Rightarrow> 0 | Runq_Wait ns \<Rightarrow> ns)"

lemma fold_bucket_add:
  "cpu_ns (fold bucket_add cs bkt) = cpu_ns bkt + sum_list (map cpu_of cs) \<and>
   runq_lat_ns (fold bucket_add cs bkt) = runq_lat_ns bkt + sum_list (map wait_of cs)"
proof (induction cs arbitrary: bkt)
  case Nil
  then show ?case by simp
next
  case (Cons ch cs)
  then show ?case
    by (cases ch) (simp_all add: charge_bucket_def wait_bucket_def cpu_of_def wait_of_def add.assoc)
qed

lemma window_of_sums:
  "cpu_ns (window_of L c k ep) = sum_list (map cpu_of (window_charges L c k ep))"
  "runq_lat_ns (window_of L c k ep) = sum_list (map wait_of (window_charges L c k ep))"
  by (simp_all add: window_of_def fold_bucket_add fresh_bucket_def zero_bucket_def)

lemma epoch_bucket_add [simp]: "epoch (bucket_add ch bkt) = epoch bkt"
  by (cases ch) simp_all

lemma window_of_Nil: "window_of [] c k = fresh_bucket"
  by (simp add: fun_eq_iff window_of_def window_charges_def)

lemma window_of_snoc:
  "window_of (L @ [(c', k', ep, ch)]) c k =
     (if c = c' \<and> k = k' then timeline_charge ep (bucket_add ch) (window_of L c k)
      else window_of L c k)"
  by (auto simp: fun_eq_iff window_of_def window_charges_def timeline_charge_def)

lemma window_of_delete:
  "window_of (filter (\<lambda>(c, cg, ep, ch). cg \<noteq> j) L) c k = (if k = j then fresh_bucket else window_of L c k)"
proof (cases "k = j")
  case True
  then have "window_charges (filter (\<lambda>(c, cg, ep, ch). cg \<noteq> j) L) c k ep = []" for ep
    by (auto simp: window_charges_def filter_empty_conv)
  with True show ?thesis by (simp add: fun_eq_iff window_of_def)
next
  case False
  then have "window_charges (filter (\<lambda>(c, cg, ep, ch). cg \<noteq> j) L) c k ep = window_charges L c k ep" for ep
    by (auto simp: window_charges_def intro!: arg_cong [where f = "map _"] filter_cong)
  with False show ?thesis by (simp add: fun_eq_iff window_of_def)
qed

section \<open>Every run refines its log\<close>

definition timelines_sim :: "sched_state \<Rightarrow> log_entry list \<Rightarrow> u64 \<Rightarrow> bool" where
  "timelines_sim s L lst \<longleftrightarrow> (\<forall>c k. ring_sim (ring_val s c k) (window_of L c k) lst)"

lemma timelines_sim_frame:
  "sched_timeline_map s' = sched_timeline_map s \<Longrightarrow> timelines_sim s' L lst = timelines_sim s L lst"
  by (simp add: timelines_sim_def)

lemma timelines_sim_mono: "timelines_sim s L lst \<Longrightarrow> lst \<le> lst' \<Longrightarrow> timelines_sim s L lst'"
  by (auto simp: timelines_sim_def intro: ring_sim_mono)

lemma timelines_sim_charge:
  assumes "arrays_ok s" and "timelines_sim s L lst" and "lst \<le> bpf_ktime_get_ns x div BUCKET_NS"
  shows "timelines_sim (charge_timeline x cg (bucket_add ch) s) (L @ accepted x cg ch s)
     (bpf_ktime_get_ns x div BUCKET_NS)"
proof -
  let ?ep = "bpf_ktime_get_ns x div BUCKET_NS"
  have "ring_sim (ring_val s c k) (window_of L c k) lst" for c k
    using assms(2) by (simp add: timelines_sim_def)
  from ring_sim_mono [OF this assms(3)] ring_sim_charge [OF this assms(3) epoch_bucket_add]
  have "ring_sim (ring_val s c k) (window_of L c k) ?ep"
    and "ring_sim (ring_update ?ep (bucket_add ch) (ring_val s c k))
       (timeline_charge ?ep (bucket_add ch) (window_of L c k)) ?ep" for c k
    by this+
  with assms(1) show ?thesis
    by (auto simp: timelines_sim_def accepted_def ring_acc.val_bump window_of_snoc)
qed

lemma timelines_sim_switch:
  assumes "arrays_ok s" and "timelines_sim s L lst" and "lst \<le> bpf_ktime_get_ns x div BUCKET_NS"
  shows "timelines_sim (handle_sched_switch K x preempt prev nxt s) (L @ switch_log K x prev nxt s)
     (bpf_ktime_get_ns x div BUCKET_NS)"
proof -
  let ?ep = "bpf_ktime_get_ns x div BUCKET_NS"
  define s1 where "s1 = (case ended_slice K x prev s of None \<Rightarrow> s
                | Some (cg, ns) \<Rightarrow> charge_timeline x cg (charge_bucket ns) s)"
  define L1 where "L1 = L @ (case ended_slice K x prev s of None \<Rightarrow> []
                | Some (cg, ns) \<Rightarrow> accepted x cg (Cpu_Slice ns) s)"
  have s1: "arrays_ok s1" "timelines_sim s1 L1 ?ep"
    using assms timelines_sim_mono [OF assms(2,3)] timelines_sim_charge [OF assms, of _ "Cpu_Slice _"]
    by (auto simp: s1_def L1_def arrays_ok_timeline split: option.split)
  define s2 where "s2 = (case ended_wait K x nxt s of None \<Rightarrow> s1
                | Some (cg, ns) \<Rightarrow> charge_timeline x cg (wait_bucket ns) s1)"
  have "timelines_sim s2 (L1 @ (case ended_wait K x nxt s of None \<Rightarrow> []
                | Some (cg, ns) \<Rightarrow> accepted x cg (Runq_Wait ns) s1)) ?ep"
    using s1 timelines_sim_charge [OF s1 order_refl, of _ "Runq_Wait _"]
    by (auto simp: s2_def split: option.split)
  moreover have "sched_timeline_map (handle_sched_switch K x preempt prev nxt s) = sched_timeline_map s2"
    using switch_sched_timeline_map [OF assms(1)] unfolding s2_def s1_def Let_def by simp
  note timelines_sim_frame [OF this]
  ultimately show ?thesis
    unfolding switch_log_def L1_def s1_def Let_def by simp
qed

lemma timelines_sim_exec:
  assumes "sched_wf s" and "timelines_sim s L (t div BUCKET_NS)" and "t \<le> op_clock t e"
  shows "timelines_sim (sched_exec e s) (log_step e s L) (op_clock t e div BUCKET_NS)"
proof -
  have le: "t div BUCKET_NS \<le> op_clock t e div BUCKET_NS" using assms(3) by (rule div_mono_u64)
  note mono = timelines_sim_mono [OF assms(2) le]
  show ?thesis
  proof (cases e)
    case (Switch K x preempt prev nxt)
    with assms le show ?thesis
      by (simp add: op_clock_def timelines_sim_switch sched_wf_arrays)
  next
    case (Delete_Timeline k)
    with mono show ?thesis
      by (auto simp: timelines_sim_def window_of_delete percpu_val_delete ring_sim_zero)
  qed (use mono in \<open>auto simp: handle_sched_wakeup_def handle_sched_wakeup_new_def frame_simps
      intro: timelines_sim_frame [THEN iffD2, rotated]\<close>)
qed

lemma timelines_sim_run:
  assumes "sched_wf s" and "timelines_sim s L (t div BUCKET_NS)" and "clock_ok t es"
  shows "timelines_sim (sched_run es s) (charge_log es s L) (run_clock t es div BUCKET_NS)"
  using assms by (induction es arbitrary: s L t) (auto simp: sched_wf_exec timelines_sim_exec)

lemma timelines_sim_init: "timelines_sim sched_init [] lst"
  by (simp add: timelines_sim_def sched_init_def window_of_Nil ring_sim_zero)

end
