(* ===== verification/Map_Drain.thy ===== *)
theory Map_Drain
  imports Bpf_Runtime
begin

text \<open>
  How the observers of \<^verbatim>\<open>src/internal/ebpf\<close> empty a per-CPU map: iterate over the
  entries, fold the per-CPU copies of each into one result, and delete the keys that were
  seen. The locale \<open>percpu_drain\<close> is the contract of the loop body (one result per entry,
  a field that sums a measure over the copies); what a whole drain reports follows from it
  once for all observers.
\<close>

section \<open>The pieces of a drain\<close>

text \<open>The per-CPU copies of an entry, as the iterator hands them over.\<close>

definition copies :: "nat \<Rightarrow> (nat \<Rightarrow> 'v) \<Rightarrow> 'v list" where
  "copies ncpu g = map g [0..<ncpu]"

definition delete_keys :: "'k list \<Rightarrow> ('k \<times> 'v) list \<Rightarrow> ('k \<times> 'v) list" where
  "delete_keys ks m = fold hash_delete ks m"

lemma delete_keys_filter: "delete_keys ks m = filter (\<lambda>(k, v). k \<notin> set ks) m"
  by (induction ks arbitrary: m)
    (auto simp: delete_keys_def hash_delete_def intro!: filter_cong)

lemma delete_all_keys [simp]: "delete_keys (map fst m) m = []"
  by (force simp: delete_keys_filter filter_empty_conv)

lemma percpu_val_in:
  "distinct (map fst m) \<Longrightarrow> (k, g) \<in> set m \<Longrightarrow> percpu_val z m c k = g c"
  by (simp add: percpu_val_def map_of_is_SomeI)

lemma percpu_has_in: "percpu_has m k \<longleftrightarrow> k \<in> fst ` set m"
  by (simp add: percpu_has_def map_of_eq_None_iff)

text \<open>A key that is deleted after a drain has no value left on any CPU.\<close>

lemma delete_keys_wipes:
  "k \<in> set ks \<Longrightarrow> percpu_val z (delete_keys ks m) c k = z \<and> \<not> percpu_has (delete_keys ks m) k"
proof -
  assume "k \<in> set ks"
  then have "\<not> percpu_has (delete_keys ks m) k" by (auto simp: delete_keys_filter percpu_has_in)
  then show ?thesis by (simp add: percpu_val_absent)
qed

lemma fold_add: "fold (\<lambda>v tot. tot + v) xs a = a + sum_list (xs :: u64 list)"
  by (induction xs arbitrary: a) (simp_all add: add.assoc)

section \<open>Folding histograms\<close>

text \<open>The inner loop of the histogram readers: add one CPU's slots to the sums.\<close>

definition add_slots :: "u64 list \<Rightarrow> u64 list \<Rightarrow> u64 list" where
  "add_slots acc xs = map2 (+) acc xs"

lemma length_fold_slots:
  "(\<forall>v \<in> set vs. length (sl v) = length acc) \<Longrightarrow>
     length (fold (\<lambda>v acc. add_slots acc (sl v)) vs acc) = length acc"
  by (induction vs arbitrary: acc) (auto simp: add_slots_def)

lemma nth_fold_slots:
  assumes "\<forall>v \<in> set vs. length (sl v) = length acc" and "i < length acc"
  shows "fold (\<lambda>v acc. add_slots acc (sl v)) vs acc ! i = acc ! i + (\<Sum>v \<leftarrow> vs. sl v ! i)"
  using assms
proof (induction vs arbitrary: acc)
  case Nil
  then show ?case by simp
next
  case (Cons v vs)
  then show ?case by (simp add: add_slots_def add.assoc)
qed

lemma sum_fold_slots:
  assumes "\<forall>v \<in> set vs. length (sl v) = length acc"
  shows "sum_list (fold (\<lambda>v acc. add_slots acc (sl v)) vs acc) =
     sum_list acc + (\<Sum>v \<leftarrow> vs. sum_list (sl v))"
  using assms
proof (induction vs arbitrary: acc)
  case Nil
  then show ?case by simp
next
  case (Cons v vs)
  have "sum_list (map2 (+) acc ys) = sum_list acc + sum_list ys" if "length ys = length acc"
    for ys acc :: "u64 list"
    using that by (induction ys acc rule: list_induct2) (simp_all add: algebra_simps)
  with Cons show ?case by (simp add: add_slots_def add.assoc)
qed

section \<open>The contract of a loop body\<close>

locale percpu_drain =
  fixes entries :: "nat \<Rightarrow> 'k \<times> (nat \<Rightarrow> 'v) \<Rightarrow> 'r list"
    and rkey :: "'r \<Rightarrow> 'k"
    and field :: "'r \<Rightarrow> u64"
    and mu :: "'v \<Rightarrow> u64"
    and cpus_ok :: "nat \<Rightarrow> bool"
    and vok :: "'v \<Rightarrow> bool"
  assumes entries_one: "cpus_ok n \<Longrightarrow> (\<And>c. vok (snd e c)) \<Longrightarrow>
     \<exists>r. entries n e = [r] \<and> rkey r = fst e \<and> field r = (\<Sum>c \<leftarrow> [0..<n]. mu (snd e c))"
begin

text \<open>Everything the loop reports for a map.\<close>

definition drained :: "nat \<Rightarrow> ('k, 'v) percpu_hash \<Rightarrow> 'r list" where
  "drained n m = concat (map (entries n) m)"

lemma drained_keys:
  "cpus_ok n \<Longrightarrow> \<forall>e \<in> set m. \<forall>c. vok (snd e c) \<Longrightarrow> map rkey (drained n m) = map fst m"
proof (induction m)
  case Nil
  then show ?case by (simp add: drained_def)
next
  case (Cons e m)
  obtain r where "entries n e = [r]" "rkey r = fst e"
    using entries_one [OF Cons.prems(1), of e] Cons.prems(2) by auto
  with Cons show ?case by (simp add: drained_def)
qed

lemma drained_field:
  assumes "cpus_ok n" and "\<forall>e \<in> set m. \<forall>c. vok (snd e c)" and "distinct (map fst m)"
    and "r \<in> set (drained n m)"
  shows "field r = (\<Sum>c \<leftarrow> [0..<n]. mu (percpu_val z m c (rkey r)))"
proof -
  from assms(4) obtain k g where kg: "(k, g) \<in> set m" and r: "r \<in> set (entries n (k, g))"
    by (auto simp: drained_def)
  have "rkey r = k \<and> field r = (\<Sum>c \<leftarrow> [0..<n]. mu (g c))"
    using entries_one [OF assms(1), of "(k, g)"] assms(2) kg r by fastforce
  with percpu_val_in [OF assms(3) kg] show ?thesis by simp
qed

lemma drained_total:
  assumes "cpus_ok n" and "\<forall>e \<in> set m. \<forall>c. vok (snd e c)"
  shows "sum_list (map field (drained n m)) = (\<Sum>c \<leftarrow> [0..<n]. percpu_total mu m c)"
  using assms(2)
proof (induction m)
  case Nil
  then show ?case by (simp add: drained_def percpu_total_def)
next
  case (Cons e m)
  obtain k g where e: "e = (k, g)" by (cases e)
  obtain r where "entries n e = [r]" "field r = (\<Sum>c \<leftarrow> [0..<n]. mu (g c))"
    using entries_one [OF assms(1), of e] Cons.prems e by auto
  with Cons e show ?case
    by (simp add: drained_def percpu_total_def sum_list_addf)
qed

end

end
