(* ===== verification/Sched_Observer.thy ===== *)
theory Sched_Observer
  imports Sched_Timeline Map_Drain
begin

text \<open>
  User space reads the scheduler maps, \<^verbatim>\<open>src/internal/ebpf/sched.go\<close>: \<open>Read\<close>,
  \<open>ReadCPU\<close> and \<open>ReadTimeline\<close> iterate over a map, fold the per-CPU copies of each
  entry, and delete the keys they saw. The map iterator and the clock belong to a library
  and to the kernel: the error they may end with, the clock reading and the number of
  CPUs are parameters. An iteration that ends with an error returns no result and deletes
  nothing.
\<close>

section \<open>Results\<close>

record CgroupLatency =
  lat_CgroupID :: u64
  lat_Slots :: "u64 list"
  lat_TotalUs :: u64
  lat_Count :: u64

record CgroupCPUTime =
  cpu_CgroupID :: u64
  OnCpuNs :: u64

definition TimelineBuckets :: nat where "TimelineBuckets = 64"
definition TimelineBucketNs :: u64 where "TimelineBucketNs = 100000000"

record CgroupTimeline =
  tl_CgroupID :: u64
  RunqLatNs :: "u64 list"
  RunqCount :: "u64 list"
  CpuNs :: "u64 list"
  CtxSwitch :: "u64 list"

section \<open>The three readers\<close>

definition agg_latency :: "sched_hist \<Rightarrow> CgroupLatency \<Rightarrow> CgroupLatency" where
  "agg_latency cpu agg =
     agg\<lparr>lat_Slots := add_slots (lat_Slots agg) (slots cpu),
         lat_TotalUs := lat_TotalUs agg + total_us cpu, lat_Count := lat_Count agg + count cpu\<rparr>"

definition read_latency :: "nat \<Rightarrow> u64 \<times> (nat \<Rightarrow> sched_hist) \<Rightarrow> CgroupLatency list" where
  "read_latency ncpu e =
     (case copies ncpu (snd e) of
        [] \<Rightarrow> []
      | cpu0 # rest \<Rightarrow>
          [fold agg_latency (cpu0 # rest)
             \<lparr>lat_CgroupID = fst e, lat_Slots = replicate (length (slots cpu0)) 0,
              lat_TotalUs = 0, lat_Count = 0\<rparr>])"

definition Read :: "nat \<Rightarrow> string option \<Rightarrow> sched_state \<Rightarrow>
    (string + CgroupLatency list) \<times> sched_state" where
  "Read ncpu err s =
     (case err of
        Some msg \<Rightarrow> (Inl (''iterate runq_latency_map: '' @ msg), s)
      | None \<Rightarrow>
          (let seen = (if ncpu = 0 then [] else map fst (runq_latency_map s))
           in (Inr (concat (map (read_latency ncpu) (runq_latency_map s))),
               s\<lparr>runq_latency_map := delete_keys seen (runq_latency_map s)\<rparr>)))"

definition read_cpu :: "nat \<Rightarrow> u64 \<times> (nat \<Rightarrow> u64) \<Rightarrow> CgroupCPUTime" where
  "read_cpu ncpu e =
     \<lparr>cpu_CgroupID = fst e, OnCpuNs = fold (\<lambda>v tot. tot + v) (copies ncpu (snd e)) 0\<rparr>"

text \<open>The two loops of \<open>ReadCPU\<close>: collect every entry, then delete the keys collected.\<close>

definition collect_cpu :: "nat \<Rightarrow> sched_state \<Rightarrow> CgroupCPUTime list" where
  "collect_cpu ncpu s = map (read_cpu ncpu) (cpu_time_map s)"

definition delete_cpu :: "CgroupCPUTime list \<Rightarrow> sched_state \<Rightarrow> sched_state" where
  "delete_cpu res s = s\<lparr>cpu_time_map := delete_keys (map cpu_CgroupID res) (cpu_time_map s)\<rparr>"

definition ReadCPU :: "nat \<Rightarrow> string option \<Rightarrow> sched_state \<Rightarrow>
    (string + CgroupCPUTime list) \<times> sched_state" where
  "ReadCPU ncpu err s =
     (case err of
        Some msg \<Rightarrow> (Inl (''iterate cputime_map: '' @ msg), s)
      | None \<Rightarrow> (let results = collect_cpu ncpu s in (Inr results, delete_cpu results s)))"

definition add_at :: "nat \<Rightarrow> u64 \<Rightarrow> u64 list \<Rightarrow> u64 list" where
  "add_at pos v xs = xs[pos := xs ! pos + v]"

definition bin_bucket :: "u64 \<Rightarrow> sched_bucket \<Rightarrow> CgroupTimeline \<Rightarrow> CgroupTimeline" where
  "bin_bucket refEpoch bkt tln =
     (if epoch bkt = 0 \<or> epoch bkt > refEpoch then tln
      else let age = refEpoch - epoch bkt
           in if age \<ge> of_nat TimelineBuckets then tln
              else let pos = TimelineBuckets - 1 - unat age
                   in tln\<lparr>RunqLatNs := add_at pos (runq_lat_ns bkt) (RunqLatNs tln),
                         RunqCount := add_at pos (ucast (runq_count bkt)) (RunqCount tln),
                         CpuNs := add_at pos (cpu_ns bkt) (CpuNs tln),
                         CtxSwitch := add_at pos (ucast (ctx_switches bkt)) (CtxSwitch tln)\<rparr>)"

definition read_timeline :: "nat \<Rightarrow> u64 \<Rightarrow> u64 \<times> (nat \<Rightarrow> sched_buckets) \<Rightarrow> CgroupTimeline" where
  "read_timeline ncpu refEpoch e =
     (let zeros = replicate TimelineBuckets 0
      in fold (\<lambda>cpu tln. fold (bin_bucket refEpoch) (bkts cpu) tln) (copies ncpu (snd e))
           \<lparr>tl_CgroupID = fst e, RunqLatNs = zeros, RunqCount = zeros, CpuNs = zeros,
            CtxSwitch = zeros\<rparr>)"

definition ref_epoch :: "u64 \<Rightarrow> u64 \<Rightarrow> u64" where
  "ref_epoch sec nsec = (sec * 1000000000 + nsec) div TimelineBucketNs"

definition ReadTimeline :: "nat \<Rightarrow> (string + u64 \<times> u64) \<Rightarrow> string option \<Rightarrow> sched_state \<Rightarrow>
    (string + CgroupTimeline list) \<times> sched_state" where
  "ReadTimeline ncpu clock err s =
     (case clock of
        Inl msg \<Rightarrow> (Inl (''clock_gettime: '' @ msg), s)
      | Inr (sec, nsec) \<Rightarrow>
          (case err of
             Some msg \<Rightarrow> (Inl (''iterate sched_timeline_map: '' @ msg), s)
           | None \<Rightarrow> (Inr (map (read_timeline ncpu (ref_epoch sec nsec)) (sched_timeline_map s)),
               s\<lparr>sched_timeline_map :=
                 delete_keys (map fst (sched_timeline_map s)) (sched_timeline_map s)\<rparr>)))"

section \<open>Binning by window\<close>

lemma length_bin_bucket [simp]:
  "length (RunqLatNs (bin_bucket r bkt tln)) = length (RunqLatNs tln)"
  "length (RunqCount (bin_bucket r bkt tln)) = length (RunqCount tln)"
  "length (CpuNs (bin_bucket r bkt tln)) = length (CpuNs tln)"
  "length (CtxSwitch (bin_bucket r bkt tln)) = length (CtxSwitch tln)"
  by (simp_all add: bin_bucket_def add_at_def Let_def)

text \<open>A bucket contributes to position \<open>p\<close> exactly if it holds window \<open>refEpoch - (63 - p)\<close>.\<close>

definition window_at :: "u64 \<Rightarrow> nat \<Rightarrow> u64" where
  "window_at r p = r - of_nat (TimelineBuckets - 1 - p)"

lemma window_at_hit:
  assumes "p < TimelineBuckets" and "TimelineBuckets - 1 - p < unat r"
  shows "(epoch bkt \<noteq> 0 \<and> \<not> r < epoch bkt \<and> \<not> of_nat TimelineBuckets \<le> r - epoch bkt \<and>
     TimelineBuckets - 1 - unat (r - epoch bkt) = p) \<longleftrightarrow> epoch bkt = window_at r p"
proof -
  have w: "unat (window_at r p) = unat r - (63 - p)"
    using assms by (simp add: window_at_def TimelineBuckets_def unat_sub word_le_nat_alt unat_of_nat)
  have e: "epoch bkt = window_at r p \<longleftrightarrow> unat (epoch bkt) = unat r - (63 - p)"
    unfolding w [symmetric] by (rule word_unat_eq_iff)
  show ?thesis
  proof (cases "r < epoch bkt")
    case True
    then show ?thesis using e by (auto simp: word_less_nat_alt)
  next
    case False
    then have le: "unat (epoch bkt) \<le> unat r" and sub: "unat (r - epoch bkt) = unat r - unat (epoch bkt)"
      by (simp_all add: word_less_nat_alt unat_sub word_le_nat_alt)
    have nz: "epoch bkt = 0 \<longleftrightarrow> unat (epoch bkt) = 0"
      using word_unat_eq_iff [of "epoch bkt" 0] by simp
    have big: "(of_nat TimelineBuckets \<le> r - epoch bkt) \<longleftrightarrow> 64 \<le> unat r - unat (epoch bkt)"
      using sub by (simp add: word_le_nat_alt TimelineBuckets_def)
    from False le sub nz big e assms show ?thesis
      by (auto simp: TimelineBuckets_def)
  qed
qed

text \<open>
  A series of a timeline: a field of the result, and the field of the buckets it sums. The
  four series behave alike, so the lemmas are proved once for all of them.
\<close>

definition series :: "(CgroupTimeline \<Rightarrow> u64 list) \<Rightarrow> (sched_bucket \<Rightarrow> u64) \<Rightarrow> bool" where
  "series arr fld \<longleftrightarrow> (arr, fld) \<in> {(RunqLatNs, runq_lat_ns), (RunqCount, ucast \<circ> runq_count),
     (CpuNs, cpu_ns), (CtxSwitch, ucast \<circ> ctx_switches)}"

lemma series_zero: "series arr fld \<Longrightarrow> fld (fresh_bucket ep) = 0"
  by (auto simp: series_def fresh_bucket_def zero_bucket_def)

lemma length_series [simp]: "series arr fld \<Longrightarrow> length (arr (bin_bucket r bkt tln)) = length (arr tln)"
  by (auto simp: series_def)

lemma nth_bin_bucket:
  assumes "series arr fld" and "length (arr tln) = TimelineBuckets"
    and "p < TimelineBuckets" and "TimelineBuckets - 1 - p < unat r"
  shows "arr (bin_bucket r bkt tln) ! p =
     arr tln ! p + (if epoch bkt = window_at r p then fld bkt else 0)"
  unfolding window_at_hit [OF assms(3,4), symmetric]
  using assms(1-3)
  by (auto simp: series_def bin_bucket_def add_at_def Let_def nth_list_update)

lemma nth_fold_bin:
  assumes "series arr fld" and "p < TimelineBuckets" and "TimelineBuckets - 1 - p < unat r"
  shows "length (arr tln) = TimelineBuckets \<Longrightarrow>
     length (arr (fold (bin_bucket r) bs tln)) = TimelineBuckets \<and>
     arr (fold (bin_bucket r) bs tln) ! p =
       arr tln ! p + sum_list (map (\<lambda>bkt. if epoch bkt = window_at r p then fld bkt else 0) bs)"
  using assms
  by (induction bs arbitrary: tln) (simp_all add: nth_bin_bucket add.assoc)

lemma sum_list_single:
  assumes "i < length xs" and "\<And>j. j < length xs \<Longrightarrow> j \<noteq> i \<Longrightarrow> h (xs ! j) = (0::u64)"
  shows "sum_list (map h xs) = h (xs ! i)"
proof -
  have "sum_list (map h xs) = (\<Sum>j \<in> {0..<length xs}. h (xs ! j))"
    by (simp add: sum_list_sum_nth)
  also have "\<dots> = (\<Sum>j \<in> {0..<length xs}. if j = i then h (xs ! i) else 0)"
    using assms(2) by (intro sum.cong) auto
  also have "\<dots> = h (xs ! i)" using assms(1) by simp
  finally show ?thesis .
qed

text \<open>Over one ring, the buckets of a recent window sum to the timeline at that window.\<close>

lemma ring_sim_window:
  fixes fld :: "sched_bucket \<Rightarrow> u64"
  assumes sim: "ring_sim bs A lst" and w: "w \<noteq> 0" and recent: "unat lst < unat w + NUM_BUCKETS"
    and fld: "\<And>ep. fld (fresh_bucket ep) = 0"
  shows "sum_list (map (\<lambda>bkt. if epoch bkt = w then fld bkt else 0) (bkts bs)) = fld (A w)"
proof -
  let ?i = "unat w mod NUM_BUCKETS" and ?h = "\<lambda>bkt. if epoch bkt = w then fld bkt else 0"
  have len: "length (bkts bs) = NUM_BUCKETS" and i: "?i < NUM_BUCKETS" and ep: "epoch (A w) = w"
    using sim by (simp_all add: ring_sim_def NUM_BUCKETS_def)
  have slot: "bkts bs ! j = zero_bucket \<or>
      (unat (epoch (bkts bs ! j)) mod NUM_BUCKETS = j \<and> bkts bs ! j = A (epoch (bkts bs ! j)))"
    if "j < NUM_BUCKETS" for j
    using sim that by (auto simp: ring_sim_def Let_def)
  have zero: "epoch zero_bucket \<noteq> w" using w by (simp add: zero_bucket_def)
  have "?h (bkts bs ! j) = 0" if "j < length (bkts bs)" "j \<noteq> ?i" for j
    using slot [of j] that len zero by auto
  then have "sum_list (map ?h (bkts bs)) = ?h (bkts bs ! ?i)"
    using sum_list_single [of ?i "bkts bs" ?h] len i by simp
  also have "\<dots> = fld (A w)"
  proof (cases "epoch (bkts bs ! ?i) = w")
    case True
    then have "bkts bs ! ?i = A w" using slot [OF i] zero by auto
    with True show ?thesis by simp
  next
    case False
    have "A w = fresh_bucket w"
    proof (rule ccontr)
      assume nf: "A w \<noteq> fresh_bucket w"
      then have "w \<le> lst" using sim by (auto simp: ring_sim_def not_less [symmetric])
      with sim recent nf have "bkts bs ! ?i = A w" by (auto simp: ring_sim_def)
      with False ep show False by simp
    qed
    with False fld show ?thesis by simp
  qed
  finally show ?thesis .
qed

lemma unat_window_at:
  "TimelineBuckets - 1 - p < unat r \<Longrightarrow> unat (window_at r p) = unat r - (TimelineBuckets - 1 - p)"
  by (simp add: window_at_def TimelineBuckets_def unat_sub word_le_nat_alt unat_of_nat)

lemma read_timeline_series:
  assumes "series arr fld" and "p < TimelineBuckets" and "TimelineBuckets - 1 - p < unat r"
    and "\<And>c. ring_sim (g c) (A c) lst" and "lst \<le> r"
  shows "arr (read_timeline ncpu r (k, g)) ! p = (\<Sum>c \<leftarrow> [0..<ncpu]. fld (A c (window_at r p)))"
proof -
  let ?w = "window_at r p" and ?bin = "\<lambda>cpu tln. fold (bin_bucket r) (bkts cpu) tln"
  let ?z = "\<lparr>tl_CgroupID = k, RunqLatNs = replicate TimelineBuckets 0,
      RunqCount = replicate TimelineBuckets 0, CpuNs = replicate TimelineBuckets 0,
      CtxSwitch = replicate TimelineBuckets 0\<rparr>"
  have w: "unat ?w = unat r - (TimelineBuckets - 1 - p)" using assms(3) by (rule unat_window_at)
  then have nz: "?w \<noteq> 0" using assms(3) by auto
  have "unat lst < unat ?w + NUM_BUCKETS"
    using w assms(2,3,5) by (auto simp: word_le_nat_alt NUM_BUCKETS_def TimelineBuckets_def)
  then have ring: "sum_list (map (\<lambda>bkt. if epoch bkt = ?w then fld bkt else 0) (bkts (g c))) = fld (A c ?w)"
    for c
    using ring_sim_window [OF assms(4) nz] series_zero [OF assms(1)] by blast
  have "length (arr (fold ?bin (map g cs) tln)) = TimelineBuckets \<and>
      arr (fold ?bin (map g cs) tln) ! p = arr tln ! p + (\<Sum>c \<leftarrow> cs. fld (A c ?w))"
    if "length (arr tln) = TimelineBuckets" for cs tln
    using that
    by (induction cs arbitrary: tln)
      (simp_all add: nth_fold_bin [OF assms(1-3)] ring add.assoc)
  moreover have "length (arr ?z) = TimelineBuckets" and "arr ?z ! p = 0"
    using assms(1,2) by (auto simp: series_def)
  ultimately show ?thesis
    by (simp add: read_timeline_def copies_def Let_def)
qed

section \<open>The log and the keys of the map\<close>

lemma log_keys_switch:
  assumes "arrays_ok s" and "\<forall>(c, k, ep, ch) \<in> set L. percpu_has (sched_timeline_map s) k"
  shows "\<forall>(c, k, ep, ch) \<in> set (L @ switch_log K x prev nxt s).
     percpu_has (sched_timeline_map (handle_sched_switch K x preempt prev nxt s)) k"
  using assms
  by (auto simp: switch_log_def switch_sched_timeline_map accepted_def Let_def ring_acc.holds_bump
      arrays_ok_timeline split: option.splits if_splits)

lemma log_keys_exec:
  assumes "arrays_ok s" and "\<forall>(c, k, ep, ch) \<in> set L. percpu_has (sched_timeline_map s) k"
  shows "\<forall>(c, k, ep, ch) \<in> set (log_step e s L). percpu_has (sched_timeline_map (sched_exec e s)) k"
proof (cases e)
  case (Switch K x preempt prev nxt)
  with log_keys_switch [OF assms] show ?thesis by simp
qed (use assms in \<open>auto simp: handle_sched_wakeup_def handle_sched_wakeup_new_def frame_simps bpf_simps\<close>)

lemma log_keys_run:
  assumes "sched_wf s" and "\<forall>(c, k, ep, ch) \<in> set L. percpu_has (sched_timeline_map s) k"
  shows "\<forall>(c, k, ep, ch) \<in> set (charge_log es s L). percpu_has (sched_timeline_map (sched_run es s)) k"
  using assms
proof (induction es arbitrary: s L)
  case Nil
  then show ?case by simp
next
  case (Cons e es)
  from log_keys_exec [OF sched_wf_arrays [OF Cons.prems(1)] Cons.prems(2)]
  have "\<forall>(c, k, ep, ch) \<in> set (log_step e s L). percpu_has (sched_timeline_map (sched_exec e s)) k" .
  from Cons.IH [OF sched_wf_exec [OF Cons.prems(1)] this] show ?case by simp
qed

lemma tl_CgroupID_read [simp]: "tl_CgroupID (read_timeline n r e) = fst e"
proof -
  have bin: "tl_CgroupID (bin_bucket r bkt tln) = tl_CgroupID tln" for bkt tln
    by (simp add: bin_bucket_def Let_def)
  have "tl_CgroupID (fold (bin_bucket r) bs tln) = tl_CgroupID tln" for bs tln
    by (induction bs arbitrary: tln) (simp_all add: bin)
  then have "tl_CgroupID (fold (\<lambda>cpu tln. fold (bin_bucket r) (bkts cpu) tln) cs tln) = tl_CgroupID tln"
    for tln and cs :: "sched_buckets list"
    by (induction cs arbitrary: tln) simp_all
  then show ?thesis by (simp add: read_timeline_def Let_def)
qed

lemma OnCpuNs_read: "OnCpuNs (read_cpu n e) = (\<Sum>c \<leftarrow> [0..<n]. snd e c)"
  by (simp add: read_cpu_def fold_add copies_def)

lemma cpu_CgroupID_read [simp]: "cpu_CgroupID (read_cpu n e) = fst e"
  by (simp add: read_cpu_def)

interpretation cpu_drain: percpu_drain
  "\<lambda>n e. [read_cpu n e]" cpu_CgroupID OnCpuNs "\<lambda>v. v" "\<lambda>n. True" "\<lambda>v. True"
  by unfold_locales (simp add: OnCpuNs_read)

lemma collect_cpu_drained: "collect_cpu n s = cpu_drain.drained n (cpu_time_map s)"
  by (simp add: collect_cpu_def cpu_drain.drained_def)

lemma fold_agg_latency:
  "fold agg_latency cs agg =
     \<lparr>lat_CgroupID = lat_CgroupID agg,
      lat_Slots = fold (\<lambda>v acc. add_slots acc (slots v)) cs (lat_Slots agg),
      lat_TotalUs = lat_TotalUs agg + (\<Sum>v \<leftarrow> cs. total_us v),
      lat_Count = lat_Count agg + (\<Sum>v \<leftarrow> cs. count v)\<rparr>"
  by (induction cs arbitrary: agg) (simp_all add: agg_latency_def add.assoc)

lemma read_latency_eq:
  assumes "0 < n" and "\<And>c. slots_ok (slots (snd e c))"
  shows "read_latency n e = [\<lparr>lat_CgroupID = fst e,
      lat_Slots = fold (\<lambda>v acc. add_slots acc (slots v)) (copies n (snd e)) (replicate MAX_SLOTS 0),
      lat_TotalUs = (\<Sum>c \<leftarrow> [0..<n]. total_us (snd e c)),
      lat_Count = (\<Sum>c \<leftarrow> [0..<n]. count (snd e c))\<rparr>]"
proof -
  obtain m where n: "n = Suc m" using assms(1) by (cases n) auto
  have "length (slots (snd e 0)) = MAX_SLOTS" using assms(2) by (simp add: slots_ok_def)
  then show ?thesis
    by (simp add: read_latency_def fold_agg_latency copies_def n upt_conv_Cons comp_def
        agg_latency_def del: upt_Suc)
qed

interpretation count_drain: percpu_drain
  read_latency lat_CgroupID lat_Count count "\<lambda>n. 0 < n" "\<lambda>h. slots_ok (slots h)"
  by unfold_locales (simp add: read_latency_eq)

interpretation total_drain: percpu_drain
  read_latency lat_CgroupID lat_TotalUs total_us "\<lambda>n. 0 < n" "\<lambda>h. slots_ok (slots h)"
  by unfold_locales (simp add: read_latency_eq)

interpretation slot_drain: percpu_drain
  read_latency lat_CgroupID "\<lambda>r. if i < MAX_SLOTS then lat_Slots r ! i else 0"
  "\<lambda>h. if i < MAX_SLOTS then slots h ! i else 0" "\<lambda>n. 0 < n" "\<lambda>h. slots_ok (slots h)"
  for i
  by unfold_locales (simp add: read_latency_eq nth_fold_slots copies_def slots_ok_def comp_def)

section \<open>Properties\<close>

text \<open>
  C1. End to end, the drained timeline is exact. After any run of the monitor from loading
  on, with clock readings in order, \<open>ReadTimeline\<close> at a later time returns one entry per
  cgroup with charges since its last drain; position \<open>p\<close> of an entry's series is the sum,
  over all CPUs, of exactly the charges the rings accepted for that cgroup in the 100 ms
  window \<open>refEpoch - 63 + p\<close>: nothing is missing, counted twice or put in another window,
  although ring slots are reused every 6.4 s. Afterwards the map is empty.
\<close>

theorem ReadTimeline_exact:
  assumes "clock_ok 0 es" and "s = sched_run es sched_init" and "L = charge_log es sched_init []"
    and "r = ref_epoch sec nsec" and "run_clock 0 es div BUCKET_NS \<le> r"
    and "ReadTimeline ncpu (Inr (sec, nsec)) None s = (Inr res, s')"
    and "p < TimelineBuckets" and "TimelineBuckets - 1 - p < unat r"
  shows "(\<forall>q \<in> set res.
        CpuNs q ! p = (\<Sum>c \<leftarrow> [0..<ncpu].
          sum_list (map cpu_of (window_charges L c (tl_CgroupID q) (window_at r p)))) \<and>
        RunqLatNs q ! p = (\<Sum>c \<leftarrow> [0..<ncpu].
          sum_list (map wait_of (window_charges L c (tl_CgroupID q) (window_at r p))))) \<and>
     (\<forall>(c, k, ep, ch) \<in> set L. k \<in> tl_CgroupID ` set res) \<and>
     sched_timeline_map s' = []"
proof -
  have wf: "sched_wf s"
    using sched_reach_inv [OF sched_reach_run [OF sched_reach.loaded assms(1)]] assms(2) by simp
  have sim: "timelines_sim s L (run_clock 0 es div BUCKET_NS)"
    using timelines_sim_run [OF sched_wf_init timelines_sim_init assms(1)] assms(2,3) by simp
  have res: "res = map (read_timeline ncpu r) (sched_timeline_map s)"
    and s': "sched_timeline_map s' = []"
    using assms(4,6) by (auto simp: ReadTimeline_def)
  have keys: "\<forall>(c, k, ep, ch) \<in> set L. percpu_has (sched_timeline_map s) k"
    using log_keys_run [OF sched_wf_init, of "[]" es] assms(2,3) by simp
  have exact: "CpuNs q ! p = (\<Sum>c \<leftarrow> [0..<ncpu].
          sum_list (map cpu_of (window_charges L c (tl_CgroupID q) (window_at r p)))) \<and>
        RunqLatNs q ! p = (\<Sum>c \<leftarrow> [0..<ncpu].
          sum_list (map wait_of (window_charges L c (tl_CgroupID q) (window_at r p))))"
    if "q \<in> set res" for q
  proof -
    from that res obtain k g where kg: "(k, g) \<in> set (sched_timeline_map s)"
      and q: "q = read_timeline ncpu r (k, g)" by auto
    have "distinct (map fst (sched_timeline_map s))" using wf by (simp add: sched_wf_def hash_wf_def)
    then have "ring_val s c k = g c" for c using kg by (rule percpu_val_in)
    with sim have "ring_sim (g c) (window_of L c k) (run_clock 0 es div BUCKET_NS)" for c
      by (simp add: timelines_sim_def flip: \<open>\<And>c. ring_val s c k = g c\<close>)
    note series = read_timeline_series [OF _ assms(7,8) this assms(5)]
    show ?thesis
      using series [of CpuNs cpu_ns] series [of RunqLatNs runq_lat_ns]
      by (simp add: q series_def window_of_sums)
  qed
  have "k \<in> tl_CgroupID ` set res" if "(c, k, ep, ch) \<in> set L" for c k ep ch
    using keys that by (force simp: res percpu_has_in image_image)
  with exact s' show ?thesis by fast
qed

lemma demo_log:
  "charge_log demo_ops sched_init [] = [(0, 42, 0, Runq_Wait 4000), (0, 42, 3, Cpu_Slice 299995000)]"
  by (simp add: demo_ops_def switch_log_def ended_slice_def ended_wait_def accepted_def sched_eval)

theorem ReadTimeline_exact_witness:
  "\<exists>q. fst (ReadTimeline 1 (Inr (0, 300000000)) None (sched_run demo_ops sched_init)) = Inr [q] \<and>
     tl_CgroupID q = 42 \<and> CpuNs q ! 63 = 299995000 \<and> RunqLatNs q ! 63 = 0"
proof -
  let ?s = "sched_run demo_ops sched_init"
  obtain res s' where read: "ReadTimeline 1 (Inr (0, 300000000)) None ?s = (Inr res, s')"
    by (simp add: ReadTimeline_def)
  have "map fst (sched_timeline_map ?s) = [42]"
    by (simp add: demo_ops_def sched_eval)
  moreover have "map tl_CgroupID res = map fst (sched_timeline_map ?s)"
    using read by (auto simp: ReadTimeline_def)
  ultimately obtain q where q: "res = [q]" "tl_CgroupID q = 42" by auto
  have "window_charges (charge_log demo_ops sched_init []) 0 42 (window_at 3 63) =
      [Cpu_Slice 299995000]"
    by (simp add: demo_log window_charges_def window_at_def TimelineBuckets_def)
  then show ?thesis
    using ReadTimeline_exact [OF demo_clock(1) refl refl _ _ read, of 3 63] q read
    by (simp add: ref_epoch_def TimelineBucketNs_def BUCKET_NS_def TimelineBuckets_def
        cpu_of_def wait_of_def)
qed

text \<open>
  C12. \<open>ReadCPU\<close> loses and invents no time: the nanoseconds it reports over all cgroups are
  the totals of the map over all CPUs, each cgroup is reported once with the sum of its
  per-CPU copies, and the map is empty afterwards.
\<close>

theorem ReadCPU_total:
  assumes "sched_wf s" and "ReadCPU ncpu None s = (Inr res, s')"
  shows "sum_list (map OnCpuNs res) = (\<Sum>c \<leftarrow> [0..<ncpu]. cpu_total s c) \<and>
     distinct (map cpu_CgroupID res) \<and>
     (\<forall>r \<in> set res. OnCpuNs r = (\<Sum>c \<leftarrow> [0..<ncpu]. cpu_val s c (cpu_CgroupID r))) \<and>
     cpu_time_map s' = []"
proof -
  have res: "res = cpu_drain.drained ncpu (cpu_time_map s)" and s': "s' = delete_cpu res s"
    using assms(2) by (auto simp: ReadCPU_def collect_cpu_drained Let_def)
  have dist: "distinct (map fst (cpu_time_map s))"
    using assms(1) by (simp add: sched_wf_def hash_wf_def)
  have keys: "map cpu_CgroupID res = map fst (cpu_time_map s)"
    by (simp add: res cpu_drain.drained_keys)
  moreover have "sum_list (map OnCpuNs res) = (\<Sum>c \<leftarrow> [0..<ncpu]. cpu_total s c)"
    by (simp add: res cpu_drain.drained_total cpu_total_def)
  moreover have "\<forall>r \<in> set res. OnCpuNs r = (\<Sum>c \<leftarrow> [0..<ncpu]. cpu_val s c (cpu_CgroupID r))"
    using cpu_drain.drained_field [OF _ _ dist] by (simp add: res)
  ultimately show ?thesis
    using dist by (simp add: s' delete_cpu_def)
qed

theorem ReadCPU_total_witness:
  "\<exists>res. fst (ReadCPU 2 None (sched_run demo_ops sched_init)) = Inr res \<and>
     sum_list (map OnCpuNs res) = 299995000"
proof -
  let ?s = "sched_run demo_ops sched_init"
  obtain res s' where read: "ReadCPU 2 None ?s = (Inr res, s')"
    by (simp add: ReadCPU_def Let_def)
  have "sched_wf ?s" using sched_reach_inv [OF demo_reach] by simp
  moreover have "cpu_total ?s 0 = 299995000" and "cpu_total ?s 1 = 0"
    by (simp_all add: cpu_total_def percpu_total_def hash_total_def demo_ops_def sched_eval)
  ultimately show ?thesis
    using ReadCPU_total [OF _ read] read by (simp add: upt_rec)
qed

text \<open>
  \<open>Read\<close> hands over complete histograms: every cgroup of the map once, each of the 27
  slots and the sum of waits added up over the CPUs, the slots still adding up to the
  event count, and the map is empty afterwards. If the iteration fails it returns the
  error and deletes nothing.
\<close>

theorem Read_histograms:
  assumes "sched_wf s" and "0 < ncpu" and "Read ncpu err s = (result, s')"
  shows "case err of
       Some msg \<Rightarrow> result = Inl (''iterate runq_latency_map: '' @ msg) \<and> s' = s
     | None \<Rightarrow> \<exists>res. result = Inr res \<and> map lat_CgroupID res = map fst (runq_latency_map s) \<and>
         distinct (map lat_CgroupID res) \<and> s' = s\<lparr>runq_latency_map := []\<rparr> \<and>
         (\<forall>r \<in> set res. length (lat_Slots r) = MAX_SLOTS \<and> sum_list (lat_Slots r) = lat_Count r \<and>
            (\<forall>i < MAX_SLOTS. lat_Slots r ! i =
               (\<Sum>c \<leftarrow> [0..<ncpu]. slots (hist_val s c (lat_CgroupID r)) ! i)) \<and>
            lat_TotalUs r = (\<Sum>c \<leftarrow> [0..<ncpu]. total_us (hist_val s c (lat_CgroupID r))))"
proof (cases err)
  case (Some msg)
  with assms(3) show ?thesis by (simp add: Read_def)
next
  case None
  let ?m = "runq_latency_map s"
  have dist: "distinct (map fst ?m)" using assms(1) by (simp add: sched_wf_def hash_wf_def)
  have hok: "hist_ok (g c)" if "(k, g) \<in> set ?m" for k g c
    using assms(1) percpu_val_in [OF dist that, of empty_hist c] by (metis sched_wf_def)
  then have ok: "\<forall>e \<in> set ?m. \<forall>c. slots_ok (slots (snd e c))"
    by (auto simp: hist_ok_def)
  define res where "res = concat (map (read_latency ncpu) ?m)"
  note drained = count_drain.drained_def slot_drain.drained_def total_drain.drained_def
  have keys: "map lat_CgroupID res = map fst ?m"
    using count_drain.drained_keys [OF assms(2) ok] by (simp add: res_def drained)
  have "length (lat_Slots r) = MAX_SLOTS \<and> sum_list (lat_Slots r) = lat_Count r" if "r \<in> set res" for r
  proof -
    from that obtain k g where kg: "(k, g) \<in> set ?m" "r \<in> set (read_latency ncpu (k, g))"
      by (auto simp: res_def)
    with hok assms(2) show ?thesis
      by (auto simp: read_latency_eq hist_ok_def slots_ok_def length_fold_slots sum_fold_slots
          copies_def sum_list_replicate comp_def)
  qed
  moreover have "lat_Slots r ! i = (\<Sum>c \<leftarrow> [0..<ncpu]. slots (hist_val s c (lat_CgroupID r)) ! i)"
    if "r \<in> set res" "i < MAX_SLOTS" for r i
    using slot_drain.drained_field [OF assms(2) _ dist, where i = i and r = r and z = empty_hist] ok that
    by (simp add: res_def drained)
  moreover have "lat_TotalUs r = (\<Sum>c \<leftarrow> [0..<ncpu]. total_us (hist_val s c (lat_CgroupID r)))"
    if "r \<in> set res" for r
    using total_drain.drained_field [OF assms(2) ok dist, where r = r and z = empty_hist] that
    by (simp add: res_def drained)
  moreover have "result = Inr res" and "s' = s\<lparr>runq_latency_map := []\<rparr>"
    using assms(2,3) None by (auto simp: Read_def res_def)
  ultimately show ?thesis using keys dist None by auto
qed

theorem Read_histograms_witness:
  "\<exists>r. fst (Read 2 None (sched_run demo_ops sched_init)) = Inr [r] \<and> lat_CgroupID r = 42 \<and>
     lat_TotalUs r = 4 \<and> lat_Slots r ! 2 = 1 \<and> lat_Count r = sum_list (lat_Slots r)"
proof -
  let ?s = "sched_run demo_ops sched_init"
  have wf: "sched_wf ?s" using sched_reach_inv [OF demo_reach] by simp
  have keys: "map fst (runq_latency_map ?s) = [42]"
    and vals: "total_us (hist_val ?s 0 42) = 4" "total_us (hist_val ?s 1 42) = 0"
      "slots (hist_val ?s 0 42) ! 2 = 1" "slots (hist_val ?s 1 42) ! 2 = 0"
    by (simp_all add: demo_ops_def sched_eval hist_add_def Let_def empty_hist_def cap_bucket_def
        log2_bucket_def log2_loop.simps slots_inc_def MAX_SLOTS_def)
  from Read_histograms [OF wf, of 2 None] obtain res where res: "fst (Read 2 None ?s) = Inr res"
    "map lat_CgroupID res = [42]"
    and all: "\<forall>r \<in> set res. sum_list (lat_Slots r) = lat_Count r \<and>
       lat_Slots r ! 2 = (\<Sum>c \<leftarrow> [0..<2]. slots (hist_val ?s c (lat_CgroupID r)) ! 2) \<and>
       lat_TotalUs r = (\<Sum>c \<leftarrow> [0..<2]. total_us (hist_val ?s c (lat_CgroupID r)))"
    by (cases "Read 2 None ?s") (auto simp: keys MAX_SLOTS_def)
  then obtain r where "res = [r]" "lat_CgroupID r = 42" by auto
  with res all vals show ?thesis by (simp add: upt_rec)
qed

text \<open>
  C13. The drain is not atomic. If a context switch charges a cgroup after \<open>ReadCPU\<close> has
  collected the map and before it deletes the keys, the charge is in neither interval: it
  is not in the collected result, the deletion wipes it out on every CPU, and the next
  drain does not see the cgroup at all.
\<close>

theorem drain_race_loses_charge:
  assumes "sched_wf s" and "res = collect_cpu ncpu s" and "r \<in> set res"
    and "s2 = handle_sched_switch K x preempt prev nxt s" and "s3 = delete_cpu res s2"
    and "ended_slice K x prev s = Some (cpu_CgroupID r, ns)"
    and "bpf_get_smp_processor_id x = cpu"
  shows "cpu_val s2 cpu (cpu_CgroupID r) = cpu_val s cpu (cpu_CgroupID r) + ns \<and>
     OnCpuNs r = (\<Sum>c \<leftarrow> [0..<ncpu]. cpu_val s c (cpu_CgroupID r)) \<and>
     (\<forall>c. cpu_val s3 c (cpu_CgroupID r) = 0) \<and>
     cpu_CgroupID r \<notin> cpu_CgroupID ` set (collect_cpu ncpu s3)"
proof -
  let ?k = "cpu_CgroupID r"
  from assms(2,3) obtain g where g: "(?k, g) \<in> set (cpu_time_map s)" and r: "r = read_cpu ncpu (?k, g)"
    by (auto simp: collect_cpu_def)
  have val: "cpu_val s c ?k = g c" for c
    using assms(1) g by (intro percpu_val_in) (simp_all add: sched_wf_def hash_wf_def)
  have "percpu_has (cpu_time_map s) ?k" using g by (force simp: percpu_has_in)
  then have "cpu_room x ?k s" by (rule percpu_has_room)
  then have "cpu_val s2 cpu ?k = cpu_val s cpu ?k + ns"
    using assms by (simp add: switch_cpu_val sched_wf_arrays)
  moreover have "OnCpuNs r = (\<Sum>c \<leftarrow> [0..<ncpu]. cpu_val s c ?k)"
    by (subst r) (simp add: OnCpuNs_read val)
  moreover have "\<not> percpu_has (cpu_time_map s3) ?k"
    using assms(3) by (auto simp: assms(5) delete_cpu_def delete_keys_filter percpu_has_in)
  then have "cpu_val s3 c ?k = 0" and "?k \<notin> cpu_CgroupID ` set (collect_cpu ncpu s3)" for c
    by (simp add: percpu_val_absent, force simp: percpu_has_in collect_cpu_def)
  ultimately show ?thesis by simp
qed

theorem drain_race_loses_charge_witness:
  "cpu_val (delete_cpu (collect_cpu 1 (sched_run demo_ops sched_init))
      (handle_sched_switch demo_kernel (demo_ctx 0 300001000) False 0x1000 0x5000
        (sched_run demo_ops sched_init))) 0 42 = 0 \<and>
   cpu_val (handle_sched_switch demo_kernel (demo_ctx 0 300001000) False 0x1000 0x5000
        (sched_run demo_ops sched_init)) 0 42 = 299995000 + 1000"
proof -
  let ?s = "sched_run demo_ops sched_init"
  have wf: "sched_wf ?s" using sched_reach_inv [OF demo_reach] by simp
  have keys: "map fst (cpu_time_map ?s) = [42]" and val: "cpu_val ?s 0 42 = 299995000"
    and start: "slice_start ?s 0 = 300000000"
    by (simp_all add: demo_ops_def sched_eval)
  have "map cpu_CgroupID (collect_cpu 1 ?s) = [42]"
    using keys by (simp add: collect_cpu_def comp_def)
  then obtain r where r: "r \<in> set (collect_cpu 1 ?s)" and k: "cpu_CgroupID r = 42"
    by (metis list.set_intros(1) list.set_map imageE)
  have "ended_slice demo_kernel (demo_ctx 0 300001000) 0x1000 ?s = Some (cpu_CgroupID r, 1000)"
    using start by (simp add: ended_slice_def k)
  from drain_race_loses_charge [OF wf refl r refl refl this refl] k val show ?thesis
    by simp
qed

end
