(* ===== verification/Blkio_Monitor.thy ===== *)
theory Blkio_Monitor
  imports Bpf_Runtime Log2_Histogram Demo_Kernel
begin

text \<open>
  The block I/O monitor, \<^verbatim>\<open>src/internal/ebpf/bpf/blkio_monitor.bpf.c\<close>: a request is
  stamped with its time, cgroup and size when it enters the device queue, and charged to
  that cgroup when it completes. The key of a request is its address.
\<close>

section \<open>Data\<close>

definition BIO_MAX_SLOTS :: nat where "BIO_MAX_SLOTS = 27"
definition BIO_MAX_CGROUPS :: nat where "BIO_MAX_CGROUPS = 4096"
definition MAX_INFLIGHT :: nat where "MAX_INFLIGHT = 65536"

record blkio_hist =
  bio_slots :: "u64 list"
  bio_total_us :: u64
  bio_count :: u64
  bio_bytes :: u64

record rq_start =
  rq_ts :: u64
  rq_cgroup_id :: u64
  rq_bytes :: u32

record blkio_state =
  blkio_latency_map :: "(u64, blkio_hist) percpu_hash"
  inflight_rq :: "(u64 \<times> rq_start) list"

definition empty_bio :: blkio_hist where
  "empty_bio = \<lparr>bio_slots = replicate BIO_MAX_SLOTS 0, bio_total_us = 0, bio_count = 0, bio_bytes = 0\<rparr>"

definition blkio_init :: blkio_state where
  "blkio_init = \<lparr>blkio_latency_map = [], inflight_rq = []\<rparr>"

text \<open>The file has its own copy of the bucket loop, with the same text and constant.\<close>

definition bio_log2_bucket :: "u64 \<Rightarrow> u64" where
  "bio_log2_bucket v = log2_loop v 0"

section \<open>Programs\<close>

definition handle_block_rq_insert :: "kernel \<Rightarrow> bpf_ctx \<Rightarrow> u64 \<Rightarrow> blkio_state \<Rightarrow> blkio_state" where
  "handle_block_rq_insert K x rq s =
     (let start = \<lparr>rq_ts = bpf_ktime_get_ns x, rq_cgroup_id = bpf_get_current_cgroup_id x,
            rq_bytes = core_read_u32 K rq ''request'' ''__data_len''\<rparr>;
          key = rq
      in s\<lparr>inflight_rq := snd (hash_update MAX_INFLIGHT (bpf_alloc_elem x ''inflight_rq'') BPF_ANY
            key start (inflight_rq s))\<rparr>)"

definition bio_add :: "u64 \<Rightarrow> u32 \<Rightarrow> blkio_hist \<Rightarrow> blkio_hist" where
  "bio_add delta_us nbytes hist =
     (let bucket = bio_log2_bucket delta_us;
          bucket = (if bucket \<ge> of_nat BIO_MAX_SLOTS then of_nat BIO_MAX_SLOTS - 1 else bucket)
      in hist\<lparr>bio_slots := slots_inc bucket (bio_slots hist),
           bio_total_us := bio_total_us hist + delta_us, bio_count := bio_count hist + 1,
           bio_bytes := bio_bytes hist + ucast nbytes\<rparr>)"

definition record_io :: "bpf_ctx \<Rightarrow> u64 \<Rightarrow> u64 \<times> u32 \<Rightarrow> blkio_state \<Rightarrow> blkio_state" where
  "record_io x cgroup_id d s =
     (let cpu = bpf_get_smp_processor_id x;
          add = (\<lambda>s. s\<lparr>blkio_latency_map :=
             percpu_write cpu cgroup_id (bio_add (fst d) (snd d)) (blkio_latency_map s)\<rparr>)
      in case percpu_lookup (blkio_latency_map s) cpu cgroup_id of
           Some hist \<Rightarrow> add s
         | None \<Rightarrow>
             (let s' = s\<lparr>blkio_latency_map := snd (percpu_create BIO_MAX_CGROUPS
                    (bpf_alloc_elem x ''blkio_latency_map'') empty_bio cpu cgroup_id empty_bio
                    (blkio_latency_map s))\<rparr>
              in case percpu_lookup (blkio_latency_map s') cpu cgroup_id of
                   None \<Rightarrow> s'
                 | Some hist \<Rightarrow> add s'))"

definition handle_block_rq_complete ::
  "bpf_ctx \<Rightarrow> u64 \<Rightarrow> int \<Rightarrow> u32 \<Rightarrow> blkio_state \<Rightarrow> blkio_state" where
  "handle_block_rq_complete x rq err nr_bytes s =
     (let key = rq
      in case hash_lookup (inflight_rq s) key of
           None \<Rightarrow> s
         | Some start \<Rightarrow>
             (let delta_us = (bpf_ktime_get_ns x - rq_ts start) div 1000;
                  cgroup_id = rq_cgroup_id start;
                  nbytes = rq_bytes start;
                  s1 = s\<lparr>inflight_rq := hash_delete key (inflight_rq s)\<rparr>
              in record_io x cgroup_id (delta_us, nbytes) s1))"

section \<open>Effects and contracts\<close>

abbreviation bio_room :: "bpf_ctx \<Rightarrow> u64 \<Rightarrow> blkio_state \<Rightarrow> bool" where
  "bio_room x k s \<equiv>
     hash_room BIO_MAX_CGROUPS (bpf_alloc_elem x ''blkio_latency_map'') k (blkio_latency_map s)"

abbreviation rq_room :: "bpf_ctx \<Rightarrow> u64 \<Rightarrow> blkio_state \<Rightarrow> bool" where
  "rq_room x k s \<equiv> hash_room MAX_INFLIGHT (bpf_alloc_elem x ''inflight_rq'') k (inflight_rq s)"

abbreviation bio_val :: "blkio_state \<Rightarrow> nat \<Rightarrow> u64 \<Rightarrow> blkio_hist" where
  "bio_val s \<equiv> percpu_val empty_bio (blkio_latency_map s)"

lemma record_io_eq:
  "record_io x k d s = s\<lparr>blkio_latency_map :=
     percpu_upsert BIO_MAX_CGROUPS (bpf_alloc_elem x ''blkio_latency_map'') empty_bio
       (bpf_get_smp_processor_id x) k (bio_add (fst d) (snd d)) (blkio_latency_map s)\<rparr>"
  by (simp add: record_io_def percpu_upsert_def percpu_lookup_val [where z = empty_bio] Let_def)

lemma bio_bucket_cap:
  "(if bio_log2_bucket v \<ge> of_nat BIO_MAX_SLOTS then of_nat BIO_MAX_SLOTS - 1 else bio_log2_bucket v) =
     log2_bucket v"
  using log2_bucket_le [of v]
  by (simp add: bio_log2_bucket_def log2_bucket_def BIO_MAX_SLOTS_def word_le_nat_alt)

lemma bio_add_eq:
  "bio_add d n h = h\<lparr>bio_slots := slots_inc (log2_bucket d) (bio_slots h),
     bio_total_us := bio_total_us h + d, bio_count := bio_count h + 1,
     bio_bytes := bio_bytes h + ucast n\<rparr>"
  unfolding bio_add_def Let_def bio_bucket_cap ..

interpretation bio_acc: percpu_accumulator
  record_io "\<lambda>x d. bio_add (fst d) (snd d)" bio_val bio_room
  "\<lambda>s. percpu_has (blkio_latency_map s)" "\<lambda>s. True"
  by unfold_locales (auto simp: record_io_eq bpf_simps percpu_has_room)

definition put_rq :: "bpf_ctx \<Rightarrow> u64 \<Rightarrow> rq_start \<Rightarrow> blkio_state \<Rightarrow> blkio_state" where
  "put_rq x key start s = s\<lparr>inflight_rq := snd (hash_update MAX_INFLIGHT
     (bpf_alloc_elem x ''inflight_rq'') BPF_ANY key start (inflight_rq s))\<rparr>"

definition take_rq :: "u64 \<Rightarrow> blkio_state \<Rightarrow> blkio_state" where
  "take_rq key s = s\<lparr>inflight_rq := hash_delete key (inflight_rq s)\<rparr>"

interpretation inflight: stamp_store
  "\<lambda>s. hash_lookup (inflight_rq s)" put_rq take_rq rq_room
  by unfold_locales (simp_all add: put_rq_def take_rq_def bpf_simps)

text \<open>The stamp an insertion leaves.\<close>

definition rq_stamp :: "kernel \<Rightarrow> bpf_ctx \<Rightarrow> u64 \<Rightarrow> rq_start" where
  "rq_stamp K x rq = \<lparr>rq_ts = bpf_ktime_get_ns x, rq_cgroup_id = bpf_get_current_cgroup_id x,
     rq_bytes = core_read_u32 K rq ''request'' ''__data_len''\<rparr>"

lemma rq_insert_eq: "handle_block_rq_insert K x rq s = put_rq x rq (rq_stamp K x rq) s"
  by (simp add: handle_block_rq_insert_def put_rq_def rq_stamp_def)

lemma rq_complete_eq:
  "handle_block_rq_complete x rq err nr s =
     (case hash_lookup (inflight_rq s) rq of None \<Rightarrow> s
      | Some st \<Rightarrow> record_io x (rq_cgroup_id st)
          ((bpf_ktime_get_ns x - rq_ts st) div 1000, rq_bytes st) (take_rq rq s))"
  by (simp add: handle_block_rq_complete_def take_rq_def Let_def split: option.split)

lemma frame_blkio [frame_simps]:
  "inflight_rq (record_io x k d s) = inflight_rq s"
  "blkio_latency_map (put_rq x rq st s) = blkio_latency_map s"
  "blkio_latency_map (take_rq rq s) = blkio_latency_map s"
  by (simp_all add: record_io_eq put_rq_def take_rq_def)

section \<open>Steps and invariant\<close>

datatype blkio_op =
    Rq_Insert kernel bpf_ctx u64
  | Rq_Complete bpf_ctx u64 int u32
  | Delete_Bio u64

fun blkio_exec :: "blkio_op \<Rightarrow> blkio_state \<Rightarrow> blkio_state" where
  "blkio_exec (Rq_Insert K x rq) s = handle_block_rq_insert K x rq s"
| "blkio_exec (Rq_Complete x rq err nr) s = handle_block_rq_complete x rq err nr s"
| "blkio_exec (Delete_Bio k) s = s\<lparr>blkio_latency_map := hash_delete k (blkio_latency_map s)\<rparr>"

fun blkio_clock :: "u64 \<Rightarrow> blkio_op \<Rightarrow> u64" where
  "blkio_clock t (Rq_Insert K x rq) = bpf_ktime_get_ns x"
| "blkio_clock t (Rq_Complete x rq err nr) = bpf_ktime_get_ns x"
| "blkio_clock t (Delete_Bio k) = t"

inductive blkio_reach :: "u64 \<Rightarrow> blkio_state \<Rightarrow> bool" where
  loaded: "blkio_reach 0 blkio_init"
| step: "blkio_reach t s \<Longrightarrow> t \<le> blkio_clock t e \<Longrightarrow> blkio_reach (blkio_clock t e) (blkio_exec e s)"

definition bio_ok :: "blkio_hist \<Rightarrow> bool" where
  "bio_ok h \<longleftrightarrow> slots_ok (bio_slots h) \<and> sum_list (bio_slots h) = bio_count h"

definition blkio_wf :: "blkio_state \<Rightarrow> bool" where
  "blkio_wf s \<longleftrightarrow> hash_wf BIO_MAX_CGROUPS (blkio_latency_map s) \<and> hash_wf MAX_INFLIGHT (inflight_rq s) \<and>
     (\<forall>c k. bio_ok (bio_val s c k))"

definition blkio_clock_inv :: "u64 \<Rightarrow> blkio_state \<Rightarrow> bool" where
  "blkio_clock_inv t s \<longleftrightarrow> (\<forall>q st. hash_lookup (inflight_rq s) q = Some st \<longrightarrow> rq_ts st \<le> t)"

lemma bio_ok_empty [simp]: "bio_ok empty_bio"
  by (simp add: bio_ok_def empty_bio_def sum_list_replicate slots_ok_def BIO_MAX_SLOTS_def MAX_SLOTS_def)

lemma bio_ok_add [wf_intros]: "bio_ok h \<Longrightarrow> bio_ok (bio_add d n h)"
  by (simp add: bio_ok_def bio_add_eq sum_slots_inc)

lemma blkio_wf_init: "blkio_wf blkio_init"
  by (simp add: blkio_wf_def blkio_init_def)

lemma blkio_wf_record [wf_intros]:
  assumes "blkio_wf s"
  shows "blkio_wf (record_io x k d s)"
proof -
  have "\<And>c k. bio_ok (bio_val s c k)" using assms by (simp add: blkio_wf_def)
  then have "bio_ok (bio_val (record_io x k d s) c k')" for c k'
    by (simp add: bio_acc.val_bump bio_ok_add)
  with assms show ?thesis
    by (simp add: blkio_wf_def frame_simps) (simp add: record_io_eq hash_wf_upsert)
qed

lemma blkio_wf_inflight [wf_intros]:
  "blkio_wf s \<Longrightarrow> blkio_wf (put_rq x rq st s)" "blkio_wf s \<Longrightarrow> blkio_wf (take_rq rq s)"
  by (simp_all add: blkio_wf_def put_rq_def take_rq_def hash_wf_update hash_wf_delete)

lemma blkio_wf_exec: "blkio_wf s \<Longrightarrow> blkio_wf (blkio_exec e s)"
proof (cases e)
  case (Delete_Bio k)
  then show "blkio_wf s \<Longrightarrow> ?thesis" by (simp add: blkio_wf_def hash_wf_delete percpu_val_delete)
qed (simp_all add: rq_insert_eq rq_complete_eq wf_intros split: option.split)

lemma blkio_clock_inv_exec:
  assumes "blkio_clock_inv t s" and "t \<le> blkio_clock t e"
  shows "blkio_clock_inv (blkio_clock t e) (blkio_exec e s)"
proof -
  have old: "hash_lookup (inflight_rq s) q = Some st \<Longrightarrow> rq_ts st \<le> blkio_clock t e" for q st
    using assms unfolding blkio_clock_inv_def by (meson order_trans)
  show ?thesis
  proof (cases e)
    case (Rq_Insert K x rq)
    have "hash_lookup (inflight_rq (put_rq x rq (rq_stamp K x rq) s)) q = Some st \<Longrightarrow>
        rq_ts st \<le> bpf_ktime_get_ns x" for q st
      using old Rq_Insert
      by (auto simp: inflight.get_put rq_stamp_def split: if_splits)
    with Rq_Insert show ?thesis by (simp add: blkio_clock_inv_def rq_insert_eq)
  next
    case (Rq_Complete x rq err nr)
    have "hash_lookup (inflight_rq (take_rq rq s)) q = Some st \<Longrightarrow> rq_ts st \<le> bpf_ktime_get_ns x" for q st
      using old Rq_Complete by (auto simp: inflight.get_take_out split: if_splits)
    with old Rq_Complete show ?thesis
      by (auto simp: blkio_clock_inv_def rq_complete_eq frame_simps split: option.split)
  next
    case (Delete_Bio k)
    with old show ?thesis by (simp add: blkio_clock_inv_def)
  qed
qed

lemma blkio_reach_inv: "blkio_reach t s \<Longrightarrow> blkio_wf s \<and> blkio_clock_inv t s"
proof (induction rule: blkio_reach.induct)
  case loaded
  show ?case
    by (simp add: blkio_wf_init) (simp add: blkio_clock_inv_def blkio_init_def hash_lookup_def)
next
  case (step t s e)
  then show ?case by (simp add: blkio_wf_exec blkio_clock_inv_exec)
qed

section \<open>Where the bytes are\<close>

text \<open>The bytes charged on one CPU, and the bytes of the requests in flight.\<close>

definition bytes_total :: "blkio_state \<Rightarrow> nat \<Rightarrow> u64" where
  "bytes_total s c = percpu_total bio_bytes (blkio_latency_map s) c"

definition inflight_bytes :: "blkio_state \<Rightarrow> u64" where
  "inflight_bytes s = hash_total (\<lambda>st. ucast (rq_bytes st)) (inflight_rq s)"

definition stamped_bytes :: "blkio_state \<Rightarrow> u64 \<Rightarrow> u64" where
  "stamped_bytes s rq = hash_measure (\<lambda>st. ucast (rq_bytes st)) (inflight_rq s) rq"

text \<open>
  The bytes that come in with a step (the size of a request that is stamped), and those
  that leave the maps uncounted: the old stamp of a re-inserted request, a completion the
  full map refuses, and what user space drains.
\<close>

fun bytes_in :: "blkio_op \<Rightarrow> blkio_state \<Rightarrow> u64" where
  "bytes_in (Rq_Insert K x rq) s = (if rq_room x rq s then ucast (rq_bytes (rq_stamp K x rq)) else 0)"
| "bytes_in _ s = 0"

fun bytes_out :: "nat \<Rightarrow> blkio_op \<Rightarrow> blkio_state \<Rightarrow> u64" where
  "bytes_out n (Rq_Insert K x rq) s = (if rq_room x rq s then stamped_bytes s rq else 0)"
| "bytes_out n (Rq_Complete x rq err nr) s =
     (case hash_lookup (inflight_rq s) rq of None \<Rightarrow> 0
      | Some st \<Rightarrow> if bio_room x (rq_cgroup_id st) s then 0 else stamped_bytes s rq)"
| "bytes_out n (Delete_Bio k) s = (\<Sum>c \<leftarrow> [0..<n]. bio_bytes (bio_val s c k))"

definition all_bytes :: "nat \<Rightarrow> blkio_state \<Rightarrow> u64" where
  "all_bytes n s = (\<Sum>c \<leftarrow> [0..<n]. bytes_total s c) + inflight_bytes s"

fun blkio_cpu :: "blkio_op \<Rightarrow> nat" where
  "blkio_cpu (Rq_Complete x rq err nr) = bpf_get_smp_processor_id x"
| "blkio_cpu _ = 0"

primrec blkio_run :: "blkio_op list \<Rightarrow> blkio_state \<Rightarrow> blkio_state" where
  "blkio_run [] s = s"
| "blkio_run (e # es) s = blkio_run es (blkio_exec e s)"

primrec blkio_sum :: "(blkio_op \<Rightarrow> blkio_state \<Rightarrow> u64) \<Rightarrow> blkio_op list \<Rightarrow> blkio_state \<Rightarrow> u64" where
  "blkio_sum f [] s = 0"
| "blkio_sum f (e # es) s = f e s + blkio_sum f es (blkio_exec e s)"

lemma bytes_total_record:
  assumes "blkio_wf s"
  shows "bytes_total (record_io x k d s) c =
     bytes_total s c + (if c = bpf_get_smp_processor_id x
       then if bio_room x k s then ucast (snd d) else 0 else 0)"
  using assms
  by (auto simp: bytes_total_def record_io_eq blkio_wf_def empty_bio_def
      percpu_total_upsert [where d = "ucast (snd d)"] bio_add_eq)

lemma frame_bytes [frame_simps]:
  "inflight_bytes (record_io x k d s) = inflight_bytes s"
  "bytes_total (put_rq x rq st s) c = bytes_total s c"
  "bytes_total (take_rq rq s) c = bytes_total s c"
  by (simp_all add: inflight_bytes_def bytes_total_def frame_simps)

lemma inflight_bytes_take:
  "blkio_wf s \<Longrightarrow> inflight_bytes (take_rq rq s) + stamped_bytes s rq = inflight_bytes s"
  by (simp add: inflight_bytes_def stamped_bytes_def take_rq_def hash_total_delete blkio_wf_def hash_wf_def)

lemma inflight_bytes_put:
  "blkio_wf s \<Longrightarrow> inflight_bytes (put_rq x rq st s) + (if rq_room x rq s then stamped_bytes s rq else 0) =
     inflight_bytes s + (if rq_room x rq s then ucast (rq_bytes st) else 0)"
  using hash_total_put [of "inflight_rq s" "\<lambda>st. ucast (rq_bytes st)" MAX_INFLIGHT
      "bpf_alloc_elem x ''inflight_rq''" rq st]
  by (auto simp: inflight_bytes_def stamped_bytes_def put_rq_def blkio_wf_def hash_wf_def split: if_splits)

lemma all_bytes_step:
  assumes "blkio_wf s" and "blkio_cpu e < n"
  shows "all_bytes n (blkio_exec e s) + bytes_out n e s = all_bytes n s + bytes_in e s"
proof (cases e)
  case (Rq_Insert K x rq)
  with inflight_bytes_put [OF assms(1), of x rq "rq_stamp K x rq"] show ?thesis
    by (simp add: all_bytes_def rq_insert_eq frame_simps add.assoc)
next
  case (Rq_Complete x rq err nr)
  show ?thesis
  proof (cases "hash_lookup (inflight_rq s) rq")
    case None
    with Rq_Complete show ?thesis by (simp add: rq_complete_eq)
  next
    case (Some st)
    have "stamped_bytes s rq = ucast (rq_bytes st)"
      by (simp add: stamped_bytes_def hash_measure_def Some)
    with Rq_Complete Some assms inflight_bytes_take [OF assms(1), of rq] show ?thesis
      by (simp add: all_bytes_def rq_complete_eq frame_simps bytes_total_record wf_intros
          sum_upt_single algebra_simps)
  qed
next
  case (Delete_Bio k)
  have "bytes_total (blkio_exec e s) c + bio_bytes (bio_val s c k) = bytes_total s c" for c
    using assms(1) percpu_total_delete [of "blkio_latency_map s" bio_bytes empty_bio k c] Delete_Bio
    by (simp add: bytes_total_def blkio_wf_def hash_wf_def empty_bio_def)
  then have "(\<Sum>c \<leftarrow> [0..<n]. bytes_total (blkio_exec e s) c) + bytes_out n e s =
      (\<Sum>c \<leftarrow> [0..<n]. bytes_total s c)"
    using Delete_Bio by (simp add: sum_list_addf [symmetric])
  with Delete_Bio show ?thesis
    by (simp add: all_bytes_def inflight_bytes_def algebra_simps)
qed

end
