(* ===== verification/Blkio_Accounting.thy ===== *)
theory Blkio_Accounting
  imports Blkio_Monitor Map_Drain
begin

text \<open>
  What the block I/O monitor measures, and how \<^verbatim>\<open>src/internal/ebpf/blkio.go\<close> reads it: the
  life of a request from insertion to completion, the books of its bytes over whole runs,
  and the drain \<open>BlkioObserver.Read\<close>.
\<close>

section \<open>Draining the map\<close>

record CgroupBlkio =
  bk_CgroupID :: u64
  bk_Slots :: "u64 list"
  bk_TotalUs :: u64
  bk_Count :: u64
  bk_Bytes :: u64

definition agg_blkio :: "blkio_hist \<Rightarrow> CgroupBlkio \<Rightarrow> CgroupBlkio" where
  "agg_blkio cpu agg =
     agg\<lparr>bk_Slots := add_slots (bk_Slots agg) (bio_slots cpu),
         bk_TotalUs := bk_TotalUs agg + bio_total_us cpu,
         bk_Count := bk_Count agg + bio_count cpu, bk_Bytes := bk_Bytes agg + bio_bytes cpu\<rparr>"

definition read_blkio :: "nat \<Rightarrow> u64 \<times> (nat \<Rightarrow> blkio_hist) \<Rightarrow> CgroupBlkio list" where
  "read_blkio ncpu e =
     (case copies ncpu (snd e) of
        [] \<Rightarrow> []
      | cpu0 # rest \<Rightarrow>
          [fold agg_blkio (cpu0 # rest)
             \<lparr>bk_CgroupID = fst e, bk_Slots = replicate (length (bio_slots cpu0)) 0,
              bk_TotalUs = 0, bk_Count = 0, bk_Bytes = 0\<rparr>])"

definition ReadBlkio :: "nat \<Rightarrow> string option \<Rightarrow> blkio_state \<Rightarrow>
    (string + CgroupBlkio list) \<times> blkio_state" where
  "ReadBlkio ncpu err s =
     (case err of
        Some msg \<Rightarrow> (Inl (''iterate blkio_latency_map: '' @ msg), s)
      | None \<Rightarrow>
          (let seen = (if ncpu = 0 then [] else map fst (blkio_latency_map s))
           in (Inr (concat (map (read_blkio ncpu) (blkio_latency_map s))),
               s\<lparr>blkio_latency_map := delete_keys seen (blkio_latency_map s)\<rparr>)))"

lemma fold_agg_blkio:
  "fold agg_blkio cs agg =
     \<lparr>bk_CgroupID = bk_CgroupID agg,
      bk_Slots = fold (\<lambda>v acc. add_slots acc (bio_slots v)) cs (bk_Slots agg),
      bk_TotalUs = bk_TotalUs agg + (\<Sum>v \<leftarrow> cs. bio_total_us v),
      bk_Count = bk_Count agg + (\<Sum>v \<leftarrow> cs. bio_count v),
      bk_Bytes = bk_Bytes agg + (\<Sum>v \<leftarrow> cs. bio_bytes v)\<rparr>"
  by (induction cs arbitrary: agg) (simp_all add: agg_blkio_def add.assoc)

lemma read_blkio_eq:
  assumes "0 < n" and "\<And>c. slots_ok (bio_slots (snd e c))"
  shows "read_blkio n e = [\<lparr>bk_CgroupID = fst e,
      bk_Slots = fold (\<lambda>v acc. add_slots acc (bio_slots v)) (copies n (snd e)) (replicate MAX_SLOTS 0),
      bk_TotalUs = (\<Sum>c \<leftarrow> [0..<n]. bio_total_us (snd e c)),
      bk_Count = (\<Sum>c \<leftarrow> [0..<n]. bio_count (snd e c)),
      bk_Bytes = (\<Sum>c \<leftarrow> [0..<n]. bio_bytes (snd e c))\<rparr>]"
proof -
  obtain m where n: "n = Suc m" using assms(1) by (cases n) auto
  have "length (bio_slots (snd e 0)) = MAX_SLOTS" using assms(2) by (simp add: slots_ok_def)
  then show ?thesis
    by (simp add: read_blkio_def fold_agg_blkio copies_def n upt_conv_Cons comp_def
        agg_blkio_def del: upt_Suc)
qed

interpretation bytes_drain: percpu_drain
  read_blkio bk_CgroupID bk_Bytes bio_bytes "\<lambda>n. 0 < n" "\<lambda>h. slots_ok (bio_slots h)"
  by unfold_locales (simp add: read_blkio_eq)

interpretation ops_drain: percpu_drain
  read_blkio bk_CgroupID bk_Count bio_count "\<lambda>n. 0 < n" "\<lambda>h. slots_ok (bio_slots h)"
  by unfold_locales (simp add: read_blkio_eq)

section \<open>A stamp survives the other requests\<close>

fun op_request :: "blkio_op \<Rightarrow> u64 option" where
  "op_request (Rq_Insert K x rq) = Some rq"
| "op_request (Rq_Complete x rq err nr) = Some rq"
| "op_request (Delete_Bio k) = None"

lemma stamp_kept:
  "op_request e \<noteq> Some rq \<Longrightarrow>
     hash_lookup (inflight_rq (blkio_exec e s)) rq = hash_lookup (inflight_rq s) rq"
  by (cases e) (auto simp: rq_insert_eq rq_complete_eq frame_simps inflight.get_put inflight.get_take_out
      split: option.split)

lemma stamp_kept_run:
  "\<forall>e \<in> set es. op_request e \<noteq> Some rq \<Longrightarrow>
     hash_lookup (inflight_rq (blkio_run es s)) rq = hash_lookup (inflight_rq s) rq"
  by (induction es arbitrary: s) (simp_all add: stamp_kept)

lemma blkio_wf_run: "blkio_wf s \<Longrightarrow> blkio_wf (blkio_run es s)"
  by (induction es arbitrary: s) (simp_all add: blkio_wf_exec)

lemma all_bytes_run:
  "blkio_wf s \<Longrightarrow> \<forall>e \<in> set es. blkio_cpu e < n \<Longrightarrow>
     all_bytes n (blkio_run es s) + blkio_sum (bytes_out n) es s =
     all_bytes n s + blkio_sum bytes_in es s"
proof (induction es arbitrary: s)
  case Nil
  then show ?case by simp
next
  case (Cons e es)
  have "all_bytes n (blkio_exec e s) + bytes_out n e s = all_bytes n s + bytes_in e s"
    using Cons.prems by (simp add: all_bytes_step)
  moreover have "all_bytes n (blkio_run es (blkio_exec e s)) + blkio_sum (bytes_out n) es (blkio_exec e s) =
     all_bytes n (blkio_exec e s) + blkio_sum bytes_in es (blkio_exec e s)"
    using Cons by (simp add: blkio_wf_exec)
  ultimately show ?case by (simp add: algebra_simps)
qed

section \<open>Properties\<close>

text \<open>
  C15. The life of a request. A request is inserted (there is room for its stamp), any
  steps of other requests and drains follow, and it completes, whatever its error code and
  the number of bytes the device reports. Then, on the completing CPU, the cgroup that was
  current at the insertion gains exactly one request: in the one latency slot whose range
  holds the microseconds between the two clock readings, in the latency sum and in the
  count; and its bytes grow by the length the request had when it was inserted. No other
  entry changes, and the stamp is gone, so a second completion is not counted.
\<close>

theorem request_lifecycle:
  assumes "blkio_reach t s" and "rq_room x rq s" and "\<forall>e \<in> set es. op_request e \<noteq> Some rq"
    and "s2 = blkio_run es (handle_block_rq_insert K x rq s)"
    and "bpf_ktime_get_ns x \<le> bpf_ktime_get_ns y"
    and "us = (unat (bpf_ktime_get_ns y) - unat (bpf_ktime_get_ns x)) div 1000"
    and "cg = bpf_get_current_cgroup_id x" and "bio_room y cg s2"
    and "s3 = handle_block_rq_complete y rq err nr_bytes s2"
    and "cpu = bpf_get_smp_processor_id y"
    and "h = bio_val s2 cpu cg" and "h' = bio_val s3 cpu cg"
  shows "(\<exists>i < MAX_SLOTS. (\<forall>j < MAX_SLOTS. bio_slots h' ! j = bio_slots h ! j + (if j = i then 1 else 0)) \<and>
        (0 < us \<longrightarrow> 2 ^ i \<le> us) \<and> (i < MAX_SLOTS - 1 \<longrightarrow> us < 2 ^ Suc i)) \<and>
     bio_total_us h' = bio_total_us h + of_nat us \<and> bio_count h' = bio_count h + 1 \<and>
     bio_bytes h' = bio_bytes h + ucast (core_read_u32 K rq ''request'' ''__data_len'') \<and>
     (\<forall>c k. (c, k) \<noteq> (cpu, cg) \<longrightarrow> bio_val s3 c k = bio_val s2 c k) \<and>
     hash_lookup (inflight_rq s3) rq = None \<and>
     handle_block_rq_complete z rq err' nr' s3 = s3"
proof -
  let ?d = "(bpf_ktime_get_ns y - bpf_ktime_get_ns x) div 1000"
  have wf: "blkio_wf s2"
    using blkio_reach_inv [OF assms(1)] by (simp add: assms(4) blkio_wf_run rq_insert_eq wf_intros)
  have "hash_lookup (inflight_rq s2) rq = Some (rq_stamp K x rq)"
    using assms(2,3) by (simp add: assms(4) stamp_kept_run rq_insert_eq inflight.latest_put)
  then have s3: "s3 = record_io y cg (?d, core_read_u32 K rq ''request'' ''__data_len'') (take_rq rq s2)"
    by (simp add: assms(7,9) rq_complete_eq rq_stamp_def)
  have val: "bio_val s3 c k = (if c = cpu \<and> k = cg then
      bio_add ?d (core_read_u32 K rq ''request'' ''__data_len'') (bio_val s2 c k) else bio_val s2 c k)" for c k
    using assms(8) by (simp add: s3 bio_acc.val_bump frame_simps assms(10))
  have us: "unat ?d = us"
    using assms(5,6) by (simp add: unat_div_u64 unat_sub_mono_u64)
  have ok: "slots_ok (bio_slots h)" using wf assms(11) by (simp add: blkio_wf_def bio_ok_def)
  have h': "h' = bio_add ?d (core_read_u32 K rq ''request'' ''__data_len'') h"
    using assms(11,12) val by simp
  have "hash_lookup (inflight_rq s3) rq = None"
    by (simp add: s3 frame_simps inflight.get_take_out)
  moreover from this have "handle_block_rq_complete z rq err' nr' s3 = s3"
    by (simp add: rq_complete_eq)
  moreover have "?d = of_nat us" by (simp add: us [symmetric])
  moreover have "\<exists>i < MAX_SLOTS. (\<forall>j < MAX_SLOTS. bio_slots h' ! j = bio_slots h ! j + (if j = i then 1 else 0)) \<and>
      (0 < us \<longrightarrow> 2 ^ i \<le> us) \<and> (i < MAX_SLOTS - 1 \<longrightarrow> us < 2 ^ Suc i)"
    using slots_inc_range [OF ok, of ?d] us by (simp add: h' bio_add_eq)
  ultimately show ?thesis using val by (simp add: h' bio_add_eq)
qed

definition demo_blkio_ops :: "blkio_op list" where
  "demo_blkio_ops = [Rq_Insert demo_kernel (demo_ctx 0 1000) 0x6000,
     Rq_Complete (demo_ctx 1 9000) 0x6000 0 4096]"

lemma demo_request: "core_read_u32 demo_kernel 0x6000 ''request'' ''__data_len'' = 4096"
  by code_simp

lemmas blkio_eval = blkio_init_def handle_block_rq_insert_def handle_block_rq_complete_def
  record_io_def hash_update_def hash_lookup_def hash_delete_def hash_room_def percpu_lookup_def
  percpu_create_def percpu_write_def percpu_val_def percpu_has_def MAX_INFLIGHT_def
  BIO_MAX_CGROUPS_def Let_def demo_request

theorem request_lifecycle_witness:
  "bio_count (bio_val (blkio_run demo_blkio_ops blkio_init) 1 42) = 1 \<and>
   bio_total_us (bio_val (blkio_run demo_blkio_ops blkio_init) 1 42) = 8 \<and>
   bio_bytes (bio_val (blkio_run demo_blkio_ops blkio_init) 1 42) = 4096"
proof -
  let ?s1 = "handle_block_rq_insert demo_kernel (demo_ctx 0 1000) 0x6000 blkio_init"
  have "rq_room (demo_ctx 0 1000) 0x6000 blkio_init" and "bio_room (demo_ctx 1 9000) 42 ?s1"
    and "bio_val ?s1 1 42 = empty_bio"
    by (simp_all add: blkio_eval)
  then show ?thesis
    using request_lifecycle [OF blkio_reach.loaded _ _ _ _ refl refl _ refl refl refl refl,
        of "demo_ctx 0 1000" "0x6000" "[]" ?s1 demo_kernel "demo_ctx 1 9000" 0 4096]
    by (simp add: demo_blkio_ops_def demo_request empty_bio_def)
qed

text \<open>
  C16. The books of the bytes balance. Over any run from a reachable state on \<open>n\<close> CPUs, the
  bytes charged to cgroups on all CPUs plus those of the requests in flight are what they
  were before, plus the lengths of the requests stamped, less what left the maps: the
  stamps overwritten by a re-insertion, completions a full map refused, and the entries
  drained. All sums are modulo $2^{64}$, as the counters are.
\<close>

theorem blkio_bytes_conserved:
  assumes "blkio_reach t s" and "\<forall>e \<in> set es. blkio_cpu e < n"
  shows "all_bytes n (blkio_run es s) + blkio_sum (bytes_out n) es s =
     all_bytes n s + blkio_sum bytes_in es s"
  using blkio_reach_inv [OF assms(1)] assms(2) by (simp add: all_bytes_run)

theorem blkio_bytes_conserved_witness:
  "all_bytes 2 (blkio_run demo_blkio_ops blkio_init) = 4096"
proof -
  have "blkio_sum (bytes_out 2) demo_blkio_ops blkio_init = 0"
    and "blkio_sum bytes_in demo_blkio_ops blkio_init = 4096" and "all_bytes 2 blkio_init = 0"
    by (simp_all add: demo_blkio_ops_def rq_stamp_def stamped_bytes_def hash_measure_def all_bytes_def
        bytes_total_def inflight_bytes_def percpu_total_def blkio_eval)
  then show ?thesis
    using blkio_bytes_conserved [OF blkio_reach.loaded, of demo_blkio_ops 2]
    by (simp add: demo_blkio_ops_def)
qed

text \<open>
  In every reachable state of the block I/O monitor its two maps have unique keys and
  stay within their capacities, the latency slots of every copy add up to its count, and
  no stamp is later than the clock, so that no latency wraps around.
\<close>

theorem reachable_blkio_wf:
  assumes "blkio_reach t s"
  shows "distinct (map fst (blkio_latency_map s)) \<and> length (blkio_latency_map s) \<le> 4096 \<and>
     distinct (map fst (inflight_rq s)) \<and> length (inflight_rq s) \<le> 65536 \<and>
     (\<forall>c k. length (bio_slots (bio_val s c k)) = 27 \<and>
        sum_list (bio_slots (bio_val s c k)) = bio_count (bio_val s c k)) \<and>
     (\<forall>rq st. hash_lookup (inflight_rq s) rq = Some st \<longrightarrow> rq_ts st \<le> t)"
  using blkio_reach_inv [OF assms]
  by (simp add: blkio_wf_def hash_wf_def blkio_clock_inv_def bio_ok_def slots_ok_def
      BIO_MAX_CGROUPS_def MAX_INFLIGHT_def MAX_SLOTS_def)

lemma demo_blkio_reach: "blkio_reach 9000 (blkio_run demo_blkio_ops blkio_init)"
  using blkio_reach.step [OF blkio_reach.step [OF blkio_reach.loaded,
        of "Rq_Insert demo_kernel (demo_ctx 0 1000) 0x6000"],
      of "Rq_Complete (demo_ctx 1 9000) 0x6000 0 4096"]
  by (simp add: demo_blkio_ops_def)

theorem reachable_blkio_wf_witness:
  "sum_list (bio_slots (bio_val (blkio_run demo_blkio_ops blkio_init) 1 42)) =
     bio_count (bio_val (blkio_run demo_blkio_ops blkio_init) 1 42)"
  using reachable_blkio_wf [OF demo_blkio_reach] by simp

text \<open>
  The drain of the block I/O map: with at least one CPU and no iterator error,
  \<open>Read\<close> reports every cgroup of the map once, with the bytes and the completed requests
  summed over the CPUs, so that the bytes reported over all cgroups are all the bytes of
  the map; the map is empty afterwards and the requests in flight are kept. An iterator
  error leaves everything as it was.
\<close>

theorem ReadBlkio_reports:
  assumes "blkio_wf s" and "0 < ncpu" and "ReadBlkio ncpu err s = (result, s')"
  shows "case err of
       Some msg \<Rightarrow> result = Inl (''iterate blkio_latency_map: '' @ msg) \<and> s' = s
     | None \<Rightarrow> \<exists>res. result = Inr res \<and> map bk_CgroupID res = map fst (blkio_latency_map s) \<and>
         distinct (map bk_CgroupID res) \<and> s' = s\<lparr>blkio_latency_map := []\<rparr> \<and>
         (\<forall>r \<in> set res.
            bk_Bytes r = (\<Sum>c \<leftarrow> [0..<ncpu]. bio_bytes (bio_val s c (bk_CgroupID r))) \<and>
            bk_Count r = (\<Sum>c \<leftarrow> [0..<ncpu]. bio_count (bio_val s c (bk_CgroupID r)))) \<and>
         sum_list (map bk_Bytes res) = (\<Sum>c \<leftarrow> [0..<ncpu]. bytes_total s c)"
proof (cases err)
  case (Some msg)
  with assms(3) show ?thesis by (simp add: ReadBlkio_def)
next
  case None
  let ?m = "blkio_latency_map s"
  have dist: "distinct (map fst ?m)" using assms(1) by (simp add: blkio_wf_def hash_wf_def)
  have "bio_ok (g c)" if "(k, g) \<in> set ?m" for k g c
    using assms(1) percpu_val_in [OF dist that, of empty_bio c] by (metis blkio_wf_def)
  then have ok: "\<forall>e \<in> set ?m. \<forall>c. slots_ok (bio_slots (snd e c))" by (auto simp: bio_ok_def)
  let ?res = "bytes_drain.drained ncpu ?m"
  have same: "ops_drain.drained ncpu ?m = ?res"
    by (simp add: ops_drain.drained_def bytes_drain.drained_def)
  have "result = Inr ?res" and "s' = s\<lparr>blkio_latency_map := []\<rparr>"
    using assms(2,3) None by (auto simp: ReadBlkio_def bytes_drain.drained_def)
  moreover have "bk_Bytes r = (\<Sum>c \<leftarrow> [0..<ncpu]. bio_bytes (bio_val s c (bk_CgroupID r))) \<and>
      bk_Count r = (\<Sum>c \<leftarrow> [0..<ncpu]. bio_count (bio_val s c (bk_CgroupID r)))"
    if "r \<in> set ?res" for r
    using bytes_drain.drained_field [OF assms(2) ok dist that]
      ops_drain.drained_field [OF assms(2) ok dist, of r] that same by auto
  moreover have "map bk_CgroupID ?res = map fst ?m"
    by (rule bytes_drain.drained_keys [OF assms(2) ok])
  moreover have "sum_list (map bk_Bytes ?res) = (\<Sum>c \<leftarrow> [0..<ncpu]. bytes_total s c)"
    unfolding bytes_total_def by (rule bytes_drain.drained_total [OF assms(2) ok])
  ultimately show ?thesis using None dist by auto
qed

theorem ReadBlkio_reports_witness:
  "\<exists>res. fst (ReadBlkio 2 None (blkio_run demo_blkio_ops blkio_init)) = Inr res \<and>
     sum_list (map bk_Bytes res) = 4096"
proof -
  let ?s = "blkio_run demo_blkio_ops blkio_init"
  have "blkio_wf ?s" using blkio_reach_inv [OF demo_blkio_reach] by simp
  moreover have "bytes_total ?s 0 = 0" and "bytes_total ?s 1 = 4096"
    by (simp_all add: bytes_total_def percpu_total_def demo_blkio_ops_def blkio_eval bio_add_eq
        empty_bio_def)
  ultimately show ?thesis
    using ReadBlkio_reports [of ?s 2 None] by (cases "ReadBlkio 2 None ?s") (auto simp: upt_rec)
qed

end
