(* ===== verification/Net_Monitor.thy ===== *)
theory Net_Monitor
  imports Map_Drain Demo_Kernel
begin

text \<open>
  The network monitor, \<^verbatim>\<open>src/internal/ebpf/bpf/net_monitor.bpf.c\<close>, and its reader
  \<^verbatim>\<open>src/internal/ebpf/net.go\<close>: per cgroup, TCP retransmissions, bytes handed to TCP and
  calls of \<^verbatim>\<open>tcp_sendmsg\<close>. The cgroup is that of the socket, not of the current task. The
  main result is about a whole interval: what is reported is what happened.
\<close>

section \<open>Data\<close>

definition NET_MAX_CGROUPS :: nat where "NET_MAX_CGROUPS = 4096"

record net_stats =
  retransmits :: u64
  tx_bytes :: u64
  tx_segs :: u64

record net_state =
  net_stats_map :: "(u64, net_stats) percpu_hash"

definition zero_stats :: net_stats where
  "zero_stats = \<lparr>retransmits = 0, tx_bytes = 0, tx_segs = 0\<rparr>"

definition net_init :: net_state where
  "net_init = \<lparr>net_stats_map = []\<rparr>"

section \<open>Programs\<close>

text \<open>
  \<open>get_stats\<close> returns a pointer into the map or NULL; here, whether it is not NULL. The
  pointed-to copy is the one of this CPU and key.
\<close>

definition get_stats :: "bpf_ctx \<Rightarrow> u64 \<Rightarrow> net_state \<Rightarrow> bool \<times> net_state" where
  "get_stats x cgroup_id s =
     (let cpu = bpf_get_smp_processor_id x
      in case percpu_lookup (net_stats_map s) cpu cgroup_id of
           Some p \<Rightarrow> (True, s)
         | None \<Rightarrow>
             (let s' = s\<lparr>net_stats_map := snd (percpu_create NET_MAX_CGROUPS
                    (bpf_alloc_elem x ''net_stats_map'') zero_stats cpu cgroup_id zero_stats
                    (net_stats_map s))\<rparr>
              in (percpu_lookup (net_stats_map s') cpu cgroup_id \<noteq> None, s')))"

definition sock_cgroup_id :: "kernel \<Rightarrow> u64 \<Rightarrow> u64" where
  "sock_cgroup_id K sk =
     (let cgrp = le_decode (probe_read K 8
            (sk + koff K ''sock'' ''sk_cgrp_data'' + koff K ''sock_cgroup_data'' ''cgroup''));
          kn = core_read_u64 K cgrp ''cgroup'' ''kn''
      in core_read_u64 K kn ''kernfs_node'' ''id'')"

definition handle_tcp_retransmit :: "kernel \<Rightarrow> bpf_ctx \<Rightarrow> u64 \<Rightarrow> u64 \<Rightarrow> net_state \<Rightarrow> net_state" where
  "handle_tcp_retransmit K x sk skb s =
     (let cg = sock_cgroup_id K sk; (found, s') = get_stats x cg s
      in if found then s'\<lparr>net_stats_map := percpu_write (bpf_get_smp_processor_id x) cg
             (\<lambda>p. p\<lparr>retransmits := retransmits p + 1\<rparr>) (net_stats_map s')\<rparr>
         else s')"

definition handle_tcp_sendmsg :: "kernel \<Rightarrow> bpf_ctx \<Rightarrow> u64 \<Rightarrow> u64 \<Rightarrow> u64 \<Rightarrow> net_state \<Rightarrow> net_state" where
  "handle_tcp_sendmsg K x sk msg sz s =
     (let cg = sock_cgroup_id K sk; (found, s') = get_stats x cg s
      in if found then s'\<lparr>net_stats_map := percpu_write (bpf_get_smp_processor_id x) cg
             (\<lambda>p. p\<lparr>tx_bytes := tx_bytes p + sz, tx_segs := tx_segs p + 1\<rparr>) (net_stats_map s')\<rparr>
         else s')"

section \<open>The reader\<close>

record CgroupNet =
  nt_CgroupID :: u64
  Retransmits :: u64
  TxBytes :: u64
  TxSegs :: u64

definition agg_net :: "net_stats \<Rightarrow> CgroupNet \<Rightarrow> CgroupNet" where
  "agg_net cpu st = st\<lparr>Retransmits := Retransmits st + retransmits cpu,
     TxBytes := TxBytes st + tx_bytes cpu, TxSegs := TxSegs st + tx_segs cpu\<rparr>"

definition read_net :: "nat \<Rightarrow> u64 \<times> (nat \<Rightarrow> net_stats) \<Rightarrow> CgroupNet" where
  "read_net ncpu e = fold agg_net (copies ncpu (snd e))
     \<lparr>nt_CgroupID = fst e, Retransmits = 0, TxBytes = 0, TxSegs = 0\<rparr>"

definition ReadNet :: "nat \<Rightarrow> string option \<Rightarrow> net_state \<Rightarrow> (string + CgroupNet list) \<times> net_state" where
  "ReadNet ncpu err s =
     (case err of
        Some msg \<Rightarrow> (Inl (''iterate net_stats_map: '' @ msg), s)
      | None \<Rightarrow> (Inr (map (read_net ncpu) (net_stats_map s)),
          s\<lparr>net_stats_map := delete_keys (map fst (net_stats_map s)) (net_stats_map s)\<rparr>))"

section \<open>Contracts\<close>

text \<open>An event of the network, and what it adds.\<close>

datatype net_event =
    Retransmit kernel bpf_ctx u64 u64
  | Sendmsg kernel bpf_ctx u64 u64 u64

fun net_exec :: "net_event \<Rightarrow> net_state \<Rightarrow> net_state" where
  "net_exec (Retransmit K x sk skb) s = handle_tcp_retransmit K x sk skb s"
| "net_exec (Sendmsg K x sk msg sz) s = handle_tcp_sendmsg K x sk msg sz s"

fun ev_ctx :: "net_event \<Rightarrow> bpf_ctx" where
  "ev_ctx (Retransmit K x sk skb) = x"
| "ev_ctx (Sendmsg K x sk msg sz) = x"

fun ev_cgroup :: "net_event \<Rightarrow> u64" where
  "ev_cgroup (Retransmit K x sk skb) = sock_cgroup_id K sk"
| "ev_cgroup (Sendmsg K x sk msg sz) = sock_cgroup_id K sk"

fun ev_add :: "net_event \<Rightarrow> net_stats \<Rightarrow> net_stats" where
  "ev_add (Retransmit K x sk skb) p = p\<lparr>retransmits := retransmits p + 1\<rparr>"
| "ev_add (Sendmsg K x sk msg sz) p = p\<lparr>tx_bytes := tx_bytes p + sz, tx_segs := tx_segs p + 1\<rparr>"

abbreviation ev_cpu :: "net_event \<Rightarrow> nat" where
  "ev_cpu e \<equiv> bpf_get_smp_processor_id (ev_ctx e)"

abbreviation net_room :: "bpf_ctx \<Rightarrow> u64 \<Rightarrow> net_state \<Rightarrow> bool" where
  "net_room x k s \<equiv>
     hash_room NET_MAX_CGROUPS (bpf_alloc_elem x ''net_stats_map'') k (net_stats_map s)"

abbreviation net_val :: "net_state \<Rightarrow> nat \<Rightarrow> u64 \<Rightarrow> net_stats" where
  "net_val s \<equiv> percpu_val zero_stats (net_stats_map s)"

text \<open>Both handlers find or create the entry and then add to it.\<close>

definition net_bump :: "bpf_ctx \<Rightarrow> u64 \<Rightarrow> net_event \<Rightarrow> net_state \<Rightarrow> net_state" where
  "net_bump x k e s = s\<lparr>net_stats_map :=
     percpu_upsert NET_MAX_CGROUPS (bpf_alloc_elem x ''net_stats_map'') zero_stats
       (bpf_get_smp_processor_id x) k (ev_add e) (net_stats_map s)\<rparr>"

lemma ev_add_fun:
  "ev_add (Retransmit K x sk skb) = (\<lambda>p. p\<lparr>retransmits := retransmits p + 1\<rparr>)"
  "ev_add (Sendmsg K x sk msg sz) = (\<lambda>p. p\<lparr>tx_bytes := tx_bytes p + sz, tx_segs := tx_segs p + 1\<rparr>)"
  by (rule ext, simp)+

lemma net_exec_eq: "net_exec e s = net_bump (ev_ctx e) (ev_cgroup e) e s"
  by (cases e) (auto simp: handle_tcp_retransmit_def handle_tcp_sendmsg_def get_stats_def net_bump_def
      ev_add_fun percpu_upsert_def percpu_lookup_val [where z = zero_stats] Let_def)

interpretation net_acc: percpu_accumulator
  net_bump "\<lambda>x. ev_add" net_val net_room "\<lambda>s. percpu_has (net_stats_map s)" "\<lambda>s. True"
  by unfold_locales (auto simp: net_bump_def bpf_simps percpu_has_room)

lemma fold_agg_net:
  "fold agg_net cs st = \<lparr>nt_CgroupID = nt_CgroupID st,
     Retransmits = Retransmits st + (\<Sum>v \<leftarrow> cs. retransmits v),
     TxBytes = TxBytes st + (\<Sum>v \<leftarrow> cs. tx_bytes v),
     TxSegs = TxSegs st + (\<Sum>v \<leftarrow> cs. tx_segs v)\<rparr>"
  by (induction cs arbitrary: st) (simp_all add: agg_net_def add.assoc)

lemma read_net_eq: "read_net n e = \<lparr>nt_CgroupID = fst e,
     Retransmits = (\<Sum>c \<leftarrow> [0..<n]. retransmits (snd e c)),
     TxBytes = (\<Sum>c \<leftarrow> [0..<n]. tx_bytes (snd e c)), TxSegs = (\<Sum>c \<leftarrow> [0..<n]. tx_segs (snd e c))\<rparr>"
  by (simp add: read_net_def fold_agg_net copies_def comp_def)

text \<open>The three counters behave alike: a counter of an entry, and the field that reports it.\<close>

definition counter :: "(CgroupNet \<Rightarrow> u64) \<Rightarrow> (net_stats \<Rightarrow> u64) \<Rightarrow> bool" where
  "counter fld mu \<longleftrightarrow> (fld, mu) \<in> {(Retransmits, retransmits), (TxBytes, tx_bytes), (TxSegs, tx_segs)}"

interpretation retrans_drain: percpu_drain
  "\<lambda>n e. [read_net n e]" nt_CgroupID Retransmits retransmits "\<lambda>n. True" "\<lambda>v. True"
  by unfold_locales (simp add: read_net_eq)

interpretation bytes_tx_drain: percpu_drain
  "\<lambda>n e. [read_net n e]" nt_CgroupID TxBytes tx_bytes "\<lambda>n. True" "\<lambda>v. True"
  by unfold_locales (simp add: read_net_eq)

interpretation segs_drain: percpu_drain
  "\<lambda>n e. [read_net n e]" nt_CgroupID TxSegs tx_segs "\<lambda>n. True" "\<lambda>v. True"
  by unfold_locales (simp add: read_net_eq)

section \<open>Runs\<close>

primrec net_run :: "net_event list \<Rightarrow> net_state \<Rightarrow> net_state" where
  "net_run [] s = s"
| "net_run (e # es) s = net_run es (net_exec e s)"

text \<open>What an event adds to a counter: one retransmission, or bytes and one call.\<close>

definition amount :: "(net_stats \<Rightarrow> u64) \<Rightarrow> net_event \<Rightarrow> u64" where
  "amount mu e = mu (ev_add e zero_stats)"

lemma counter_add: "counter fld mu \<Longrightarrow> mu (ev_add e p) = mu p + amount mu e"
  by (cases e) (auto simp: counter_def amount_def zero_stats_def)

lemma counter_zero: "counter fld mu \<Longrightarrow> mu zero_stats = 0"
  by (auto simp: counter_def zero_stats_def)

lemma amount_retransmits:
  "(\<Sum>e \<leftarrow> es. amount retransmits e) =
     of_nat (length [e \<leftarrow> es. case e of Retransmit _ _ _ _ \<Rightarrow> True | _ \<Rightarrow> False])"
  by (induction es) (auto simp: amount_def zero_stats_def split: net_event.split)

lemma amount_bytes:
  "(\<Sum>e \<leftarrow> es. amount tx_bytes e) = sum_list [case e of Sendmsg K x sk msg sz \<Rightarrow> sz | _ \<Rightarrow> 0. e \<leftarrow> es]"
  by (induction es) (auto simp: amount_def zero_stats_def split: net_event.split)

lemma amount_segs:
  "(\<Sum>e \<leftarrow> es. amount tx_segs e) =
     of_nat (length [e \<leftarrow> es. case e of Sendmsg _ _ _ _ _ \<Rightarrow> True | _ \<Rightarrow> False])"
  by (induction es) (auto simp: amount_def zero_stats_def split: net_event.split)

text \<open>There is room for a key as long as the keys in use and those to come fit the map.\<close>

lemma room_by_card:
  assumes "hash_wf n m" and "card (fst ` set m \<union> S) \<le> n" and "finite S" and "k \<in> S" and "a"
  shows "hash_room n a k m"
proof (cases "k \<in> fst ` set m")
  case True
  then show ?thesis by (simp add: hash_room_def map_of_eq_None_iff)
next
  case False
  have "length m = card (fst ` set m)"
    using assms(1) by (metis distinct_card hash_wf_def length_map list.set_map)
  also have "\<dots> < card (insert k (fst ` set m))" using False by (simp add: card_insert_if)
  also have "\<dots> \<le> card (fst ` set m \<union> S)" using assms(3,4) by (intro card_mono) auto
  finally show ?thesis using assms(2,5) by (simp add: hash_room_def)
qed

definition net_wf :: "net_state \<Rightarrow> bool" where
  "net_wf s \<longleftrightarrow> hash_wf NET_MAX_CGROUPS (net_stats_map s)"

lemma net_wf_exec: "net_wf s \<Longrightarrow> net_wf (net_exec e s)"
  by (simp add: net_wf_def net_exec_eq net_bump_def hash_wf_upsert)

definition net_keys :: "net_state \<Rightarrow> u64 set" where
  "net_keys s = fst ` set (net_stats_map s)"

lemma net_keys_has: "k \<in> net_keys s \<longleftrightarrow> percpu_has (net_stats_map s) k"
  by (simp add: net_keys_def percpu_has_in)

lemma net_keys_exec:
  "net_room (ev_ctx e) (ev_cgroup e) s \<Longrightarrow> net_keys (net_exec e s) = insert (ev_cgroup e) (net_keys s)"
  by (auto simp: net_keys_has net_exec_eq net_acc.holds_bump)

text \<open>No event of a run is lost while all cgroups of the interval fit the map.\<close>

lemma net_run_counts:
  assumes "net_wf s" and "\<forall>e \<in> set es. bpf_alloc_elem (ev_ctx e) ''net_stats_map''"
    and "card (net_keys s \<union> ev_cgroup ` set es) \<le> NET_MAX_CGROUPS" and "counter fld mu"
  shows "mu (net_val (net_run es s) c k) = mu (net_val s c k) +
       (\<Sum>e \<leftarrow> filter (\<lambda>e. ev_cpu e = c \<and> ev_cgroup e = k) es. amount mu e) \<and>
     net_keys (net_run es s) = net_keys s \<union> ev_cgroup ` set es \<and> net_wf (net_run es s)"
  using assms(1-3)
proof (induction es arbitrary: s)
  case Nil
  then show ?case by simp
next
  case (Cons e es)
  have room: "net_room (ev_ctx e) (ev_cgroup e) s"
    using Cons.prems by (intro room_by_card [where S = "ev_cgroup ` set (e # es)"])
      (simp_all add: net_wf_def net_keys_def)
  have val: "mu (net_val (net_exec e s) c k) = mu (net_val s c k) +
      (if ev_cpu e = c \<and> ev_cgroup e = k then amount mu e else 0)"
    using room assms(4) by (auto simp: net_exec_eq net_acc.val_bump counter_add)
  have keys: "net_keys (net_exec e s) \<union> ev_cgroup ` set es = net_keys s \<union> ev_cgroup ` set (e # es)"
    using room by (auto simp: net_keys_exec)
  have "mu (net_val (net_run es (net_exec e s)) c k) = mu (net_val (net_exec e s) c k) +
      (\<Sum>e \<leftarrow> filter (\<lambda>e. ev_cpu e = c \<and> ev_cgroup e = k) es. amount mu e) \<and>
    net_keys (net_run es (net_exec e s)) = net_keys (net_exec e s) \<union> ev_cgroup ` set es \<and>
    net_wf (net_run es (net_exec e s))"
    using Cons.prems keys by (intro Cons.IH) (simp_all add: net_wf_exec)
  with val keys show ?case by (simp add: add.assoc)
qed

text \<open>Summing per CPU and then over the CPUs is summing over all events.\<close>

lemma sum_by_cpu:
  assumes "\<forall>e \<in> set es. ev_cpu e < n"
  shows "(\<Sum>c \<leftarrow> [0..<n]. \<Sum>e \<leftarrow> filter (\<lambda>e. ev_cpu e = c \<and> P e) es. f e) =
     ((\<Sum>e \<leftarrow> filter P es. f e) :: u64)"
  using assms
proof (induction es)
  case Nil
  then show ?case by (simp add: sum_list_triv)
next
  case (Cons e es)
  have "(\<Sum>c \<leftarrow> [0..<n]. \<Sum>e \<leftarrow> filter (\<lambda>e. ev_cpu e = c \<and> P e) (e # es). f e) =
      (\<Sum>c \<leftarrow> [0..<n]. (\<Sum>e \<leftarrow> filter (\<lambda>e. ev_cpu e = c \<and> P e) es. f e) +
        (if c = ev_cpu e then if P e then f e else 0 else 0))"
    by (intro arg_cong [where f = sum_list] map_cong) (auto simp: add.commute)
  also have "\<dots> = (\<Sum>c \<leftarrow> [0..<n]. \<Sum>e \<leftarrow> filter (\<lambda>e. ev_cpu e = c \<and> P e) es. f e) +
      (if P e then f e else 0)"
    using Cons.prems by (intro sum_upt_single) simp
  finally show ?case using Cons by (simp add: add.commute)
qed

section \<open>Properties\<close>

text \<open>
  C14. An interval is reported exactly. Starting from an empty map, let any TCP events happen,
  in any order and on any of the \<open>ncpu\<close> CPUs, of at most 4096 different cgroups and with
  memory for their entries. Then \<open>Read\<close> reports exactly the cgroups that had an event, each
  once; for each, the retransmissions are the number of retransmit events of its sockets, the
  bytes are the sum of the sizes handed to \<^verbatim>\<open>tcp_sendmsg\<close>, the segments the number of
  those calls (modulo $2^{64}$); and the next interval starts from the empty map again.
\<close>

theorem net_interval_exact:
  assumes "\<forall>e \<in> set es. bpf_alloc_elem (ev_ctx e) ''net_stats_map''"
    and "\<forall>e \<in> set es. ev_cpu e < ncpu"
    and "card (ev_cgroup ` set es) \<le> 4096"
    and "of_cg = (\<lambda>k. filter (\<lambda>e. ev_cgroup e = k) es)"
  shows "\<exists>res. ReadNet ncpu None (net_run es net_init) = (Inr res, net_init) \<and>
     distinct (map nt_CgroupID res) \<and> set (map nt_CgroupID res) = ev_cgroup ` set es \<and>
     (\<forall>r \<in> set res.
        Retransmits r = of_nat (length [e \<leftarrow> of_cg (nt_CgroupID r). case e of Retransmit _ _ _ _ \<Rightarrow> True | _ \<Rightarrow> False]) \<and>
        TxBytes r = sum_list [case e of Sendmsg K x sk msg sz \<Rightarrow> sz | _ \<Rightarrow> 0. e \<leftarrow> of_cg (nt_CgroupID r)] \<and>
        TxSegs r = of_nat (length [e \<leftarrow> of_cg (nt_CgroupID r). case e of Sendmsg _ _ _ _ _ \<Rightarrow> True | _ \<Rightarrow> False]))"
proof -
  let ?s = "net_run es net_init" and ?m = "net_stats_map (net_run es net_init)"
  have run: "mu (net_val ?s c k) = (\<Sum>e \<leftarrow> filter (\<lambda>e. ev_cpu e = c \<and> ev_cgroup e = k) es. amount mu e) \<and>
      net_keys ?s = ev_cgroup ` set es \<and> net_wf ?s" if "counter fld mu" for fld mu c k
    using net_run_counts [of net_init es fld mu c k] assms(1,3) that
    by (simp add: net_init_def net_wf_def net_keys_def NET_MAX_CGROUPS_def counter_zero)
  have cs: "counter Retransmits retransmits" "counter TxBytes tx_bytes" "counter TxSegs tx_segs"
    by (simp_all add: counter_def)
  have wf: "distinct (map fst ?m)" and keys: "fst ` set ?m = ev_cgroup ` set es"
    using run [OF cs(1)] by (simp_all add: net_wf_def hash_wf_def net_keys_def)
  let ?res = "map (read_net ncpu) ?m"
  have all: "(\<Sum>c \<leftarrow> [0..<ncpu]. mu (net_val ?s c k)) = (\<Sum>e \<leftarrow> of_cg k. amount mu e)"
    if "counter fld mu" for fld mu k
    using sum_by_cpu [OF assms(2)] run [OF that] assms(4) by simp
  have drained: "retrans_drain.drained ncpu ?m = ?res" "bytes_tx_drain.drained ncpu ?m = ?res"
      "segs_drain.drained ncpu ?m = ?res"
    by (simp_all add: retrans_drain.drained_def bytes_tx_drain.drained_def segs_drain.drained_def)
  have fields: "Retransmits r = (\<Sum>e \<leftarrow> of_cg (nt_CgroupID r). amount retransmits e) \<and>
      TxBytes r = (\<Sum>e \<leftarrow> of_cg (nt_CgroupID r). amount tx_bytes e) \<and>
      TxSegs r = (\<Sum>e \<leftarrow> of_cg (nt_CgroupID r). amount tx_segs e)" if "r \<in> set ?res" for r
    using retrans_drain.drained_field [OF _ _ wf, where z = zero_stats and n = ncpu and r = r]
      bytes_tx_drain.drained_field [OF _ _ wf, where z = zero_stats and n = ncpu and r = r]
      segs_drain.drained_field [OF _ _ wf, where z = zero_stats and n = ncpu and r = r] that drained
    by (simp add: all [OF cs(1)] all [OF cs(2)] all [OF cs(3)])
  have "ReadNet ncpu None ?s = (Inr ?res, net_init)"
    by (simp add: ReadNet_def net_init_def)
  moreover have ids: "map nt_CgroupID ?res = map fst ?m" by (simp add: read_net_eq)
  have "distinct (map nt_CgroupID ?res)" "set (map nt_CgroupID ?res) = ev_cgroup ` set es"
    unfolding ids using wf keys by simp_all
  ultimately show ?thesis
    using fields unfolding amount_retransmits amount_bytes amount_segs by blast
qed

definition demo_net_events :: "net_event list" where
  "demo_net_events = [Sendmsg demo_kernel (demo_ctx 0 10) 0x7000 0 1500,
     Retransmit demo_kernel (demo_ctx 1 20) 0x7000 0, Sendmsg demo_kernel (demo_ctx 1 30) 0x7000 0 500]"

lemma demo_sock: "sock_cgroup_id demo_kernel 0x7000 = 42"
  by code_simp

theorem net_interval_exact_witness:
  "\<exists>r. ReadNet 2 None (net_run demo_net_events net_init) = (Inr [r], net_init) \<and>
     nt_CgroupID r = 42 \<and> Retransmits r = 1 \<and> TxBytes r = 2000 \<and> TxSegs r = 2"
proof -
  obtain res where res: "ReadNet 2 None (net_run demo_net_events net_init) = (Inr res, net_init)"
    and ids: "distinct (map nt_CgroupID res)" "set (map nt_CgroupID res) = {42}"
    and all: "\<forall>r \<in> set res. nt_CgroupID r = 42 \<longrightarrow> Retransmits r = 1 \<and> TxBytes r = 2000 \<and> TxSegs r = 2"
    using net_interval_exact [OF _ _ _ refl, of demo_net_events 2]
    by (auto simp: demo_net_events_def demo_sock)
  from ids obtain r where "res = [r]" "nt_CgroupID r = 42"
    by (cases res; cases "tl res") auto
  with res all show ?thesis by simp
qed

text \<open>
  A full map degrades gracefully: when all 4096 entries are taken, an event of a cgroup
  that has none leaves the whole state as it is, and an event of a cgroup that has one is
  still counted on its CPU as usual, without evicting or disturbing any other entry.
\<close>

theorem net_full_map:
  assumes "net_wf s" and "length (net_stats_map s) = 4096"
  shows "(ev_cgroup e \<notin> net_keys s \<longrightarrow> net_exec e s = s) \<and>
     (ev_cgroup e \<in> net_keys s \<longrightarrow> net_keys (net_exec e s) = net_keys s \<and>
        (\<forall>c k. net_val (net_exec e s) c k =
           (if c = ev_cpu e \<and> k = ev_cgroup e then ev_add e (net_val s c k) else net_val s c k)))"
proof (cases "ev_cgroup e \<in> net_keys s")
  case True
  then have "net_room (ev_ctx e) (ev_cgroup e) s" by (simp add: net_keys_has percpu_has_room)
  then have "net_keys (net_exec e s) = net_keys s" and
      "\<forall>c k. net_val (net_exec e s) c k =
         (if c = ev_cpu e \<and> k = ev_cgroup e then ev_add e (net_val s c k) else net_val s c k)"
    using True by (simp add: net_keys_exec insert_absorb, simp add: net_exec_eq net_acc.val_bump)
  with True show ?thesis by simp
next
  case False
  with assms(2) have "net_exec e s = s"
    by (simp add: net_exec_eq net_bump_def net_keys_has percpu_upsert_def percpu_create_def
        hash_update_def percpu_has_def NET_MAX_CGROUPS_def)
  with False show ?thesis by simp
qed

definition full_net :: net_state where
  "full_net = \<lparr>net_stats_map = map (\<lambda>i. (of_nat i + 43, \<lambda>_. zero_stats)) [0..<4096]\<rparr>"

lemma full_net_wf: "net_wf full_net" "42 \<notin> net_keys full_net" "length (net_stats_map full_net) = 4096"
proof -
  have u: "unat (of_nat i + 43 :: u64) = i + 43" if "i < 4096" for i
    using that by (simp add: unat_word_ariths unat_of_nat)
  have "inj_on (\<lambda>i. of_nat i + 43 :: u64) {0..<4096}"
    by (rule inj_onI) (use u in \<open>metis add_right_cancel atLeastLessThan_iff\<close>)
  then show "net_wf full_net"
    by (simp add: net_wf_def hash_wf_def full_net_def NET_MAX_CGROUPS_def distinct_map comp_def)
  have "(42 :: u64) \<noteq> of_nat i + 43" if "i < 4096" for i
  proof
    assume "(42 :: u64) = of_nat i + 43"
    then have "unat (42 :: u64) = i + 43" using u [OF that] by (simp only:)
    then show False by simp
  qed
  then show "42 \<notin> net_keys full_net"
    by (auto simp: net_keys_def full_net_def)
qed (simp add: full_net_def)

theorem net_full_map_witness:
  "net_exec (Retransmit demo_kernel (demo_ctx 1 20) 0x7000 0) full_net = full_net"
  using net_full_map [OF full_net_wf(1,3), of "Retransmit demo_kernel (demo_ctx 1 20) 0x7000 0"]
    full_net_wf(2) by (simp add: demo_sock)

end
