(* ===== verification/Cgroup_Monitor.thy ===== *)
theory Cgroup_Monitor
  imports Bpf_Runtime Demo_Kernel "HOL-Library.Sublist"
begin

text \<open>
  The cgroup lifecycle monitor, \<^verbatim>\<open>src/internal/ebpf/bpf/cgroup_monitor.bpf.c\<close>, and its
  reader \<^verbatim>\<open>src/internal/ebpf/cgroup.go\<close>. Every creation and removal of a cgroup directory is
  written into a ring buffer as a 272-byte record, which user space decodes. The ring
  buffer belongs to the kernel: the memory it hands out for a record, with whatever it
  holds, or nothing when the ring is full, is the parameter \<open>reserve\<close> of the programs. The
  locale \<open>event_channel\<close> is the contract of an ordered, lossy-at-the-entrance channel.
\<close>

section \<open>Data\<close>

definition EVENT_PATH_LEN :: nat where "EVENT_PATH_LEN = 256"
definition CGROUP_OP_MKDIR :: u32 where "CGROUP_OP_MKDIR = 0"
definition CGROUP_OP_RMDIR :: u32 where "CGROUP_OP_RMDIR = 1"

text \<open>
  The layout of \<^verbatim>\<open>struct cgroup_event\<close>: the id at offset 0, the operation at 8, the path
  at 12, and four bytes of padding that bring the size to a multiple of 8.
\<close>

definition EV_OP_OFF :: nat where "EV_OP_OFF = 8"
definition EV_PATH_OFF :: nat where "EV_PATH_OFF = 12"
definition EV_SIZE :: nat where "EV_SIZE = 272"

text \<open>The submitted records that user space has not read yet, oldest first.\<close>

record cgroup_state =
  cgroup_events :: "u8 list list"

definition cgroup_init :: cgroup_state where
  "cgroup_init = \<lparr>cgroup_events = []\<rparr>"

text \<open>Memory for a record of the given size, or \<open>None\<close> when the ring is full.\<close>

type_synonym reserve_fn = "u8 list list \<Rightarrow> nat \<Rightarrow> u8 list option"

section \<open>Strings of kernel memory\<close>

text \<open>
  \<^verbatim>\<open>bpf_probe_read_kernel_str\<close> reads bytes up to the first NUL, at most as many as the
  destination holds. The last byte stored is always NUL, so a longer string is cut; bytes
  of the destination behind the NUL keep their old contents; a fault zeroes it.
\<close>

fun kstr :: "kernel \<Rightarrow> nat \<Rightarrow> u64 \<Rightarrow> u8 list option" where
  "kstr K 0 p = Some []"
| "kstr K (Suc n) p =
     (case kmem K p of
        None \<Rightarrow> None
      | Some ch \<Rightarrow> if ch = 0 then Some [] else map_option ((#) ch) (kstr K n (p + 1)))"

definition probe_read_kernel_str :: "kernel \<Rightarrow> nat \<Rightarrow> u64 \<Rightarrow> u8 list \<Rightarrow> u8 list" where
  "probe_read_kernel_str K n p dst =
     (case kstr K n p of
        None \<Rightarrow> replicate n 0
      | Some str \<Rightarrow> (let str' = take (n - 1) str in str' @ 0 # drop (Suc (length str')) dst))"

text \<open>A store of some bytes into a record.\<close>

definition store :: "nat \<Rightarrow> u8 list \<Rightarrow> u8 list \<Rightarrow> u8 list" where
  "store off bs mem = take off mem @ bs @ drop (off + length bs) mem"

section \<open>Programs\<close>

definition emit :: "kernel \<Rightarrow> reserve_fn \<Rightarrow> u64 \<Rightarrow> u32 \<Rightarrow> u64 \<Rightarrow> cgroup_state \<Rightarrow> cgroup_state" where
  "emit K reserve cgroup_id opc path s =
     (case reserve (cgroup_events s) EV_SIZE of
        None \<Rightarrow> s
      | Some e \<Rightarrow>
          (let e = store 0 (le_encode 8 cgroup_id) e;
               e = store EV_OP_OFF (le_encode 4 opc) e;
               e = store EV_PATH_OFF (probe_read_kernel_str K EVENT_PATH_LEN path
                     (take EVENT_PATH_LEN (drop EV_PATH_OFF e))) e
           in s\<lparr>cgroup_events := cgroup_events s @ [e]\<rparr>))"

definition cgroup_kn_id :: "kernel \<Rightarrow> u64 \<Rightarrow> u64" where
  "cgroup_kn_id K cgrp = core_read_u64 K (core_read_u64 K cgrp ''cgroup'' ''kn'') ''kernfs_node'' ''id''"

definition handle_cgroup_mkdir :: "kernel \<Rightarrow> reserve_fn \<Rightarrow> u64 \<Rightarrow> u64 \<Rightarrow> cgroup_state \<Rightarrow> cgroup_state" where
  "handle_cgroup_mkdir K reserve cgrp path s =
     emit K reserve (cgroup_kn_id K cgrp) CGROUP_OP_MKDIR path s"

definition handle_cgroup_rmdir :: "kernel \<Rightarrow> reserve_fn \<Rightarrow> u64 \<Rightarrow> u64 \<Rightarrow> cgroup_state \<Rightarrow> cgroup_state" where
  "handle_cgroup_rmdir K reserve cgrp path s =
     emit K reserve (cgroup_kn_id K cgrp) CGROUP_OP_RMDIR path s"

section \<open>The reader\<close>

record CgroupEvent =
  ce_CgroupID :: u64
  ce_Op :: u32
  ce_Path :: "u8 list"

fun cString :: "u8 list \<Rightarrow> u8 list" where
  "cString [] = []"
| "cString (ch # cs) = (if ch = 0 then [] else ch # cString cs)"

definition decode_event :: "u8 list \<Rightarrow> string + CgroupEvent" where
  "decode_event raw =
     (if length raw < EV_SIZE
      then Inl (''decode cgroup event: '' @ (if raw = [] then ''EOF'' else ''unexpected EOF''))
      else Inr \<lparr>ce_CgroupID = le_decode (take 8 raw),
             ce_Op = le_decode (take 4 (drop EV_OP_OFF raw)),
             ce_Path = cString (take EVENT_PATH_LEN (drop EV_PATH_OFF raw))\<rparr>)"

text \<open>
  \<open>Read\<close> takes the oldest record. It returns the reader's error once the reader is closed,
  and blocks (\<open>None\<close>) while the ring is empty.
\<close>

definition ReadEvent :: "string option \<Rightarrow> cgroup_state \<Rightarrow> ((string + CgroupEvent) \<times> cgroup_state) option" where
  "ReadEvent closed s =
     (case closed of
        Some err \<Rightarrow> Some (Inl err, s)
      | None \<Rightarrow>
          (case cgroup_events s of
             [] \<Rightarrow> None
           | rec # rest \<Rightarrow> Some (decode_event rec, s\<lparr>cgroup_events := rest\<rparr>)))"

section \<open>The record round trip\<close>

lemma cString_nonzero: "0 \<notin> set cs \<Longrightarrow> cString (cs @ 0 # rest) = cs"
  by (induction cs) auto

lemma cString_zeros: "cString (replicate n 0) = []"
  by (cases n) simp_all

lemma kstr_nonzero: "kstr K n p = Some str \<Longrightarrow> 0 \<notin> set str \<and> length str \<le> n"
  by (induction K n p arbitrary: str rule: kstr.induct) (fastforce split: option.splits if_splits)+

lemma length_probe_read_kernel_str:
  "0 < n \<Longrightarrow> length dst = n \<Longrightarrow> length (probe_read_kernel_str K n p dst) = n"
  by (auto simp: probe_read_kernel_str_def Let_def split: option.split dest!: kstr_nonzero)

text \<open>The path a reader is meant to see.\<close>

definition event_path :: "kernel \<Rightarrow> u64 \<Rightarrow> u8 list" where
  "event_path K p = (case kstr K EVENT_PATH_LEN p of None \<Rightarrow> [] | Some str \<Rightarrow> take (EVENT_PATH_LEN - 1) str)"

lemma cString_probe_read:
  "cString (probe_read_kernel_str K EVENT_PATH_LEN p dst) = event_path K p"
proof (cases "kstr K EVENT_PATH_LEN p")
  case None
  then show ?thesis by (simp add: probe_read_kernel_str_def event_path_def cString_zeros)
next
  case (Some str)
  then have "0 \<notin> set (take (EVENT_PATH_LEN - 1) str)"
    using kstr_nonzero [OF Some] by (meson in_set_takeD)
  then show ?thesis
    by (simp add: probe_read_kernel_str_def event_path_def Some Let_def cString_nonzero)
qed

lemma length_store [simp]: "off + length bs \<le> length mem \<Longrightarrow> length (store off bs mem) = length mem"
  by (simp add: store_def)

text \<open>Reading back a stored field, and reading a field the store does not overlap.\<close>

lemma read_store [simp]:
  "off + length bs \<le> length mem \<Longrightarrow> n = length bs \<Longrightarrow> take n (drop off (store off bs mem)) = bs"
  by (simp add: store_def)

lemma read_store_before [simp]:
  "off' + n \<le> off \<Longrightarrow> off \<le> length mem \<Longrightarrow>
     take n (drop off' (store off bs mem)) = take n (drop off' mem)"
  by (simp add: store_def take_drop min_def)

lemma take_store [simp]:
  "n = length bs \<Longrightarrow> take n (store 0 bs mem) = bs"
  "n \<le> off \<Longrightarrow> off \<le> length mem \<Longrightarrow> take n (store off bs mem) = take n mem"
  by (simp_all add: store_def min_def)

lemma decode_encode:
  assumes "length mem = EV_SIZE" and "length path = EVENT_PATH_LEN"
  shows "decode_event (store EV_PATH_OFF path (store EV_OP_OFF (le_encode 4 opc)
       (store 0 (le_encode 8 cg) mem))) =
     Inr \<lparr>ce_CgroupID = cg, ce_Op = opc, ce_Path = cString path\<rparr>"
proof -
  let ?e = "store EV_PATH_OFF path (store EV_OP_OFF (le_encode 4 opc) (store 0 (le_encode 8 cg) mem))"
  note layout = EV_SIZE_def EVENT_PATH_LEN_def EV_PATH_OFF_def EV_OP_OFF_def
  have "take 8 ?e = le_encode 8 cg"
    using assms by (simp add: layout)
  moreover have "take 4 (drop EV_OP_OFF ?e) = le_encode 4 opc"
    using assms by (simp add: layout)
  moreover have "take EVENT_PATH_LEN (drop EV_PATH_OFF ?e) = path" and "length ?e = EV_SIZE"
    using assms by (simp_all add: layout)
  ultimately show ?thesis by (simp add: decode_event_def)
qed

text \<open>What \<open>emit\<close> submits decodes to the event, whatever the reserved memory held before.\<close>

lemma emit_decodes:
  assumes "reserve (cgroup_events s) EV_SIZE = Some mem" and "length mem = EV_SIZE"
  shows "map decode_event (cgroup_events (emit K reserve cg opc path s)) =
     map decode_event (cgroup_events s) @
       [Inr \<lparr>ce_CgroupID = cg, ce_Op = opc, ce_Path = event_path K path\<rparr>]"
proof -
  let ?e = "store EV_OP_OFF (le_encode 4 opc) (store 0 (le_encode 8 cg) mem)"
  have "length (probe_read_kernel_str K EVENT_PATH_LEN path
      (take EVENT_PATH_LEN (drop EV_PATH_OFF ?e))) = EVENT_PATH_LEN"
    using assms(2) by (intro length_probe_read_kernel_str)
      (simp_all add: EV_SIZE_def EVENT_PATH_LEN_def EV_PATH_OFF_def EV_OP_OFF_def)
  from decode_encode [OF assms(2) this, of opc cg] show ?thesis
    by (simp add: emit_def assms(1) cString_probe_read Let_def)
qed

section \<open>The channel\<close>

text \<open>
  A run of producers (\<open>Some e\<close>) and of the consumer (\<open>None\<close>) over a channel: the final state,
  what was accepted and what was received. A consumer that would block does nothing.
\<close>

fun channel_run :: "('e \<Rightarrow> 's \<Rightarrow> 's) \<Rightarrow> ('s \<Rightarrow> ('r \<times> 's) option) \<Rightarrow> ('e \<Rightarrow> 's \<Rightarrow> bool) \<Rightarrow> ('e \<Rightarrow> 'r) \<Rightarrow>
    'e option list \<Rightarrow> 's \<Rightarrow> 's \<times> 'r list \<times> 'r list" where
  "channel_run push pop accepts what [] s = (s, [], [])"
| "channel_run push pop accepts what (Some e # es) s =
     (let (s', acc, got) = channel_run push pop accepts what es (push e s)
      in (s', (if accepts e s then [what e] else []) @ acc, got))"
| "channel_run push pop accepts what (None # es) s =
     (case pop s of
        None \<Rightarrow> channel_run push pop accepts what es s
      | Some (r, t) \<Rightarrow>
          (let (s', acc, got) = channel_run push pop accepts what es t in (s', acc, r # got)))"

text \<open>The events of the producers of a run.\<close>

fun sent :: "'e option list \<Rightarrow> 'e list" where
  "sent [] = []"
| "sent (Some e # es) = e # sent es"
| "sent (None # es) = sent es"

locale event_channel =
  fixes push :: "'e \<Rightarrow> 's \<Rightarrow> 's"
    and pop :: "'s \<Rightarrow> ('r \<times> 's) option"
    and accepts :: "'e \<Rightarrow> 's \<Rightarrow> bool"
    and pending :: "'s \<Rightarrow> 'r list"
    and what :: "'e \<Rightarrow> 'r"
    and valid :: "'e \<Rightarrow> bool"
  assumes pending_push:
      "valid e \<Longrightarrow> pending (push e s) = pending s @ (if accepts e s then [what e] else [])"
    and pop_empty: "pop s = None \<longleftrightarrow> pending s = []"
    and pop_first: "pop s = Some (r, s') \<Longrightarrow> pending s = r # pending s'"
begin

lemma in_order:
  "\<forall>e. Some e \<in> set es \<longrightarrow> valid e \<Longrightarrow>
     channel_run push pop accepts what es s = (s', acc, got) \<Longrightarrow> pending s @ acc = got @ pending s'"
proof (induction es arbitrary: s s' acc got)
  case (Cons o' es)
  then show ?case
  proof (cases o')
    case None
    with Cons show ?thesis
      by (fastforce simp: pop_first Let_def split: option.splits prod.splits)
  next
    case (Some e)
    with Cons.prems obtain acc' where run: "channel_run push pop accepts what es (push e s) = (s', acc', got)"
      and acc: "acc = (if accepts e s then [what e] else []) @ acc'" and valid: "valid e"
      by (auto simp: Let_def split: prod.splits)
    from Cons.IH [OF _ run] Cons.prems(1) have "pending (push e s) @ acc' = got @ pending s'" by simp
    then show ?thesis by (simp add: pending_push [OF valid] acc)
  qed
qed simp

text \<open>The consumer receives as many events as it asks for, unless the channel is empty.\<close>

lemma pop_some: "pending s \<noteq> [] \<Longrightarrow> \<exists>s'. pop s = Some (hd (pending s), s')"
  using pop_empty [of s] pop_first [of s] by (cases "pop s") auto

end

text \<open>
  A cgroup event as the tracepoints deliver it: the kernel, the ring buffer's answer to the
  reservation, the operation, the cgroup and the path.
\<close>

datatype cg_event = Cg_Mkdir kernel reserve_fn u64 u64 | Cg_Rmdir kernel reserve_fn u64 u64

fun cg_exec :: "cg_event \<Rightarrow> cgroup_state \<Rightarrow> cgroup_state" where
  "cg_exec (Cg_Mkdir K reserve cgrp path) s = handle_cgroup_mkdir K reserve cgrp path s"
| "cg_exec (Cg_Rmdir K reserve cgrp path) s = handle_cgroup_rmdir K reserve cgrp path s"

fun cg_reserve :: "cg_event \<Rightarrow> reserve_fn" where
  "cg_reserve (Cg_Mkdir K reserve cgrp path) = reserve"
| "cg_reserve (Cg_Rmdir K reserve cgrp path) = reserve"

text \<open>What user space should be told of it.\<close>

fun cg_told :: "cg_event \<Rightarrow> CgroupEvent" where
  "cg_told (Cg_Mkdir K reserve cgrp path) =
     \<lparr>ce_CgroupID = cgroup_kn_id K cgrp, ce_Op = 0, ce_Path = event_path K path\<rparr>"
| "cg_told (Cg_Rmdir K reserve cgrp path) =
     \<lparr>ce_CgroupID = cgroup_kn_id K cgrp, ce_Op = 1, ce_Path = event_path K path\<rparr>"

definition cg_accepts :: "cg_event \<Rightarrow> cgroup_state \<Rightarrow> bool" where
  "cg_accepts e s \<longleftrightarrow> cg_reserve e (cgroup_events s) EV_SIZE \<noteq> None"

text \<open>The documented promise of a reservation: the memory has the size asked for.\<close>

definition reserve_sized :: "reserve_fn \<Rightarrow> bool" where
  "reserve_sized reserve \<longleftrightarrow> (\<forall>q n mem. reserve q n = Some mem \<longrightarrow> length mem = n)"

lemma emit_full: "reserve (cgroup_events s) EV_SIZE = None \<Longrightarrow> emit K reserve cg opc path s = s"
  by (simp add: emit_def)

lemma cg_exec_pending:
  assumes "reserve_sized (cg_reserve e)"
  shows "map decode_event (cgroup_events (cg_exec e s)) =
     map decode_event (cgroup_events s) @ (if cg_accepts e s then [Inr (cg_told e)] else [])"
proof (cases "cg_reserve e (cgroup_events s) EV_SIZE")
  case None
  then show ?thesis
    by (cases e) (simp_all add: cg_accepts_def handle_cgroup_mkdir_def handle_cgroup_rmdir_def emit_full)
next
  case (Some mem)
  moreover from this assms have "length mem = EV_SIZE" by (simp add: reserve_sized_def)
  ultimately show ?thesis
    using emit_decodes [of "cg_reserve e" s mem]
    by (cases e) (simp_all add: cg_accepts_def handle_cgroup_mkdir_def handle_cgroup_rmdir_def
        CGROUP_OP_MKDIR_def CGROUP_OP_RMDIR_def)
qed

interpretation lifecycle: event_channel
  cg_exec "ReadEvent None" cg_accepts "\<lambda>s. map decode_event (cgroup_events s)"
  "\<lambda>e. Inr (cg_told e)" "\<lambda>e. reserve_sized (cg_reserve e)"
  by unfold_locales
    (simp_all add: cg_exec_pending, auto simp: ReadEvent_def split: list.splits)

text \<open>A NUL-terminated string at an address, and what the record keeps of it.\<close>

fun kstring_at :: "kernel \<Rightarrow> u64 \<Rightarrow> u8 list \<Rightarrow> bool" where
  "kstring_at K p [] \<longleftrightarrow> kmem K p = Some 0"
| "kstring_at K p (ch # cs) \<longleftrightarrow> kmem K p = Some ch \<and> ch \<noteq> 0 \<and> kstring_at K (p + 1) cs"

lemma kstr_string: "kstring_at K p cs \<Longrightarrow> kstr K n p = Some (take n cs)"
proof (induction n arbitrary: p cs)
  case (Suc n)
  then show ?case by (cases cs) simp_all
qed simp

lemma event_path_string: "kstring_at K p cs \<Longrightarrow> event_path K p = take 255 cs"
  by (simp add: event_path_def kstr_string EVENT_PATH_LEN_def min_def)

lemma channel_accepted:
  assumes "channel_run cg_exec (ReadEvent None) cg_accepts (\<lambda>e. Inr (cg_told e)) es s = (s', acc, got)"
  shows "\<exists>kept. acc = map (\<lambda>e. Inr (cg_told e)) kept \<and> subseq kept (sent es) \<and>
     ((\<forall>e q. Some e \<in> set es \<longrightarrow> cg_reserve e q EV_SIZE \<noteq> None) \<longrightarrow> kept = sent es)"
  using assms
proof (induction es arbitrary: s s' acc got)
  case Nil
  then show ?case by simp
next
  case (Cons o' es)
  show ?case
  proof (cases o')
    case None
    with Cons.prems obtain t acc' got' where "channel_run cg_exec (ReadEvent None) cg_accepts
        (\<lambda>e. Inr (cg_told e)) es t = (s', acc, got')"
      by (auto simp: Let_def split: option.splits prod.splits)
    from Cons.IH [OF this] None show ?thesis by simp
  next
    case (Some e)
    with Cons.prems obtain acc' where run: "channel_run cg_exec (ReadEvent None) cg_accepts
        (\<lambda>e. Inr (cg_told e)) es (cg_exec e s) = (s', acc', got)"
      and acc: "acc = (if cg_accepts e s then [Inr (cg_told e)] else []) @ acc'"
      by (auto simp: Let_def split: prod.splits)
    from Cons.IH [OF run] obtain kept where kept: "acc' = map (\<lambda>e. Inr (cg_told e)) kept"
      "subseq kept (sent es)"
      "(\<forall>e q. Some e \<in> set es \<longrightarrow> cg_reserve e q EV_SIZE \<noteq> None) \<longrightarrow> kept = sent es"
      by blast
    show ?thesis
      by (rule exI [of _ "(if cg_accepts e s then [e] else []) @ kept"])
        (use kept Some acc in \<open>auto simp: cg_accepts_def\<close>)
  qed
qed

section \<open>Properties\<close>

text \<open>
  C17. Lifecycle events arrive in order and undamaged. For any interleaving of cgroup
  creations and removals with reads, starting from the empty ring: what the reader has
  received, followed by what still waits in the ring, is exactly the sequence of the events
  for which the ring had room, each with its cgroup id, operation and path, and none of
  them is a decoding error; if the ring always has room, it is the sequence of all events.
\<close>

theorem lifecycle_events_in_order:
  assumes "\<forall>e. Some e \<in> set es \<longrightarrow> reserve_sized (cg_reserve e)"
    and "channel_run cg_exec (ReadEvent None) cg_accepts (\<lambda>e. Inr (cg_told e)) es cgroup_init = (s', acc, got)"
  shows "got @ map decode_event (cgroup_events s') = acc \<and>
     (\<exists>kept. acc = map (\<lambda>e. Inr (cg_told e)) kept \<and> subseq kept (sent es) \<and>
        ((\<forall>e q. Some e \<in> set es \<longrightarrow> cg_reserve e q EV_SIZE \<noteq> None) \<longrightarrow> kept = sent es))"
proof -
  have "\<exists>kept. acc = map (\<lambda>e. Inr (cg_told e)) kept \<and> subseq kept (sent es) \<and>
      ((\<forall>e q. Some e \<in> set es \<longrightarrow> cg_reserve e q EV_SIZE \<noteq> None) \<longrightarrow> kept = sent es)"
    using assms(2) by (rule channel_accepted)
  with lifecycle.in_order [OF assms] show ?thesis by (simp add: cgroup_init_def)
qed

text \<open>
  One event end to end. When the ring has room for it, the creation of a cgroup whose
  path is the NUL-terminated string \<open>cs\<close> is read back as an event with the id of the cgroup's
  kernfs node, the operation 0 and the first 255 bytes of the path, whatever the reserved
  memory held before; a removal is read back the same with operation 1; and after the read
  the ring is empty again.
\<close>

theorem lifecycle_event_roundtrip:
  assumes "reserve [] EV_SIZE = Some mem" and "length mem = EV_SIZE" and "kstring_at K path cs"
  shows "ReadEvent None (handle_cgroup_mkdir K reserve cgrp path cgroup_init) =
       Some (Inr \<lparr>ce_CgroupID = cgroup_kn_id K cgrp, ce_Op = 0, ce_Path = take 255 cs\<rparr>, cgroup_init) \<and>
     ReadEvent None (handle_cgroup_rmdir K reserve cgrp path cgroup_init) =
       Some (Inr \<lparr>ce_CgroupID = cgroup_kn_id K cgrp, ce_Op = 1, ce_Path = take 255 cs\<rparr>, cgroup_init)"
proof -
  have "ReadEvent None (emit K reserve cg opc path cgroup_init) =
      Some (Inr \<lparr>ce_CgroupID = cg, ce_Op = opc, ce_Path = take 255 cs\<rparr>, cgroup_init)" for cg opc
    using emit_decodes [of reserve cgroup_init mem K cg opc path] assms
    by (auto simp: cgroup_init_def ReadEvent_def event_path_string)
  then show ?thesis
    by (simp add: handle_cgroup_mkdir_def handle_cgroup_rmdir_def CGROUP_OP_MKDIR_def CGROUP_OP_RMDIR_def)
qed

definition demo_reserve :: reserve_fn where
  "demo_reserve q n = (if length q < 2 then Some (replicate n 0xAA) else None)"

lemma demo_path: "kstring_at demo_kernel 0x9000 [0x2f, 0x61]" "cgroup_kn_id demo_kernel 0x3000 = 42"
  by (simp_all add: demo_kernel_def demo_bytes_def) code_simp

lemma demo_event_path: "event_path demo_kernel 0x9000 = [0x2f, 0x61]"
  using event_path_string [OF demo_path(1)] by simp

theorem lifecycle_event_roundtrip_witness:
  "ReadEvent None (handle_cgroup_mkdir demo_kernel demo_reserve 0x3000 0x9000 cgroup_init) =
     Some (Inr \<lparr>ce_CgroupID = 42, ce_Op = 0, ce_Path = [0x2f, 0x61]\<rparr>, cgroup_init)"
  using lifecycle_event_roundtrip [OF _ _ demo_path(1), of demo_reserve "replicate EV_SIZE 0xAA" "0x3000"]
  by (simp add: demo_reserve_def demo_path(2))

theorem lifecycle_events_in_order_witness:
  "\<exists>s'. channel_run cg_exec (ReadEvent None) cg_accepts (\<lambda>e. Inr (cg_told e))
      [Some (Cg_Mkdir demo_kernel demo_reserve 0x3000 0x9000), None,
       Some (Cg_Rmdir demo_kernel demo_reserve 0x3000 0x9000)] cgroup_init =
     (s', [Inr \<lparr>ce_CgroupID = 42, ce_Op = 0, ce_Path = [0x2f, 0x61]\<rparr>,
        Inr \<lparr>ce_CgroupID = 42, ce_Op = 1, ce_Path = [0x2f, 0x61]\<rparr>],
       [Inr \<lparr>ce_CgroupID = 42, ce_Op = 0, ce_Path = [0x2f, 0x61]\<rparr>]) \<and>
     map decode_event (cgroup_events s') = [Inr \<lparr>ce_CgroupID = 42, ce_Op = 1, ce_Path = [0x2f, 0x61]\<rparr>]"
proof -
  let ?mk = "Cg_Mkdir demo_kernel demo_reserve 0x3000 0x9000"
    and ?rm = "Cg_Rmdir demo_kernel demo_reserve 0x3000 0x9000"
  let ?es = "[Some ?mk, None, Some ?rm]"
  have sized: "reserve_sized demo_reserve" by (auto simp: reserve_sized_def demo_reserve_def split: if_splits)
  obtain s' acc got where run: "channel_run cg_exec (ReadEvent None) cg_accepts (\<lambda>e. Inr (cg_told e)) ?es
      cgroup_init = (s', acc, got)" by (metis prod_cases3)
  have mk: "ReadEvent None (cg_exec ?mk cgroup_init) =
      Some (Inr \<lparr>ce_CgroupID = 42, ce_Op = 0, ce_Path = [0x2f, 0x61]\<rparr>, cgroup_init)"
    using cg_exec_pending [of ?mk cgroup_init] sized demo_path(2) demo_event_path
    by (auto simp: cgroup_init_def ReadEvent_def cg_accepts_def demo_reserve_def)
  have "got = [Inr (cg_told ?mk)] \<and> acc = [Inr (cg_told ?mk), Inr (cg_told ?rm)]"
    using run demo_path(2) demo_event_path mk
    by (auto simp: Let_def cg_accepts_def demo_reserve_def cgroup_init_def)
  moreover have "got @ map decode_event (cgroup_events s') = acc"
    using lifecycle_events_in_order [OF _ run] sized by auto
  ultimately show ?thesis
    using run demo_path(2) demo_event_path by simp
qed

end
