(* ===== verification/Ctype_Layout.thy ===== *)
theory Ctype_Layout
  imports Prelude
begin

text \<open>
  The C types of the sources and their layout in memory under the LP64 System V ABI that the
  BPF target and 64-bit Linux share: sizes, alignments, the bit position of every member of
  a structure (padding, bit-fields, packed structures, anonymous members), and the paths
  that \<^verbatim>\<open>BPF_CORE_READ\<close> follows from object to object. \<^verbatim>\<open>src/internal/ebpf/bpf/vmlinux.h\<close>
  declares the kernel's types; the theories \<open>Kernel_Types_Core\<close>, \<open>Kernel_Types_Bpf\<close> and
  \<open>Kernel_Types_Subsystems\<close> write those declarations down as values of \<open>ctype\<close>.
\<close>

named_theorems layout_simps \<open>sizes and alignments of declared types\<close>

section \<open>Types\<close>

datatype cprim =
    CBool | CChar | CSChar | CUChar | CShort | CUShort | CInt | CUInt
  | CLong | CULong | CLLong | CULLong | CInt128 | CUInt128

text \<open>
  A pointer carries the spelling of the type it points to. An unnamed member has the empty
  name; an unnamed bit-field is padding.
\<close>

datatype ctype =
    Prim cprim
  | Enum "(string \<times> int) list"
  | Ptr string
  | Arr nat ctype
  | CStruct "cmember list"
  | CPacked "cmember list"
  | CUnion "cmember list"
and cmember =
    Fld string ctype
  | Bits string ctype nat

fun prim_size :: "cprim \<Rightarrow> nat" where
  "prim_size CBool = 1"
| "prim_size CChar = 1"
| "prim_size CSChar = 1"
| "prim_size CUChar = 1"
| "prim_size CShort = 2"
| "prim_size CUShort = 2"
| "prim_size CInt = 4"
| "prim_size CUInt = 4"
| "prim_size CLong = 8"
| "prim_size CULong = 8"
| "prim_size CLLong = 8"
| "prim_size CULLong = 8"
| "prim_size CInt128 = 16"
| "prim_size CUInt128 = 16"

text \<open>An enumeration takes an \<^verbatim>\<open>int\<close>, unless a value needs 64 bits.\<close>

definition enum_size :: "(string \<times> int) list \<Rightarrow> nat" where
  "enum_size es = (if list_all (\<lambda>(n, v). - (2 ^ 31) \<le> v \<and> v < 2 ^ 32) es then 4 else 8)"

fun alignof :: "ctype \<Rightarrow> nat" and member_align :: "cmember \<Rightarrow> nat" where
  "alignof (Prim p) = prim_size p"
| "alignof (Enum es) = enum_size es"
| "alignof (Ptr s) = 8"
| "alignof (Arr n t) = alignof t"
| "alignof (CStruct ms) = foldr max (map member_align ms) 1"
| "alignof (CPacked ms) = 1"
| "alignof (CUnion ms) = foldr max (map member_align ms) 1"
| "member_align (Fld n t) = alignof t"
| "member_align (Bits n t w) = (if n = [] then 1 else alignof t)"

text \<open>A run of the unnamed members \<^verbatim>\<open>long: 64;\<close> that fills the gap to the next cache line.\<close>

definition pad64 :: "nat \<Rightarrow> cmember list" where
  "pad64 n = replicate n (Bits [] (Prim CLong) 64)"

section \<open>Placing members\<close>

text \<open>What placing needs to know of a member: its alignment and size in bytes, and the width of a bit-field.\<close>

datatype mdims = Dims nat nat "nat option"

definition round_up :: "nat \<Rightarrow> nat \<Rightarrow> nat" where
  "round_up a n = (if n mod a = 0 then n else (n div a + 1) * a)"

text \<open>
  The bit where the next member starts, when \<open>pos\<close> bits are taken. An ordinary member goes
  to the next multiple of its alignment. A bit-field goes right here, unless it would
  straddle a unit of its declared type; one of width 0 closes the unit.
\<close>

fun place :: "bool \<Rightarrow> nat \<Rightarrow> mdims \<Rightarrow> nat" where
  "place packed pos (Dims al sz None) = round_up (8 * (if packed then 1 else al)) pos"
| "place packed pos (Dims al sz (Some w)) =
     (if w = 0 \<or> \<not> packed \<and> 8 * sz < pos mod (8 * sz) + w
      then round_up (8 * sz) pos else pos)"

fun width :: "mdims \<Rightarrow> nat" where
  "width (Dims al sz None) = 8 * sz"
| "width (Dims al sz (Some w)) = w"

fun end_pos :: "bool \<Rightarrow> nat \<Rightarrow> mdims list \<Rightarrow> nat" where
  "end_pos packed pos [] = pos"
| "end_pos packed pos (d # ds) = end_pos packed (place packed pos d + width d) ds"

fun starts :: "bool \<Rightarrow> nat \<Rightarrow> mdims list \<Rightarrow> nat list" where
  "starts packed pos [] = []"
| "starts packed pos (d # ds) =
     place packed pos d # starts packed (place packed pos d + width d) ds"

definition bytes_of :: "nat \<Rightarrow> nat" where
  "bytes_of n = (n + 7) div 8"

fun sizeof :: "ctype \<Rightarrow> nat" and dims :: "cmember \<Rightarrow> mdims" where
  "sizeof (Prim p) = prim_size p"
| "sizeof (Enum es) = enum_size es"
| "sizeof (Ptr s) = 8"
| "sizeof (Arr n t) = n * sizeof t"
| "sizeof (CStruct ms) = round_up (alignof (CStruct ms)) (bytes_of (end_pos False 0 (map dims ms)))"
| "sizeof (CPacked ms) = bytes_of (end_pos True 0 (map dims ms))"
| "sizeof (CUnion ms) =
     round_up (alignof (CUnion ms)) (foldr max (map (\<lambda>m. bytes_of (width (dims m))) ms) 0)"
| "dims (Fld n t) = Dims (alignof t) (sizeof t) None"
| "dims (Bits n t w) = Dims (alignof t) (sizeof t) (Some w)"

section \<open>Finding members\<close>

text \<open>
  \<open>find_field f t\<close> is the first bit, the width in bits and the type of member \<open>f\<close>, which may
  be inside an anonymous structure or union.
\<close>

fun find_field :: "string \<Rightarrow> ctype \<Rightarrow> (nat \<times> nat \<times> ctype) option"
  and find_members :: "string \<Rightarrow> bool \<Rightarrow> nat \<Rightarrow> cmember list \<Rightarrow> (nat \<times> nat \<times> ctype) option"
  and find_union :: "string \<Rightarrow> cmember list \<Rightarrow> (nat \<times> nat \<times> ctype) option"
  and find_here :: "string \<Rightarrow> nat \<Rightarrow> cmember \<Rightarrow> (nat \<times> nat \<times> ctype) option" where
  "find_field f (CStruct ms) = find_members f False 0 ms"
| "find_field f (CPacked ms) = find_members f True 0 ms"
| "find_field f (CUnion ms) = find_union f ms"
| "find_field f (Prim p) = None"
| "find_field f (Enum es) = None"
| "find_field f (Ptr s) = None"
| "find_field f (Arr n t) = None"
| "find_members f packed pos [] = None"
| "find_members f packed pos (m # ms) =
     (case find_here f (place packed pos (dims m)) m of
        Some r \<Rightarrow> Some r
      | None \<Rightarrow> find_members f packed (place packed pos (dims m) + width (dims m)) ms)"
| "find_union f [] = None"
| "find_union f (m # ms) = (case find_here f 0 m of Some r \<Rightarrow> Some r | None \<Rightarrow> find_union f ms)"
| "find_here f st (Fld n t) =
     (if n = f then Some (st, 8 * sizeof t, t)
      else if n = [] then map_option (\<lambda>(p, w, u). (st + p, w, u)) (find_field f t)
      else None)"
| "find_here f st (Bits n t w) = (if n = f then Some (st, w, t) else None)"

text \<open>A dotted chain such as \<^verbatim>\<open>sk_cgrp_data.cgroup\<close>: the byte offset and the type at its end.\<close>

fun resolve_chain :: "ctype \<Rightarrow> string list \<Rightarrow> (nat \<times> ctype) option" where
  "resolve_chain t [] = Some (0, t)"
| "resolve_chain t (f # fs) =
     (case find_field f t of
        None \<Rightarrow> None
      | Some (p, w, u) \<Rightarrow>
          (if p mod 8 \<noteq> 0 \<or> w \<noteq> 8 * sizeof u then None
           else map_option (\<lambda>(q, v). (p div 8 + q, v)) (resolve_chain u fs)))"

text \<open>
  The accesses of a \<^verbatim>\<open>BPF_CORE_READ\<close>: every chain but the last ends at a pointer to an object
  of the environment. The result is the offset added before each read, and the final type.
\<close>

fun core_path :: "(string \<times> ctype) list \<Rightarrow> ctype \<Rightarrow> string list list \<Rightarrow> (nat list \<times> ctype) option" where
  "core_path env t [] = None"
| "core_path env t [c] = map_option (\<lambda>(q, u). ([q], u)) (resolve_chain t c)"
| "core_path env t (c # c' # cs) =
     (case resolve_chain t c of
        Some (q, Ptr s) \<Rightarrow>
          (case map_of env s of
             None \<Rightarrow> None
           | Some u \<Rightarrow> map_option (\<lambda>(qs, v). (q # qs, v)) (core_path env u (c' # cs)))
      | _ \<Rightarrow> None)"

section \<open>Laws of the layout\<close>

lemma round_up_ge: "0 < a \<Longrightarrow> n \<le> round_up a n"
proof -
  assume "0 < a"
  then have "n mod a < a" by simp
  moreover have "n = n div a * a + n mod a" by simp
  ultimately have "n \<le> n div a * a + a" by linarith
  then show ?thesis by (simp add: round_up_def)
qed

lemma round_up_dvd [simp]: "a dvd round_up a n"
  by (simp add: round_up_def dvd_eq_mod_eq_0)

lemma bytes_of_ge: "n \<le> 8 * bytes_of n"
  by (simp add: bytes_of_def)

text \<open>All alignments are powers of two, so a larger one is a multiple of a smaller one.\<close>

definition pow2 :: "nat \<Rightarrow> bool" where
  "pow2 n \<longleftrightarrow> (\<exists>k. n = 2 ^ k)"

lemma pow2_pos: "pow2 n \<Longrightarrow> 0 < n"
  by (auto simp: pow2_def)

lemma pow2_lits [simp]: "pow2 1" "pow2 (Suc 0)" "pow2 2" "pow2 4" "pow2 8" "pow2 16"
proof -
  have "(1::nat) = 2 ^ 0" "(2::nat) = 2 ^ 1" "(4::nat) = 2 ^ 2" "(8::nat) = 2 ^ 3" "(16::nat) = 2 ^ 4"
    by simp_all
  then show "pow2 1" "pow2 (Suc 0)" "pow2 2" "pow2 4" "pow2 8" "pow2 16"
    unfolding pow2_def by (metis One_nat_def)+
qed

lemma pow2_le_dvd: "pow2 m \<Longrightarrow> pow2 n \<Longrightarrow> m \<le> n \<Longrightarrow> m dvd n"
  unfolding pow2_def by (metis le_imp_power_dvd one_less_numeral_iff power_le_imp_le_exp semiring_norm(76))

lemma pow2_foldr_max: "(\<forall>x \<in> set xs. pow2 x) \<Longrightarrow> pow2 (foldr max xs 1)"
  by (induction xs) (auto simp: max_def)

lemma foldr_max_ge: "x \<in> set xs \<Longrightarrow> x \<le> foldr max xs (b :: nat)"
  by (induction xs) (auto simp: max_def)

lemma pow2_alignof: "pow2 (alignof t)" and pow2_member_align: "pow2 (member_align m)"
proof (induction t and m)
  case (Prim p)
  show ?case by (cases p) simp_all
next
  case (CStruct ms)
  then show ?case by (simp only: alignof.simps) (rule pow2_foldr_max, auto)
next
  case (CUnion ms)
  then show ?case by (simp only: alignof.simps) (rule pow2_foldr_max, auto)
qed (simp_all add: enum_size_def)

lemma alignof_pos [simp]: "0 < alignof t"
  by (rule pow2_pos [OF pow2_alignof])

lemma alignof_dvd_sizeof: "alignof t dvd sizeof t"
proof (induction t rule: measure_induct_rule [of size])
  case (less t)
  then show ?case by (cases t) simp_all
qed

text \<open>Bit-fields are declared with a type of positive size that is wide enough.\<close>

fun wf_ctype :: "ctype \<Rightarrow> bool" and wf_member :: "cmember \<Rightarrow> bool" where
  "wf_ctype (Prim p) = True"
| "wf_ctype (Enum es) = True"
| "wf_ctype (Ptr s) = True"
| "wf_ctype (Arr n t) = wf_ctype t"
| "wf_ctype (CStruct ms) = list_all wf_member ms"
| "wf_ctype (CPacked ms) = list_all wf_member ms"
| "wf_ctype (CUnion ms) = list_all wf_member ms"
| "wf_member (Fld n t) = wf_ctype t"
| "wf_member (Bits n t w) = (0 < sizeof t \<and> w \<le> 8 * sizeof t)"

fun dims_ok :: "mdims \<Rightarrow> bool" where
  "dims_ok (Dims al sz None) = (0 < al)"
| "dims_ok (Dims al sz (Some w)) = (0 < sz)"

lemma wf_member_dims: "wf_member m \<Longrightarrow> dims_ok (dims m)"
  by (cases m) simp_all

lemma place_ge: "dims_ok d \<Longrightarrow> pos \<le> place packed pos d"
  by (cases "(packed, pos, d)" rule: place.cases) (auto simp: round_up_ge)

lemma end_pos_ge: "list_all dims_ok ds \<Longrightarrow> pos \<le> end_pos packed pos ds"
proof (induction ds arbitrary: pos)
  case (Cons d ds)
  then have "place packed pos d + width d \<le> end_pos packed (place packed pos d + width d) ds" by simp
  then show ?case using place_ge [of d pos packed] Cons.prems by simp
qed simp

lemma length_starts [simp]: "length (starts packed pos ds) = length ds"
  by (induction packed pos ds rule: starts.induct) simp_all

lemma starts_ge: "list_all dims_ok ds \<Longrightarrow> j < length ds \<Longrightarrow> pos \<le> starts packed pos ds ! j"
proof (induction ds arbitrary: pos j)
  case (Cons d ds)
  have "pos \<le> place packed pos d" using Cons.prems by (simp add: place_ge)
  moreover have "place packed pos d + width d \<le> starts packed (place packed pos d + width d) ds ! i"
    if "i < length ds" for i
    using Cons that by simp
  ultimately show ?case using Cons.prems by (cases j) (auto intro: add_leE order_trans)
qed simp

lemma starts_disjoint:
  "list_all dims_ok ds \<Longrightarrow> i < j \<Longrightarrow> j < length ds \<Longrightarrow>
     starts packed pos ds ! i + width (ds ! i) \<le> starts packed pos ds ! j"
proof (induction ds arbitrary: pos i j)
  case (Cons d ds)
  obtain j' where j: "j = Suc j'" using Cons.prems(2) by (cases j) auto
  show ?case
  proof (cases i)
    case 0
    with Cons.prems j starts_ge [of ds j' "place packed pos d + width d" packed] show ?thesis by simp
  next
    case (Suc i')
    with Cons j show ?thesis by simp
  qed
qed simp

lemma starts_end:
  "list_all dims_ok ds \<Longrightarrow> i < length ds \<Longrightarrow>
     starts packed pos ds ! i + width (ds ! i) \<le> end_pos packed pos ds"
proof (induction ds arbitrary: pos i)
  case (Cons d ds)
  then show ?case using end_pos_ge [of ds "place packed pos d + width d" packed] by (cases i) simp_all
qed simp

text \<open>Where a member is found lies inside the object that holds it.\<close>

lemma sizeof_struct_ge: "end_pos False 0 (map dims ms) \<le> 8 * sizeof (CStruct ms)"
proof -
  let ?n = "bytes_of (end_pos False 0 (map dims ms))"
  have "?n \<le> sizeof (CStruct ms)"
    by (simp only: sizeof.simps) (rule round_up_ge [OF alignof_pos])
  then show ?thesis using bytes_of_ge [of "end_pos False 0 (map dims ms)"] by linarith
qed

lemma sizeof_union_ge:
  assumes "m \<in> set ms"
  shows "width (dims m) \<le> 8 * sizeof (CUnion ms)"
proof -
  let ?n = "foldr max (map (\<lambda>m. bytes_of (width (dims m))) ms) 0"
  have "bytes_of (width (dims m)) \<le> ?n" using assms by (intro foldr_max_ge) simp
  moreover have "?n \<le> sizeof (CUnion ms)"
    by (simp only: sizeof.simps) (rule round_up_ge [OF alignof_pos])
  ultimately show ?thesis using bytes_of_ge [of "width (dims m)"] by linarith
qed

lemma find_union_in: "find_union f ms = Some r \<Longrightarrow> \<exists>m \<in> set ms. find_here f 0 m = Some r"
  by (induction ms) (auto split: option.splits)

lemma find_bounds:
  "wf_ctype t \<Longrightarrow> find_field f t = Some (p, w, u) \<Longrightarrow> p + w \<le> 8 * sizeof t"
  "list_all wf_member ms \<Longrightarrow> find_members f packed pos ms = Some (p, w, u) \<Longrightarrow>
     p + w \<le> end_pos packed pos (map dims ms)"
  "list_all wf_member ms \<Longrightarrow> find_union f ms = Some (p, w, u) \<Longrightarrow> \<exists>m \<in> set ms. p + w \<le> width (dims m)"
  "wf_member m \<Longrightarrow> find_here f st m = Some (p, w, u) \<Longrightarrow> p + w \<le> st + width (dims m)"
proof (induction f t and f packed pos ms and f ms and f st m arbitrary: p w u and p w u and p w u and p w u
    rule: find_field_find_members_find_union_find_here.induct)
  case (1 f ms)
  then show ?case using sizeof_struct_ge [of ms] by fastforce
next
  case (2 f ms)
  then show ?case using bytes_of_ge [of "end_pos True 0 (map dims ms)"] by fastforce
next
  case (3 f ms)
  then obtain m where "m \<in> set ms" "p + w \<le> width (dims m)" by fastforce
  then show ?case using sizeof_union_ge [of m ms] by linarith
next
  case (9 f packed pos m ms)
  have "list_all dims_ok (map dims ms)"
    using 9 by (auto simp: list_all_iff wf_member_dims)
  from end_pos_ge [OF this] 9 show ?case
    by (fastforce split: option.splits intro: order_trans)
qed (auto split: option.splits if_splits)

text \<open>Without packed structures every member is naturally aligned.\<close>

fun natural :: "ctype \<Rightarrow> bool" and natural_member :: "cmember \<Rightarrow> bool" where
  "natural (Prim p) = True"
| "natural (Enum es) = True"
| "natural (Ptr s) = True"
| "natural (Arr n t) = natural t"
| "natural (CStruct ms) = list_all natural_member ms"
| "natural (CPacked ms) = False"
| "natural (CUnion ms) = list_all natural_member ms"
| "natural_member (Fld n t) = natural t"
| "natural_member (Bits n t w) = (0 < sizeof t)"

fun aligned_at :: "nat \<Rightarrow> cmember \<Rightarrow> bool" where
  "aligned_at st (Fld n t) = (8 * alignof t dvd st)"
| "aligned_at st (Bits n t w) = (w = 8 * sizeof t \<longrightarrow> 8 * alignof t dvd st)"

lemma place_aligned: "natural_member m \<Longrightarrow> aligned_at (place False pos (dims m)) m"
proof (cases m)
  case (Bits n t w)
  assume "natural_member m"
  with Bits have "0 < 8 * sizeof t" by simp
  have dvd: "8 * alignof t dvd 8 * sizeof t" by (simp add: alignof_dvd_sizeof)
  have "8 * sizeof t dvd place False pos (dims m)" if w: "w = 8 * sizeof t"
    using Bits w \<open>0 < 8 * sizeof t\<close> by (auto simp: dvd_eq_mod_eq_0 [of _ pos])
  then have "w = 8 * sizeof t \<longrightarrow> 8 * alignof t dvd place False pos (dims m)"
    using dvd by (blast intro: dvd_trans)
  with Bits show ?thesis by (simp del: place.simps dims.simps)
qed simp

lemma member_align_le: "m \<in> set ms \<Longrightarrow> member_align m \<le> foldr max (map member_align ms) 1"
  by (intro foldr_max_ge) simp

lemma find_members_at:
  "list_all natural_member ms \<Longrightarrow> find_members f False pos ms = Some r \<Longrightarrow>
     \<exists>m \<in> set ms. \<exists>st. aligned_at st m \<and> find_here f st m = Some r"
proof (induction ms arbitrary: pos)
  case (Cons m ms)
  then show ?case
    using place_aligned [of m pos] by (fastforce split: option.splits)
qed simp

lemma find_aligned:
  "natural t \<Longrightarrow> f \<noteq> [] \<Longrightarrow> find_field f t = Some (p, 8 * sizeof u, u) \<Longrightarrow>
     8 * alignof u dvd p \<and> alignof u \<le> alignof t"
proof (induction t arbitrary: p rule: measure_induct_rule [of size])
  case (less t)
  have here: "8 * alignof u dvd p \<and> alignof u \<le> member_align m"
    if "find_here f st m = Some (p, 8 * sizeof u, u)" "aligned_at st m" "natural_member m"
      "size m < size t" for st m
  proof (cases m)
    case (Fld n v)
    show ?thesis
    proof (cases "n = f")
      case True
      with that Fld show ?thesis by simp
    next
      case False
      with that Fld obtain q where q: "find_field f v = Some (q, 8 * sizeof u, u)" "p = st + q"
        by (auto split: if_splits)
      have IH: "8 * alignof u dvd q \<and> alignof u \<le> alignof v"
        using less.IH [of v q] that q Fld less.prems(2) by simp
      then have "alignof u dvd alignof v" by (simp add: pow2_le_dvd pow2_alignof)
      then have "8 * alignof u dvd st" using that(2) Fld by (auto intro: dvd_trans)
      with IH q(2) Fld show ?thesis by simp
    qed
  next
    case (Bits n v w)
    with that less.prems(2) show ?thesis by (auto split: if_splits)
  qed
  have small: "m \<in> set ms \<Longrightarrow> size m < size (CStruct ms)" "m \<in> set ms \<Longrightarrow> size m < size (CUnion ms)" for m ms
    by (induction ms) auto
  show ?case
  proof (cases t)
    case (CStruct ms)
    with less.prems obtain m st where m: "m \<in> set ms" "aligned_at st m"
      "find_here f st m = Some (p, 8 * sizeof u, u)"
      by (auto dest: find_members_at)
    with here [of st m] small(1) [OF m(1)] less.prems(1) CStruct member_align_le [OF m(1)] show ?thesis
      by (auto simp: list_all_iff)
  next
    case (CUnion ms)
    with less.prems obtain m where m: "m \<in> set ms" "find_here f 0 m = Some (p, 8 * sizeof u, u)"
      by (auto dest: find_union_in)
    moreover have "aligned_at 0 m" by (cases m) simp_all
    ultimately show ?thesis
      using here [of 0 m] small(2) [OF m(1)] less.prems(1) CUnion member_align_le [OF m(1)]
      by (auto simp: list_all_iff)
  qed (use less.prems in simp_all)
qed

text \<open>A run of padding rounds up to its unit and takes eight bytes each; it holds no named member.\<close>

lemma place_pad: "place False pos (dims (Bits [] (Prim CLong) 64)) = round_up 64 pos"
  by (simp add: round_up_def)

lemma round_up_add [simp]: "round_up 64 (round_up 64 pos + 64) = round_up 64 pos + 64"
  by (simp add: round_up_def)

lemma end_pos_pad:
  "0 < n \<Longrightarrow> end_pos False pos (map dims (pad64 n) @ ds) = end_pos False (round_up 64 pos + 64 * n) ds"
proof (induction n arbitrary: pos)
  case (Suc n)
  show ?case
  proof (cases "n = 0")
    case True
    then show ?thesis by (simp add: pad64_def place_pad del: place.simps dims.simps) simp
  next
    case False
    with Suc.IH [of "round_up 64 pos + 64"] show ?thesis
      by (simp add: pad64_def place_pad del: place.simps dims.simps) (simp add: ac_simps)
  qed
qed simp

lemma find_members_pad:
  "0 < n \<Longrightarrow> f \<noteq> [] \<Longrightarrow>
     find_members f False pos (pad64 n @ ms) = find_members f False (round_up 64 pos + 64 * n) ms"
proof (induction n arbitrary: pos)
  case (Suc n)
  show ?case
  proof (cases "n = 0")
    case True
    with Suc.prems show ?thesis by (simp add: pad64_def place_pad del: place.simps dims.simps) simp
  next
    case False
    with Suc.IH [of "round_up 64 pos + 64"] Suc.prems show ?thesis
      by (simp add: pad64_def place_pad del: place.simps dims.simps) (simp add: ac_simps)
  qed
qed simp

lemma pad64_align: "1 \<le> b \<Longrightarrow> foldr max (map member_align (pad64 n)) b = b"
  by (induction n) (auto simp: pad64_def)

lemma pad64_wf: "list_all wf_member (pad64 n)" "list_all natural_member (pad64 n)"
  by (simp_all add: pad64_def list_all_iff)

text \<open>Evaluation of a layout by rewriting; \<open>layout_simps\<close> collects what is known already.\<close>

lemmas layout_eval = round_up_def bytes_of_def enum_size_def pad64_align pad64_wf
  end_pos_pad end_pos_pad [of _ _ "[]", simplified]
  find_members_pad find_members_pad [of _ _ _ "[]", simplified]

end
