(* ===== verification/Kernel_Types_Core.thy ===== *)
theory Kernel_Types_Core
  imports Ctype_Layout
begin

text \<open>
  The objects the tracepoints hand to the monitors and those a \<^verbatim>\<open>BPF_CORE_READ\<close> walks
  through, with every type they contain by value, transcribed from
  \<^verbatim>\<open>src/internal/ebpf/bpf/vmlinux.h\<close>: \<open>struct_task_struct\<close>, \<open>struct_css_set\<close>,
  \<open>struct_cgroup\<close>, \<open>struct_kernfs_node\<close>, \<open>struct_request\<close>, \<open>struct_sock\<close>,
  \<open>struct_sk_buff\<close> and \<open>struct_msghdr\<close>. A type of the header keeps its name behind
  \<open>struct_\<close>, \<open>union_\<close>, \<open>enum_\<close> or \<open>typedef_\<close>. The \<open>layout_simps\<close> are the sizes and
  alignments that the definitions of \<open>Ctype_Layout\<close> compute for them, innermost types first.
\<close>

section \<open>Declarations\<close>

definition typedef___u64 :: ctype where
  "typedef___u64 = Prim CULLong"

definition typedef_u64 :: ctype where
  "typedef_u64 = typedef___u64"

definition typedef___u32 :: ctype where
  "typedef___u32 = Prim CUInt"

definition typedef_u32 :: ctype where
  "typedef_u32 = typedef___u32"

definition struct_thread_info :: ctype where
  "struct_thread_info = CStruct [
      Fld ''flags'' (Prim CULong),
      Fld '''' (CUnion [
        Fld ''preempt_count'' typedef_u64,
        Fld ''preempt'' (CStruct [
          Fld ''count'' typedef_u32,
          Fld ''need_resched'' typedef_u32])]),
      Fld ''cpu'' typedef_u32]"

definition typedef_atomic_t :: ctype where
  "typedef_atomic_t = CStruct [
      Fld ''counter'' (Prim CInt)]"

definition struct_refcount_struct :: ctype where
  "struct_refcount_struct = CStruct [
      Fld ''refs'' typedef_atomic_t]"

definition typedef_refcount_t :: ctype where
  "typedef_refcount_t = struct_refcount_struct"

definition struct_llist_node :: ctype where
  "struct_llist_node = CStruct [
      Fld ''next'' (Ptr ''struct llist_node'')]"

definition typedef___u16 :: ctype where
  "typedef___u16 = Prim CUShort"

definition typedef_u16 :: ctype where
  "typedef_u16 = typedef___u16"

definition struct___call_single_node :: ctype where
  "struct___call_single_node = CStruct [
      Fld ''llist'' struct_llist_node,
      Fld '''' (CUnion [
        Fld ''u_flags'' (Prim CUInt),
        Fld ''a_flags'' typedef_atomic_t]),
      Fld ''src'' typedef_u16,
      Fld ''dst'' typedef_u16]"

definition struct_load_weight :: ctype where
  "struct_load_weight = CStruct [
      Fld ''weight'' (Prim CULong),
      Fld ''inv_weight'' typedef_u32]"

definition struct_rb_node :: ctype where
  "struct_rb_node = CStruct [
      Fld ''__rb_parent_color'' (Prim CULong),
      Fld ''rb_right'' (Ptr ''struct rb_node''),
      Fld ''rb_left'' (Ptr ''struct rb_node'')]"

definition struct_list_head :: ctype where
  "struct_list_head = CStruct [
      Fld ''next'' (Ptr ''struct list_head''),
      Fld ''prev'' (Ptr ''struct list_head'')]"

definition typedef___s64 :: ctype where
  "typedef___s64 = Prim CLLong"

definition typedef_s64 :: ctype where
  "typedef_s64 = typedef___s64"

definition struct_sched_avg :: ctype where
  "struct_sched_avg = CStruct [
      Fld ''last_update_time'' typedef_u64,
      Fld ''load_sum'' typedef_u64,
      Fld ''runnable_sum'' typedef_u64,
      Fld ''util_sum'' typedef_u32,
      Fld ''period_contrib'' typedef_u32,
      Fld ''load_avg'' (Prim CULong),
      Fld ''runnable_avg'' (Prim CULong),
      Fld ''util_avg'' (Prim CULong),
      Fld ''util_est'' (Prim CUInt)]"

definition struct_sched_entity :: ctype where
  "struct_sched_entity = CStruct ([
      Fld ''load'' struct_load_weight,
      Fld ''run_node'' struct_rb_node,
      Fld ''deadline'' typedef_u64,
      Fld ''min_vruntime'' typedef_u64,
      Fld ''group_node'' struct_list_head,
      Fld ''on_rq'' (Prim CUInt),
      Fld ''exec_start'' typedef_u64,
      Fld ''sum_exec_runtime'' typedef_u64,
      Fld ''prev_sum_exec_runtime'' typedef_u64,
      Fld ''vruntime'' typedef_u64,
      Fld ''vlag'' typedef_s64,
      Fld ''slice'' typedef_u64,
      Fld ''nr_migrations'' typedef_u64,
      Fld ''depth'' (Prim CInt),
      Fld ''parent'' (Ptr ''struct sched_entity''),
      Fld ''cfs_rq'' (Ptr ''struct cfs_rq''),
      Fld ''my_q'' (Ptr ''struct cfs_rq''),
      Fld ''runnable_weight'' (Prim CULong)] @ pad64 2 @ [
      Fld ''avg'' struct_sched_avg])"

definition struct_sched_rt_entity :: ctype where
  "struct_sched_rt_entity = CStruct [
      Fld ''run_list'' struct_list_head,
      Fld ''timeout'' (Prim CULong),
      Fld ''watchdog_stamp'' (Prim CULong),
      Fld ''time_slice'' (Prim CUInt),
      Fld ''on_rq'' (Prim CUShort),
      Fld ''on_list'' (Prim CUShort),
      Fld ''back'' (Ptr ''struct sched_rt_entity'')]"

definition typedef_ktime_t :: ctype where
  "typedef_ktime_t = typedef_s64"

definition struct_timerqueue_node :: ctype where
  "struct_timerqueue_node = CStruct [
      Fld ''node'' struct_rb_node,
      Fld ''expires'' typedef_ktime_t]"

definition typedef___u8 :: ctype where
  "typedef___u8 = Prim CUChar"

definition typedef_u8 :: ctype where
  "typedef_u8 = typedef___u8"

definition struct_hrtimer :: ctype where
  "struct_hrtimer = CStruct [
      Fld ''node'' struct_timerqueue_node,
      Fld ''_softexpires'' typedef_ktime_t,
      Fld ''function'' (Ptr ''enum hrtimer_restart (struct hrtimer *)''),
      Fld ''base'' (Ptr ''struct hrtimer_clock_base''),
      Fld ''state'' typedef_u8,
      Fld ''is_rel'' typedef_u8,
      Fld ''is_soft'' typedef_u8,
      Fld ''is_hard'' typedef_u8]"

definition typedef_dl_server_has_tasks_f :: ctype where
  "typedef_dl_server_has_tasks_f = Ptr ''bool (struct sched_dl_entity *)''"

definition typedef_dl_server_pick_f :: ctype where
  "typedef_dl_server_pick_f = Ptr ''struct task_struct *(struct sched_dl_entity *)''"

definition struct_sched_dl_entity :: ctype where
  "struct_sched_dl_entity = CStruct [
      Fld ''rb_node'' struct_rb_node,
      Fld ''dl_runtime'' typedef_u64,
      Fld ''dl_deadline'' typedef_u64,
      Fld ''dl_period'' typedef_u64,
      Fld ''dl_bw'' typedef_u64,
      Fld ''dl_density'' typedef_u64,
      Fld ''runtime'' typedef_s64,
      Fld ''deadline'' typedef_u64,
      Fld ''flags'' (Prim CUInt),
      Bits ''dl_throttled'' (Prim CUInt) 1,
      Bits ''dl_yielded'' (Prim CUInt) 1,
      Bits ''dl_non_contending'' (Prim CUInt) 1,
      Bits ''dl_overrun'' (Prim CUInt) 1,
      Bits ''dl_server'' (Prim CUInt) 1,
      Fld ''dl_timer'' struct_hrtimer,
      Fld ''inactive_timer'' struct_hrtimer,
      Fld ''rq'' (Ptr ''struct rq''),
      Fld ''server_has_tasks'' typedef_dl_server_has_tasks_f,
      Fld ''server_pick'' typedef_dl_server_pick_f,
      Fld ''pi_se'' (Ptr ''struct sched_dl_entity'')]"

definition struct_sched_statistics :: ctype where
  "struct_sched_statistics = CStruct []"

definition struct_cpumask :: ctype where
  "struct_cpumask = CStruct [
      Fld ''bits'' (Arr 1 (Prim CULong))]"

definition typedef_cpumask_t :: ctype where
  "typedef_cpumask_t = struct_cpumask"

definition union_rcu_special :: ctype where
  "union_rcu_special = CUnion [
      Fld ''b'' (CStruct [
        Fld ''blocked'' typedef_u8,
        Fld ''need_qs'' typedef_u8,
        Fld ''exp_hint'' typedef_u8,
        Fld ''need_mb'' typedef_u8]),
      Fld ''s'' typedef_u32]"

definition struct_sched_info :: ctype where
  "struct_sched_info = CStruct [
      Fld ''pcount'' (Prim CULong),
      Fld ''run_delay'' (Prim CULLong),
      Fld ''last_arrival'' (Prim CULLong),
      Fld ''last_queued'' (Prim CULLong)]"

definition struct_plist_node :: ctype where
  "struct_plist_node = CStruct [
      Fld ''prio'' (Prim CInt),
      Fld ''prio_list'' struct_list_head,
      Fld ''node_list'' struct_list_head]"

definition typedef___kernel_clockid_t :: ctype where
  "typedef___kernel_clockid_t = Prim CInt"

definition typedef_clockid_t :: ctype where
  "typedef_clockid_t = typedef___kernel_clockid_t"

definition enum_timespec_type :: ctype where
  "enum_timespec_type = Enum [(''TT_NONE'', 0), (''TT_NATIVE'', 1), (''TT_COMPAT'', 2)]"

definition struct_restart_block :: ctype where
  "struct_restart_block = CStruct [
      Fld ''arch_data'' (Prim CULong),
      Fld ''fn'' (Ptr ''long int (struct restart_block *)''),
      Fld '''' (CUnion [
        Fld ''futex'' (CStruct [
          Fld ''uaddr'' (Ptr ''u32''),
          Fld ''val'' typedef_u32,
          Fld ''flags'' typedef_u32,
          Fld ''bitset'' typedef_u32,
          Fld ''time'' typedef_u64,
          Fld ''uaddr2'' (Ptr ''u32'')]),
        Fld ''nanosleep'' (CStruct [
          Fld ''clockid'' typedef_clockid_t,
          Fld ''type'' enum_timespec_type,
          Fld '''' (CUnion [
            Fld ''rmtp'' (Ptr ''struct __kernel_timespec''),
            Fld ''compat_rmtp'' (Ptr ''struct old_timespec32'')]),
          Fld ''expires'' typedef_u64]),
        Fld ''poll'' (CStruct [
          Fld ''ufds'' (Ptr ''struct pollfd''),
          Fld ''nfds'' (Prim CInt),
          Fld ''has_timeout'' (Prim CInt),
          Fld ''tv_sec'' (Prim CULong),
          Fld ''tv_nsec'' (Prim CULong)])])]"

definition typedef___kernel_pid_t :: ctype where
  "typedef___kernel_pid_t = Prim CInt"

definition typedef_pid_t :: ctype where
  "typedef_pid_t = typedef___kernel_pid_t"

definition struct_hlist_node :: ctype where
  "struct_hlist_node = CStruct [
      Fld ''next'' (Ptr ''struct hlist_node''),
      Fld ''pprev'' (Ptr ''struct hlist_node *'')]"

definition struct_qspinlock :: ctype where
  "struct_qspinlock = CStruct [
      Fld '''' (CUnion [
        Fld ''val'' typedef_atomic_t,
        Fld '''' (CStruct [
          Fld ''locked'' typedef_u8,
          Fld ''pending'' typedef_u8]),
        Fld '''' (CStruct [
          Fld ''locked_pending'' typedef_u16,
          Fld ''tail'' typedef_u16])])]"

definition typedef_arch_spinlock_t :: ctype where
  "typedef_arch_spinlock_t = struct_qspinlock"

definition struct_raw_spinlock :: ctype where
  "struct_raw_spinlock = CStruct [
      Fld ''raw_lock'' typedef_arch_spinlock_t]"

definition typedef_raw_spinlock_t :: ctype where
  "typedef_raw_spinlock_t = struct_raw_spinlock"

definition struct_prev_cputime :: ctype where
  "struct_prev_cputime = CStruct [
      Fld ''utime'' typedef_u64,
      Fld ''stime'' typedef_u64,
      Fld ''lock'' typedef_raw_spinlock_t]"

definition struct_rb_root :: ctype where
  "struct_rb_root = CStruct [
      Fld ''rb_node'' (Ptr ''struct rb_node'')]"

definition struct_rb_root_cached :: ctype where
  "struct_rb_root_cached = CStruct [
      Fld ''rb_root'' struct_rb_root,
      Fld ''rb_leftmost'' (Ptr ''struct rb_node'')]"

definition struct_timerqueue_head :: ctype where
  "struct_timerqueue_head = CStruct [
      Fld ''rb_root'' struct_rb_root_cached]"

definition struct_posix_cputimer_base :: ctype where
  "struct_posix_cputimer_base = CStruct [
      Fld ''nextevt'' typedef_u64,
      Fld ''tqhead'' struct_timerqueue_head]"

definition struct_posix_cputimers :: ctype where
  "struct_posix_cputimers = CStruct [
      Fld ''bases'' (Arr 3 struct_posix_cputimer_base),
      Fld ''timers_active'' (Prim CUInt),
      Fld ''expiry_active'' (Prim CUInt)]"

definition struct_callback_head :: ctype where
  "struct_callback_head = CStruct [
      Fld ''next'' (Ptr ''struct callback_head''),
      Fld ''func'' (Ptr ''void (struct callback_head *)'')]"

definition typedef_atomic64_t :: ctype where
  "typedef_atomic64_t = CStruct [
      Fld ''counter'' typedef_s64]"

definition typedef_atomic_long_t :: ctype where
  "typedef_atomic_long_t = typedef_atomic64_t"

definition struct_optimistic_spin_queue :: ctype where
  "struct_optimistic_spin_queue = CStruct [
      Fld ''tail'' typedef_atomic_t]"

definition struct_mutex :: ctype where
  "struct_mutex = CStruct [
      Fld ''owner'' typedef_atomic_long_t,
      Fld ''wait_lock'' typedef_raw_spinlock_t,
      Fld ''osq'' struct_optimistic_spin_queue,
      Fld ''wait_list'' struct_list_head]"

definition struct_posix_cputimers_work :: ctype where
  "struct_posix_cputimers_work = CStruct [
      Fld ''work'' struct_callback_head,
      Fld ''mutex'' struct_mutex,
      Fld ''scheduled'' (Prim CUInt)]"

definition struct_sysv_sem :: ctype where
  "struct_sysv_sem = CStruct [
      Fld ''undo_list'' (Ptr ''struct sem_undo_list'')]"

definition struct_sysv_shm :: ctype where
  "struct_sysv_shm = CStruct [
      Fld ''shm_clist'' struct_list_head]"

definition typedef_sigset_t :: ctype where
  "typedef_sigset_t = CStruct [
      Fld ''sig'' (Arr 1 (Prim CULong))]"

definition struct_sigpending :: ctype where
  "struct_sigpending = CStruct [
      Fld ''list'' struct_list_head,
      Fld ''signal'' typedef_sigset_t]"

definition typedef___kernel_ulong_t :: ctype where
  "typedef___kernel_ulong_t = Prim CULong"

definition typedef___kernel_size_t :: ctype where
  "typedef___kernel_size_t = typedef___kernel_ulong_t"

definition typedef_size_t :: ctype where
  "typedef_size_t = typedef___kernel_size_t"

definition typedef___kernel_uid32_t :: ctype where
  "typedef___kernel_uid32_t = Prim CUInt"

definition typedef_uid_t :: ctype where
  "typedef_uid_t = typedef___kernel_uid32_t"

definition typedef_kuid_t :: ctype where
  "typedef_kuid_t = CStruct [
      Fld ''val'' typedef_uid_t]"

definition struct_seccomp :: ctype where
  "struct_seccomp = CStruct [
      Fld ''mode'' (Prim CInt),
      Fld ''filter_count'' typedef_atomic_t,
      Fld ''filter'' (Ptr ''struct seccomp_filter'')]"

definition struct_syscall_user_dispatch :: ctype where
  "struct_syscall_user_dispatch = CStruct []"

definition struct_spinlock :: ctype where
  "struct_spinlock = CStruct [
      Fld '''' (CUnion [
        Fld ''rlock'' struct_raw_spinlock])]"

definition typedef_spinlock_t :: ctype where
  "typedef_spinlock_t = struct_spinlock"

definition struct_wake_q_node :: ctype where
  "struct_wake_q_node = CStruct [
      Fld ''next'' (Ptr ''struct wake_q_node'')]"

definition struct_task_io_accounting :: ctype where
  "struct_task_io_accounting = CStruct [
      Fld ''rchar'' typedef_u64,
      Fld ''wchar'' typedef_u64,
      Fld ''syscr'' typedef_u64,
      Fld ''syscw'' typedef_u64,
      Fld ''read_bytes'' typedef_u64,
      Fld ''write_bytes'' typedef_u64,
      Fld ''cancelled_write_bytes'' typedef_u64]"

definition typedef_nodemask_t :: ctype where
  "typedef_nodemask_t = CStruct [
      Fld ''bits'' (Arr 1 (Prim CULong))]"

definition struct_seqcount :: ctype where
  "struct_seqcount = CStruct [
      Fld ''sequence'' (Prim CUInt)]"

definition typedef_seqcount_t :: ctype where
  "typedef_seqcount_t = struct_seqcount"

definition struct_seqcount_spinlock :: ctype where
  "struct_seqcount_spinlock = CStruct [
      Fld ''seqcount'' typedef_seqcount_t]"

definition typedef_seqcount_spinlock_t :: ctype where
  "typedef_seqcount_spinlock_t = struct_seqcount_spinlock"

definition struct_arch_tlbflush_unmap_batch :: ctype where
  "struct_arch_tlbflush_unmap_batch = CStruct []"

definition struct_tlbflush_unmap_batch :: ctype where
  "struct_tlbflush_unmap_batch = CStruct [
      Fld ''arch'' struct_arch_tlbflush_unmap_batch,
      Fld ''flush_required'' (Prim CBool),
      Fld ''writable'' (Prim CBool)]"

definition struct_page_frag :: ctype where
  "struct_page_frag = CStruct [
      Fld ''page'' (Ptr ''struct page''),
      Fld ''offset'' typedef___u32,
      Fld ''size'' typedef___u32]"

definition struct_kmap_ctrl :: ctype where
  "struct_kmap_ctrl = CStruct []"

definition struct_timer_list :: ctype where
  "struct_timer_list = CStruct [
      Fld ''entry'' struct_hlist_node,
      Fld ''expires'' (Prim CULong),
      Fld ''function'' (Ptr ''void (struct timer_list *)''),
      Fld ''flags'' typedef_u32]"

definition struct_llist_head :: ctype where
  "struct_llist_head = CStruct [
      Fld ''first'' (Ptr ''struct llist_node'')]"

definition struct_cpu_context :: ctype where
  "struct_cpu_context = CStruct [
      Fld ''x19'' (Prim CULong),
      Fld ''x20'' (Prim CULong),
      Fld ''x21'' (Prim CULong),
      Fld ''x22'' (Prim CULong),
      Fld ''x23'' (Prim CULong),
      Fld ''x24'' (Prim CULong),
      Fld ''x25'' (Prim CULong),
      Fld ''x26'' (Prim CULong),
      Fld ''x27'' (Prim CULong),
      Fld ''x28'' (Prim CULong),
      Fld ''fp'' (Prim CULong),
      Fld ''sp'' (Prim CULong),
      Fld ''pc'' (Prim CULong)]"

definition struct_user_fpsimd_state :: ctype where
  "struct_user_fpsimd_state = CStruct [
      Fld ''vregs'' (Arr 32 (Prim CUInt128)),
      Fld ''fpsr'' typedef___u32,
      Fld ''fpcr'' typedef___u32,
      Fld ''__reserved'' (Arr 2 typedef___u32)]"

definition enum_fp_type :: ctype where
  "enum_fp_type = Enum [(''FP_STATE_CURRENT'', 0), (''FP_STATE_FPSIMD'', 1), (''FP_STATE_SVE'', 2)]"

definition struct_debug_info :: ctype where
  "struct_debug_info = CStruct [
      Fld ''suspended_step'' (Prim CInt),
      Fld ''bps_disabled'' (Prim CInt),
      Fld ''wps_disabled'' (Prim CInt),
      Fld ''hbp_break'' (Arr 16 (Ptr ''struct perf_event'')),
      Fld ''hbp_watch'' (Arr 16 (Ptr ''struct perf_event''))]"

definition struct_ptrauth_key :: ctype where
  "struct_ptrauth_key = CStruct [
      Fld ''lo'' (Prim CULong),
      Fld ''hi'' (Prim CULong)]"

definition struct_ptrauth_keys_user :: ctype where
  "struct_ptrauth_keys_user = CStruct [
      Fld ''apia'' struct_ptrauth_key,
      Fld ''apib'' struct_ptrauth_key,
      Fld ''apda'' struct_ptrauth_key,
      Fld ''apdb'' struct_ptrauth_key,
      Fld ''apga'' struct_ptrauth_key]"

definition struct_ptrauth_keys_kernel :: ctype where
  "struct_ptrauth_keys_kernel = CStruct [
      Fld ''apia'' struct_ptrauth_key]"

definition struct_thread_struct :: ctype where
  "struct_thread_struct = CStruct [
      Fld ''cpu_context'' struct_cpu_context,
      Bits '''' (Prim CLong) 64,
      Fld ''uw'' (CStruct [
        Fld ''tp_value'' (Prim CULong),
        Fld ''tp2_value'' (Prim CULong),
        Fld ''fpmr'' typedef_u64,
        Fld ''pad'' (Prim CULong),
        Fld ''fpsimd_state'' struct_user_fpsimd_state]),
      Fld ''fp_type'' enum_fp_type,
      Fld ''fpsimd_cpu'' (Prim CUInt),
      Fld ''sve_state'' (Ptr ''void''),
      Fld ''sme_state'' (Ptr ''void''),
      Fld ''vl'' (Arr 2 (Prim CUInt)),
      Fld ''vl_onexec'' (Arr 2 (Prim CUInt)),
      Fld ''fault_address'' (Prim CULong),
      Fld ''fault_code'' (Prim CULong),
      Fld ''debug'' struct_debug_info,
      Bits '''' (Prim CLong) 64,
      Fld ''kernel_fpsimd_state'' struct_user_fpsimd_state,
      Fld ''kernel_fpsimd_cpu'' (Prim CUInt),
      Fld ''keys_user'' struct_ptrauth_keys_user,
      Fld ''keys_kernel'' struct_ptrauth_keys_kernel,
      Fld ''mte_ctrl'' typedef_u64,
      Fld ''sctlr_user'' typedef_u64,
      Fld ''svcr'' typedef_u64,
      Fld ''tpidr2_el0'' typedef_u64,
      Bits '''' (Prim CLong) 64]"

definition struct_task_struct :: ctype where
  "struct_task_struct = CStruct ([
      Fld ''thread_info'' struct_thread_info,
      Fld ''__state'' (Prim CUInt),
      Fld ''saved_state'' (Prim CUInt),
      Fld ''stack'' (Ptr ''void''),
      Fld ''usage'' typedef_refcount_t,
      Fld ''flags'' (Prim CUInt),
      Fld ''ptrace'' (Prim CUInt),
      Fld ''on_cpu'' (Prim CInt),
      Fld ''wake_entry'' struct___call_single_node,
      Fld ''wakee_flips'' (Prim CUInt),
      Fld ''wakee_flip_decay_ts'' (Prim CULong),
      Fld ''last_wakee'' (Ptr ''struct task_struct''),
      Fld ''recent_used_cpu'' (Prim CInt),
      Fld ''wake_cpu'' (Prim CInt),
      Fld ''on_rq'' (Prim CInt),
      Fld ''prio'' (Prim CInt),
      Fld ''static_prio'' (Prim CInt),
      Fld ''normal_prio'' (Prim CInt),
      Fld ''rt_priority'' (Prim CUInt),
      Fld ''se'' struct_sched_entity,
      Fld ''rt'' struct_sched_rt_entity,
      Fld ''dl'' struct_sched_dl_entity,
      Fld ''dl_server'' (Ptr ''struct sched_dl_entity''),
      Fld ''sched_class'' (Ptr ''const struct sched_class''),
      Fld ''sched_task_group'' (Ptr ''struct task_group''),
      Fld ''stats'' struct_sched_statistics,
      Fld ''policy'' (Prim CUInt),
      Fld ''max_allowed_capacity'' (Prim CULong),
      Fld ''nr_cpus_allowed'' (Prim CInt),
      Fld ''cpus_ptr'' (Ptr ''const cpumask_t''),
      Fld ''user_cpus_ptr'' (Ptr ''cpumask_t''),
      Fld ''cpus_mask'' typedef_cpumask_t,
      Fld ''migration_pending'' (Ptr ''void''),
      Fld ''migration_disabled'' (Prim CUShort),
      Fld ''migration_flags'' (Prim CUShort),
      Fld ''trc_reader_nesting'' (Prim CInt),
      Fld ''trc_ipi_to_cpu'' (Prim CInt),
      Fld ''trc_reader_special'' union_rcu_special,
      Fld ''trc_holdout_list'' struct_list_head,
      Fld ''trc_blkd_node'' struct_list_head,
      Fld ''trc_blkd_cpu'' (Prim CInt),
      Fld ''sched_info'' struct_sched_info,
      Fld ''tasks'' struct_list_head,
      Fld ''pushable_tasks'' struct_plist_node,
      Fld ''pushable_dl_tasks'' struct_rb_node,
      Fld ''mm'' (Ptr ''struct mm_struct''),
      Fld ''active_mm'' (Ptr ''struct mm_struct''),
      Fld ''faults_disabled_mapping'' (Ptr ''struct address_space''),
      Fld ''exit_state'' (Prim CInt),
      Fld ''exit_code'' (Prim CInt),
      Fld ''exit_signal'' (Prim CInt),
      Fld ''pdeath_signal'' (Prim CInt),
      Fld ''jobctl'' (Prim CULong),
      Fld ''personality'' (Prim CUInt),
      Bits ''sched_reset_on_fork'' (Prim CUInt) 1,
      Bits ''sched_contributes_to_load'' (Prim CUInt) 1,
      Bits ''sched_migrated'' (Prim CUInt) 1,
      Bits '''' (Prim CLong) 29,
      Bits ''sched_remote_wakeup'' (Prim CUInt) 1,
      Bits ''sched_rt_mutex'' (Prim CUInt) 1,
      Bits ''in_execve'' (Prim CUInt) 1,
      Bits ''in_iowait'' (Prim CUInt) 1,
      Bits ''in_lru_fault'' (Prim CUInt) 1,
      Bits ''no_cgroup_migration'' (Prim CUInt) 1,
      Bits ''frozen'' (Prim CUInt) 1,
      Bits ''use_memdelay'' (Prim CUInt) 1,
      Bits ''in_memstall'' (Prim CUInt) 1,
      Bits ''in_eventfd'' (Prim CUInt) 1,
      Bits ''in_thrashing'' (Prim CUInt) 1,
      Fld ''atomic_flags'' (Prim CULong),
      Fld ''restart_block'' struct_restart_block,
      Fld ''pid'' typedef_pid_t,
      Fld ''tgid'' typedef_pid_t,
      Fld ''stack_canary'' (Prim CULong),
      Fld ''real_parent'' (Ptr ''struct task_struct''),
      Fld ''parent'' (Ptr ''struct task_struct''),
      Fld ''children'' struct_list_head,
      Fld ''sibling'' struct_list_head,
      Fld ''group_leader'' (Ptr ''struct task_struct''),
      Fld ''ptraced'' struct_list_head,
      Fld ''ptrace_entry'' struct_list_head,
      Fld ''thread_pid'' (Ptr ''struct pid''),
      Fld ''pid_links'' (Arr 4 struct_hlist_node),
      Fld ''thread_node'' struct_list_head,
      Fld ''vfork_done'' (Ptr ''struct completion''),
      Fld ''set_child_tid'' (Ptr ''int''),
      Fld ''clear_child_tid'' (Ptr ''int''),
      Fld ''worker_private'' (Ptr ''void''),
      Fld ''utime'' typedef_u64,
      Fld ''stime'' typedef_u64,
      Fld ''gtime'' typedef_u64,
      Fld ''prev_cputime'' struct_prev_cputime,
      Fld ''nvcsw'' (Prim CULong),
      Fld ''nivcsw'' (Prim CULong),
      Fld ''start_time'' typedef_u64,
      Fld ''start_boottime'' typedef_u64,
      Fld ''min_flt'' (Prim CULong),
      Fld ''maj_flt'' (Prim CULong),
      Fld ''posix_cputimers'' struct_posix_cputimers,
      Fld ''posix_cputimers_work'' struct_posix_cputimers_work,
      Fld ''ptracer_cred'' (Ptr ''const struct cred''),
      Fld ''real_cred'' (Ptr ''const struct cred''),
      Fld ''cred'' (Ptr ''const struct cred''),
      Fld ''cached_requested_key'' (Ptr ''struct key''),
      Fld ''comm'' (Arr 16 (Prim CChar)),
      Fld ''nameidata'' (Ptr ''struct nameidata''),
      Fld ''sysvsem'' struct_sysv_sem,
      Fld ''sysvshm'' struct_sysv_shm,
      Fld ''fs'' (Ptr ''struct fs_struct''),
      Fld ''files'' (Ptr ''struct files_struct''),
      Fld ''io_uring'' (Ptr ''struct io_uring_task''),
      Fld ''nsproxy'' (Ptr ''struct nsproxy''),
      Fld ''signal'' (Ptr ''struct signal_struct''),
      Fld ''sighand'' (Ptr ''struct sighand_struct''),
      Fld ''blocked'' typedef_sigset_t,
      Fld ''real_blocked'' typedef_sigset_t,
      Fld ''saved_sigmask'' typedef_sigset_t,
      Fld ''pending'' struct_sigpending,
      Fld ''sas_ss_sp'' (Prim CULong),
      Fld ''sas_ss_size'' typedef_size_t,
      Fld ''sas_ss_flags'' (Prim CUInt),
      Fld ''task_works'' (Ptr ''struct callback_head''),
      Fld ''audit_context'' (Ptr ''struct audit_context''),
      Fld ''loginuid'' typedef_kuid_t,
      Fld ''sessionid'' (Prim CUInt),
      Fld ''seccomp'' struct_seccomp,
      Fld ''syscall_dispatch'' struct_syscall_user_dispatch,
      Fld ''parent_exec_id'' typedef_u64,
      Fld ''self_exec_id'' typedef_u64,
      Fld ''alloc_lock'' typedef_spinlock_t,
      Fld ''pi_lock'' typedef_raw_spinlock_t,
      Fld ''wake_q'' struct_wake_q_node,
      Fld ''pi_waiters'' struct_rb_root_cached,
      Fld ''pi_top_task'' (Ptr ''struct task_struct''),
      Fld ''pi_blocked_on'' (Ptr ''struct rt_mutex_waiter''),
      Fld ''journal_info'' (Ptr ''void''),
      Fld ''bio_list'' (Ptr ''struct bio_list''),
      Fld ''plug'' (Ptr ''struct blk_plug''),
      Fld ''reclaim_state'' (Ptr ''struct reclaim_state''),
      Fld ''io_context'' (Ptr ''struct io_context''),
      Fld ''capture_control'' (Ptr ''struct capture_control''),
      Fld ''ptrace_message'' (Prim CULong),
      Fld ''last_siginfo'' (Ptr ''kernel_siginfo_t''),
      Fld ''ioac'' struct_task_io_accounting,
      Fld ''psi_flags'' (Prim CUInt),
      Fld ''acct_rss_mem1'' typedef_u64,
      Fld ''acct_vm_mem1'' typedef_u64,
      Fld ''acct_timexpd'' typedef_u64,
      Fld ''mems_allowed'' typedef_nodemask_t,
      Fld ''mems_allowed_seq'' typedef_seqcount_spinlock_t,
      Fld ''cpuset_mem_spread_rotor'' (Prim CInt),
      Fld ''cpuset_slab_spread_rotor'' (Prim CInt),
      Fld ''cgroups'' (Ptr ''struct css_set''),
      Fld ''cg_list'' struct_list_head,
      Fld ''robust_list'' (Ptr ''struct robust_list_head''),
      Fld ''pi_state_list'' struct_list_head,
      Fld ''pi_state_cache'' (Ptr ''struct futex_pi_state''),
      Fld ''futex_exit_mutex'' struct_mutex,
      Fld ''futex_state'' (Prim CUInt),
      Fld ''perf_recursion'' (Arr 4 typedef_u8),
      Fld ''perf_event_ctxp'' (Ptr ''struct perf_event_context''),
      Fld ''perf_event_mutex'' struct_mutex,
      Fld ''perf_event_list'' struct_list_head,
      Fld ''rseq'' (Ptr ''struct rseq''),
      Fld ''rseq_len'' typedef_u32,
      Fld ''rseq_sig'' typedef_u32,
      Fld ''rseq_event_mask'' (Prim CULong),
      Fld ''mm_cid'' (Prim CInt),
      Fld ''last_mm_cid'' (Prim CInt),
      Fld ''migrate_from_cpu'' (Prim CInt),
      Fld ''mm_cid_active'' (Prim CInt),
      Fld ''cid_work'' struct_callback_head,
      Fld ''tlb_ubc'' struct_tlbflush_unmap_batch,
      Fld ''splice_pipe'' (Ptr ''struct pipe_inode_info''),
      Fld ''task_frag'' struct_page_frag,
      Fld ''delays'' (Ptr ''struct task_delay_info''),
      Fld ''nr_dirtied'' (Prim CInt),
      Fld ''nr_dirtied_pause'' (Prim CInt),
      Fld ''dirty_paused_when'' (Prim CULong),
      Fld ''timer_slack_ns'' typedef_u64,
      Fld ''default_timer_slack_ns'' typedef_u64,
      Fld ''trace_recursion'' (Prim CULong),
      Fld ''memcg_nr_pages_over_high'' (Prim CUInt),
      Fld ''active_memcg'' (Ptr ''struct mem_cgroup''),
      Fld ''objcg'' (Ptr ''struct obj_cgroup''),
      Fld ''throttle_disk'' (Ptr ''struct gendisk''),
      Fld ''utask'' (Ptr ''struct uprobe_task''),
      Fld ''kmap_ctrl'' struct_kmap_ctrl,
      Fld ''rcu'' struct_callback_head,
      Fld ''rcu_users'' typedef_refcount_t,
      Fld ''pagefault_disabled'' (Prim CInt),
      Fld ''oom_reaper_list'' (Ptr ''struct task_struct''),
      Fld ''oom_reaper_timer'' struct_timer_list,
      Fld ''stack_refcount'' typedef_refcount_t,
      Fld ''security'' (Ptr ''void''),
      Fld ''bpf_storage'' (Ptr ''struct bpf_local_storage''),
      Fld ''bpf_ctx'' (Ptr ''struct bpf_run_ctx''),
      Fld ''bpf_net_context'' (Ptr ''struct bpf_net_context''),
      Fld ''kretprobe_instances'' struct_llist_head,
      Fld ''sched_docker_op'' typedef_u8,
      Fld ''thread'' struct_thread_struct] @ pad64 4)"

definition struct_css_set :: ctype where
  "struct_css_set = CStruct [
      Fld ''subsys'' (Arr 13 (Ptr ''struct cgroup_subsys_state'')),
      Fld ''refcount'' typedef_refcount_t,
      Fld ''dom_cset'' (Ptr ''struct css_set''),
      Fld ''dfl_cgrp'' (Ptr ''struct cgroup''),
      Fld ''nr_tasks'' (Prim CInt),
      Fld ''tasks'' struct_list_head,
      Fld ''mg_tasks'' struct_list_head,
      Fld ''dying_tasks'' struct_list_head,
      Fld ''task_iters'' struct_list_head,
      Fld ''e_cset_node'' (Arr 13 struct_list_head),
      Fld ''threaded_csets'' struct_list_head,
      Fld ''threaded_csets_node'' struct_list_head,
      Fld ''hlist'' struct_hlist_node,
      Fld ''cgrp_links'' struct_list_head,
      Fld ''mg_src_preload_node'' struct_list_head,
      Fld ''mg_dst_preload_node'' struct_list_head,
      Fld ''mg_node'' struct_list_head,
      Fld ''mg_src_cgrp'' (Ptr ''struct cgroup''),
      Fld ''mg_dst_cgrp'' (Ptr ''struct cgroup''),
      Fld ''mg_dst_cset'' (Ptr ''struct css_set''),
      Fld ''dead'' (Prim CBool),
      Fld ''callback_head'' struct_callback_head]"

definition struct_percpu_ref :: ctype where
  "struct_percpu_ref = CStruct [
      Fld ''percpu_count_ptr'' (Prim CULong),
      Fld ''data'' (Ptr ''struct percpu_ref_data'')]"

definition typedef_work_func_t :: ctype where
  "typedef_work_func_t = Ptr ''void (struct work_struct *)''"

definition struct_work_struct :: ctype where
  "struct_work_struct = CStruct [
      Fld ''data'' typedef_atomic_long_t,
      Fld ''entry'' struct_list_head,
      Fld ''func'' typedef_work_func_t]"

definition struct_rcu_work :: ctype where
  "struct_rcu_work = CStruct [
      Fld ''work'' struct_work_struct,
      Fld ''rcu'' struct_callback_head,
      Fld ''wq'' (Ptr ''struct workqueue_struct'')]"

definition struct_cgroup_subsys_state :: ctype where
  "struct_cgroup_subsys_state = CStruct [
      Fld ''cgroup'' (Ptr ''struct cgroup''),
      Fld ''ss'' (Ptr ''struct cgroup_subsys''),
      Fld ''refcnt'' struct_percpu_ref,
      Fld ''sibling'' struct_list_head,
      Fld ''children'' struct_list_head,
      Fld ''rstat_css_node'' struct_list_head,
      Fld ''id'' (Prim CInt),
      Fld ''flags'' (Prim CUInt),
      Fld ''serial_nr'' typedef_u64,
      Fld ''online_cnt'' typedef_atomic_t,
      Fld ''destroy_work'' struct_work_struct,
      Fld ''destroy_rwork'' struct_rcu_work,
      Fld ''parent'' (Ptr ''struct cgroup_subsys_state'')]"

definition struct_cgroup_file :: ctype where
  "struct_cgroup_file = CStruct [
      Fld ''kn'' (Ptr ''struct kernfs_node''),
      Fld ''notified_at'' (Prim CULong),
      Fld ''notify_timer'' struct_timer_list]"

definition struct_cacheline_padding :: ctype where
  "struct_cacheline_padding = CStruct [
      Fld ''x'' (Arr 0 (Prim CChar))]"

definition struct_task_cputime :: ctype where
  "struct_task_cputime = CStruct [
      Fld ''stime'' typedef_u64,
      Fld ''utime'' typedef_u64,
      Fld ''sum_exec_runtime'' (Prim CULLong)]"

definition struct_cgroup_base_stat :: ctype where
  "struct_cgroup_base_stat = CStruct [
      Fld ''cputime'' struct_task_cputime]"

definition struct_wait_queue_head :: ctype where
  "struct_wait_queue_head = CStruct [
      Fld ''lock'' typedef_spinlock_t,
      Fld ''head'' struct_list_head]"

definition typedef_wait_queue_head_t :: ctype where
  "typedef_wait_queue_head_t = struct_wait_queue_head"

definition struct_hlist_head :: ctype where
  "struct_hlist_head = CStruct [
      Fld ''first'' (Ptr ''struct hlist_node'')]"

definition struct_cgroup_bpf :: ctype where
  "struct_cgroup_bpf = CStruct [
      Fld ''effective'' (Arr 38 (Ptr ''struct bpf_prog_array'')),
      Fld ''progs'' (Arr 38 struct_hlist_head),
      Fld ''flags'' (Arr 38 typedef_u8),
      Fld ''storages'' struct_list_head,
      Fld ''inactive'' (Ptr ''struct bpf_prog_array''),
      Fld ''refcnt'' struct_percpu_ref,
      Fld ''release_work'' struct_work_struct]"

definition struct_cgroup_freezer_state :: ctype where
  "struct_cgroup_freezer_state = CStruct [
      Fld ''freeze'' (Prim CBool),
      Fld ''e_freeze'' (Prim CInt),
      Fld ''nr_frozen_descendants'' (Prim CInt),
      Fld ''nr_frozen_tasks'' (Prim CInt)]"

definition struct_cgroup :: ctype where
  "struct_cgroup = CStruct ([
      Fld ''self'' struct_cgroup_subsys_state,
      Fld ''flags'' (Prim CULong),
      Fld ''level'' (Prim CInt),
      Fld ''max_depth'' (Prim CInt),
      Fld ''nr_descendants'' (Prim CInt),
      Fld ''nr_dying_descendants'' (Prim CInt),
      Fld ''max_descendants'' (Prim CInt),
      Fld ''nr_populated_csets'' (Prim CInt),
      Fld ''nr_populated_domain_children'' (Prim CInt),
      Fld ''nr_populated_threaded_children'' (Prim CInt),
      Fld ''nr_threaded_children'' (Prim CInt),
      Fld ''kn'' (Ptr ''struct kernfs_node''),
      Fld ''procs_file'' struct_cgroup_file,
      Fld ''events_file'' struct_cgroup_file,
      Fld ''psi_files'' (Arr 3 struct_cgroup_file),
      Fld ''subtree_control'' typedef_u16,
      Fld ''subtree_ss_mask'' typedef_u16,
      Fld ''old_subtree_control'' typedef_u16,
      Fld ''old_subtree_ss_mask'' typedef_u16,
      Fld ''subsys'' (Arr 13 (Ptr ''struct cgroup_subsys_state'')),
      Fld ''root'' (Ptr ''struct cgroup_root''),
      Fld ''cset_links'' struct_list_head,
      Fld ''e_csets'' (Arr 13 struct_list_head),
      Fld ''dom_cgrp'' (Ptr ''struct cgroup''),
      Fld ''old_dom_cgrp'' (Ptr ''struct cgroup''),
      Fld ''rstat_cpu'' (Ptr ''struct cgroup_rstat_cpu''),
      Fld ''rstat_css_list'' struct_list_head] @ pad64 5 @ [
      Fld ''_pad_'' struct_cacheline_padding,
      Fld ''rstat_flush_next'' (Ptr ''struct cgroup''),
      Fld ''last_bstat'' struct_cgroup_base_stat,
      Fld ''bstat'' struct_cgroup_base_stat,
      Fld ''prev_cputime'' struct_prev_cputime,
      Fld ''pidlists'' struct_list_head,
      Fld ''pidlist_mutex'' struct_mutex,
      Fld ''offline_waitq'' typedef_wait_queue_head_t,
      Fld ''release_agent_work'' struct_work_struct,
      Fld ''psi'' (Ptr ''struct psi_group''),
      Fld ''bpf'' struct_cgroup_bpf,
      Fld ''freezer'' struct_cgroup_freezer_state,
      Fld ''bpf_cgrp_storage'' (Ptr ''struct bpf_local_storage''),
      Fld ''ancestors'' (Arr 0 (Ptr ''struct cgroup''))] @ pad64 3)"

definition typedef_umode_t :: ctype where
  "typedef_umode_t = Prim CUShort"

definition struct_kernfs_elem_dir :: ctype where
  "struct_kernfs_elem_dir = CStruct [
      Fld ''subdirs'' (Prim CULong),
      Fld ''children'' struct_rb_root,
      Fld ''root'' (Ptr ''struct kernfs_root''),
      Fld ''rev'' (Prim CULong)]"

definition struct_kernfs_elem_symlink :: ctype where
  "struct_kernfs_elem_symlink = CStruct [
      Fld ''target_kn'' (Ptr ''struct kernfs_node'')]"

definition typedef___kernel_loff_t :: ctype where
  "typedef___kernel_loff_t = Prim CLLong"

definition typedef_loff_t :: ctype where
  "typedef_loff_t = typedef___kernel_loff_t"

definition struct_kernfs_elem_attr :: ctype where
  "struct_kernfs_elem_attr = CStruct [
      Fld ''ops'' (Ptr ''const struct kernfs_ops''),
      Fld ''open'' (Ptr ''struct kernfs_open_node''),
      Fld ''size'' typedef_loff_t,
      Fld ''notify_next'' (Ptr ''struct kernfs_node'')]"

definition struct_kernfs_node :: ctype where
  "struct_kernfs_node = CStruct [
      Fld ''count'' typedef_atomic_t,
      Fld ''active'' typedef_atomic_t,
      Fld ''parent'' (Ptr ''struct kernfs_node''),
      Fld ''name'' (Ptr ''const char''),
      Fld ''rb'' struct_rb_node,
      Fld ''ns'' (Ptr ''const void''),
      Fld ''hash'' (Prim CUInt),
      Fld ''flags'' (Prim CUShort),
      Fld ''mode'' typedef_umode_t,
      Fld '''' (CUnion [
        Fld ''dir'' struct_kernfs_elem_dir,
        Fld ''symlink'' struct_kernfs_elem_symlink,
        Fld ''attr'' struct_kernfs_elem_attr]),
      Fld ''id'' typedef_u64,
      Fld ''priv'' (Ptr ''void''),
      Fld ''iattr'' (Ptr ''struct kernfs_iattrs''),
      Fld ''rcu'' struct_callback_head]"

definition typedef_blk_opf_t :: ctype where
  "typedef_blk_opf_t = typedef___u32"

definition typedef_req_flags_t :: ctype where
  "typedef_req_flags_t = typedef___u32"

definition typedef_sector_t :: ctype where
  "typedef_sector_t = typedef_u64"

definition enum_rw_hint :: ctype where
  "enum_rw_hint = Enum [(''WRITE_LIFE_NOT_SET'', 0), (''WRITE_LIFE_NONE'', 1), (''WRITE_LIFE_SHORT'', 2),
      (''WRITE_LIFE_MEDIUM'', 3), (''WRITE_LIFE_LONG'', 4), (''WRITE_LIFE_EXTREME'', 5)]"

definition enum_mq_rq_state :: ctype where
  "enum_mq_rq_state = Enum [(''MQ_RQ_IDLE'', 0), (''MQ_RQ_IN_FLIGHT'', 1), (''MQ_RQ_COMPLETE'', 2)]"

definition struct_bio_vec :: ctype where
  "struct_bio_vec = CStruct [
      Fld ''bv_page'' (Ptr ''struct page''),
      Fld ''bv_len'' (Prim CUInt),
      Fld ''bv_offset'' (Prim CUInt)]"

definition struct_request :: ctype where
  "struct_request = CStruct [
      Fld ''q'' (Ptr ''struct request_queue''),
      Fld ''mq_ctx'' (Ptr ''struct blk_mq_ctx''),
      Fld ''mq_hctx'' (Ptr ''struct blk_mq_hw_ctx''),
      Fld ''cmd_flags'' typedef_blk_opf_t,
      Fld ''rq_flags'' typedef_req_flags_t,
      Fld ''tag'' (Prim CInt),
      Fld ''internal_tag'' (Prim CInt),
      Fld ''timeout'' (Prim CUInt),
      Fld ''__data_len'' (Prim CUInt),
      Fld ''__sector'' typedef_sector_t,
      Fld ''bio'' (Ptr ''struct bio''),
      Fld ''biotail'' (Ptr ''struct bio''),
      Fld '''' (CUnion [
        Fld ''queuelist'' struct_list_head,
        Fld ''rq_next'' (Ptr ''struct request'')]),
      Fld ''part'' (Ptr ''struct block_device''),
      Fld ''start_time_ns'' typedef_u64,
      Fld ''io_start_time_ns'' typedef_u64,
      Fld ''stats_sectors'' (Prim CUShort),
      Fld ''nr_phys_segments'' (Prim CUShort),
      Fld ''write_hint'' enum_rw_hint,
      Fld ''ioprio'' (Prim CUShort),
      Fld ''state'' enum_mq_rq_state,
      Fld ''ref'' typedef_atomic_t,
      Fld ''deadline'' (Prim CULong),
      Fld '''' (CUnion [
        Fld ''hash'' struct_hlist_node,
        Fld ''ipi_list'' struct_llist_node]),
      Fld '''' (CUnion [
        Fld ''rb_node'' struct_rb_node,
        Fld ''special_vec'' struct_bio_vec]),
      Fld ''elv'' (CStruct [
        Fld ''icq'' (Ptr ''struct io_cq''),
        Fld ''priv'' (Arr 2 (Ptr ''void''))]),
      Fld ''flush'' (CStruct [
        Fld ''seq'' (Prim CUInt),
        Fld ''saved_end_io'' (Ptr ''rq_end_io_fn'')]),
      Fld ''fifo_time'' typedef_u64,
      Fld ''end_io'' (Ptr ''rq_end_io_fn''),
      Fld ''end_io_data'' (Ptr ''void'')]"

definition typedef___addrpair :: ctype where
  "typedef___addrpair = typedef___u64"

definition typedef___be32 :: ctype where
  "typedef___be32 = typedef___u32"

definition typedef___portpair :: ctype where
  "typedef___portpair = typedef___u32"

definition typedef___be16 :: ctype where
  "typedef___be16 = typedef___u16"

definition typedef_possible_net_t :: ctype where
  "typedef_possible_net_t = CStruct [
      Fld ''net'' (Ptr ''struct net'')]"

definition struct_in6_addr :: ctype where
  "struct_in6_addr = CStruct [
      Fld ''in6_u'' (CUnion [
        Fld ''u6_addr8'' (Arr 16 typedef___u8),
        Fld ''u6_addr16'' (Arr 8 typedef___be16),
        Fld ''u6_addr32'' (Arr 4 typedef___be32)])]"

definition struct_hlist_nulls_node :: ctype where
  "struct_hlist_nulls_node = CStruct [
      Fld ''next'' (Ptr ''struct hlist_nulls_node''),
      Fld ''pprev'' (Ptr ''struct hlist_nulls_node *'')]"

definition struct_sock_common :: ctype where
  "struct_sock_common = CStruct [
      Fld '''' (CUnion [
        Fld ''skc_addrpair'' typedef___addrpair,
        Fld '''' (CStruct [
          Fld ''skc_daddr'' typedef___be32,
          Fld ''skc_rcv_saddr'' typedef___be32])]),
      Fld '''' (CUnion [
        Fld ''skc_hash'' (Prim CUInt),
        Fld ''skc_u16hashes'' (Arr 2 typedef___u16)]),
      Fld '''' (CUnion [
        Fld ''skc_portpair'' typedef___portpair,
        Fld '''' (CStruct [
          Fld ''skc_dport'' typedef___be16,
          Fld ''skc_num'' typedef___u16])]),
      Fld ''skc_family'' (Prim CUShort),
      Fld ''skc_state'' (Prim CUChar),
      Bits ''skc_reuse'' (Prim CUChar) 4,
      Bits ''skc_reuseport'' (Prim CUChar) 1,
      Bits ''skc_ipv6only'' (Prim CUChar) 1,
      Bits ''skc_net_refcnt'' (Prim CUChar) 1,
      Fld ''skc_bound_dev_if'' (Prim CInt),
      Fld '''' (CUnion [
        Fld ''skc_bind_node'' struct_hlist_node,
        Fld ''skc_portaddr_node'' struct_hlist_node]),
      Fld ''skc_prot'' (Ptr ''struct proto''),
      Fld ''skc_net'' typedef_possible_net_t,
      Fld ''skc_v6_daddr'' struct_in6_addr,
      Fld ''skc_v6_rcv_saddr'' struct_in6_addr,
      Fld ''skc_cookie'' typedef_atomic64_t,
      Fld '''' (CUnion [
        Fld ''skc_flags'' (Prim CULong),
        Fld ''skc_listener'' (Ptr ''struct sock''),
        Fld ''skc_tw_dr'' (Ptr ''struct inet_timewait_death_row'')]),
      Fld ''skc_dontcopy_begin'' (Arr 0 (Prim CInt)),
      Fld '''' (CUnion [
        Fld ''skc_node'' struct_hlist_node,
        Fld ''skc_nulls_node'' struct_hlist_nulls_node]),
      Fld ''skc_tx_queue_mapping'' (Prim CUShort),
      Fld ''skc_rx_queue_mapping'' (Prim CUShort),
      Fld '''' (CUnion [
        Fld ''skc_incoming_cpu'' (Prim CInt),
        Fld ''skc_rcv_wnd'' typedef_u32,
        Fld ''skc_tw_rcv_nxt'' typedef_u32]),
      Fld ''skc_refcnt'' typedef_refcount_t,
      Fld ''skc_dontcopy_end'' (Arr 0 (Prim CInt)),
      Fld '''' (CUnion [
        Fld ''skc_rxhash'' typedef_u32,
        Fld ''skc_window_clamp'' typedef_u32,
        Fld ''skc_tw_snd_nxt'' typedef_u32])]"

definition typedef___s32 :: ctype where
  "typedef___s32 = Prim CInt"

definition struct_sk_buff_list :: ctype where
  "struct_sk_buff_list = CStruct [
      Fld ''next'' (Ptr ''struct sk_buff''),
      Fld ''prev'' (Ptr ''struct sk_buff'')]"

definition struct_sk_buff_head :: ctype where
  "struct_sk_buff_head = CStruct [
      Fld '''' (CUnion [
        Fld '''' (CStruct [
          Fld ''next'' (Ptr ''struct sk_buff''),
          Fld ''prev'' (Ptr ''struct sk_buff'')]),
        Fld ''list'' struct_sk_buff_list]),
      Fld ''qlen'' typedef___u32,
      Fld ''lock'' typedef_spinlock_t]"

definition typedef_socket_lock_t :: ctype where
  "typedef_socket_lock_t = CStruct [
      Fld ''slock'' typedef_spinlock_t,
      Fld ''owned'' (Prim CInt),
      Fld ''wq'' typedef_wait_queue_head_t]"

definition typedef_netdev_features_t :: ctype where
  "typedef_netdev_features_t = typedef_u64"

definition typedef_gfp_t :: ctype where
  "typedef_gfp_t = Prim CUInt"

definition struct_qrwlock :: ctype where
  "struct_qrwlock = CStruct [
      Fld '''' (CUnion [
        Fld ''cnts'' typedef_atomic_t,
        Fld '''' (CStruct [
          Fld ''wlocked'' typedef_u8,
          Fld ''__lstate'' (Arr 3 typedef_u8)])]),
      Fld ''wait_lock'' typedef_arch_spinlock_t]"

definition typedef_arch_rwlock_t :: ctype where
  "typedef_arch_rwlock_t = struct_qrwlock"

definition typedef_rwlock_t :: ctype where
  "typedef_rwlock_t = CStruct [
      Fld ''raw_lock'' typedef_arch_rwlock_t]"

definition struct_sock_cgroup_data :: ctype where
  "struct_sock_cgroup_data = CStruct [
      Fld ''cgroup'' (Ptr ''struct cgroup''),
      Fld ''classid'' typedef_u32,
      Fld ''prioidx'' typedef_u16]"

definition typedef_netns_tracker :: ctype where
  "typedef_netns_tracker = CStruct []"

definition struct_sock :: ctype where
  "struct_sock = CStruct [
      Fld ''__sk_common'' struct_sock_common,
      Fld ''__cacheline_group_begin__sock_write_rx'' (Arr 0 typedef___u8),
      Fld ''sk_drops'' typedef_atomic_t,
      Fld ''sk_peek_off'' typedef___s32,
      Fld ''sk_error_queue'' struct_sk_buff_head,
      Fld ''sk_receive_queue'' struct_sk_buff_head,
      Fld ''sk_backlog'' (CStruct [
        Fld ''rmem_alloc'' typedef_atomic_t,
        Fld ''len'' (Prim CInt),
        Fld ''head'' (Ptr ''struct sk_buff''),
        Fld ''tail'' (Ptr ''struct sk_buff'')]),
      Fld ''__cacheline_group_end__sock_write_rx'' (Arr 0 typedef___u8),
      Fld ''__cacheline_group_begin__sock_read_rx'' (Arr 0 typedef___u8),
      Fld ''sk_rx_dst'' (Ptr ''struct dst_entry''),
      Fld ''sk_rx_dst_ifindex'' (Prim CInt),
      Fld ''sk_rx_dst_cookie'' typedef_u32,
      Fld ''sk_ll_usec'' (Prim CUInt),
      Fld ''sk_napi_id'' (Prim CUInt),
      Fld ''sk_busy_poll_budget'' typedef_u16,
      Fld ''sk_prefer_busy_poll'' typedef_u8,
      Fld ''sk_userlocks'' typedef_u8,
      Fld ''sk_rcvbuf'' (Prim CInt),
      Fld ''sk_filter'' (Ptr ''struct sk_filter''),
      Fld '''' (CUnion [
        Fld ''sk_wq'' (Ptr ''struct socket_wq''),
        Fld ''sk_wq_raw'' (Ptr ''struct socket_wq'')]),
      Fld ''sk_data_ready'' (Ptr ''void (struct sock *)''),
      Fld ''sk_rcvtimeo'' (Prim CLong),
      Fld ''sk_rcvlowat'' (Prim CInt),
      Fld ''__cacheline_group_end__sock_read_rx'' (Arr 0 typedef___u8),
      Fld ''__cacheline_group_begin__sock_read_rxtx'' (Arr 0 typedef___u8),
      Fld ''sk_err'' (Prim CInt),
      Fld ''sk_socket'' (Ptr ''struct socket''),
      Fld ''sk_memcg'' (Ptr ''struct mem_cgroup''),
      Fld ''sk_policy'' (Arr 2 (Ptr ''struct xfrm_policy'')),
      Fld ''__cacheline_group_end__sock_read_rxtx'' (Arr 0 typedef___u8),
      Fld ''__cacheline_group_begin__sock_write_rxtx'' (Arr 0 typedef___u8),
      Fld ''sk_lock'' typedef_socket_lock_t,
      Fld ''sk_reserved_mem'' typedef_u32,
      Fld ''sk_forward_alloc'' (Prim CInt),
      Fld ''sk_tsflags'' typedef_u32,
      Fld ''__cacheline_group_end__sock_write_rxtx'' (Arr 0 typedef___u8),
      Fld ''__cacheline_group_begin__sock_write_tx'' (Arr 0 typedef___u8),
      Fld ''sk_write_pending'' (Prim CInt),
      Fld ''sk_omem_alloc'' typedef_atomic_t,
      Fld ''sk_sndbuf'' (Prim CInt),
      Fld ''sk_wmem_queued'' (Prim CInt),
      Fld ''sk_wmem_alloc'' typedef_refcount_t,
      Fld ''sk_tsq_flags'' (Prim CULong),
      Fld '''' (CUnion [
        Fld ''sk_send_head'' (Ptr ''struct sk_buff''),
        Fld ''tcp_rtx_queue'' struct_rb_root]),
      Fld ''sk_write_queue'' struct_sk_buff_head,
      Fld ''sk_dst_pending_confirm'' typedef_u32,
      Fld ''sk_pacing_status'' typedef_u32,
      Fld ''sk_frag'' struct_page_frag,
      Fld ''sk_timer'' struct_timer_list,
      Fld ''sk_pacing_rate'' (Prim CULong),
      Fld ''sk_zckey'' typedef_atomic_t,
      Fld ''sk_tskey'' typedef_atomic_t,
      Fld ''__cacheline_group_end__sock_write_tx'' (Arr 0 typedef___u8),
      Fld ''__cacheline_group_begin__sock_read_tx'' (Arr 0 typedef___u8),
      Fld ''sk_max_pacing_rate'' (Prim CULong),
      Fld ''sk_sndtimeo'' (Prim CLong),
      Fld ''sk_priority'' typedef_u32,
      Fld ''sk_mark'' typedef_u32,
      Fld ''sk_dst_cache'' (Ptr ''struct dst_entry''),
      Fld ''sk_route_caps'' typedef_netdev_features_t,
      Fld ''sk_gso_type'' typedef_u16,
      Fld ''sk_gso_max_segs'' typedef_u16,
      Fld ''sk_gso_max_size'' (Prim CUInt),
      Fld ''sk_allocation'' typedef_gfp_t,
      Fld ''sk_txhash'' typedef_u32,
      Fld ''sk_pacing_shift'' typedef_u8,
      Fld ''sk_use_task_frag'' (Prim CBool),
      Fld ''__cacheline_group_end__sock_read_tx'' (Arr 0 typedef___u8),
      Bits ''sk_gso_disabled'' typedef_u8 1,
      Bits ''sk_kern_sock'' typedef_u8 1,
      Bits ''sk_no_check_tx'' typedef_u8 1,
      Bits ''sk_no_check_rx'' typedef_u8 1,
      Fld ''sk_shutdown'' typedef_u8,
      Fld ''sk_type'' typedef_u16,
      Fld ''sk_protocol'' typedef_u16,
      Fld ''sk_lingertime'' (Prim CULong),
      Fld ''sk_prot_creator'' (Ptr ''struct proto''),
      Fld ''sk_callback_lock'' typedef_rwlock_t,
      Fld ''sk_err_soft'' (Prim CInt),
      Fld ''sk_ack_backlog'' typedef_u32,
      Fld ''sk_max_ack_backlog'' typedef_u32,
      Fld ''sk_uid'' typedef_kuid_t,
      Fld ''sk_peer_lock'' typedef_spinlock_t,
      Fld ''sk_bind_phc'' (Prim CInt),
      Fld ''sk_peer_pid'' (Ptr ''struct pid''),
      Fld ''sk_peer_cred'' (Ptr ''const struct cred''),
      Fld ''sk_stamp'' typedef_ktime_t,
      Fld ''sk_disconnects'' (Prim CInt),
      Fld ''sk_txrehash'' typedef_u8,
      Fld ''sk_clockid'' typedef_u8,
      Bits ''sk_txtime_deadline_mode'' typedef_u8 1,
      Bits ''sk_txtime_report_errors'' typedef_u8 1,
      Bits ''sk_txtime_unused'' typedef_u8 6,
      Fld ''sk_user_data'' (Ptr ''void''),
      Fld ''sk_security'' (Ptr ''void''),
      Fld ''sk_cgrp_data'' struct_sock_cgroup_data,
      Fld ''sk_state_change'' (Ptr ''void (struct sock *)''),
      Fld ''sk_write_space'' (Ptr ''void (struct sock *)''),
      Fld ''sk_error_report'' (Ptr ''void (struct sock *)''),
      Fld ''sk_backlog_rcv'' (Ptr ''int (struct sock *, struct sk_buff *)''),
      Fld ''sk_destruct'' (Ptr ''void (struct sock *)''),
      Fld ''sk_reuseport_cb'' (Ptr ''struct sock_reuseport''),
      Fld ''sk_bpf_storage'' (Ptr ''struct bpf_local_storage''),
      Fld ''sk_rcu'' struct_callback_head,
      Fld ''ns_tracker'' typedef_netns_tracker]"

definition typedef___wsum :: ctype where
  "typedef___wsum = typedef___u32"

definition typedef_sk_buff_data_t :: ctype where
  "typedef_sk_buff_data_t = Prim CUInt"

definition struct_sk_buff :: ctype where
  "struct_sk_buff = CStruct [
      Fld '''' (CUnion [
        Fld '''' (CStruct [
          Fld ''next'' (Ptr ''struct sk_buff''),
          Fld ''prev'' (Ptr ''struct sk_buff''),
          Fld '''' (CUnion [
            Fld ''dev'' (Ptr ''struct net_device''),
            Fld ''dev_scratch'' (Prim CULong)])]),
        Fld ''rbnode'' struct_rb_node,
        Fld ''list'' struct_list_head,
        Fld ''ll_node'' struct_llist_node]),
      Fld ''sk'' (Ptr ''struct sock''),
      Fld '''' (CUnion [
        Fld ''tstamp'' typedef_ktime_t,
        Fld ''skb_mstamp_ns'' typedef_u64]),
      Fld ''cb'' (Arr 48 (Prim CChar)),
      Fld '''' (CUnion [
        Fld '''' (CStruct [
          Fld ''_skb_refdst'' (Prim CULong),
          Fld ''destructor'' (Ptr ''void (struct sk_buff *)'')]),
        Fld ''tcp_tsorted_anchor'' struct_list_head,
        Fld ''_sk_redir'' (Prim CULong)]),
      Fld ''_nfct'' (Prim CULong),
      Fld ''len'' (Prim CUInt),
      Fld ''data_len'' (Prim CUInt),
      Fld ''mac_len'' typedef___u16,
      Fld ''hdr_len'' typedef___u16,
      Fld ''queue_mapping'' typedef___u16,
      Fld ''__cloned_offset'' (Arr 0 typedef___u8),
      Bits ''cloned'' typedef___u8 1,
      Bits ''nohdr'' typedef___u8 1,
      Bits ''fclone'' typedef___u8 2,
      Bits ''peeked'' typedef___u8 1,
      Bits ''head_frag'' typedef___u8 1,
      Bits ''pfmemalloc'' typedef___u8 1,
      Bits ''pp_recycle'' typedef___u8 1,
      Fld ''active_extensions'' typedef___u8,
      Fld '''' (CUnion [
        Fld '''' (CStruct [
          Fld ''__pkt_type_offset'' (Arr 0 typedef___u8),
          Bits ''pkt_type'' typedef___u8 3,
          Bits ''ignore_df'' typedef___u8 1,
          Bits ''dst_pending_confirm'' typedef___u8 1,
          Bits ''ip_summed'' typedef___u8 2,
          Bits ''ooo_okay'' typedef___u8 1,
          Fld ''__mono_tc_offset'' (Arr 0 typedef___u8),
          Bits ''tstamp_type'' typedef___u8 2,
          Bits ''tc_at_ingress'' typedef___u8 1,
          Bits ''tc_skip_classify'' typedef___u8 1,
          Bits ''remcsum_offload'' typedef___u8 1,
          Bits ''csum_complete_sw'' typedef___u8 1,
          Bits ''csum_level'' typedef___u8 2,
          Bits ''inner_protocol_type'' typedef___u8 1,
          Bits ''l4_hash'' typedef___u8 1,
          Bits ''sw_hash'' typedef___u8 1,
          Bits ''no_fcs'' typedef___u8 1,
          Bits ''encapsulation'' typedef___u8 1,
          Bits ''encap_hdr_csum'' typedef___u8 1,
          Bits ''csum_valid'' typedef___u8 1,
          Bits '''' (Prim CChar) 1,
          Bits ''ndisc_nodetype'' typedef___u8 2,
          Bits ''ipvs_property'' typedef___u8 1,
          Bits ''nf_trace'' typedef___u8 1,
          Bits ''offload_fwd_mark'' typedef___u8 1,
          Bits ''offload_l3_fwd_mark'' typedef___u8 1,
          Bits ''redirected'' typedef___u8 1,
          Bits ''nf_skip_egress'' typedef___u8 1,
          Bits ''slow_gro'' typedef___u8 1,
          Bits ''csum_not_inet'' typedef___u8 1,
          Fld ''tc_index'' typedef___u16,
          Fld ''alloc_cpu'' typedef_u16,
          Fld '''' (CUnion [
            Fld ''csum'' typedef___wsum,
            Fld '''' (CStruct [
              Fld ''csum_start'' typedef___u16,
              Fld ''csum_offset'' typedef___u16])]),
          Fld ''priority'' typedef___u32,
          Fld ''skb_iif'' (Prim CInt),
          Fld ''hash'' typedef___u32,
          Fld '''' (CUnion [
            Fld ''vlan_all'' typedef_u32,
            Fld '''' (CStruct [
              Fld ''vlan_proto'' typedef___be16,
              Fld ''vlan_tci'' typedef___u16])]),
          Fld '''' (CUnion [
            Fld ''napi_id'' (Prim CUInt),
            Fld ''sender_cpu'' (Prim CUInt)]),
          Fld ''secmark'' typedef___u32,
          Fld '''' (CUnion [
            Fld ''mark'' typedef___u32,
            Fld ''reserved_tailroom'' typedef___u32]),
          Fld '''' (CUnion [
            Fld ''inner_protocol'' typedef___be16,
            Fld ''inner_ipproto'' typedef___u8]),
          Fld ''inner_transport_header'' typedef___u16,
          Fld ''inner_network_header'' typedef___u16,
          Fld ''inner_mac_header'' typedef___u16,
          Fld ''protocol'' typedef___be16,
          Fld ''transport_header'' typedef___u16,
          Fld ''network_header'' typedef___u16,
          Fld ''mac_header'' typedef___u16]),
        Fld ''headers'' (CStruct [
          Fld ''__pkt_type_offset'' (Arr 0 typedef___u8),
          Bits ''pkt_type'' typedef___u8 3,
          Bits ''ignore_df'' typedef___u8 1,
          Bits ''dst_pending_confirm'' typedef___u8 1,
          Bits ''ip_summed'' typedef___u8 2,
          Bits ''ooo_okay'' typedef___u8 1,
          Fld ''__mono_tc_offset'' (Arr 0 typedef___u8),
          Bits ''tstamp_type'' typedef___u8 2,
          Bits ''tc_at_ingress'' typedef___u8 1,
          Bits ''tc_skip_classify'' typedef___u8 1,
          Bits ''remcsum_offload'' typedef___u8 1,
          Bits ''csum_complete_sw'' typedef___u8 1,
          Bits ''csum_level'' typedef___u8 2,
          Bits ''inner_protocol_type'' typedef___u8 1,
          Bits ''l4_hash'' typedef___u8 1,
          Bits ''sw_hash'' typedef___u8 1,
          Bits ''no_fcs'' typedef___u8 1,
          Bits ''encapsulation'' typedef___u8 1,
          Bits ''encap_hdr_csum'' typedef___u8 1,
          Bits ''csum_valid'' typedef___u8 1,
          Bits '''' (Prim CChar) 1,
          Bits ''ndisc_nodetype'' typedef___u8 2,
          Bits ''ipvs_property'' typedef___u8 1,
          Bits ''nf_trace'' typedef___u8 1,
          Bits ''offload_fwd_mark'' typedef___u8 1,
          Bits ''offload_l3_fwd_mark'' typedef___u8 1,
          Bits ''redirected'' typedef___u8 1,
          Bits ''nf_skip_egress'' typedef___u8 1,
          Bits ''slow_gro'' typedef___u8 1,
          Bits ''csum_not_inet'' typedef___u8 1,
          Fld ''tc_index'' typedef___u16,
          Fld ''alloc_cpu'' typedef_u16,
          Fld '''' (CUnion [
            Fld ''csum'' typedef___wsum,
            Fld '''' (CStruct [
              Fld ''csum_start'' typedef___u16,
              Fld ''csum_offset'' typedef___u16])]),
          Fld ''priority'' typedef___u32,
          Fld ''skb_iif'' (Prim CInt),
          Fld ''hash'' typedef___u32,
          Fld '''' (CUnion [
            Fld ''vlan_all'' typedef_u32,
            Fld '''' (CStruct [
              Fld ''vlan_proto'' typedef___be16,
              Fld ''vlan_tci'' typedef___u16])]),
          Fld '''' (CUnion [
            Fld ''napi_id'' (Prim CUInt),
            Fld ''sender_cpu'' (Prim CUInt)]),
          Fld ''secmark'' typedef___u32,
          Fld '''' (CUnion [
            Fld ''mark'' typedef___u32,
            Fld ''reserved_tailroom'' typedef___u32]),
          Fld '''' (CUnion [
            Fld ''inner_protocol'' typedef___be16,
            Fld ''inner_ipproto'' typedef___u8]),
          Fld ''inner_transport_header'' typedef___u16,
          Fld ''inner_network_header'' typedef___u16,
          Fld ''inner_mac_header'' typedef___u16,
          Fld ''protocol'' typedef___be16,
          Fld ''transport_header'' typedef___u16,
          Fld ''network_header'' typedef___u16,
          Fld ''mac_header'' typedef___u16])]),
      Fld ''tail'' typedef_sk_buff_data_t,
      Fld ''end'' typedef_sk_buff_data_t,
      Fld ''head'' (Ptr ''unsigned char''),
      Fld ''data'' (Ptr ''unsigned char''),
      Fld ''truesize'' (Prim CUInt),
      Fld ''users'' typedef_refcount_t,
      Fld ''extensions'' (Ptr ''struct skb_ext'')]"

definition struct_iovec :: ctype where
  "struct_iovec = CStruct [
      Fld ''iov_base'' (Ptr ''void''),
      Fld ''iov_len'' typedef___kernel_size_t]"

definition struct_iov_iter :: ctype where
  "struct_iov_iter = CStruct [
      Fld ''iter_type'' typedef_u8,
      Fld ''nofault'' (Prim CBool),
      Fld ''data_source'' (Prim CBool),
      Fld ''iov_offset'' typedef_size_t,
      Fld '''' (CUnion [
        Fld ''__ubuf_iovec'' struct_iovec,
        Fld '''' (CStruct [
          Fld '''' (CUnion [
            Fld ''__iov'' (Ptr ''const struct iovec''),
            Fld ''kvec'' (Ptr ''const struct kvec''),
            Fld ''bvec'' (Ptr ''const struct bio_vec''),
            Fld ''xarray'' (Ptr ''struct xarray''),
            Fld ''ubuf'' (Ptr ''void'')]),
          Fld ''count'' typedef_size_t])]),
      Fld '''' (CUnion [
        Fld ''nr_segs'' (Prim CULong),
        Fld ''xarray_start'' typedef_loff_t])]"

definition struct_msghdr :: ctype where
  "struct_msghdr = CStruct [
      Fld ''msg_name'' (Ptr ''void''),
      Fld ''msg_namelen'' (Prim CInt),
      Fld ''msg_inq'' (Prim CInt),
      Fld ''msg_iter'' struct_iov_iter,
      Fld '''' (CUnion [
        Fld ''msg_control'' (Ptr ''void''),
        Fld ''msg_control_user'' (Ptr ''void'')]),
      Bits ''msg_control_is_user'' (Prim CBool) 1,
      Bits ''msg_get_inq'' (Prim CBool) 1,
      Fld ''msg_flags'' (Prim CUInt),
      Fld ''msg_controllen'' typedef___kernel_size_t,
      Fld ''msg_iocb'' (Ptr ''struct kiocb''),
      Fld ''msg_ubuf'' (Ptr ''struct ubuf_info''),
      Fld ''sg_from_iter'' (Ptr ''int (struct sk_buff *, struct iov_iter *, size_t)'')]"

section \<open>Sizes and alignments\<close>

lemma layout_core_1 [layout_simps]:
  "sizeof typedef___u64 = 8" "alignof typedef___u64 = 8"
  "wf_ctype typedef___u64" "natural typedef___u64 = True"
  "sizeof typedef___u32 = 4" "alignof typedef___u32 = 4"
  "wf_ctype typedef___u32" "natural typedef___u32 = True"
  "sizeof typedef_atomic_t = 4" "alignof typedef_atomic_t = 4"
  "wf_ctype typedef_atomic_t" "natural typedef_atomic_t = True"
  "sizeof struct_llist_node = 8" "alignof struct_llist_node = 8"
  "wf_ctype struct_llist_node" "natural struct_llist_node = True"
  "sizeof typedef___u16 = 2" "alignof typedef___u16 = 2"
  "wf_ctype typedef___u16" "natural typedef___u16 = True"
  "sizeof struct_rb_node = 24" "alignof struct_rb_node = 8"
  "wf_ctype struct_rb_node" "natural struct_rb_node = True"
  "sizeof struct_list_head = 16" "alignof struct_list_head = 8"
  "wf_ctype struct_list_head" "natural struct_list_head = True"
  "sizeof typedef___s64 = 8" "alignof typedef___s64 = 8"
  "wf_ctype typedef___s64" "natural typedef___s64 = True"
  "sizeof typedef___u8 = 1" "alignof typedef___u8 = 1"
  "wf_ctype typedef___u8" "natural typedef___u8 = True"
  "sizeof typedef_dl_server_has_tasks_f = 8" "alignof typedef_dl_server_has_tasks_f = 8"
  "wf_ctype typedef_dl_server_has_tasks_f" "natural typedef_dl_server_has_tasks_f = True"
  "sizeof typedef_dl_server_pick_f = 8" "alignof typedef_dl_server_pick_f = 8"
  "wf_ctype typedef_dl_server_pick_f" "natural typedef_dl_server_pick_f = True"
  "sizeof struct_sched_statistics = 0" "alignof struct_sched_statistics = 1"
  "wf_ctype struct_sched_statistics" "natural struct_sched_statistics = True"
  by (simp_all add: typedef___u64_def  typedef___u32_def  typedef_atomic_t_def  struct_llist_node_def 
      typedef___u16_def  struct_rb_node_def  struct_list_head_def  typedef___s64_def 
      typedef___u8_def  typedef_dl_server_has_tasks_f_def  typedef_dl_server_pick_f_def 
      struct_sched_statistics_def layout_eval
      layout_simps del: One_nat_def)

lemma layout_core_2 [layout_simps]:
  "sizeof struct_cpumask = 8" "alignof struct_cpumask = 8"
  "wf_ctype struct_cpumask" "natural struct_cpumask = True"
  "sizeof struct_sched_info = 32" "alignof struct_sched_info = 8"
  "wf_ctype struct_sched_info" "natural struct_sched_info = True"
  "sizeof typedef___kernel_clockid_t = 4" "alignof typedef___kernel_clockid_t = 4"
  "wf_ctype typedef___kernel_clockid_t" "natural typedef___kernel_clockid_t = True"
  "sizeof enum_timespec_type = 4" "alignof enum_timespec_type = 4"
  "wf_ctype enum_timespec_type" "natural enum_timespec_type = True"
  "sizeof typedef___kernel_pid_t = 4" "alignof typedef___kernel_pid_t = 4"
  "wf_ctype typedef___kernel_pid_t" "natural typedef___kernel_pid_t = True"
  "sizeof struct_hlist_node = 16" "alignof struct_hlist_node = 8"
  "wf_ctype struct_hlist_node" "natural struct_hlist_node = True"
  "sizeof struct_rb_root = 8" "alignof struct_rb_root = 8"
  "wf_ctype struct_rb_root" "natural struct_rb_root = True"
  "sizeof struct_callback_head = 16" "alignof struct_callback_head = 8"
  "wf_ctype struct_callback_head" "natural struct_callback_head = True"
  "sizeof struct_sysv_sem = 8" "alignof struct_sysv_sem = 8"
  "wf_ctype struct_sysv_sem" "natural struct_sysv_sem = True"
  "sizeof typedef_sigset_t = 8" "alignof typedef_sigset_t = 8"
  "wf_ctype typedef_sigset_t" "natural typedef_sigset_t = True"
  "sizeof typedef___kernel_ulong_t = 8" "alignof typedef___kernel_ulong_t = 8"
  "wf_ctype typedef___kernel_ulong_t" "natural typedef___kernel_ulong_t = True"
  "sizeof typedef___kernel_uid32_t = 4" "alignof typedef___kernel_uid32_t = 4"
  "wf_ctype typedef___kernel_uid32_t" "natural typedef___kernel_uid32_t = True"
  by (simp_all add: struct_cpumask_def  struct_sched_info_def  typedef___kernel_clockid_t_def 
      enum_timespec_type_def  typedef___kernel_pid_t_def  struct_hlist_node_def 
      struct_rb_root_def  struct_callback_head_def  struct_sysv_sem_def 
      typedef_sigset_t_def  typedef___kernel_ulong_t_def  typedef___kernel_uid32_t_def layout_eval
      layout_simps del: One_nat_def)

lemma layout_core_3 [layout_simps]:
  "sizeof struct_syscall_user_dispatch = 0" "alignof struct_syscall_user_dispatch = 1"
  "wf_ctype struct_syscall_user_dispatch" "natural struct_syscall_user_dispatch = True"
  "sizeof struct_wake_q_node = 8" "alignof struct_wake_q_node = 8"
  "wf_ctype struct_wake_q_node" "natural struct_wake_q_node = True"
  "sizeof typedef_nodemask_t = 8" "alignof typedef_nodemask_t = 8"
  "wf_ctype typedef_nodemask_t" "natural typedef_nodemask_t = True"
  "sizeof struct_seqcount = 4" "alignof struct_seqcount = 4"
  "wf_ctype struct_seqcount" "natural struct_seqcount = True"
  "sizeof struct_arch_tlbflush_unmap_batch = 0" "alignof struct_arch_tlbflush_unmap_batch = 1"
  "wf_ctype struct_arch_tlbflush_unmap_batch" "natural struct_arch_tlbflush_unmap_batch = True"
  "sizeof struct_kmap_ctrl = 0" "alignof struct_kmap_ctrl = 1"
  "wf_ctype struct_kmap_ctrl" "natural struct_kmap_ctrl = True"
  "sizeof struct_llist_head = 8" "alignof struct_llist_head = 8"
  "wf_ctype struct_llist_head" "natural struct_llist_head = True"
  "sizeof struct_cpu_context = 104" "alignof struct_cpu_context = 8"
  "wf_ctype struct_cpu_context" "natural struct_cpu_context = True"
  "sizeof enum_fp_type = 4" "alignof enum_fp_type = 4"
  "wf_ctype enum_fp_type" "natural enum_fp_type = True"
  "sizeof struct_debug_info = 272" "alignof struct_debug_info = 8"
  "wf_ctype struct_debug_info" "natural struct_debug_info = True"
  "sizeof struct_ptrauth_key = 16" "alignof struct_ptrauth_key = 8"
  "wf_ctype struct_ptrauth_key" "natural struct_ptrauth_key = True"
  "sizeof struct_percpu_ref = 16" "alignof struct_percpu_ref = 8"
  "wf_ctype struct_percpu_ref" "natural struct_percpu_ref = True"
  by (simp_all add: struct_syscall_user_dispatch_def  struct_wake_q_node_def  typedef_nodemask_t_def 
      struct_seqcount_def  struct_arch_tlbflush_unmap_batch_def  struct_kmap_ctrl_def 
      struct_llist_head_def  struct_cpu_context_def  enum_fp_type_def  struct_debug_info_def 
      struct_ptrauth_key_def  struct_percpu_ref_def layout_eval
      layout_simps del: One_nat_def)

lemma layout_core_4 [layout_simps]:
  "sizeof typedef_work_func_t = 8" "alignof typedef_work_func_t = 8"
  "wf_ctype typedef_work_func_t" "natural typedef_work_func_t = True"
  "sizeof struct_cacheline_padding = 0" "alignof struct_cacheline_padding = 1"
  "wf_ctype struct_cacheline_padding" "natural struct_cacheline_padding = True"
  "sizeof struct_hlist_head = 8" "alignof struct_hlist_head = 8"
  "wf_ctype struct_hlist_head" "natural struct_hlist_head = True"
  "sizeof struct_cgroup_freezer_state = 16" "alignof struct_cgroup_freezer_state = 4"
  "wf_ctype struct_cgroup_freezer_state" "natural struct_cgroup_freezer_state = True"
  "sizeof typedef_umode_t = 2" "alignof typedef_umode_t = 2"
  "wf_ctype typedef_umode_t" "natural typedef_umode_t = True"
  "sizeof struct_kernfs_elem_symlink = 8" "alignof struct_kernfs_elem_symlink = 8"
  "wf_ctype struct_kernfs_elem_symlink" "natural struct_kernfs_elem_symlink = True"
  "sizeof typedef___kernel_loff_t = 8" "alignof typedef___kernel_loff_t = 8"
  "wf_ctype typedef___kernel_loff_t" "natural typedef___kernel_loff_t = True"
  "sizeof enum_rw_hint = 4" "alignof enum_rw_hint = 4"
  "wf_ctype enum_rw_hint" "natural enum_rw_hint = True"
  "sizeof enum_mq_rq_state = 4" "alignof enum_mq_rq_state = 4"
  "wf_ctype enum_mq_rq_state" "natural enum_mq_rq_state = True"
  "sizeof struct_bio_vec = 16" "alignof struct_bio_vec = 8"
  "wf_ctype struct_bio_vec" "natural struct_bio_vec = True"
  "sizeof typedef_possible_net_t = 8" "alignof typedef_possible_net_t = 8"
  "wf_ctype typedef_possible_net_t" "natural typedef_possible_net_t = True"
  "sizeof struct_hlist_nulls_node = 16" "alignof struct_hlist_nulls_node = 8"
  "wf_ctype struct_hlist_nulls_node" "natural struct_hlist_nulls_node = True"
  by (simp_all add: typedef_work_func_t_def  struct_cacheline_padding_def  struct_hlist_head_def 
      struct_cgroup_freezer_state_def  typedef_umode_t_def  struct_kernfs_elem_symlink_def 
      typedef___kernel_loff_t_def  enum_rw_hint_def  enum_mq_rq_state_def 
      struct_bio_vec_def  typedef_possible_net_t_def  struct_hlist_nulls_node_def layout_eval
      layout_simps del: One_nat_def)

lemma layout_core_5 [layout_simps]:
  "sizeof typedef___s32 = 4" "alignof typedef___s32 = 4"
  "wf_ctype typedef___s32" "natural typedef___s32 = True"
  "sizeof struct_sk_buff_list = 16" "alignof struct_sk_buff_list = 8"
  "wf_ctype struct_sk_buff_list" "natural struct_sk_buff_list = True"
  "sizeof typedef_gfp_t = 4" "alignof typedef_gfp_t = 4"
  "wf_ctype typedef_gfp_t" "natural typedef_gfp_t = True"
  "sizeof typedef_netns_tracker = 0" "alignof typedef_netns_tracker = 1"
  "wf_ctype typedef_netns_tracker" "natural typedef_netns_tracker = True"
  "sizeof typedef_sk_buff_data_t = 4" "alignof typedef_sk_buff_data_t = 4"
  "wf_ctype typedef_sk_buff_data_t" "natural typedef_sk_buff_data_t = True"
  by (simp_all add: typedef___s32_def  struct_sk_buff_list_def  typedef_gfp_t_def 
      typedef_netns_tracker_def  typedef_sk_buff_data_t_def layout_eval
      layout_simps del: One_nat_def)

lemma layout_core_6 [layout_simps]:
  "sizeof typedef_u64 = 8" "alignof typedef_u64 = 8"
  "wf_ctype typedef_u64" "natural typedef_u64 = True"
  "sizeof typedef_u32 = 4" "alignof typedef_u32 = 4"
  "wf_ctype typedef_u32" "natural typedef_u32 = True"
  "sizeof struct_refcount_struct = 4" "alignof struct_refcount_struct = 4"
  "wf_ctype struct_refcount_struct" "natural struct_refcount_struct = True"
  "sizeof typedef_u16 = 2" "alignof typedef_u16 = 2"
  "wf_ctype typedef_u16" "natural typedef_u16 = True"
  "sizeof typedef_s64 = 8" "alignof typedef_s64 = 8"
  "wf_ctype typedef_s64" "natural typedef_s64 = True"
  "sizeof struct_sched_rt_entity = 48" "alignof struct_sched_rt_entity = 8"
  "wf_ctype struct_sched_rt_entity" "natural struct_sched_rt_entity = True"
  "sizeof typedef_u8 = 1" "alignof typedef_u8 = 1"
  "wf_ctype typedef_u8" "natural typedef_u8 = True"
  "sizeof typedef_cpumask_t = 8" "alignof typedef_cpumask_t = 8"
  "wf_ctype typedef_cpumask_t" "natural typedef_cpumask_t = True"
  "sizeof struct_plist_node = 40" "alignof struct_plist_node = 8"
  "wf_ctype struct_plist_node" "natural struct_plist_node = True"
  "sizeof typedef_clockid_t = 4" "alignof typedef_clockid_t = 4"
  "wf_ctype typedef_clockid_t" "natural typedef_clockid_t = True"
  "sizeof typedef_pid_t = 4" "alignof typedef_pid_t = 4"
  "wf_ctype typedef_pid_t" "natural typedef_pid_t = True"
  "sizeof struct_rb_root_cached = 16" "alignof struct_rb_root_cached = 8"
  "wf_ctype struct_rb_root_cached" "natural struct_rb_root_cached = True"
  by (simp_all add: typedef_u64_def  typedef_u32_def  struct_refcount_struct_def  typedef_u16_def 
      typedef_s64_def  struct_sched_rt_entity_def  typedef_u8_def  typedef_cpumask_t_def 
      struct_plist_node_def  typedef_clockid_t_def  typedef_pid_t_def 
      struct_rb_root_cached_def layout_eval
      layout_simps del: One_nat_def)

lemma layout_core_7 [layout_simps]:
  "sizeof struct_optimistic_spin_queue = 4" "alignof struct_optimistic_spin_queue = 4"
  "wf_ctype struct_optimistic_spin_queue" "natural struct_optimistic_spin_queue = True"
  "sizeof struct_sysv_shm = 16" "alignof struct_sysv_shm = 8"
  "wf_ctype struct_sysv_shm" "natural struct_sysv_shm = True"
  "sizeof struct_sigpending = 24" "alignof struct_sigpending = 8"
  "wf_ctype struct_sigpending" "natural struct_sigpending = True"
  "sizeof typedef___kernel_size_t = 8" "alignof typedef___kernel_size_t = 8"
  "wf_ctype typedef___kernel_size_t" "natural typedef___kernel_size_t = True"
  "sizeof typedef_uid_t = 4" "alignof typedef_uid_t = 4"
  "wf_ctype typedef_uid_t" "natural typedef_uid_t = True"
  "sizeof struct_seccomp = 16" "alignof struct_seccomp = 8"
  "wf_ctype struct_seccomp" "natural struct_seccomp = True"
  "sizeof typedef_seqcount_t = 4" "alignof typedef_seqcount_t = 4"
  "wf_ctype typedef_seqcount_t" "natural typedef_seqcount_t = True"
  "sizeof struct_tlbflush_unmap_batch = 2" "alignof struct_tlbflush_unmap_batch = 1"
  "wf_ctype struct_tlbflush_unmap_batch" "natural struct_tlbflush_unmap_batch = True"
  "sizeof struct_page_frag = 16" "alignof struct_page_frag = 8"
  "wf_ctype struct_page_frag" "natural struct_page_frag = True"
  "sizeof struct_user_fpsimd_state = 528" "alignof struct_user_fpsimd_state = 16"
  "wf_ctype struct_user_fpsimd_state" "natural struct_user_fpsimd_state = True"
  "sizeof struct_ptrauth_keys_user = 80" "alignof struct_ptrauth_keys_user = 8"
  "wf_ctype struct_ptrauth_keys_user" "natural struct_ptrauth_keys_user = True"
  "sizeof struct_ptrauth_keys_kernel = 16" "alignof struct_ptrauth_keys_kernel = 8"
  "wf_ctype struct_ptrauth_keys_kernel" "natural struct_ptrauth_keys_kernel = True"
  by (simp_all add: struct_optimistic_spin_queue_def  struct_sysv_shm_def  struct_sigpending_def 
      typedef___kernel_size_t_def  typedef_uid_t_def  struct_seccomp_def 
      typedef_seqcount_t_def  struct_tlbflush_unmap_batch_def  struct_page_frag_def 
      struct_user_fpsimd_state_def  struct_ptrauth_keys_user_def 
      struct_ptrauth_keys_kernel_def layout_eval
      layout_simps del: One_nat_def)

lemma layout_core_8 [layout_simps]:
  "sizeof struct_kernfs_elem_dir = 32" "alignof struct_kernfs_elem_dir = 8"
  "wf_ctype struct_kernfs_elem_dir" "natural struct_kernfs_elem_dir = True"
  "sizeof typedef_loff_t = 8" "alignof typedef_loff_t = 8"
  "wf_ctype typedef_loff_t" "natural typedef_loff_t = True"
  "sizeof typedef_blk_opf_t = 4" "alignof typedef_blk_opf_t = 4"
  "wf_ctype typedef_blk_opf_t" "natural typedef_blk_opf_t = True"
  "sizeof typedef_req_flags_t = 4" "alignof typedef_req_flags_t = 4"
  "wf_ctype typedef_req_flags_t" "natural typedef_req_flags_t = True"
  "sizeof typedef___addrpair = 8" "alignof typedef___addrpair = 8"
  "wf_ctype typedef___addrpair" "natural typedef___addrpair = True"
  "sizeof typedef___be32 = 4" "alignof typedef___be32 = 4"
  "wf_ctype typedef___be32" "natural typedef___be32 = True"
  "sizeof typedef___portpair = 4" "alignof typedef___portpair = 4"
  "wf_ctype typedef___portpair" "natural typedef___portpair = True"
  "sizeof typedef___be16 = 2" "alignof typedef___be16 = 2"
  "wf_ctype typedef___be16" "natural typedef___be16 = True"
  "sizeof typedef___wsum = 4" "alignof typedef___wsum = 4"
  "wf_ctype typedef___wsum" "natural typedef___wsum = True"
  by (simp_all add: struct_kernfs_elem_dir_def  typedef_loff_t_def  typedef_blk_opf_t_def 
      typedef_req_flags_t_def  typedef___addrpair_def  typedef___be32_def 
      typedef___portpair_def  typedef___be16_def  typedef___wsum_def layout_eval
      layout_simps del: One_nat_def)

lemma layout_core_9 [layout_simps]:
  "sizeof struct_thread_info = 24" "alignof struct_thread_info = 8"
  "wf_ctype struct_thread_info" "natural struct_thread_info = True"
  "sizeof typedef_refcount_t = 4" "alignof typedef_refcount_t = 4"
  "wf_ctype typedef_refcount_t" "natural typedef_refcount_t = True"
  "sizeof struct___call_single_node = 16" "alignof struct___call_single_node = 8"
  "wf_ctype struct___call_single_node" "natural struct___call_single_node = True"
  "sizeof struct_load_weight = 16" "alignof struct_load_weight = 8"
  "wf_ctype struct_load_weight" "natural struct_load_weight = True"
  "sizeof struct_sched_avg = 64" "alignof struct_sched_avg = 8"
  "wf_ctype struct_sched_avg" "natural struct_sched_avg = True"
  "sizeof typedef_ktime_t = 8" "alignof typedef_ktime_t = 8"
  "wf_ctype typedef_ktime_t" "natural typedef_ktime_t = True"
  "sizeof union_rcu_special = 4" "alignof union_rcu_special = 4"
  "wf_ctype union_rcu_special" "natural union_rcu_special = True"
  "sizeof struct_restart_block = 56" "alignof struct_restart_block = 8"
  "wf_ctype struct_restart_block" "natural struct_restart_block = True"
  "sizeof struct_qspinlock = 4" "alignof struct_qspinlock = 4"
  "wf_ctype struct_qspinlock" "natural struct_qspinlock = True"
  "sizeof struct_timerqueue_head = 16" "alignof struct_timerqueue_head = 8"
  "wf_ctype struct_timerqueue_head" "natural struct_timerqueue_head = True"
  "sizeof typedef_atomic64_t = 8" "alignof typedef_atomic64_t = 8"
  "wf_ctype typedef_atomic64_t" "natural typedef_atomic64_t = True"
  "sizeof typedef_size_t = 8" "alignof typedef_size_t = 8"
  "wf_ctype typedef_size_t" "natural typedef_size_t = True"
  by (simp_all add: struct_thread_info_def  typedef_refcount_t_def  struct___call_single_node_def 
      struct_load_weight_def  struct_sched_avg_def  typedef_ktime_t_def 
      union_rcu_special_def  struct_restart_block_def  struct_qspinlock_def 
      struct_timerqueue_head_def  typedef_atomic64_t_def  typedef_size_t_def layout_eval
      layout_simps del: One_nat_def)

lemma layout_core_10 [layout_simps]:
  "sizeof typedef_kuid_t = 4" "alignof typedef_kuid_t = 4"
  "wf_ctype typedef_kuid_t" "natural typedef_kuid_t = True"
  "sizeof struct_task_io_accounting = 56" "alignof struct_task_io_accounting = 8"
  "wf_ctype struct_task_io_accounting" "natural struct_task_io_accounting = True"
  "sizeof struct_seqcount_spinlock = 4" "alignof struct_seqcount_spinlock = 4"
  "wf_ctype struct_seqcount_spinlock" "natural struct_seqcount_spinlock = True"
  "sizeof struct_timer_list = 40" "alignof struct_timer_list = 8"
  "wf_ctype struct_timer_list" "natural struct_timer_list = True"
  "sizeof struct_thread_struct = 1680" "alignof struct_thread_struct = 16"
  "wf_ctype struct_thread_struct" "natural struct_thread_struct = True"
  "sizeof struct_task_cputime = 24" "alignof struct_task_cputime = 8"
  "wf_ctype struct_task_cputime" "natural struct_task_cputime = True"
  "sizeof struct_kernfs_elem_attr = 32" "alignof struct_kernfs_elem_attr = 8"
  "wf_ctype struct_kernfs_elem_attr" "natural struct_kernfs_elem_attr = True"
  "sizeof typedef_sector_t = 8" "alignof typedef_sector_t = 8"
  "wf_ctype typedef_sector_t" "natural typedef_sector_t = True"
  "sizeof struct_in6_addr = 16" "alignof struct_in6_addr = 4"
  "wf_ctype struct_in6_addr" "natural struct_in6_addr = True"
  "sizeof typedef_netdev_features_t = 8" "alignof typedef_netdev_features_t = 8"
  "wf_ctype typedef_netdev_features_t" "natural typedef_netdev_features_t = True"
  "sizeof struct_sock_cgroup_data = 16" "alignof struct_sock_cgroup_data = 8"
  "wf_ctype struct_sock_cgroup_data" "natural struct_sock_cgroup_data = True"
  "sizeof struct_iovec = 16" "alignof struct_iovec = 8"
  "wf_ctype struct_iovec" "natural struct_iovec = True"
  by (simp_all add: typedef_kuid_t_def  struct_task_io_accounting_def  struct_seqcount_spinlock_def 
      struct_timer_list_def  struct_thread_struct_def  struct_task_cputime_def 
      struct_kernfs_elem_attr_def  typedef_sector_t_def  struct_in6_addr_def 
      typedef_netdev_features_t_def  struct_sock_cgroup_data_def  struct_iovec_def layout_eval
      layout_simps del: One_nat_def)

lemma layout_core_11 [layout_simps]:
  "sizeof struct_sched_entity = 256" "alignof struct_sched_entity = 8"
  "wf_ctype struct_sched_entity" "natural struct_sched_entity = True"
  "sizeof struct_timerqueue_node = 32" "alignof struct_timerqueue_node = 8"
  "wf_ctype struct_timerqueue_node" "natural struct_timerqueue_node = True"
  "sizeof typedef_arch_spinlock_t = 4" "alignof typedef_arch_spinlock_t = 4"
  "wf_ctype typedef_arch_spinlock_t" "natural typedef_arch_spinlock_t = True"
  "sizeof struct_posix_cputimer_base = 24" "alignof struct_posix_cputimer_base = 8"
  "wf_ctype struct_posix_cputimer_base" "natural struct_posix_cputimer_base = True"
  "sizeof typedef_atomic_long_t = 8" "alignof typedef_atomic_long_t = 8"
  "wf_ctype typedef_atomic_long_t" "natural typedef_atomic_long_t = True"
  "sizeof typedef_seqcount_spinlock_t = 4" "alignof typedef_seqcount_spinlock_t = 4"
  "wf_ctype typedef_seqcount_spinlock_t" "natural typedef_seqcount_spinlock_t = True"
  "sizeof struct_css_set = 568" "alignof struct_css_set = 8"
  "wf_ctype struct_css_set" "natural struct_css_set = True"
  "sizeof struct_cgroup_file = 56" "alignof struct_cgroup_file = 8"
  "wf_ctype struct_cgroup_file" "natural struct_cgroup_file = True"
  "sizeof struct_cgroup_base_stat = 24" "alignof struct_cgroup_base_stat = 8"
  "wf_ctype struct_cgroup_base_stat" "natural struct_cgroup_base_stat = True"
  "sizeof struct_kernfs_node = 136" "alignof struct_kernfs_node = 8"
  "wf_ctype struct_kernfs_node" "natural struct_kernfs_node = True"
  "sizeof struct_request = 248" "alignof struct_request = 8"
  "wf_ctype struct_request" "natural struct_request = True"
  "sizeof struct_sock_common = 136" "alignof struct_sock_common = 8"
  "wf_ctype struct_sock_common" "natural struct_sock_common = True"
  by (simp_all add: struct_sched_entity_def  struct_timerqueue_node_def  typedef_arch_spinlock_t_def 
      struct_posix_cputimer_base_def  typedef_atomic_long_t_def 
      typedef_seqcount_spinlock_t_def  struct_css_set_def  struct_cgroup_file_def 
      struct_cgroup_base_stat_def  struct_kernfs_node_def  struct_request_def 
      struct_sock_common_def layout_eval
      layout_simps del: One_nat_def)

lemma layout_core_12 [layout_simps]:
  "sizeof struct_sk_buff = 232" "alignof struct_sk_buff = 8"
  "wf_ctype struct_sk_buff" "natural struct_sk_buff = True"
  "sizeof struct_iov_iter = 40" "alignof struct_iov_iter = 8"
  "wf_ctype struct_iov_iter" "natural struct_iov_iter = True"
  by (simp_all add: struct_sk_buff_def  struct_iov_iter_def layout_eval
      layout_simps del: One_nat_def)

lemma layout_core_13 [layout_simps]:
  "sizeof struct_hrtimer = 64" "alignof struct_hrtimer = 8"
  "wf_ctype struct_hrtimer" "natural struct_hrtimer = True"
  "sizeof struct_raw_spinlock = 4" "alignof struct_raw_spinlock = 4"
  "wf_ctype struct_raw_spinlock" "natural struct_raw_spinlock = True"
  "sizeof struct_posix_cputimers = 80" "alignof struct_posix_cputimers = 8"
  "wf_ctype struct_posix_cputimers" "natural struct_posix_cputimers = True"
  "sizeof struct_work_struct = 32" "alignof struct_work_struct = 8"
  "wf_ctype struct_work_struct" "natural struct_work_struct = True"
  "sizeof struct_qrwlock = 8" "alignof struct_qrwlock = 4"
  "wf_ctype struct_qrwlock" "natural struct_qrwlock = True"
  "sizeof struct_msghdr = 104" "alignof struct_msghdr = 8"
  "wf_ctype struct_msghdr" "natural struct_msghdr = True"
  by (simp_all add: struct_hrtimer_def  struct_raw_spinlock_def  struct_posix_cputimers_def 
      struct_work_struct_def  struct_qrwlock_def  struct_msghdr_def layout_eval
      layout_simps del: One_nat_def)

lemma layout_core_14 [layout_simps]:
  "sizeof struct_sched_dl_entity = 248" "alignof struct_sched_dl_entity = 8"
  "wf_ctype struct_sched_dl_entity" "natural struct_sched_dl_entity = True"
  "sizeof typedef_raw_spinlock_t = 4" "alignof typedef_raw_spinlock_t = 4"
  "wf_ctype typedef_raw_spinlock_t" "natural typedef_raw_spinlock_t = True"
  "sizeof struct_spinlock = 4" "alignof struct_spinlock = 4"
  "wf_ctype struct_spinlock" "natural struct_spinlock = True"
  "sizeof struct_rcu_work = 56" "alignof struct_rcu_work = 8"
  "wf_ctype struct_rcu_work" "natural struct_rcu_work = True"
  "sizeof struct_cgroup_bpf = 720" "alignof struct_cgroup_bpf = 8"
  "wf_ctype struct_cgroup_bpf" "natural struct_cgroup_bpf = True"
  "sizeof typedef_arch_rwlock_t = 8" "alignof typedef_arch_rwlock_t = 4"
  "wf_ctype typedef_arch_rwlock_t" "natural typedef_arch_rwlock_t = True"
  by (simp_all add: struct_sched_dl_entity_def  typedef_raw_spinlock_t_def  struct_spinlock_def 
      struct_rcu_work_def  struct_cgroup_bpf_def  typedef_arch_rwlock_t_def layout_eval
      layout_simps del: One_nat_def)

lemma layout_core_15 [layout_simps]:
  "sizeof struct_prev_cputime = 24" "alignof struct_prev_cputime = 8"
  "wf_ctype struct_prev_cputime" "natural struct_prev_cputime = True"
  "sizeof struct_mutex = 32" "alignof struct_mutex = 8"
  "wf_ctype struct_mutex" "natural struct_mutex = True"
  "sizeof typedef_spinlock_t = 4" "alignof typedef_spinlock_t = 4"
  "wf_ctype typedef_spinlock_t" "natural typedef_spinlock_t = True"
  "sizeof struct_cgroup_subsys_state = 200" "alignof struct_cgroup_subsys_state = 8"
  "wf_ctype struct_cgroup_subsys_state" "natural struct_cgroup_subsys_state = True"
  "sizeof typedef_rwlock_t = 8" "alignof typedef_rwlock_t = 4"
  "wf_ctype typedef_rwlock_t" "natural typedef_rwlock_t = True"
  by (simp_all add: struct_prev_cputime_def  struct_mutex_def  typedef_spinlock_t_def 
      struct_cgroup_subsys_state_def  typedef_rwlock_t_def layout_eval
      layout_simps del: One_nat_def)

lemma layout_core_16 [layout_simps]:
  "sizeof struct_posix_cputimers_work = 56" "alignof struct_posix_cputimers_work = 8"
  "wf_ctype struct_posix_cputimers_work" "natural struct_posix_cputimers_work = True"
  "sizeof struct_wait_queue_head = 24" "alignof struct_wait_queue_head = 8"
  "wf_ctype struct_wait_queue_head" "natural struct_wait_queue_head = True"
  "sizeof struct_sk_buff_head = 24" "alignof struct_sk_buff_head = 8"
  "wf_ctype struct_sk_buff_head" "natural struct_sk_buff_head = True"
  by (simp_all add: struct_posix_cputimers_work_def  struct_wait_queue_head_def  struct_sk_buff_head_def layout_eval
      layout_simps del: One_nat_def)

lemma layout_core_17 [layout_simps]:
  "sizeof struct_task_struct = 4160" "alignof struct_task_struct = 16"
  "wf_ctype struct_task_struct" "natural struct_task_struct = True"
  "sizeof typedef_wait_queue_head_t = 24" "alignof typedef_wait_queue_head_t = 8"
  "wf_ctype typedef_wait_queue_head_t" "natural typedef_wait_queue_head_t = True"
  by (simp_all add: struct_task_struct_def  typedef_wait_queue_head_t_def layout_eval
      layout_simps del: One_nat_def)

lemma layout_core_18 [layout_simps]:
  "sizeof struct_cgroup = 1920" "alignof struct_cgroup = 8"
  "wf_ctype struct_cgroup" "natural struct_cgroup = True"
  "sizeof typedef_socket_lock_t = 32" "alignof typedef_socket_lock_t = 8"
  "wf_ctype typedef_socket_lock_t" "natural typedef_socket_lock_t = True"
  by (simp_all add: struct_cgroup_def  typedef_socket_lock_t_def layout_eval
      layout_simps del: One_nat_def)

lemma layout_core_19 [layout_simps]:
  "sizeof struct_sock = 752" "alignof struct_sock = 8"
  "wf_ctype struct_sock" "natural struct_sock = True"
  by (simp_all add: struct_sock_def layout_eval
      layout_simps del: One_nat_def)

end
