(* ===== verification/Kernel_Types_Bpf.thy ===== *)
theory Kernel_Types_Bpf
  imports Kernel_Types_Core
begin

text \<open>
  The kernel's side of the BPF run time, transcribed from
  \<^verbatim>\<open>src/internal/ebpf/bpf/vmlinux.h\<close>: map objects (hash, array, ring buffer), program and
  link objects, the argument block of the \<^verbatim>\<open>bpf\<close> system call, and the enumerations of map
  types, program types, attach types and helper functions.
\<close>

section \<open>Declarations\<close>

definition enum_bpf_map_type :: ctype where
  "enum_bpf_map_type = Enum [(''BPF_MAP_TYPE_UNSPEC'', 0), (''BPF_MAP_TYPE_HASH'', 1), (''BPF_MAP_TYPE_ARRAY'', 2),
      (''BPF_MAP_TYPE_PROG_ARRAY'', 3), (''BPF_MAP_TYPE_PERF_EVENT_ARRAY'', 4),
      (''BPF_MAP_TYPE_PERCPU_HASH'', 5), (''BPF_MAP_TYPE_PERCPU_ARRAY'', 6),
      (''BPF_MAP_TYPE_STACK_TRACE'', 7), (''BPF_MAP_TYPE_CGROUP_ARRAY'', 8),
      (''BPF_MAP_TYPE_LRU_HASH'', 9), (''BPF_MAP_TYPE_LRU_PERCPU_HASH'', 10),
      (''BPF_MAP_TYPE_LPM_TRIE'', 11), (''BPF_MAP_TYPE_ARRAY_OF_MAPS'', 12),
      (''BPF_MAP_TYPE_HASH_OF_MAPS'', 13), (''BPF_MAP_TYPE_DEVMAP'', 14),
      (''BPF_MAP_TYPE_SOCKMAP'', 15), (''BPF_MAP_TYPE_CPUMAP'', 16),
      (''BPF_MAP_TYPE_XSKMAP'', 17), (''BPF_MAP_TYPE_SOCKHASH'', 18),
      (''BPF_MAP_TYPE_CGROUP_STORAGE_DEPRECATED'', 19), (''BPF_MAP_TYPE_CGROUP_STORAGE'', 19),
      (''BPF_MAP_TYPE_REUSEPORT_SOCKARRAY'', 20),
      (''BPF_MAP_TYPE_PERCPU_CGROUP_STORAGE_DEPRECATED'', 21),
      (''BPF_MAP_TYPE_PERCPU_CGROUP_STORAGE'', 21), (''BPF_MAP_TYPE_QUEUE'', 22),
      (''BPF_MAP_TYPE_STACK'', 23), (''BPF_MAP_TYPE_SK_STORAGE'', 24),
      (''BPF_MAP_TYPE_DEVMAP_HASH'', 25), (''BPF_MAP_TYPE_STRUCT_OPS'', 26),
      (''BPF_MAP_TYPE_RINGBUF'', 27), (''BPF_MAP_TYPE_INODE_STORAGE'', 28),
      (''BPF_MAP_TYPE_TASK_STORAGE'', 29), (''BPF_MAP_TYPE_BLOOM_FILTER'', 30),
      (''BPF_MAP_TYPE_USER_RINGBUF'', 31), (''BPF_MAP_TYPE_CGRP_STORAGE'', 32),
      (''BPF_MAP_TYPE_ARENA'', 33), (''__MAX_BPF_MAP_TYPE'', 34)]"

definition enum_bpf_prog_type :: ctype where
  "enum_bpf_prog_type = Enum [(''BPF_PROG_TYPE_UNSPEC'', 0), (''BPF_PROG_TYPE_SOCKET_FILTER'', 1),
      (''BPF_PROG_TYPE_KPROBE'', 2), (''BPF_PROG_TYPE_SCHED_CLS'', 3),
      (''BPF_PROG_TYPE_SCHED_ACT'', 4), (''BPF_PROG_TYPE_TRACEPOINT'', 5),
      (''BPF_PROG_TYPE_XDP'', 6), (''BPF_PROG_TYPE_PERF_EVENT'', 7),
      (''BPF_PROG_TYPE_CGROUP_SKB'', 8), (''BPF_PROG_TYPE_CGROUP_SOCK'', 9),
      (''BPF_PROG_TYPE_LWT_IN'', 10), (''BPF_PROG_TYPE_LWT_OUT'', 11),
      (''BPF_PROG_TYPE_LWT_XMIT'', 12), (''BPF_PROG_TYPE_SOCK_OPS'', 13),
      (''BPF_PROG_TYPE_SK_SKB'', 14), (''BPF_PROG_TYPE_CGROUP_DEVICE'', 15),
      (''BPF_PROG_TYPE_SK_MSG'', 16), (''BPF_PROG_TYPE_RAW_TRACEPOINT'', 17),
      (''BPF_PROG_TYPE_CGROUP_SOCK_ADDR'', 18), (''BPF_PROG_TYPE_LWT_SEG6LOCAL'', 19),
      (''BPF_PROG_TYPE_LIRC_MODE2'', 20), (''BPF_PROG_TYPE_SK_REUSEPORT'', 21),
      (''BPF_PROG_TYPE_FLOW_DISSECTOR'', 22), (''BPF_PROG_TYPE_CGROUP_SYSCTL'', 23),
      (''BPF_PROG_TYPE_RAW_TRACEPOINT_WRITABLE'', 24), (''BPF_PROG_TYPE_CGROUP_SOCKOPT'', 25),
      (''BPF_PROG_TYPE_TRACING'', 26), (''BPF_PROG_TYPE_STRUCT_OPS'', 27),
      (''BPF_PROG_TYPE_EXT'', 28), (''BPF_PROG_TYPE_LSM'', 29),
      (''BPF_PROG_TYPE_SK_LOOKUP'', 30), (''BPF_PROG_TYPE_SYSCALL'', 31),
      (''BPF_PROG_TYPE_NETFILTER'', 32), (''__MAX_BPF_PROG_TYPE'', 33)]"

definition struct_bpf_map :: ctype where
  "struct_bpf_map = CStruct [
      Fld ''ops'' (Ptr ''const struct bpf_map_ops''),
      Fld ''inner_map_meta'' (Ptr ''struct bpf_map''),
      Fld ''security'' (Ptr ''void''),
      Fld ''map_type'' enum_bpf_map_type,
      Fld ''key_size'' typedef_u32,
      Fld ''value_size'' typedef_u32,
      Fld ''max_entries'' typedef_u32,
      Fld ''map_extra'' typedef_u64,
      Fld ''map_flags'' typedef_u32,
      Fld ''id'' typedef_u32,
      Fld ''record'' (Ptr ''struct btf_record''),
      Fld ''numa_node'' (Prim CInt),
      Fld ''btf_key_type_id'' typedef_u32,
      Fld ''btf_value_type_id'' typedef_u32,
      Fld ''btf_vmlinux_value_type_id'' typedef_u32,
      Fld ''btf'' (Ptr ''struct btf''),
      Fld ''objcg'' (Ptr ''struct obj_cgroup''),
      Fld ''name'' (Arr 16 (Prim CChar)),
      Fld ''freeze_mutex'' struct_mutex,
      Fld ''refcnt'' typedef_atomic64_t,
      Fld ''usercnt'' typedef_atomic64_t,
      Fld '''' (CUnion [
        Fld ''work'' struct_work_struct,
        Fld ''rcu'' struct_callback_head]),
      Fld ''writecnt'' typedef_atomic64_t,
      Fld ''owner'' (CStruct [
        Fld ''attach_func_proto'' (Ptr ''const struct btf_type''),
        Fld ''lock'' typedef_spinlock_t,
        Fld ''type'' enum_bpf_prog_type,
        Fld ''jited'' (Prim CBool),
        Fld ''xdp_has_frags'' (Prim CBool)]),
      Fld ''bypass_spec_v1'' (Prim CBool),
      Fld ''frozen'' (Prim CBool),
      Fld ''free_after_mult_rcu_gp'' (Prim CBool),
      Fld ''free_after_rcu_gp'' (Prim CBool),
      Fld ''sleepable_refcnt'' typedef_atomic64_t,
      Fld ''elem_count'' (Ptr ''s64'')]"

definition struct_bpf_mem_alloc :: ctype where
  "struct_bpf_mem_alloc = CStruct [
      Fld ''caches'' (Ptr ''struct bpf_mem_caches''),
      Fld ''cache'' (Ptr ''struct bpf_mem_cache''),
      Fld ''objcg'' (Ptr ''struct obj_cgroup''),
      Fld ''percpu'' (Prim CBool),
      Fld ''work'' struct_work_struct]"

definition struct_pcpu_freelist_head :: ctype where
  "struct_pcpu_freelist_head = CStruct [
      Fld ''first'' (Ptr ''struct pcpu_freelist_node''),
      Fld ''lock'' typedef_raw_spinlock_t]"

definition struct_pcpu_freelist :: ctype where
  "struct_pcpu_freelist = CStruct [
      Fld ''freelist'' (Ptr ''struct pcpu_freelist_head''),
      Fld ''extralist'' struct_pcpu_freelist_head]"

definition struct_bpf_lru_list :: ctype where
  "struct_bpf_lru_list = CStruct ([
      Fld ''lists'' (Arr 3 struct_list_head),
      Fld ''counts'' (Arr 2 (Prim CUInt)),
      Fld ''next_inactive_rotation'' (Ptr ''struct list_head''),
      Fld ''lock'' typedef_raw_spinlock_t] @ pad64 7)"

definition struct_bpf_common_lru :: ctype where
  "struct_bpf_common_lru = CStruct ([
      Fld ''lru_list'' struct_bpf_lru_list,
      Fld ''local_list'' (Ptr ''struct bpf_lru_locallist'')] @ pad64 7)"

definition typedef_del_from_htab_func :: ctype where
  "typedef_del_from_htab_func = Ptr ''bool (void *, struct bpf_lru_node *)''"

definition struct_bpf_lru :: ctype where
  "struct_bpf_lru = CStruct ([
      Fld '''' (CUnion [
        Fld ''common_lru'' struct_bpf_common_lru,
        Fld ''percpu_lru'' (Ptr ''struct bpf_lru_list'')]),
      Fld ''del_from_htab'' typedef_del_from_htab_func,
      Fld ''del_arg'' (Ptr ''void''),
      Fld ''hash_offset'' (Prim CUInt),
      Fld ''nr_scans'' (Prim CUInt),
      Fld ''percpu'' (Prim CBool)] @ pad64 4)"

definition struct_percpu_counter :: ctype where
  "struct_percpu_counter = CStruct [
      Fld ''lock'' typedef_raw_spinlock_t,
      Fld ''count'' typedef_s64,
      Fld ''counters'' (Ptr ''s32'')]"

definition struct_lock_class_key :: ctype where
  "struct_lock_class_key = CStruct []"

definition struct_bpf_htab :: ctype where
  "struct_bpf_htab = CStruct ([
      Fld ''map'' struct_bpf_map,
      Fld ''ma'' struct_bpf_mem_alloc,
      Fld ''pcpu_ma'' struct_bpf_mem_alloc,
      Fld ''buckets'' (Ptr ''struct bucket''),
      Fld ''elems'' (Ptr ''void'')] @ pad64 7 @ [
      Fld '''' (CUnion [
        Fld ''freelist'' struct_pcpu_freelist,
        Fld ''lru'' struct_bpf_lru]),
      Fld ''extra_elems'' (Ptr ''struct htab_elem *''),
      Fld ''pcount'' struct_percpu_counter,
      Fld ''count'' typedef_atomic_t,
      Fld ''use_percpu_counter'' (Prim CBool),
      Fld ''n_buckets'' typedef_u32,
      Fld ''elem_size'' typedef_u32,
      Fld ''hashrnd'' typedef_u32,
      Fld ''lockdep_key'' struct_lock_class_key,
      Fld ''map_locked'' (Arr 8 (Ptr ''int'')),
      Bits '''' (Prim CLong) 64])"

definition struct_bpf_array :: ctype where
  "struct_bpf_array = CStruct [
      Fld ''map'' struct_bpf_map,
      Fld ''elem_size'' typedef_u32,
      Fld ''index_mask'' typedef_u32,
      Fld ''aux'' (Ptr ''struct bpf_array_aux''),
      Fld '''' (CUnion [
        Fld '''' (CStruct [
          Fld ''__empty_value'' (CStruct []),
          Fld ''value'' (Arr 0 (Prim CChar))]),
        Fld '''' (CStruct [
          Fld ''__empty_ptrs'' (CStruct []),
          Fld ''ptrs'' (Arr 0 (Ptr ''void''))]),
        Fld '''' (CStruct [
          Fld ''__empty_pptrs'' (CStruct []),
          Fld ''pptrs'' (Arr 0 (Ptr ''void''))])])]"

definition struct_rcuwait :: ctype where
  "struct_rcuwait = CStruct [
      Fld ''task'' (Ptr ''struct task_struct'')]"

definition struct_irq_work :: ctype where
  "struct_irq_work = CStruct [
      Fld ''node'' struct___call_single_node,
      Fld ''func'' (Ptr ''void (struct irq_work *)''),
      Fld ''irqwait'' struct_rcuwait]"

definition struct_bpf_ringbuf :: ctype where
  "struct_bpf_ringbuf = CStruct ([
      Fld ''waitq'' typedef_wait_queue_head_t,
      Fld ''work'' struct_irq_work,
      Fld ''mask'' typedef_u64,
      Fld ''pages'' (Ptr ''struct page *''),
      Fld ''nr_pages'' (Prim CInt)] @ pad64 6 @ [
      Fld ''spinlock'' typedef_raw_spinlock_t] @ pad64 7 @ [
      Fld ''busy'' typedef_atomic_t] @ pad64 487 @ [
      Fld ''consumer_pos'' (Prim CULong)] @ pad64 511 @ [
      Fld ''producer_pos'' (Prim CULong),
      Fld ''pending_pos'' (Prim CULong)] @ pad64 510 @ [
      Fld ''data'' (Arr 0 (Prim CChar))])"

definition enum_bpf_attach_type :: ctype where
  "enum_bpf_attach_type = Enum [(''BPF_CGROUP_INET_INGRESS'', 0), (''BPF_CGROUP_INET_EGRESS'', 1),
      (''BPF_CGROUP_INET_SOCK_CREATE'', 2), (''BPF_CGROUP_SOCK_OPS'', 3),
      (''BPF_SK_SKB_STREAM_PARSER'', 4), (''BPF_SK_SKB_STREAM_VERDICT'', 5),
      (''BPF_CGROUP_DEVICE'', 6), (''BPF_SK_MSG_VERDICT'', 7), (''BPF_CGROUP_INET4_BIND'', 8),
      (''BPF_CGROUP_INET6_BIND'', 9), (''BPF_CGROUP_INET4_CONNECT'', 10),
      (''BPF_CGROUP_INET6_CONNECT'', 11), (''BPF_CGROUP_INET4_POST_BIND'', 12),
      (''BPF_CGROUP_INET6_POST_BIND'', 13), (''BPF_CGROUP_UDP4_SENDMSG'', 14),
      (''BPF_CGROUP_UDP6_SENDMSG'', 15), (''BPF_LIRC_MODE2'', 16), (''BPF_FLOW_DISSECTOR'', 17),
      (''BPF_CGROUP_SYSCTL'', 18), (''BPF_CGROUP_UDP4_RECVMSG'', 19),
      (''BPF_CGROUP_UDP6_RECVMSG'', 20), (''BPF_CGROUP_GETSOCKOPT'', 21),
      (''BPF_CGROUP_SETSOCKOPT'', 22), (''BPF_TRACE_RAW_TP'', 23), (''BPF_TRACE_FENTRY'', 24),
      (''BPF_TRACE_FEXIT'', 25), (''BPF_MODIFY_RETURN'', 26), (''BPF_LSM_MAC'', 27),
      (''BPF_TRACE_ITER'', 28), (''BPF_CGROUP_INET4_GETPEERNAME'', 29),
      (''BPF_CGROUP_INET6_GETPEERNAME'', 30), (''BPF_CGROUP_INET4_GETSOCKNAME'', 31),
      (''BPF_CGROUP_INET6_GETSOCKNAME'', 32), (''BPF_XDP_DEVMAP'', 33),
      (''BPF_CGROUP_INET_SOCK_RELEASE'', 34), (''BPF_XDP_CPUMAP'', 35), (''BPF_SK_LOOKUP'', 36),
      (''BPF_XDP'', 37), (''BPF_SK_SKB_VERDICT'', 38), (''BPF_SK_REUSEPORT_SELECT'', 39),
      (''BPF_SK_REUSEPORT_SELECT_OR_MIGRATE'', 40), (''BPF_PERF_EVENT'', 41),
      (''BPF_TRACE_KPROBE_MULTI'', 42), (''BPF_LSM_CGROUP'', 43), (''BPF_STRUCT_OPS'', 44),
      (''BPF_NETFILTER'', 45), (''BPF_TCX_INGRESS'', 46), (''BPF_TCX_EGRESS'', 47),
      (''BPF_TRACE_UPROBE_MULTI'', 48), (''BPF_CGROUP_UNIX_CONNECT'', 49),
      (''BPF_CGROUP_UNIX_SENDMSG'', 50), (''BPF_CGROUP_UNIX_RECVMSG'', 51),
      (''BPF_CGROUP_UNIX_GETPEERNAME'', 52), (''BPF_CGROUP_UNIX_GETSOCKNAME'', 53),
      (''BPF_NETKIT_PRIMARY'', 54), (''BPF_NETKIT_PEER'', 55),
      (''BPF_TRACE_KPROBE_SESSION'', 56), (''__MAX_BPF_ATTACH_TYPE'', 57)]"

definition struct_sock_filter :: ctype where
  "struct_sock_filter = CStruct [
      Fld ''code'' typedef___u16,
      Fld ''jt'' typedef___u8,
      Fld ''jf'' typedef___u8,
      Fld ''k'' typedef___u32]"

definition typedef___s16 :: ctype where
  "typedef___s16 = Prim CShort"

definition struct_bpf_insn :: ctype where
  "struct_bpf_insn = CStruct [
      Fld ''code'' typedef___u8,
      Bits ''dst_reg'' typedef___u8 4,
      Bits ''src_reg'' typedef___u8 4,
      Fld ''off'' typedef___s16,
      Fld ''imm'' typedef___s32]"

definition struct_bpf_prog :: ctype where
  "struct_bpf_prog = CStruct [
      Fld ''pages'' typedef_u16,
      Bits ''jited'' typedef_u16 1,
      Bits ''jit_requested'' typedef_u16 1,
      Bits ''gpl_compatible'' typedef_u16 1,
      Bits ''cb_access'' typedef_u16 1,
      Bits ''dst_needed'' typedef_u16 1,
      Bits ''blinding_requested'' typedef_u16 1,
      Bits ''blinded'' typedef_u16 1,
      Bits ''is_func'' typedef_u16 1,
      Bits ''kprobe_override'' typedef_u16 1,
      Bits ''has_callchain_buf'' typedef_u16 1,
      Bits ''enforce_expected_attach_type'' typedef_u16 1,
      Bits ''call_get_stack'' typedef_u16 1,
      Bits ''call_get_func_ip'' typedef_u16 1,
      Bits ''tstamp_type_access'' typedef_u16 1,
      Bits ''sleepable'' typedef_u16 1,
      Fld ''type'' enum_bpf_prog_type,
      Fld ''expected_attach_type'' enum_bpf_attach_type,
      Fld ''len'' typedef_u32,
      Fld ''jited_len'' typedef_u32,
      Fld ''tag'' (Arr 8 typedef_u8),
      Fld ''stats'' (Ptr ''struct bpf_prog_stats''),
      Fld ''active'' (Ptr ''int''),
      Fld ''bpf_func'' (Ptr ''unsigned int (const void *, const struct bpf_insn *)''),
      Fld ''aux'' (Ptr ''struct bpf_prog_aux''),
      Fld ''orig_prog'' (Ptr ''struct sock_fprog_kern''),
      Fld '''' (CUnion [
        Fld '''' (CStruct [
          Fld ''__empty_insns'' (CStruct []),
          Fld ''insns'' (Arr 0 struct_sock_filter)]),
        Fld '''' (CStruct [
          Fld ''__empty_insnsi'' (CStruct []),
          Fld ''insnsi'' (Arr 0 struct_bpf_insn)])])]"

definition union_bpf_attr :: ctype where
  "union_bpf_attr = CUnion [
      Fld '''' (CStruct [
        Fld ''map_type'' typedef___u32,
        Fld ''key_size'' typedef___u32,
        Fld ''value_size'' typedef___u32,
        Fld ''max_entries'' typedef___u32,
        Fld ''map_flags'' typedef___u32,
        Fld ''inner_map_fd'' typedef___u32,
        Fld ''numa_node'' typedef___u32,
        Fld ''map_name'' (Arr 16 (Prim CChar)),
        Fld ''map_ifindex'' typedef___u32,
        Fld ''btf_fd'' typedef___u32,
        Fld ''btf_key_type_id'' typedef___u32,
        Fld ''btf_value_type_id'' typedef___u32,
        Fld ''btf_vmlinux_value_type_id'' typedef___u32,
        Fld ''map_extra'' typedef___u64,
        Fld ''value_type_btf_obj_fd'' typedef___s32,
        Fld ''map_token_fd'' typedef___s32]),
      Fld '''' (CStruct [
        Fld ''map_fd'' typedef___u32,
        Fld ''key'' typedef___u64,
        Fld '''' (CUnion [
          Fld ''value'' typedef___u64,
          Fld ''next_key'' typedef___u64]),
        Fld ''flags'' typedef___u64]),
      Fld ''batch'' (CStruct [
        Fld ''in_batch'' typedef___u64,
        Fld ''out_batch'' typedef___u64,
        Fld ''keys'' typedef___u64,
        Fld ''values'' typedef___u64,
        Fld ''count'' typedef___u32,
        Fld ''map_fd'' typedef___u32,
        Fld ''elem_flags'' typedef___u64,
        Fld ''flags'' typedef___u64]),
      Fld '''' (CStruct [
        Fld ''prog_type'' typedef___u32,
        Fld ''insn_cnt'' typedef___u32,
        Fld ''insns'' typedef___u64,
        Fld ''license'' typedef___u64,
        Fld ''log_level'' typedef___u32,
        Fld ''log_size'' typedef___u32,
        Fld ''log_buf'' typedef___u64,
        Fld ''kern_version'' typedef___u32,
        Fld ''prog_flags'' typedef___u32,
        Fld ''prog_name'' (Arr 16 (Prim CChar)),
        Fld ''prog_ifindex'' typedef___u32,
        Fld ''expected_attach_type'' typedef___u32,
        Fld ''prog_btf_fd'' typedef___u32,
        Fld ''func_info_rec_size'' typedef___u32,
        Fld ''func_info'' typedef___u64,
        Fld ''func_info_cnt'' typedef___u32,
        Fld ''line_info_rec_size'' typedef___u32,
        Fld ''line_info'' typedef___u64,
        Fld ''line_info_cnt'' typedef___u32,
        Fld ''attach_btf_id'' typedef___u32,
        Fld '''' (CUnion [
          Fld ''attach_prog_fd'' typedef___u32,
          Fld ''attach_btf_obj_fd'' typedef___u32]),
        Fld ''core_relo_cnt'' typedef___u32,
        Fld ''fd_array'' typedef___u64,
        Fld ''core_relos'' typedef___u64,
        Fld ''core_relo_rec_size'' typedef___u32,
        Fld ''log_true_size'' typedef___u32,
        Fld ''prog_token_fd'' typedef___s32]),
      Fld '''' (CStruct [
        Fld ''pathname'' typedef___u64,
        Fld ''bpf_fd'' typedef___u32,
        Fld ''file_flags'' typedef___u32,
        Fld ''path_fd'' typedef___s32]),
      Fld '''' (CStruct [
        Fld '''' (CUnion [
          Fld ''target_fd'' typedef___u32,
          Fld ''target_ifindex'' typedef___u32]),
        Fld ''attach_bpf_fd'' typedef___u32,
        Fld ''attach_type'' typedef___u32,
        Fld ''attach_flags'' typedef___u32,
        Fld ''replace_bpf_fd'' typedef___u32,
        Fld '''' (CUnion [
          Fld ''relative_fd'' typedef___u32,
          Fld ''relative_id'' typedef___u32]),
        Fld ''expected_revision'' typedef___u64]),
      Fld ''test'' (CStruct [
        Fld ''prog_fd'' typedef___u32,
        Fld ''retval'' typedef___u32,
        Fld ''data_size_in'' typedef___u32,
        Fld ''data_size_out'' typedef___u32,
        Fld ''data_in'' typedef___u64,
        Fld ''data_out'' typedef___u64,
        Fld ''repeat'' typedef___u32,
        Fld ''duration'' typedef___u32,
        Fld ''ctx_size_in'' typedef___u32,
        Fld ''ctx_size_out'' typedef___u32,
        Fld ''ctx_in'' typedef___u64,
        Fld ''ctx_out'' typedef___u64,
        Fld ''flags'' typedef___u32,
        Fld ''cpu'' typedef___u32,
        Fld ''batch_size'' typedef___u32]),
      Fld '''' (CStruct [
        Fld '''' (CUnion [
          Fld ''start_id'' typedef___u32,
          Fld ''prog_id'' typedef___u32,
          Fld ''map_id'' typedef___u32,
          Fld ''btf_id'' typedef___u32,
          Fld ''link_id'' typedef___u32]),
        Fld ''next_id'' typedef___u32,
        Fld ''open_flags'' typedef___u32]),
      Fld ''info'' (CStruct [
        Fld ''bpf_fd'' typedef___u32,
        Fld ''info_len'' typedef___u32,
        Fld ''info'' typedef___u64]),
      Fld ''query'' (CStruct [
        Fld '''' (CUnion [
          Fld ''target_fd'' typedef___u32,
          Fld ''target_ifindex'' typedef___u32]),
        Fld ''attach_type'' typedef___u32,
        Fld ''query_flags'' typedef___u32,
        Fld ''attach_flags'' typedef___u32,
        Fld ''prog_ids'' typedef___u64,
        Fld '''' (CUnion [
          Fld ''prog_cnt'' typedef___u32,
          Fld ''count'' typedef___u32]),
        Fld ''prog_attach_flags'' typedef___u64,
        Fld ''link_ids'' typedef___u64,
        Fld ''link_attach_flags'' typedef___u64,
        Fld ''revision'' typedef___u64]),
      Fld ''raw_tracepoint'' (CStruct [
        Fld ''name'' typedef___u64,
        Fld ''prog_fd'' typedef___u32,
        Fld ''cookie'' typedef___u64]),
      Fld '''' (CStruct [
        Fld ''btf'' typedef___u64,
        Fld ''btf_log_buf'' typedef___u64,
        Fld ''btf_size'' typedef___u32,
        Fld ''btf_log_size'' typedef___u32,
        Fld ''btf_log_level'' typedef___u32,
        Fld ''btf_log_true_size'' typedef___u32,
        Fld ''btf_flags'' typedef___u32,
        Fld ''btf_token_fd'' typedef___s32]),
      Fld ''task_fd_query'' (CStruct [
        Fld ''pid'' typedef___u32,
        Fld ''fd'' typedef___u32,
        Fld ''flags'' typedef___u32,
        Fld ''buf_len'' typedef___u32,
        Fld ''buf'' typedef___u64,
        Fld ''prog_id'' typedef___u32,
        Fld ''fd_type'' typedef___u32,
        Fld ''probe_offset'' typedef___u64,
        Fld ''probe_addr'' typedef___u64]),
      Fld ''link_create'' (CStruct [
        Fld '''' (CUnion [
          Fld ''prog_fd'' typedef___u32,
          Fld ''map_fd'' typedef___u32]),
        Fld '''' (CUnion [
          Fld ''target_fd'' typedef___u32,
          Fld ''target_ifindex'' typedef___u32]),
        Fld ''attach_type'' typedef___u32,
        Fld ''flags'' typedef___u32,
        Fld '''' (CUnion [
          Fld ''target_btf_id'' typedef___u32,
          Fld '''' (CStruct [
            Fld ''iter_info'' typedef___u64,
            Fld ''iter_info_len'' typedef___u32]),
          Fld ''perf_event'' (CStruct [
            Fld ''bpf_cookie'' typedef___u64]),
          Fld ''kprobe_multi'' (CStruct [
            Fld ''flags'' typedef___u32,
            Fld ''cnt'' typedef___u32,
            Fld ''syms'' typedef___u64,
            Fld ''addrs'' typedef___u64,
            Fld ''cookies'' typedef___u64]),
          Fld ''tracing'' (CStruct [
            Fld ''target_btf_id'' typedef___u32,
            Fld ''cookie'' typedef___u64]),
          Fld ''netfilter'' (CStruct [
            Fld ''pf'' typedef___u32,
            Fld ''hooknum'' typedef___u32,
            Fld ''priority'' typedef___s32,
            Fld ''flags'' typedef___u32]),
          Fld ''tcx'' (CStruct [
            Fld '''' (CUnion [
              Fld ''relative_fd'' typedef___u32,
              Fld ''relative_id'' typedef___u32]),
            Fld ''expected_revision'' typedef___u64]),
          Fld ''uprobe_multi'' (CStruct [
            Fld ''path'' typedef___u64,
            Fld ''offsets'' typedef___u64,
            Fld ''ref_ctr_offsets'' typedef___u64,
            Fld ''cookies'' typedef___u64,
            Fld ''cnt'' typedef___u32,
            Fld ''flags'' typedef___u32,
            Fld ''pid'' typedef___u32]),
          Fld ''netkit'' (CStruct [
            Fld '''' (CUnion [
              Fld ''relative_fd'' typedef___u32,
              Fld ''relative_id'' typedef___u32]),
            Fld ''expected_revision'' typedef___u64])])]),
      Fld ''link_update'' (CStruct [
        Fld ''link_fd'' typedef___u32,
        Fld '''' (CUnion [
          Fld ''new_prog_fd'' typedef___u32,
          Fld ''new_map_fd'' typedef___u32]),
        Fld ''flags'' typedef___u32,
        Fld '''' (CUnion [
          Fld ''old_prog_fd'' typedef___u32,
          Fld ''old_map_fd'' typedef___u32])]),
      Fld ''link_detach'' (CStruct [
        Fld ''link_fd'' typedef___u32]),
      Fld ''enable_stats'' (CStruct [
        Fld ''type'' typedef___u32]),
      Fld ''iter_create'' (CStruct [
        Fld ''link_fd'' typedef___u32,
        Fld ''flags'' typedef___u32]),
      Fld ''prog_bind_map'' (CStruct [
        Fld ''prog_fd'' typedef___u32,
        Fld ''map_fd'' typedef___u32,
        Fld ''flags'' typedef___u32]),
      Fld ''token_create'' (CStruct [
        Fld ''flags'' typedef___u32,
        Fld ''bpffs_fd'' typedef___u32])]"

definition enum_bpf_func_id :: ctype where
  "enum_bpf_func_id = Enum [(''BPF_FUNC_unspec'', 0), (''BPF_FUNC_map_lookup_elem'', 1),
      (''BPF_FUNC_map_update_elem'', 2), (''BPF_FUNC_map_delete_elem'', 3),
      (''BPF_FUNC_probe_read'', 4), (''BPF_FUNC_ktime_get_ns'', 5),
      (''BPF_FUNC_trace_printk'', 6), (''BPF_FUNC_get_prandom_u32'', 7),
      (''BPF_FUNC_get_smp_processor_id'', 8), (''BPF_FUNC_skb_store_bytes'', 9),
      (''BPF_FUNC_l3_csum_replace'', 10), (''BPF_FUNC_l4_csum_replace'', 11),
      (''BPF_FUNC_tail_call'', 12), (''BPF_FUNC_clone_redirect'', 13),
      (''BPF_FUNC_get_current_pid_tgid'', 14), (''BPF_FUNC_get_current_uid_gid'', 15),
      (''BPF_FUNC_get_current_comm'', 16), (''BPF_FUNC_get_cgroup_classid'', 17),
      (''BPF_FUNC_skb_vlan_push'', 18), (''BPF_FUNC_skb_vlan_pop'', 19),
      (''BPF_FUNC_skb_get_tunnel_key'', 20), (''BPF_FUNC_skb_set_tunnel_key'', 21),
      (''BPF_FUNC_perf_event_read'', 22), (''BPF_FUNC_redirect'', 23),
      (''BPF_FUNC_get_route_realm'', 24), (''BPF_FUNC_perf_event_output'', 25),
      (''BPF_FUNC_skb_load_bytes'', 26), (''BPF_FUNC_get_stackid'', 27),
      (''BPF_FUNC_csum_diff'', 28), (''BPF_FUNC_skb_get_tunnel_opt'', 29),
      (''BPF_FUNC_skb_set_tunnel_opt'', 30), (''BPF_FUNC_skb_change_proto'', 31),
      (''BPF_FUNC_skb_change_type'', 32), (''BPF_FUNC_skb_under_cgroup'', 33),
      (''BPF_FUNC_get_hash_recalc'', 34), (''BPF_FUNC_get_current_task'', 35),
      (''BPF_FUNC_probe_write_user'', 36), (''BPF_FUNC_current_task_under_cgroup'', 37),
      (''BPF_FUNC_skb_change_tail'', 38), (''BPF_FUNC_skb_pull_data'', 39),
      (''BPF_FUNC_csum_update'', 40), (''BPF_FUNC_set_hash_invalid'', 41),
      (''BPF_FUNC_get_numa_node_id'', 42), (''BPF_FUNC_skb_change_head'', 43),
      (''BPF_FUNC_xdp_adjust_head'', 44), (''BPF_FUNC_probe_read_str'', 45),
      (''BPF_FUNC_get_socket_cookie'', 46), (''BPF_FUNC_get_socket_uid'', 47),
      (''BPF_FUNC_set_hash'', 48), (''BPF_FUNC_setsockopt'', 49),
      (''BPF_FUNC_skb_adjust_room'', 50), (''BPF_FUNC_redirect_map'', 51),
      (''BPF_FUNC_sk_redirect_map'', 52), (''BPF_FUNC_sock_map_update'', 53),
      (''BPF_FUNC_xdp_adjust_meta'', 54), (''BPF_FUNC_perf_event_read_value'', 55),
      (''BPF_FUNC_perf_prog_read_value'', 56), (''BPF_FUNC_getsockopt'', 57),
      (''BPF_FUNC_override_return'', 58), (''BPF_FUNC_sock_ops_cb_flags_set'', 59),
      (''BPF_FUNC_msg_redirect_map'', 60), (''BPF_FUNC_msg_apply_bytes'', 61),
      (''BPF_FUNC_msg_cork_bytes'', 62), (''BPF_FUNC_msg_pull_data'', 63),
      (''BPF_FUNC_bind'', 64), (''BPF_FUNC_xdp_adjust_tail'', 65),
      (''BPF_FUNC_skb_get_xfrm_state'', 66), (''BPF_FUNC_get_stack'', 67),
      (''BPF_FUNC_skb_load_bytes_relative'', 68), (''BPF_FUNC_fib_lookup'', 69),
      (''BPF_FUNC_sock_hash_update'', 70), (''BPF_FUNC_msg_redirect_hash'', 71),
      (''BPF_FUNC_sk_redirect_hash'', 72), (''BPF_FUNC_lwt_push_encap'', 73),
      (''BPF_FUNC_lwt_seg6_store_bytes'', 74), (''BPF_FUNC_lwt_seg6_adjust_srh'', 75),
      (''BPF_FUNC_lwt_seg6_action'', 76), (''BPF_FUNC_rc_repeat'', 77),
      (''BPF_FUNC_rc_keydown'', 78), (''BPF_FUNC_skb_cgroup_id'', 79),
      (''BPF_FUNC_get_current_cgroup_id'', 80), (''BPF_FUNC_get_local_storage'', 81),
      (''BPF_FUNC_sk_select_reuseport'', 82), (''BPF_FUNC_skb_ancestor_cgroup_id'', 83),
      (''BPF_FUNC_sk_lookup_tcp'', 84), (''BPF_FUNC_sk_lookup_udp'', 85),
      (''BPF_FUNC_sk_release'', 86), (''BPF_FUNC_map_push_elem'', 87),
      (''BPF_FUNC_map_pop_elem'', 88), (''BPF_FUNC_map_peek_elem'', 89),
      (''BPF_FUNC_msg_push_data'', 90), (''BPF_FUNC_msg_pop_data'', 91),
      (''BPF_FUNC_rc_pointer_rel'', 92), (''BPF_FUNC_spin_lock'', 93),
      (''BPF_FUNC_spin_unlock'', 94), (''BPF_FUNC_sk_fullsock'', 95),
      (''BPF_FUNC_tcp_sock'', 96), (''BPF_FUNC_skb_ecn_set_ce'', 97),
      (''BPF_FUNC_get_listener_sock'', 98), (''BPF_FUNC_skc_lookup_tcp'', 99),
      (''BPF_FUNC_tcp_check_syncookie'', 100), (''BPF_FUNC_sysctl_get_name'', 101),
      (''BPF_FUNC_sysctl_get_current_value'', 102), (''BPF_FUNC_sysctl_get_new_value'', 103),
      (''BPF_FUNC_sysctl_set_new_value'', 104), (''BPF_FUNC_strtol'', 105),
      (''BPF_FUNC_strtoul'', 106), (''BPF_FUNC_sk_storage_get'', 107),
      (''BPF_FUNC_sk_storage_delete'', 108), (''BPF_FUNC_send_signal'', 109),
      (''BPF_FUNC_tcp_gen_syncookie'', 110), (''BPF_FUNC_skb_output'', 111),
      (''BPF_FUNC_probe_read_user'', 112), (''BPF_FUNC_probe_read_kernel'', 113),
      (''BPF_FUNC_probe_read_user_str'', 114), (''BPF_FUNC_probe_read_kernel_str'', 115),
      (''BPF_FUNC_tcp_send_ack'', 116), (''BPF_FUNC_send_signal_thread'', 117),
      (''BPF_FUNC_jiffies64'', 118), (''BPF_FUNC_read_branch_records'', 119),
      (''BPF_FUNC_get_ns_current_pid_tgid'', 120), (''BPF_FUNC_xdp_output'', 121),
      (''BPF_FUNC_get_netns_cookie'', 122), (''BPF_FUNC_get_current_ancestor_cgroup_id'', 123),
      (''BPF_FUNC_sk_assign'', 124), (''BPF_FUNC_ktime_get_boot_ns'', 125),
      (''BPF_FUNC_seq_printf'', 126), (''BPF_FUNC_seq_write'', 127),
      (''BPF_FUNC_sk_cgroup_id'', 128), (''BPF_FUNC_sk_ancestor_cgroup_id'', 129),
      (''BPF_FUNC_ringbuf_output'', 130), (''BPF_FUNC_ringbuf_reserve'', 131),
      (''BPF_FUNC_ringbuf_submit'', 132), (''BPF_FUNC_ringbuf_discard'', 133),
      (''BPF_FUNC_ringbuf_query'', 134), (''BPF_FUNC_csum_level'', 135),
      (''BPF_FUNC_skc_to_tcp6_sock'', 136), (''BPF_FUNC_skc_to_tcp_sock'', 137),
      (''BPF_FUNC_skc_to_tcp_timewait_sock'', 138), (''BPF_FUNC_skc_to_tcp_request_sock'', 139),
      (''BPF_FUNC_skc_to_udp6_sock'', 140), (''BPF_FUNC_get_task_stack'', 141),
      (''BPF_FUNC_load_hdr_opt'', 142), (''BPF_FUNC_store_hdr_opt'', 143),
      (''BPF_FUNC_reserve_hdr_opt'', 144), (''BPF_FUNC_inode_storage_get'', 145),
      (''BPF_FUNC_inode_storage_delete'', 146), (''BPF_FUNC_d_path'', 147),
      (''BPF_FUNC_copy_from_user'', 148), (''BPF_FUNC_snprintf_btf'', 149),
      (''BPF_FUNC_seq_printf_btf'', 150), (''BPF_FUNC_skb_cgroup_classid'', 151),
      (''BPF_FUNC_redirect_neigh'', 152), (''BPF_FUNC_per_cpu_ptr'', 153),
      (''BPF_FUNC_this_cpu_ptr'', 154), (''BPF_FUNC_redirect_peer'', 155),
      (''BPF_FUNC_task_storage_get'', 156), (''BPF_FUNC_task_storage_delete'', 157),
      (''BPF_FUNC_get_current_task_btf'', 158), (''BPF_FUNC_bprm_opts_set'', 159),
      (''BPF_FUNC_ktime_get_coarse_ns'', 160), (''BPF_FUNC_ima_inode_hash'', 161),
      (''BPF_FUNC_sock_from_file'', 162), (''BPF_FUNC_check_mtu'', 163),
      (''BPF_FUNC_for_each_map_elem'', 164), (''BPF_FUNC_snprintf'', 165),
      (''BPF_FUNC_sys_bpf'', 166), (''BPF_FUNC_btf_find_by_name_kind'', 167),
      (''BPF_FUNC_sys_close'', 168), (''BPF_FUNC_timer_init'', 169),
      (''BPF_FUNC_timer_set_callback'', 170), (''BPF_FUNC_timer_start'', 171),
      (''BPF_FUNC_timer_cancel'', 172), (''BPF_FUNC_get_func_ip'', 173),
      (''BPF_FUNC_get_attach_cookie'', 174), (''BPF_FUNC_task_pt_regs'', 175),
      (''BPF_FUNC_get_branch_snapshot'', 176), (''BPF_FUNC_trace_vprintk'', 177),
      (''BPF_FUNC_skc_to_unix_sock'', 178), (''BPF_FUNC_kallsyms_lookup_name'', 179),
      (''BPF_FUNC_find_vma'', 180), (''BPF_FUNC_loop'', 181), (''BPF_FUNC_strncmp'', 182),
      (''BPF_FUNC_get_func_arg'', 183), (''BPF_FUNC_get_func_ret'', 184),
      (''BPF_FUNC_get_func_arg_cnt'', 185), (''BPF_FUNC_get_retval'', 186),
      (''BPF_FUNC_set_retval'', 187), (''BPF_FUNC_xdp_get_buff_len'', 188),
      (''BPF_FUNC_xdp_load_bytes'', 189), (''BPF_FUNC_xdp_store_bytes'', 190),
      (''BPF_FUNC_copy_from_user_task'', 191), (''BPF_FUNC_skb_set_tstamp'', 192),
      (''BPF_FUNC_ima_file_hash'', 193), (''BPF_FUNC_kptr_xchg'', 194),
      (''BPF_FUNC_map_lookup_percpu_elem'', 195), (''BPF_FUNC_skc_to_mptcp_sock'', 196),
      (''BPF_FUNC_dynptr_from_mem'', 197), (''BPF_FUNC_ringbuf_reserve_dynptr'', 198),
      (''BPF_FUNC_ringbuf_submit_dynptr'', 199), (''BPF_FUNC_ringbuf_discard_dynptr'', 200),
      (''BPF_FUNC_dynptr_read'', 201), (''BPF_FUNC_dynptr_write'', 202),
      (''BPF_FUNC_dynptr_data'', 203), (''BPF_FUNC_tcp_raw_gen_syncookie_ipv4'', 204),
      (''BPF_FUNC_tcp_raw_gen_syncookie_ipv6'', 205),
      (''BPF_FUNC_tcp_raw_check_syncookie_ipv4'', 206),
      (''BPF_FUNC_tcp_raw_check_syncookie_ipv6'', 207), (''BPF_FUNC_ktime_get_tai_ns'', 208),
      (''BPF_FUNC_user_ringbuf_drain'', 209), (''BPF_FUNC_cgrp_storage_get'', 210),
      (''BPF_FUNC_cgrp_storage_delete'', 211), (''__BPF_FUNC_MAX_ID'', 212)]"

definition struct_bpf_map_info :: ctype where
  "struct_bpf_map_info = CStruct [
      Fld ''type'' typedef___u32,
      Fld ''id'' typedef___u32,
      Fld ''key_size'' typedef___u32,
      Fld ''value_size'' typedef___u32,
      Fld ''max_entries'' typedef___u32,
      Fld ''map_flags'' typedef___u32,
      Fld ''name'' (Arr 16 (Prim CChar)),
      Fld ''ifindex'' typedef___u32,
      Fld ''btf_vmlinux_value_type_id'' typedef___u32,
      Fld ''netns_dev'' typedef___u64,
      Fld ''netns_ino'' typedef___u64,
      Fld ''btf_id'' typedef___u32,
      Fld ''btf_key_type_id'' typedef___u32,
      Fld ''btf_value_type_id'' typedef___u32,
      Fld ''btf_vmlinux_id'' typedef___u32,
      Fld ''map_extra'' typedef___u64]"

definition struct_bpf_prog_info :: ctype where
  "struct_bpf_prog_info = CStruct [
      Fld ''type'' typedef___u32,
      Fld ''id'' typedef___u32,
      Fld ''tag'' (Arr 8 typedef___u8),
      Fld ''jited_prog_len'' typedef___u32,
      Fld ''xlated_prog_len'' typedef___u32,
      Fld ''jited_prog_insns'' typedef___u64,
      Fld ''xlated_prog_insns'' typedef___u64,
      Fld ''load_time'' typedef___u64,
      Fld ''created_by_uid'' typedef___u32,
      Fld ''nr_map_ids'' typedef___u32,
      Fld ''map_ids'' typedef___u64,
      Fld ''name'' (Arr 16 (Prim CChar)),
      Fld ''ifindex'' typedef___u32,
      Bits ''gpl_compatible'' typedef___u32 1,
      Fld ''netns_dev'' typedef___u64,
      Fld ''netns_ino'' typedef___u64,
      Fld ''nr_jited_ksyms'' typedef___u32,
      Fld ''nr_jited_func_lens'' typedef___u32,
      Fld ''jited_ksyms'' typedef___u64,
      Fld ''jited_func_lens'' typedef___u64,
      Fld ''btf_id'' typedef___u32,
      Fld ''func_info_rec_size'' typedef___u32,
      Fld ''func_info'' typedef___u64,
      Fld ''nr_func_info'' typedef___u32,
      Fld ''nr_line_info'' typedef___u32,
      Fld ''line_info'' typedef___u64,
      Fld ''jited_line_info'' typedef___u64,
      Fld ''nr_jited_line_info'' typedef___u32,
      Fld ''line_info_rec_size'' typedef___u32,
      Fld ''jited_line_info_rec_size'' typedef___u32,
      Fld ''nr_prog_tags'' typedef___u32,
      Fld ''prog_tags'' typedef___u64,
      Fld ''run_time_ns'' typedef___u64,
      Fld ''run_cnt'' typedef___u64,
      Fld ''recursion_misses'' typedef___u64,
      Fld ''verified_insns'' typedef___u32,
      Fld ''attach_btf_obj_id'' typedef___u32,
      Fld ''attach_btf_id'' typedef___u32]"

definition enum_bpf_link_type :: ctype where
  "enum_bpf_link_type = Enum [(''BPF_LINK_TYPE_UNSPEC'', 0), (''BPF_LINK_TYPE_RAW_TRACEPOINT'', 1),
      (''BPF_LINK_TYPE_TRACING'', 2), (''BPF_LINK_TYPE_CGROUP'', 3), (''BPF_LINK_TYPE_ITER'', 4),
      (''BPF_LINK_TYPE_NETNS'', 5), (''BPF_LINK_TYPE_XDP'', 6),
      (''BPF_LINK_TYPE_PERF_EVENT'', 7), (''BPF_LINK_TYPE_KPROBE_MULTI'', 8),
      (''BPF_LINK_TYPE_STRUCT_OPS'', 9), (''BPF_LINK_TYPE_NETFILTER'', 10),
      (''BPF_LINK_TYPE_TCX'', 11), (''BPF_LINK_TYPE_UPROBE_MULTI'', 12),
      (''BPF_LINK_TYPE_NETKIT'', 13), (''BPF_LINK_TYPE_SOCKMAP'', 14),
      (''__MAX_BPF_LINK_TYPE'', 15)]"

definition struct_bpf_link :: ctype where
  "struct_bpf_link = CStruct [
      Fld ''refcnt'' typedef_atomic64_t,
      Fld ''id'' typedef_u32,
      Fld ''type'' enum_bpf_link_type,
      Fld ''ops'' (Ptr ''const struct bpf_link_ops''),
      Fld ''prog'' (Ptr ''struct bpf_prog''),
      Fld '''' (CUnion [
        Fld ''rcu'' struct_callback_head,
        Fld ''work'' struct_work_struct])]"

definition struct_bpf_tramp_link :: ctype where
  "struct_bpf_tramp_link = CStruct [
      Fld ''link'' struct_bpf_link,
      Fld ''tramp_hlist'' struct_hlist_node,
      Fld ''cookie'' typedef_u64]"

definition struct_btf_func_model :: ctype where
  "struct_btf_func_model = CStruct [
      Fld ''ret_size'' typedef_u8,
      Fld ''ret_flags'' typedef_u8,
      Fld ''nr_args'' typedef_u8,
      Fld ''arg_size'' (Arr 12 typedef_u8),
      Fld ''arg_flags'' (Arr 12 typedef_u8)]"

definition struct_bpf_trampoline :: ctype where
  "struct_bpf_trampoline = CStruct [
      Fld ''hlist'' struct_hlist_node,
      Fld ''fops'' (Ptr ''struct ftrace_ops''),
      Fld ''mutex'' struct_mutex,
      Fld ''refcnt'' typedef_refcount_t,
      Fld ''flags'' typedef_u32,
      Fld ''key'' typedef_u64,
      Fld ''func'' (CStruct [
        Fld ''model'' struct_btf_func_model,
        Fld ''addr'' (Ptr ''void''),
        Fld ''ftrace_managed'' (Prim CBool)]),
      Fld ''extension_prog'' (Ptr ''struct bpf_prog''),
      Fld ''progs_hlist'' (Arr 3 struct_hlist_head),
      Fld ''progs_cnt'' (Arr 3 (Prim CInt)),
      Fld ''cur_image'' (Ptr ''struct bpf_tramp_image'')]"

definition struct_bpf_attach_target_info :: ctype where
  "struct_bpf_attach_target_info = CStruct [
      Fld ''fmodel'' struct_btf_func_model,
      Fld ''tgt_addr'' (Prim CLong),
      Fld ''tgt_mod'' (Ptr ''struct module''),
      Fld ''tgt_name'' (Ptr ''const char''),
      Fld ''tgt_type'' (Ptr ''const struct btf_type'')]"

definition struct_bpf_run_ctx :: ctype where
  "struct_bpf_run_ctx = CStruct []"

definition struct_bpf_trace_run_ctx :: ctype where
  "struct_bpf_trace_run_ctx = CStruct [
      Fld ''run_ctx'' struct_bpf_run_ctx,
      Fld ''bpf_cookie'' typedef_u64,
      Fld ''is_uprobe'' (Prim CBool)]"

definition struct_static_key :: ctype where
  "struct_static_key = CStruct [
      Fld ''enabled'' typedef_atomic_t,
      Fld '''' (CUnion [
        Fld ''type'' (Prim CULong),
        Fld ''entries'' (Ptr ''struct jump_entry''),
        Fld ''next'' (Ptr ''struct static_key_mod'')])]"

definition struct_tracepoint :: ctype where
  "struct_tracepoint = CStruct [
      Fld ''name'' (Ptr ''const char''),
      Fld ''key'' struct_static_key,
      Fld ''static_call_key'' (Ptr ''struct static_call_key''),
      Fld ''static_call_tramp'' (Ptr ''void''),
      Fld ''iterator'' (Ptr ''void''),
      Fld ''probestub'' (Ptr ''void''),
      Fld ''regfunc'' (Ptr ''int (void)''),
      Fld ''unregfunc'' (Ptr ''void (void)''),
      Fld ''funcs'' (Ptr ''struct tracepoint_func'')]"

section \<open>Sizes and alignments\<close>

lemma layout_bpf_1 [layout_simps]:
  "sizeof enum_bpf_map_type = 4" "alignof enum_bpf_map_type = 4"
  "wf_ctype enum_bpf_map_type" "natural enum_bpf_map_type = True"
  "sizeof enum_bpf_prog_type = 4" "alignof enum_bpf_prog_type = 4"
  "wf_ctype enum_bpf_prog_type" "natural enum_bpf_prog_type = True"
  "sizeof struct_bpf_mem_alloc = 64" "alignof struct_bpf_mem_alloc = 8"
  "wf_ctype struct_bpf_mem_alloc" "natural struct_bpf_mem_alloc = True"
  "sizeof struct_pcpu_freelist_head = 16" "alignof struct_pcpu_freelist_head = 8"
  "wf_ctype struct_pcpu_freelist_head" "natural struct_pcpu_freelist_head = True"
  "sizeof struct_bpf_lru_list = 128" "alignof struct_bpf_lru_list = 8"
  "wf_ctype struct_bpf_lru_list" "natural struct_bpf_lru_list = True"
  "sizeof typedef_del_from_htab_func = 8" "alignof typedef_del_from_htab_func = 8"
  "wf_ctype typedef_del_from_htab_func" "natural typedef_del_from_htab_func = True"
  "sizeof struct_percpu_counter = 24" "alignof struct_percpu_counter = 8"
  "wf_ctype struct_percpu_counter" "natural struct_percpu_counter = True"
  "sizeof struct_lock_class_key = 0" "alignof struct_lock_class_key = 1"
  "wf_ctype struct_lock_class_key" "natural struct_lock_class_key = True"
  "sizeof struct_rcuwait = 8" "alignof struct_rcuwait = 8"
  "wf_ctype struct_rcuwait" "natural struct_rcuwait = True"
  "sizeof enum_bpf_attach_type = 4" "alignof enum_bpf_attach_type = 4"
  "wf_ctype enum_bpf_attach_type" "natural enum_bpf_attach_type = True"
  "sizeof struct_sock_filter = 8" "alignof struct_sock_filter = 4"
  "wf_ctype struct_sock_filter" "natural struct_sock_filter = True"
  "sizeof typedef___s16 = 2" "alignof typedef___s16 = 2"
  "wf_ctype typedef___s16" "natural typedef___s16 = True"
  by (simp_all add: enum_bpf_map_type_def  enum_bpf_prog_type_def  struct_bpf_mem_alloc_def 
      struct_pcpu_freelist_head_def  struct_bpf_lru_list_def  typedef_del_from_htab_func_def 
      struct_percpu_counter_def  struct_lock_class_key_def  struct_rcuwait_def 
      enum_bpf_attach_type_def  struct_sock_filter_def  typedef___s16_def layout_eval
      layout_simps del: One_nat_def)

lemma layout_bpf_2 [layout_simps]:
  "sizeof union_bpf_attr = 152" "alignof union_bpf_attr = 8"
  "wf_ctype union_bpf_attr" "natural union_bpf_attr = True"
  "sizeof enum_bpf_func_id = 4" "alignof enum_bpf_func_id = 4"
  "wf_ctype enum_bpf_func_id" "natural enum_bpf_func_id = True"
  "sizeof struct_bpf_map_info = 88" "alignof struct_bpf_map_info = 8"
  "wf_ctype struct_bpf_map_info" "natural struct_bpf_map_info = True"
  "sizeof struct_bpf_prog_info = 232" "alignof struct_bpf_prog_info = 8"
  "wf_ctype struct_bpf_prog_info" "natural struct_bpf_prog_info = True"
  "sizeof enum_bpf_link_type = 4" "alignof enum_bpf_link_type = 4"
  "wf_ctype enum_bpf_link_type" "natural enum_bpf_link_type = True"
  "sizeof struct_btf_func_model = 27" "alignof struct_btf_func_model = 1"
  "wf_ctype struct_btf_func_model" "natural struct_btf_func_model = True"
  "sizeof struct_bpf_run_ctx = 0" "alignof struct_bpf_run_ctx = 1"
  "wf_ctype struct_bpf_run_ctx" "natural struct_bpf_run_ctx = True"
  "sizeof struct_static_key = 16" "alignof struct_static_key = 8"
  "wf_ctype struct_static_key" "natural struct_static_key = True"
  by (simp_all add: union_bpf_attr_def  enum_bpf_func_id_def  struct_bpf_map_info_def 
      struct_bpf_prog_info_def  enum_bpf_link_type_def  struct_btf_func_model_def 
      struct_bpf_run_ctx_def  struct_static_key_def layout_eval
      layout_simps del: One_nat_def)

lemma layout_bpf_3 [layout_simps]:
  "sizeof struct_bpf_map = 248" "alignof struct_bpf_map = 8"
  "wf_ctype struct_bpf_map" "natural struct_bpf_map = True"
  "sizeof struct_pcpu_freelist = 24" "alignof struct_pcpu_freelist = 8"
  "wf_ctype struct_pcpu_freelist" "natural struct_pcpu_freelist = True"
  "sizeof struct_bpf_common_lru = 192" "alignof struct_bpf_common_lru = 8"
  "wf_ctype struct_bpf_common_lru" "natural struct_bpf_common_lru = True"
  "sizeof struct_irq_work = 32" "alignof struct_irq_work = 8"
  "wf_ctype struct_irq_work" "natural struct_irq_work = True"
  "sizeof struct_bpf_insn = 8" "alignof struct_bpf_insn = 4"
  "wf_ctype struct_bpf_insn" "natural struct_bpf_insn = True"
  "sizeof struct_bpf_link = 64" "alignof struct_bpf_link = 8"
  "wf_ctype struct_bpf_link" "natural struct_bpf_link = True"
  "sizeof struct_bpf_trampoline = 176" "alignof struct_bpf_trampoline = 8"
  "wf_ctype struct_bpf_trampoline" "natural struct_bpf_trampoline = True"
  "sizeof struct_bpf_attach_target_info = 64" "alignof struct_bpf_attach_target_info = 8"
  "wf_ctype struct_bpf_attach_target_info" "natural struct_bpf_attach_target_info = True"
  "sizeof struct_bpf_trace_run_ctx = 16" "alignof struct_bpf_trace_run_ctx = 8"
  "wf_ctype struct_bpf_trace_run_ctx" "natural struct_bpf_trace_run_ctx = True"
  "sizeof struct_tracepoint = 80" "alignof struct_tracepoint = 8"
  "wf_ctype struct_tracepoint" "natural struct_tracepoint = True"
  by (simp_all add: struct_bpf_map_def  struct_pcpu_freelist_def  struct_bpf_common_lru_def 
      struct_irq_work_def  struct_bpf_insn_def  struct_bpf_link_def 
      struct_bpf_trampoline_def  struct_bpf_attach_target_info_def 
      struct_bpf_trace_run_ctx_def  struct_tracepoint_def layout_eval
      layout_simps del: One_nat_def)

lemma layout_bpf_4 [layout_simps]:
  "sizeof struct_bpf_lru = 256" "alignof struct_bpf_lru = 8"
  "wf_ctype struct_bpf_lru" "natural struct_bpf_lru = True"
  "sizeof struct_bpf_array = 264" "alignof struct_bpf_array = 8"
  "wf_ctype struct_bpf_array" "natural struct_bpf_array = True"
  "sizeof struct_bpf_ringbuf = 12288" "alignof struct_bpf_ringbuf = 8"
  "wf_ctype struct_bpf_ringbuf" "natural struct_bpf_ringbuf = True"
  "sizeof struct_bpf_prog = 72" "alignof struct_bpf_prog = 8"
  "wf_ctype struct_bpf_prog" "natural struct_bpf_prog = True"
  "sizeof struct_bpf_tramp_link = 88" "alignof struct_bpf_tramp_link = 8"
  "wf_ctype struct_bpf_tramp_link" "natural struct_bpf_tramp_link = True"
  by (simp_all add: struct_bpf_lru_def  struct_bpf_array_def  struct_bpf_ringbuf_def  struct_bpf_prog_def 
      struct_bpf_tramp_link_def layout_eval
      layout_simps del: One_nat_def)

lemma layout_bpf_5 [layout_simps]:
  "sizeof struct_bpf_htab = 832" "alignof struct_bpf_htab = 8"
  "wf_ctype struct_bpf_htab" "natural struct_bpf_htab = True"
  by (simp_all add: struct_bpf_htab_def layout_eval
      layout_simps del: One_nat_def)

end
