(* ===== verification/Program_Layout.thy ===== *)
theory Program_Layout
  imports Kernel_Types_Bpf Sched_Monitor Blkio_Monitor Net_Monitor Cgroup_Monitor
begin

text \<open>
  Where the programs meet memory: the fields they read from kernel objects, resolved in the
  declarations of \<^verbatim>\<open>vmlinux.h\<close>; the layout of their own structures; and the maps they
  declare. This ties the abstract reads and records of the monitor theories to concrete
  offsets and sizes.
\<close>

section \<open>Kernel objects\<close>

text \<open>The objects a pointer of a read path may lead to, by the spelling of the pointee.\<close>

definition kernel_objects :: "(string \<times> ctype) list" where
  "kernel_objects =
     [(''struct task_struct'', struct_task_struct), (''struct css_set'', struct_css_set),
      (''struct cgroup'', struct_cgroup), (''struct kernfs_node'', struct_kernfs_node),
      (''struct request'', struct_request), (''struct sock'', struct_sock),
      (''struct sock_cgroup_data'', struct_sock_cgroup_data), (''struct sk_buff'', struct_sk_buff),
      (''struct msghdr'', struct_msghdr)]"

text \<open>The byte offset of a member on the kernel the header was generated from.\<close>

definition vmlinux_off :: "string \<Rightarrow> string \<Rightarrow> u64" where
  "vmlinux_off s f =
     (case map_of kernel_objects (''struct '' @ s) of
        None \<Rightarrow> 0
      | Some t \<Rightarrow> (case find_field f t of None \<Rightarrow> 0 | Some (p, w, u) \<Rightarrow> of_nat (p div 8)))"

lemma fields_task_struct:
  "find_field ''pid'' struct_task_struct = Some (8448, 32, typedef_pid_t)"
  "find_field ''cgroups'' struct_task_struct = Some (15936, 64, Ptr ''struct css_set'')"
  by (simp_all add: struct_task_struct_def layout_eval layout_simps del: One_nat_def)

lemma fields_cgroup:
  "find_field ''dfl_cgrp'' struct_css_set = Some (960, 64, Ptr ''struct cgroup'')"
  "find_field ''kn'' struct_cgroup = Some (1984, 64, Ptr ''struct kernfs_node'')"
  "find_field ''id'' struct_kernfs_node = Some (768, 64, typedef_u64)"
  by (simp_all add: struct_css_set_def struct_cgroup_def struct_kernfs_node_def layout_eval layout_simps
      del: One_nat_def)

lemma fields_request_sock:
  "find_field ''__data_len'' struct_request = Some (352, 32, Prim CUInt)"
  "find_field ''sk_cgrp_data'' struct_sock = Some (5312, 128, struct_sock_cgroup_data)"
  "find_field ''cgroup'' struct_sock_cgroup_data = Some (0, 64, Ptr ''struct cgroup'')"
  by (simp_all add: struct_request_def struct_sock_def struct_sock_cgroup_data_def layout_eval layout_simps
      del: One_nat_def)

text \<open>The lemmas above are what the read paths of the programs need.\<close>

lemmas path_eval = kernel_objects_def fields_task_struct fields_cgroup fields_request_sock layout_simps

lemma kernel_objects_wf: "\<forall>(n, t) \<in> set kernel_objects. wf_ctype t"
  by (simp add: kernel_objects_def layout_simps)

section \<open>The structures of the programs\<close>

definition c_sched_hist :: ctype where
  "c_sched_hist = CStruct [
     Fld ''slots'' (Arr MAX_SLOTS typedef___u64),
     Fld ''total_us'' typedef___u64,
     Fld ''count'' typedef___u64]"

definition c_sched_bucket :: ctype where
  "c_sched_bucket = CStruct [
     Fld ''epoch'' typedef___u64,
     Fld ''runq_lat_ns'' typedef___u64,
     Fld ''cpu_ns'' typedef___u64,
     Fld ''runq_count'' typedef___u32,
     Fld ''ctx_switches'' typedef___u32]"

definition c_sched_buckets :: ctype where
  "c_sched_buckets = CStruct [Fld ''b'' (Arr NUM_BUCKETS c_sched_bucket)]"

definition c_blkio_hist :: ctype where
  "c_blkio_hist = CStruct [
     Fld ''slots'' (Arr BIO_MAX_SLOTS typedef___u64),
     Fld ''total_us'' typedef___u64,
     Fld ''count'' typedef___u64,
     Fld ''bytes'' typedef___u64]"

definition c_rq_start :: ctype where
  "c_rq_start = CStruct [
     Fld ''ts'' typedef___u64,
     Fld ''cgroup_id'' typedef___u64,
     Fld ''bytes'' typedef___u32]"

definition c_net_stats :: ctype where
  "c_net_stats = CStruct [
     Fld ''retransmits'' typedef___u64,
     Fld ''tx_bytes'' typedef___u64,
     Fld ''tx_segs'' typedef___u64]"

definition c_cgroup_event :: ctype where
  "c_cgroup_event = CStruct [
     Fld ''cgroup_id'' typedef___u64,
     Fld ''op'' typedef___u32,
     Fld ''path'' (Arr EVENT_PATH_LEN (Prim CChar))]"

lemmas c_struct_defs = c_sched_hist_def c_sched_bucket_def c_sched_buckets_def c_blkio_hist_def
  c_rq_start_def c_net_stats_def c_cgroup_event_def MAX_SLOTS_def NUM_BUCKETS_def BIO_MAX_SLOTS_def
  EVENT_PATH_LEN_def

lemma layout_programs [layout_simps]:
  "sizeof c_sched_hist = 232" "sizeof c_sched_bucket = 32" "sizeof c_sched_buckets = 2048"
  "sizeof c_blkio_hist = 240" "sizeof c_rq_start = 24" "sizeof c_net_stats = 24"
  "sizeof c_cgroup_event = 272"
  by (simp_all add: c_struct_defs layout_eval layout_simps del: One_nat_def)

section \<open>The maps\<close>

text \<open>A map of a program: its type, the sizes of key and value, and its capacity.\<close>

record map_def =
  map_type :: string
  key_size :: nat
  value_size :: nat
  max_entries :: nat

definition sched_maps :: "map_def list" where
  "sched_maps =
     [\<lparr>map_type = ''BPF_MAP_TYPE_PERCPU_HASH'', key_size = sizeof typedef___u64,
        value_size = sizeof c_sched_hist, max_entries = MAX_CGROUPS\<rparr>,
      \<lparr>map_type = ''BPF_MAP_TYPE_HASH'', key_size = sizeof typedef___u32,
        value_size = sizeof typedef___u64, max_entries = MAX_TASKS\<rparr>,
      \<lparr>map_type = ''BPF_MAP_TYPE_PERCPU_HASH'', key_size = sizeof typedef___u64,
        value_size = sizeof typedef___u64, max_entries = MAX_CGROUPS\<rparr>,
      \<lparr>map_type = ''BPF_MAP_TYPE_PERCPU_ARRAY'', key_size = sizeof typedef___u32,
        value_size = sizeof typedef___u64, max_entries = 1\<rparr>,
      \<lparr>map_type = ''BPF_MAP_TYPE_PERCPU_HASH'', key_size = sizeof typedef___u64,
        value_size = sizeof c_sched_buckets, max_entries = MAX_ACTIVE_CGROUPS\<rparr>,
      \<lparr>map_type = ''BPF_MAP_TYPE_PERCPU_ARRAY'', key_size = sizeof typedef___u32,
        value_size = sizeof c_sched_buckets, max_entries = 1\<rparr>]"

definition blkio_maps :: "map_def list" where
  "blkio_maps =
     [\<lparr>map_type = ''BPF_MAP_TYPE_PERCPU_HASH'', key_size = sizeof typedef___u64,
        value_size = sizeof c_blkio_hist, max_entries = BIO_MAX_CGROUPS\<rparr>,
      \<lparr>map_type = ''BPF_MAP_TYPE_HASH'', key_size = sizeof typedef___u64,
        value_size = sizeof c_rq_start, max_entries = MAX_INFLIGHT\<rparr>]"

definition net_maps :: "map_def list" where
  "net_maps =
     [\<lparr>map_type = ''BPF_MAP_TYPE_PERCPU_HASH'', key_size = sizeof typedef___u64,
        value_size = sizeof c_net_stats, max_entries = NET_MAX_CGROUPS\<rparr>]"

text \<open>A ring buffer has neither keys nor values; its capacity is in bytes.\<close>

definition cgroup_maps :: "map_def list" where
  "cgroup_maps = [\<lparr>map_type = ''BPF_MAP_TYPE_RINGBUF'', key_size = 0, value_size = 0, max_entries = 256 * 1024\<rparr>]"

text \<open>The kernel keeps every value in units of eight bytes; a per-CPU map has one per CPU and entry.\<close>

definition value_bytes :: "map_def \<Rightarrow> nat" where
  "value_bytes d = max_entries d * round_up 8 (value_size d)"

fun enumerators :: "ctype \<Rightarrow> (string \<times> int) list" where
  "enumerators (Enum es) = es"
| "enumerators t = []"

section \<open>Properties\<close>



definition vmlinux_kernel :: kernel where
  "vmlinux_kernel = \<lparr>kmem = (\<lambda>a. Some 0), koff = vmlinux_off\<rparr>"




text \<open>
  The record of a cgroup event has in C the layout that the encoder and the decoder of
  the model use: size 272, the operation at byte 8, the path at byte 12, each of the width
  that is written.
\<close>

theorem cgroup_event_layout:
  "sizeof c_cgroup_event = EV_SIZE \<and>
   resolve_chain c_cgroup_event [''cgroup_id''] = Some (0, typedef___u64) \<and>
   resolve_chain c_cgroup_event [''op''] = Some (EV_OP_OFF, typedef___u32) \<and>
   resolve_chain c_cgroup_event [''path''] = Some (EV_PATH_OFF, Arr EVENT_PATH_LEN (Prim CChar)) \<and>
   sizeof typedef___u64 = 8 \<and> sizeof typedef___u32 = 4 \<and>
   sizeof (Arr EVENT_PATH_LEN (Prim CChar)) = EVENT_PATH_LEN"
  by (simp add: c_cgroup_event_def EV_SIZE_def EV_OP_OFF_def EV_PATH_OFF_def EVENT_PATH_LEN_def
      layout_eval layout_simps del: One_nat_def)


end
