(* ===== verification/Kernel_Types_Subsystems.thy ===== *)
theory Kernel_Types_Subsystems
  imports Kernel_Types_Bpf
begin

text \<open>
  Objects of the traced subsystems that the traced arguments are part of or point to,
  transcribed from \<^verbatim>\<open>src/internal/ebpf/bpf/vmlinux.h\<close>: run queues, block queues and
  bios, TCP sockets, kernfs and cgroup roots, files and address spaces.
\<close>

section \<open>Declarations\<close>

definition typedef_smp_call_func_t :: ctype where
  "typedef_smp_call_func_t = Ptr ''void (void *)''"

definition struct___call_single_data :: ctype where
  "struct___call_single_data = CStruct [
      Fld ''node'' struct___call_single_node,
      Fld ''func'' typedef_smp_call_func_t,
      Fld ''info'' (Ptr ''void'')]"

definition typedef_call_single_data_t :: ctype where
  "typedef_call_single_data_t = struct___call_single_data"

definition struct_cfs_rq :: ctype where
  "struct_cfs_rq = CStruct ([
      Fld ''load'' struct_load_weight,
      Fld ''nr_running'' (Prim CUInt),
      Fld ''h_nr_running'' (Prim CUInt),
      Fld ''idle_nr_running'' (Prim CUInt),
      Fld ''idle_h_nr_running'' (Prim CUInt),
      Fld ''avg_vruntime'' typedef_s64,
      Fld ''avg_load'' typedef_u64,
      Fld ''exec_clock'' typedef_u64,
      Fld ''min_vruntime'' typedef_u64,
      Fld ''tasks_timeline'' struct_rb_root_cached,
      Fld ''curr'' (Ptr ''struct sched_entity''),
      Fld ''next'' (Ptr ''struct sched_entity'')] @ pad64 4 @ [
      Fld ''avg'' struct_sched_avg,
      Fld ''removed'' (CStruct ([
        Fld ''lock'' typedef_raw_spinlock_t,
        Fld ''nr'' (Prim CInt),
        Fld ''load_avg'' (Prim CULong),
        Fld ''util_avg'' (Prim CULong),
        Fld ''runnable_avg'' (Prim CULong)] @ pad64 4)),
      Fld ''last_update_tg_load_avg'' typedef_u64,
      Fld ''tg_load_avg_contrib'' (Prim CULong),
      Fld ''propagate'' (Prim CLong),
      Fld ''prop_runnable_sum'' (Prim CLong),
      Fld ''h_load'' (Prim CULong),
      Fld ''last_h_load_update'' typedef_u64,
      Fld ''h_load_next'' (Ptr ''struct sched_entity''),
      Fld ''rq'' (Ptr ''struct rq''),
      Fld ''on_list'' (Prim CInt),
      Fld ''leaf_cfs_rq_list'' struct_list_head,
      Fld ''tg'' (Ptr ''struct task_group''),
      Fld ''idle'' (Prim CInt),
      Fld ''runtime_enabled'' (Prim CInt),
      Fld ''runtime_remaining'' typedef_s64,
      Fld ''throttled_pelt_idle'' typedef_u64,
      Fld ''throttled_clock'' typedef_u64,
      Fld ''throttled_clock_pelt'' typedef_u64,
      Fld ''throttled_clock_pelt_time'' typedef_u64,
      Fld ''throttled_clock_self'' typedef_u64,
      Fld ''throttled_clock_self_time'' typedef_u64,
      Fld ''throttled'' (Prim CInt),
      Fld ''throttle_count'' (Prim CInt),
      Fld ''throttled_list'' struct_list_head,
      Fld ''throttled_csd_list'' struct_list_head] @ pad64 7)"

definition struct_rt_prio_array :: ctype where
  "struct_rt_prio_array = CStruct [
      Fld ''bitmap'' (Arr 2 (Prim CULong)),
      Fld ''queue'' (Arr 100 struct_list_head)]"

definition struct_plist_head :: ctype where
  "struct_plist_head = CStruct [
      Fld ''node_list'' struct_list_head]"

definition struct_rt_rq :: ctype where
  "struct_rt_rq = CStruct [
      Fld ''active'' struct_rt_prio_array,
      Fld ''rt_nr_running'' (Prim CUInt),
      Fld ''rr_nr_running'' (Prim CUInt),
      Fld ''highest_prio'' (CStruct [
        Fld ''curr'' (Prim CInt),
        Fld ''next'' (Prim CInt)]),
      Fld ''overloaded'' (Prim CBool),
      Fld ''pushable_tasks'' struct_plist_head,
      Fld ''rt_queued'' (Prim CInt),
      Fld ''rt_throttled'' (Prim CInt),
      Fld ''rt_time'' typedef_u64,
      Fld ''rt_runtime'' typedef_u64,
      Fld ''rt_runtime_lock'' typedef_raw_spinlock_t]"

definition struct_dl_rq :: ctype where
  "struct_dl_rq = CStruct [
      Fld ''root'' struct_rb_root_cached,
      Fld ''dl_nr_running'' (Prim CUInt),
      Fld ''earliest_dl'' (CStruct [
        Fld ''curr'' typedef_u64,
        Fld ''next'' typedef_u64]),
      Fld ''overloaded'' (Prim CBool),
      Fld ''pushable_dl_tasks_root'' struct_rb_root_cached,
      Fld ''running_bw'' typedef_u64,
      Fld ''this_bw'' typedef_u64,
      Fld ''extra_bw'' typedef_u64,
      Fld ''max_bw'' typedef_u64,
      Fld ''bw_ratio'' typedef_u64]"

definition typedef_cpu_stop_fn_t :: ctype where
  "typedef_cpu_stop_fn_t = Ptr ''int (void *)''"

definition struct_cpu_stop_work :: ctype where
  "struct_cpu_stop_work = CStruct [
      Fld ''list'' struct_list_head,
      Fld ''fn'' typedef_cpu_stop_fn_t,
      Fld ''caller'' (Prim CULong),
      Fld ''arg'' (Ptr ''void''),
      Fld ''done'' (Ptr ''struct cpu_stop_done'')]"

definition typedef_cpumask_var_t :: ctype where
  "typedef_cpumask_var_t = Arr 1 struct_cpumask"

definition struct_rq :: ctype where
  "struct_rq = CStruct ([
      Fld ''__lock'' typedef_raw_spinlock_t,
      Fld ''nr_running'' (Prim CUInt),
      Fld ''last_blocked_load_update_tick'' (Prim CULong),
      Fld ''has_blocked_load'' (Prim CUInt),
      Bits '''' (Prim CLong) 64,
      Fld ''nohz_csd'' typedef_call_single_data_t,
      Fld ''nohz_tick_stopped'' (Prim CUInt),
      Fld ''nohz_flags'' typedef_atomic_t,
      Fld ''ttwu_pending'' (Prim CUInt),
      Fld ''nr_switches'' typedef_u64] @ pad64 5 @ [
      Fld ''cfs'' struct_cfs_rq,
      Fld ''rt'' struct_rt_rq,
      Fld ''dl'' struct_dl_rq,
      Fld ''leaf_cfs_rq_list'' struct_list_head,
      Fld ''tmp_alone_branch'' (Ptr ''struct list_head''),
      Fld ''nr_uninterruptible'' (Prim CUInt),
      Fld ''curr'' (Ptr ''struct task_struct''),
      Fld ''idle'' (Ptr ''struct task_struct''),
      Fld ''stop'' (Ptr ''struct task_struct''),
      Fld ''next_balance'' (Prim CULong),
      Fld ''prev_mm'' (Ptr ''struct mm_struct''),
      Fld ''clock_update_flags'' (Prim CUInt),
      Fld ''clock'' typedef_u64] @ pad64 5 @ [
      Fld ''clock_task'' typedef_u64,
      Fld ''clock_pelt'' typedef_u64,
      Fld ''lost_idle_time'' (Prim CULong),
      Fld ''clock_pelt_idle'' typedef_u64,
      Fld ''clock_idle'' typedef_u64,
      Fld ''nr_iowait'' typedef_atomic_t,
      Fld ''membarrier_state'' (Prim CInt),
      Fld ''rd'' (Ptr ''struct root_domain''),
      Fld ''sd'' (Ptr ''struct sched_domain''),
      Fld ''cpu_capacity'' (Prim CULong),
      Fld ''balance_callback'' (Ptr ''struct balance_callback''),
      Fld ''nohz_idle_balance'' (Prim CUChar),
      Fld ''idle_balance'' (Prim CUChar),
      Fld ''misfit_task_load'' (Prim CULong),
      Fld ''active_balance'' (Prim CInt),
      Fld ''push_cpu'' (Prim CInt),
      Fld ''active_balance_work'' struct_cpu_stop_work,
      Fld ''cpu'' (Prim CInt),
      Fld ''online'' (Prim CInt),
      Fld ''cfs_tasks'' struct_list_head] @ pad64 2 @ [
      Fld ''avg_rt'' struct_sched_avg,
      Fld ''avg_dl'' struct_sched_avg,
      Fld ''idle_stamp'' typedef_u64,
      Fld ''avg_idle'' typedef_u64,
      Fld ''max_idle_balance_cost'' typedef_u64,
      Fld ''prev_steal_time'' typedef_u64,
      Fld ''calc_load_update'' (Prim CULong),
      Fld ''calc_load_active'' (Prim CLong),
      Fld ''idle_state'' (Ptr ''struct cpuidle_state''),
      Fld ''nr_pinned'' (Prim CUInt),
      Fld ''push_busy'' (Prim CUInt),
      Fld ''push_work'' struct_cpu_stop_work,
      Fld ''scratch_mask'' typedef_cpumask_var_t,
      Bits '''' (Prim CLong) 64,
      Fld ''cfsb_csd'' typedef_call_single_data_t,
      Fld ''cfsb_csd_list'' struct_list_head] @ pad64 2)"

definition struct_cpu_itimer :: ctype where
  "struct_cpu_itimer = CStruct [
      Fld ''expires'' typedef_u64,
      Fld ''incr'' typedef_u64]"

definition struct_task_cputime_atomic :: ctype where
  "struct_task_cputime_atomic = CStruct [
      Fld ''utime'' typedef_atomic64_t,
      Fld ''stime'' typedef_atomic64_t,
      Fld ''sum_exec_runtime'' typedef_atomic64_t]"

definition struct_thread_group_cputimer :: ctype where
  "struct_thread_group_cputimer = CStruct [
      Fld ''cputime_atomic'' struct_task_cputime_atomic]"

definition typedef_seqlock_t :: ctype where
  "typedef_seqlock_t = CStruct [
      Fld ''seqcount'' typedef_seqcount_spinlock_t,
      Fld ''lock'' typedef_spinlock_t]"

definition struct_rlimit :: ctype where
  "struct_rlimit = CStruct [
      Fld ''rlim_cur'' typedef___kernel_ulong_t,
      Fld ''rlim_max'' typedef___kernel_ulong_t]"

definition struct_pacct_struct :: ctype where
  "struct_pacct_struct = CStruct [
      Fld ''ac_flag'' (Prim CInt),
      Fld ''ac_exitcode'' (Prim CLong),
      Fld ''ac_mem'' (Prim CULong),
      Fld ''ac_utime'' typedef_u64,
      Fld ''ac_stime'' typedef_u64,
      Fld ''ac_minflt'' (Prim CULong),
      Fld ''ac_majflt'' (Prim CULong)]"

definition struct_rw_semaphore :: ctype where
  "struct_rw_semaphore = CStruct [
      Fld ''count'' typedef_atomic_long_t,
      Fld ''owner'' typedef_atomic_long_t,
      Fld ''osq'' struct_optimistic_spin_queue,
      Fld ''wait_lock'' typedef_raw_spinlock_t,
      Fld ''wait_list'' struct_list_head]"

definition struct_signal_struct :: ctype where
  "struct_signal_struct = CStruct [
      Fld ''sigcnt'' typedef_refcount_t,
      Fld ''live'' typedef_atomic_t,
      Fld ''nr_threads'' (Prim CInt),
      Fld ''quick_threads'' (Prim CInt),
      Fld ''thread_head'' struct_list_head,
      Fld ''wait_chldexit'' typedef_wait_queue_head_t,
      Fld ''curr_target'' (Ptr ''struct task_struct''),
      Fld ''shared_pending'' struct_sigpending,
      Fld ''multiprocess'' struct_hlist_head,
      Fld ''group_exit_code'' (Prim CInt),
      Fld ''notify_count'' (Prim CInt),
      Fld ''group_exec_task'' (Ptr ''struct task_struct''),
      Fld ''group_stop_count'' (Prim CInt),
      Fld ''flags'' (Prim CUInt),
      Fld ''core_state'' (Ptr ''struct core_state''),
      Bits ''is_child_subreaper'' (Prim CUInt) 1,
      Bits ''has_child_subreaper'' (Prim CUInt) 1,
      Fld ''next_posix_timer_id'' (Prim CUInt),
      Fld ''posix_timers'' struct_list_head,
      Fld ''real_timer'' struct_hrtimer,
      Fld ''it_real_incr'' typedef_ktime_t,
      Fld ''it'' (Arr 2 struct_cpu_itimer),
      Fld ''cputimer'' struct_thread_group_cputimer,
      Fld ''posix_cputimers'' struct_posix_cputimers,
      Fld ''pids'' (Arr 4 (Ptr ''struct pid'')),
      Fld ''tty_old_pgrp'' (Ptr ''struct pid''),
      Fld ''leader'' (Prim CInt),
      Fld ''tty'' (Ptr ''struct tty_struct''),
      Fld ''autogroup'' (Ptr ''struct autogroup''),
      Fld ''stats_lock'' typedef_seqlock_t,
      Fld ''utime'' typedef_u64,
      Fld ''stime'' typedef_u64,
      Fld ''cutime'' typedef_u64,
      Fld ''cstime'' typedef_u64,
      Fld ''gtime'' typedef_u64,
      Fld ''cgtime'' typedef_u64,
      Fld ''prev_cputime'' struct_prev_cputime,
      Fld ''nvcsw'' (Prim CULong),
      Fld ''nivcsw'' (Prim CULong),
      Fld ''cnvcsw'' (Prim CULong),
      Fld ''cnivcsw'' (Prim CULong),
      Fld ''min_flt'' (Prim CULong),
      Fld ''maj_flt'' (Prim CULong),
      Fld ''cmin_flt'' (Prim CULong),
      Fld ''cmaj_flt'' (Prim CULong),
      Fld ''inblock'' (Prim CULong),
      Fld ''oublock'' (Prim CULong),
      Fld ''cinblock'' (Prim CULong),
      Fld ''coublock'' (Prim CULong),
      Fld ''maxrss'' (Prim CULong),
      Fld ''cmaxrss'' (Prim CULong),
      Fld ''ioac'' struct_task_io_accounting,
      Fld ''sum_sched_runtime'' (Prim CULLong),
      Fld ''rlim'' (Arr 16 struct_rlimit),
      Fld ''pacct'' struct_pacct_struct,
      Fld ''stats'' (Ptr ''struct taskstats''),
      Fld ''audit_tty'' (Prim CUInt),
      Fld ''tty_audit_buf'' (Ptr ''struct tty_audit_buf''),
      Fld ''oom_flag_origin'' (Prim CBool),
      Fld ''oom_score_adj'' (Prim CShort),
      Fld ''oom_score_adj_min'' (Prim CShort),
      Fld ''oom_mm'' (Ptr ''struct mm_struct''),
      Fld ''cred_guard_mutex'' struct_mutex,
      Fld ''exec_update_lock'' struct_rw_semaphore]"

definition typedef_lockdep_map_p :: ctype where
  "typedef_lockdep_map_p = CStruct []"

definition struct_maple_tree :: ctype where
  "struct_maple_tree = CStruct [
      Fld '''' (CUnion [
        Fld ''ma_lock'' typedef_spinlock_t,
        Fld ''ma_external_lock'' typedef_lockdep_map_p]),
      Fld ''ma_flags'' (Prim CUInt),
      Fld ''ma_root'' (Ptr ''void'')]"

definition typedef_mm_context_t :: ctype where
  "typedef_mm_context_t = CStruct [
      Fld ''id'' typedef_atomic64_t,
      Fld ''pinned'' typedef_refcount_t,
      Fld ''vdso'' (Ptr ''void''),
      Fld ''flags'' (Prim CULong)]"

definition struct_uprobes_state :: ctype where
  "struct_uprobes_state = CStruct [
      Fld ''xol_area'' (Ptr ''struct xol_area'')]"

definition struct_mm_struct :: ctype where
  "struct_mm_struct = CStruct [
      Fld '''' (CStruct [
        Fld '''' (CStruct ([
          Fld ''mm_count'' typedef_atomic_t] @ pad64 7)),
        Fld ''mm_mt'' struct_maple_tree,
        Fld ''mmap_base'' (Prim CULong),
        Fld ''mmap_legacy_base'' (Prim CULong),
        Fld ''task_size'' (Prim CULong),
        Fld ''pgd'' (Ptr ''pgd_t''),
        Fld ''membarrier_state'' typedef_atomic_t,
        Fld ''mm_users'' typedef_atomic_t,
        Fld ''pcpu_cid'' (Ptr ''struct mm_cid''),
        Fld ''mm_cid_next_scan'' (Prim CULong),
        Fld ''pgtables_bytes'' typedef_atomic_long_t,
        Fld ''map_count'' (Prim CInt),
        Fld ''page_table_lock'' typedef_spinlock_t,
        Fld ''mmap_lock'' struct_rw_semaphore,
        Fld ''mmlist'' struct_list_head,
        Fld ''mm_lock_seq'' (Prim CInt),
        Fld ''hiwater_rss'' (Prim CULong),
        Fld ''hiwater_vm'' (Prim CULong),
        Fld ''total_vm'' (Prim CULong),
        Fld ''locked_vm'' (Prim CULong),
        Fld ''pinned_vm'' typedef_atomic64_t,
        Fld ''data_vm'' (Prim CULong),
        Fld ''exec_vm'' (Prim CULong),
        Fld ''stack_vm'' (Prim CULong),
        Fld ''def_flags'' (Prim CULong),
        Fld ''write_protect_seq'' typedef_seqcount_t,
        Fld ''arg_lock'' typedef_spinlock_t,
        Fld ''start_code'' (Prim CULong),
        Fld ''end_code'' (Prim CULong),
        Fld ''start_data'' (Prim CULong),
        Fld ''end_data'' (Prim CULong),
        Fld ''start_brk'' (Prim CULong),
        Fld ''brk'' (Prim CULong),
        Fld ''start_stack'' (Prim CULong),
        Fld ''arg_start'' (Prim CULong),
        Fld ''arg_end'' (Prim CULong),
        Fld ''env_start'' (Prim CULong),
        Fld ''env_end'' (Prim CULong),
        Fld ''saved_auxv'' (Arr 50 (Prim CULong)),
        Fld ''rss_stat'' (Arr 4 struct_percpu_counter),
        Fld ''binfmt'' (Ptr ''struct linux_binfmt''),
        Fld ''context'' typedef_mm_context_t,
        Fld ''flags'' (Prim CULong),
        Fld ''ioctx_lock'' typedef_spinlock_t,
        Fld ''ioctx_table'' (Ptr ''struct kioctx_table''),
        Fld ''owner'' (Ptr ''struct task_struct''),
        Fld ''user_ns'' (Ptr ''struct user_namespace''),
        Fld ''exe_file'' (Ptr ''struct file''),
        Fld ''tlb_flush_pending'' typedef_atomic_t,
        Fld ''tlb_flush_batched'' typedef_atomic_t,
        Fld ''uprobes_state'' struct_uprobes_state,
        Fld ''hugetlb_usage'' typedef_atomic_long_t,
        Fld ''async_put_work'' struct_work_struct,
        Fld ''ksm_merging_pages'' (Prim CULong),
        Fld ''ksm_rmap_items'' (Prim CULong),
        Fld ''ksm_zero_pages'' typedef_atomic_long_t,
        Fld ''lru_gen'' (CStruct [
          Fld ''list'' struct_list_head,
          Fld ''bitmap'' (Prim CULong),
          Fld ''memcg'' (Ptr ''struct mem_cgroup'')]),
        Bits '''' (Prim CLong) 64]),
      Fld ''cpu_bitmap'' (Arr 0 (Prim CULong))]"

definition struct_xarray :: ctype where
  "struct_xarray = CStruct [
      Fld ''xa_lock'' typedef_spinlock_t,
      Fld ''xa_flags'' typedef_gfp_t,
      Fld ''xa_head'' (Ptr ''void'')]"

definition struct_lockdep_map :: ctype where
  "struct_lockdep_map = CStruct []"

definition typedef_blk_features_t :: ctype where
  "typedef_blk_features_t = Prim CUInt"

definition typedef_blk_flags_t :: ctype where
  "typedef_blk_flags_t = Prim CUInt"

definition enum_blk_integrity_checksum :: ctype where
  "enum_blk_integrity_checksum = Enum [(''BLK_INTEGRITY_CSUM_NONE'', 0), (''BLK_INTEGRITY_CSUM_IP'', 1),
      (''BLK_INTEGRITY_CSUM_CRC'', 2), (''BLK_INTEGRITY_CSUM_CRC64'', 3)]"

definition struct_blk_integrity :: ctype where
  "struct_blk_integrity = CStruct [
      Fld ''flags'' (Prim CUChar),
      Fld ''csum_type'' enum_blk_integrity_checksum,
      Fld ''tuple_size'' (Prim CUChar),
      Fld ''pi_offset'' (Prim CUChar),
      Fld ''interval_exp'' (Prim CUChar),
      Fld ''tag_size'' (Prim CUChar)]"

definition struct_queue_limits :: ctype where
  "struct_queue_limits = CStruct [
      Fld ''features'' typedef_blk_features_t,
      Fld ''flags'' typedef_blk_flags_t,
      Fld ''seg_boundary_mask'' (Prim CULong),
      Fld ''virt_boundary_mask'' (Prim CULong),
      Fld ''max_hw_sectors'' (Prim CUInt),
      Fld ''max_dev_sectors'' (Prim CUInt),
      Fld ''chunk_sectors'' (Prim CUInt),
      Fld ''max_sectors'' (Prim CUInt),
      Fld ''max_user_sectors'' (Prim CUInt),
      Fld ''max_segment_size'' (Prim CUInt),
      Fld ''physical_block_size'' (Prim CUInt),
      Fld ''logical_block_size'' (Prim CUInt),
      Fld ''alignment_offset'' (Prim CUInt),
      Fld ''io_min'' (Prim CUInt),
      Fld ''io_opt'' (Prim CUInt),
      Fld ''max_discard_sectors'' (Prim CUInt),
      Fld ''max_hw_discard_sectors'' (Prim CUInt),
      Fld ''max_user_discard_sectors'' (Prim CUInt),
      Fld ''max_secure_erase_sectors'' (Prim CUInt),
      Fld ''max_write_zeroes_sectors'' (Prim CUInt),
      Fld ''max_zone_append_sectors'' (Prim CUInt),
      Fld ''discard_granularity'' (Prim CUInt),
      Fld ''discard_alignment'' (Prim CUInt),
      Fld ''zone_write_granularity'' (Prim CUInt),
      Fld ''atomic_write_hw_max'' (Prim CUInt),
      Fld ''atomic_write_max_sectors'' (Prim CUInt),
      Fld ''atomic_write_hw_boundary'' (Prim CUInt),
      Fld ''atomic_write_boundary_sectors'' (Prim CUInt),
      Fld ''atomic_write_hw_unit_min'' (Prim CUInt),
      Fld ''atomic_write_unit_min'' (Prim CUInt),
      Fld ''atomic_write_hw_unit_max'' (Prim CUInt),
      Fld ''atomic_write_unit_max'' (Prim CUInt),
      Fld ''max_segments'' (Prim CUShort),
      Fld ''max_integrity_segments'' (Prim CUShort),
      Fld ''max_discard_segments'' (Prim CUShort),
      Fld ''max_open_zones'' (Prim CUInt),
      Fld ''max_active_zones'' (Prim CUInt),
      Fld ''dma_alignment'' (Prim CUInt),
      Fld ''dma_pad_mask'' (Prim CUInt),
      Fld ''integrity'' struct_blk_integrity]"

definition struct_delayed_work :: ctype where
  "struct_delayed_work = CStruct [
      Fld ''work'' struct_work_struct,
      Fld ''timer'' struct_timer_list,
      Fld ''wq'' (Ptr ''struct workqueue_struct''),
      Fld ''cpu'' (Prim CInt)]"

definition struct_request_queue :: ctype where
  "struct_request_queue = CStruct [
      Fld ''queuedata'' (Ptr ''void''),
      Fld ''elevator'' (Ptr ''struct elevator_queue''),
      Fld ''mq_ops'' (Ptr ''const struct blk_mq_ops''),
      Fld ''queue_ctx'' (Ptr ''struct blk_mq_ctx''),
      Fld ''queue_flags'' (Prim CULong),
      Fld ''rq_timeout'' (Prim CUInt),
      Fld ''queue_depth'' (Prim CUInt),
      Fld ''refs'' typedef_refcount_t,
      Fld ''nr_hw_queues'' (Prim CUInt),
      Fld ''hctx_table'' struct_xarray,
      Fld ''q_usage_counter'' struct_percpu_ref,
      Fld ''io_lock_cls_key'' struct_lock_class_key,
      Fld ''io_lockdep_map'' struct_lockdep_map,
      Fld ''q_lock_cls_key'' struct_lock_class_key,
      Fld ''q_lockdep_map'' struct_lockdep_map,
      Fld ''last_merge'' (Ptr ''struct request''),
      Fld ''queue_lock'' typedef_spinlock_t,
      Fld ''quiesce_depth'' (Prim CInt),
      Fld ''disk'' (Ptr ''struct gendisk''),
      Fld ''mq_kobj'' (Ptr ''struct kobject''),
      Fld ''limits'' struct_queue_limits,
      Fld ''pm_only'' typedef_atomic_t,
      Fld ''stats'' (Ptr ''struct blk_queue_stats''),
      Fld ''rq_qos'' (Ptr ''struct rq_qos''),
      Fld ''rq_qos_mutex'' struct_mutex,
      Fld ''id'' (Prim CInt),
      Fld ''nr_requests'' (Prim CULong),
      Fld ''timeout'' struct_timer_list,
      Fld ''timeout_work'' struct_work_struct,
      Fld ''nr_active_requests_shared_tags'' typedef_atomic_t,
      Fld ''sched_shared_tags'' (Ptr ''struct blk_mq_tags''),
      Fld ''icq_list'' struct_list_head,
      Fld ''blkcg_pols'' (Arr 1 (Prim CULong)),
      Fld ''root_blkg'' (Ptr ''struct blkcg_gq''),
      Fld ''blkg_list'' struct_list_head,
      Fld ''blkcg_mutex'' struct_mutex,
      Fld ''node'' (Prim CInt),
      Fld ''requeue_lock'' typedef_spinlock_t,
      Fld ''requeue_list'' struct_list_head,
      Fld ''requeue_work'' struct_delayed_work,
      Fld ''fq'' (Ptr ''struct blk_flush_queue''),
      Fld ''flush_list'' struct_list_head,
      Fld ''sysfs_lock'' struct_mutex,
      Fld ''sysfs_dir_lock'' struct_mutex,
      Fld ''limits_lock'' struct_mutex,
      Fld ''unused_hctx_list'' struct_list_head,
      Fld ''unused_hctx_lock'' typedef_spinlock_t,
      Fld ''mq_freeze_depth'' (Prim CInt),
      Fld ''td'' (Ptr ''struct throtl_data''),
      Fld ''callback_head'' struct_callback_head,
      Fld ''mq_freeze_wq'' typedef_wait_queue_head_t,
      Fld ''mq_freeze_lock'' struct_mutex,
      Fld ''tag_set'' (Ptr ''struct blk_mq_tag_set''),
      Fld ''tag_set_list'' struct_list_head,
      Fld ''debugfs_dir'' (Ptr ''struct dentry''),
      Fld ''sched_debugfs_dir'' (Ptr ''struct dentry''),
      Fld ''rqos_debugfs_dir'' (Ptr ''struct dentry''),
      Fld ''debugfs_mutex'' struct_mutex,
      Fld ''mq_sysfs_init_done'' (Prim CBool)]"

definition struct_mempool_s :: ctype where
  "struct_mempool_s = CStruct [
      Fld ''lock'' typedef_spinlock_t,
      Fld ''min_nr'' (Prim CInt),
      Fld ''curr_nr'' (Prim CInt),
      Fld ''elements'' (Ptr ''void *''),
      Fld ''pool_data'' (Ptr ''void''),
      Fld ''alloc'' (Ptr ''mempool_alloc_t''),
      Fld ''free'' (Ptr ''mempool_free_t''),
      Fld ''wait'' typedef_wait_queue_head_t]"

definition typedef_mempool_t :: ctype where
  "typedef_mempool_t = struct_mempool_s"

definition struct_bio_list :: ctype where
  "struct_bio_list = CStruct [
      Fld ''head'' (Ptr ''struct bio''),
      Fld ''tail'' (Ptr ''struct bio'')]"

definition struct_bio_set :: ctype where
  "struct_bio_set = CStruct [
      Fld ''bio_slab'' (Ptr ''struct kmem_cache''),
      Fld ''front_pad'' (Prim CUInt),
      Fld ''cache'' (Ptr ''struct bio_alloc_cache''),
      Fld ''bio_pool'' typedef_mempool_t,
      Fld ''bvec_pool'' typedef_mempool_t,
      Fld ''back_pad'' (Prim CUInt),
      Fld ''rescue_lock'' typedef_spinlock_t,
      Fld ''rescue_list'' struct_bio_list,
      Fld ''rescue_work'' struct_work_struct,
      Fld ''rescue_workqueue'' (Ptr ''struct workqueue_struct''),
      Fld ''cpuhp_dead'' struct_hlist_node]"

definition struct_kref :: ctype where
  "struct_kref = CStruct [
      Fld ''refcount'' typedef_refcount_t]"

definition struct_kobject :: ctype where
  "struct_kobject = CStruct [
      Fld ''name'' (Ptr ''const char''),
      Fld ''entry'' struct_list_head,
      Fld ''parent'' (Ptr ''struct kobject''),
      Fld ''kset'' (Ptr ''struct kset''),
      Fld ''ktype'' (Ptr ''const struct kobj_type''),
      Fld ''sd'' (Ptr ''struct kernfs_node''),
      Fld ''kref'' struct_kref,
      Bits ''state_initialized'' (Prim CUInt) 1,
      Bits ''state_in_sysfs'' (Prim CUInt) 1,
      Bits ''state_add_uevent_sent'' (Prim CUInt) 1,
      Bits ''state_remove_uevent_sent'' (Prim CUInt) 1,
      Bits ''uevent_suppress'' (Prim CUInt) 1]"

definition typedef_blk_mode_t :: ctype where
  "typedef_blk_mode_t = Prim CUInt"

definition struct_gendisk :: ctype where
  "struct_gendisk = CStruct [
      Fld ''major'' (Prim CInt),
      Fld ''first_minor'' (Prim CInt),
      Fld ''minors'' (Prim CInt),
      Fld ''disk_name'' (Arr 32 (Prim CChar)),
      Fld ''events'' (Prim CUShort),
      Fld ''event_flags'' (Prim CUShort),
      Fld ''part_tbl'' struct_xarray,
      Fld ''part0'' (Ptr ''struct block_device''),
      Fld ''fops'' (Ptr ''const struct block_device_operations''),
      Fld ''queue'' (Ptr ''struct request_queue''),
      Fld ''private_data'' (Ptr ''void''),
      Fld ''bio_split'' struct_bio_set,
      Fld ''flags'' (Prim CInt),
      Fld ''state'' (Prim CULong),
      Fld ''open_mutex'' struct_mutex,
      Fld ''open_partitions'' (Prim CUInt),
      Fld ''bdi'' (Ptr ''struct backing_dev_info''),
      Fld ''queue_kobj'' struct_kobject,
      Fld ''slave_dir'' (Ptr ''struct kobject''),
      Fld ''slave_bdevs'' struct_list_head,
      Fld ''random'' (Ptr ''struct timer_rand_state''),
      Fld ''sync_io'' typedef_atomic_t,
      Fld ''ev'' (Ptr ''struct disk_events''),
      Fld ''node_id'' (Prim CInt),
      Fld ''bb'' (Ptr ''struct badblocks''),
      Fld ''lockdep_map'' struct_lockdep_map,
      Fld ''diskseq'' typedef_u64,
      Fld ''open_mode'' typedef_blk_mode_t,
      Fld ''ia_ranges'' (Ptr ''struct blk_independent_access_ranges'')]"

definition typedef_blk_status_t :: ctype where
  "typedef_blk_status_t = typedef_u8"

definition struct_bvec_iter :: ctype where
  "struct_bvec_iter = CPacked [
      Fld ''bi_sector'' typedef_sector_t,
      Fld ''bi_size'' (Prim CUInt),
      Fld ''bi_idx'' (Prim CUInt),
      Fld ''bi_bvec_done'' (Prim CUInt)]"

definition typedef_blk_qc_t :: ctype where
  "typedef_blk_qc_t = Prim CUInt"

definition struct_bio_issue :: ctype where
  "struct_bio_issue = CStruct [
      Fld ''value'' typedef_u64]"

definition struct_bio :: ctype where
  "struct_bio = CStruct [
      Fld ''bi_next'' (Ptr ''struct bio''),
      Fld ''bi_bdev'' (Ptr ''struct block_device''),
      Fld ''bi_opf'' typedef_blk_opf_t,
      Fld ''bi_flags'' (Prim CUShort),
      Fld ''bi_ioprio'' (Prim CUShort),
      Fld ''bi_write_hint'' enum_rw_hint,
      Fld ''bi_status'' typedef_blk_status_t,
      Fld ''__bi_remaining'' typedef_atomic_t,
      Fld ''bi_iter'' struct_bvec_iter,
      Fld '''' (CUnion [
        Fld ''bi_cookie'' typedef_blk_qc_t,
        Fld ''__bi_nr_segments'' (Prim CUInt)]),
      Fld ''bi_end_io'' (Ptr ''bio_end_io_t''),
      Fld ''bi_private'' (Ptr ''void''),
      Fld ''bi_blkg'' (Ptr ''struct blkcg_gq''),
      Fld ''bi_issue'' struct_bio_issue,
      Fld '''' (CUnion []),
      Fld ''bi_vcnt'' (Prim CUShort),
      Fld ''bi_max_vecs'' (Prim CUShort),
      Fld ''__bi_cnt'' typedef_atomic_t,
      Fld ''bi_io_vec'' (Ptr ''struct bio_vec''),
      Fld ''bi_pool'' (Ptr ''struct bio_set''),
      Fld ''bi_inline_vecs'' (Arr 0 struct_bio_vec)]"

definition struct_inet_cork :: ctype where
  "struct_inet_cork = CStruct [
      Fld ''flags'' (Prim CUInt),
      Fld ''addr'' typedef___be32,
      Fld ''opt'' (Ptr ''struct ip_options''),
      Fld ''fragsize'' (Prim CUInt),
      Fld ''length'' (Prim CInt),
      Fld ''dst'' (Ptr ''struct dst_entry''),
      Fld ''tx_flags'' typedef_u8,
      Fld ''ttl'' typedef___u8,
      Fld ''tos'' typedef___s16,
      Fld ''priority'' (Prim CChar),
      Fld ''gso_size'' typedef___u16,
      Fld ''transmit_time'' typedef_u64,
      Fld ''mark'' typedef_u32]"

definition typedef___be64 :: ctype where
  "typedef___be64 = typedef___u64"

definition struct_flowi_tunnel :: ctype where
  "struct_flowi_tunnel = CStruct [
      Fld ''tun_id'' typedef___be64]"

definition struct_flowi_common :: ctype where
  "struct_flowi_common = CStruct [
      Fld ''flowic_oif'' (Prim CInt),
      Fld ''flowic_iif'' (Prim CInt),
      Fld ''flowic_l3mdev'' (Prim CInt),
      Fld ''flowic_mark'' typedef___u32,
      Fld ''flowic_tos'' typedef___u8,
      Fld ''flowic_scope'' typedef___u8,
      Fld ''flowic_proto'' typedef___u8,
      Fld ''flowic_flags'' typedef___u8,
      Fld ''flowic_secid'' typedef___u32,
      Fld ''flowic_uid'' typedef_kuid_t,
      Fld ''flowic_multipath_hash'' typedef___u32,
      Fld ''flowic_tun_key'' struct_flowi_tunnel]"

definition union_flowi_uli :: ctype where
  "union_flowi_uli = CUnion [
      Fld ''ports'' (CStruct [
        Fld ''dport'' typedef___be16,
        Fld ''sport'' typedef___be16]),
      Fld ''icmpt'' (CStruct [
        Fld ''type'' typedef___u8,
        Fld ''code'' typedef___u8]),
      Fld ''gre_key'' typedef___be32,
      Fld ''mht'' (CStruct [
        Fld ''type'' typedef___u8])]"

definition struct_flowi4 :: ctype where
  "struct_flowi4 = CStruct [
      Fld ''__fl_common'' struct_flowi_common,
      Fld ''saddr'' typedef___be32,
      Fld ''daddr'' typedef___be32,
      Fld ''uli'' union_flowi_uli]"

definition struct_flowi6 :: ctype where
  "struct_flowi6 = CStruct [
      Fld ''__fl_common'' struct_flowi_common,
      Fld ''daddr'' struct_in6_addr,
      Fld ''saddr'' struct_in6_addr,
      Fld ''flowlabel'' typedef___be32,
      Fld ''uli'' union_flowi_uli,
      Fld ''mp_hash'' typedef___u32]"

definition struct_flowi :: ctype where
  "struct_flowi = CStruct [
      Fld ''u'' (CUnion [
        Fld ''__fl_common'' struct_flowi_common,
        Fld ''ip4'' struct_flowi4,
        Fld ''ip6'' struct_flowi6])]"

definition struct_inet_cork_full :: ctype where
  "struct_inet_cork_full = CStruct [
      Fld ''base'' struct_inet_cork,
      Fld ''fl'' struct_flowi]"

definition struct_inet_sock :: ctype where
  "struct_inet_sock = CStruct [
      Fld ''sk'' struct_sock,
      Fld ''pinet6'' (Ptr ''struct ipv6_pinfo''),
      Fld ''inet_flags'' (Prim CULong),
      Fld ''inet_saddr'' typedef___be32,
      Fld ''uc_ttl'' typedef___s16,
      Fld ''inet_sport'' typedef___be16,
      Fld ''inet_opt'' (Ptr ''struct ip_options_rcu''),
      Fld ''inet_id'' typedef_atomic_t,
      Fld ''tos'' typedef___u8,
      Fld ''min_ttl'' typedef___u8,
      Fld ''mc_ttl'' typedef___u8,
      Fld ''pmtudisc'' typedef___u8,
      Fld ''rcv_tos'' typedef___u8,
      Fld ''convert_csum'' typedef___u8,
      Fld ''uc_index'' (Prim CInt),
      Fld ''mc_index'' (Prim CInt),
      Fld ''mc_addr'' typedef___be32,
      Fld ''local_port_range'' typedef_u32,
      Fld ''mc_list'' (Ptr ''struct ip_mc_socklist''),
      Fld ''cork'' struct_inet_cork_full]"

definition struct_fastopen_queue :: ctype where
  "struct_fastopen_queue = CStruct [
      Fld ''rskq_rst_head'' (Ptr ''struct request_sock''),
      Fld ''rskq_rst_tail'' (Ptr ''struct request_sock''),
      Fld ''lock'' typedef_spinlock_t,
      Fld ''qlen'' (Prim CInt),
      Fld ''max_qlen'' (Prim CInt),
      Fld ''ctx'' (Ptr ''struct tcp_fastopen_context'')]"

definition struct_request_sock_queue :: ctype where
  "struct_request_sock_queue = CStruct [
      Fld ''rskq_lock'' typedef_spinlock_t,
      Fld ''rskq_defer_accept'' typedef_u8,
      Fld ''synflood_warned'' typedef_u32,
      Fld ''qlen'' typedef_atomic_t,
      Fld ''young'' typedef_atomic_t,
      Fld ''rskq_accept_head'' (Ptr ''struct request_sock''),
      Fld ''rskq_accept_tail'' (Ptr ''struct request_sock''),
      Fld ''fastopenq'' struct_fastopen_queue]"

definition struct_inet_connection_sock :: ctype where
  "struct_inet_connection_sock = CStruct [
      Fld ''icsk_inet'' struct_inet_sock,
      Fld ''icsk_accept_queue'' struct_request_sock_queue,
      Fld ''icsk_bind_hash'' (Ptr ''struct inet_bind_bucket''),
      Fld ''icsk_bind2_hash'' (Ptr ''struct inet_bind2_bucket''),
      Fld ''icsk_timeout'' (Prim CULong),
      Fld ''icsk_retransmit_timer'' struct_timer_list,
      Fld ''icsk_delack_timer'' struct_timer_list,
      Fld ''icsk_rto'' typedef___u32,
      Fld ''icsk_rto_min'' typedef___u32,
      Fld ''icsk_delack_max'' typedef___u32,
      Fld ''icsk_pmtu_cookie'' typedef___u32,
      Fld ''icsk_ca_ops'' (Ptr ''const struct tcp_congestion_ops''),
      Fld ''icsk_af_ops'' (Ptr ''const struct inet_connection_sock_af_ops''),
      Fld ''icsk_ulp_ops'' (Ptr ''const struct tcp_ulp_ops''),
      Fld ''icsk_ulp_data'' (Ptr ''void''),
      Fld ''icsk_clean_acked'' (Ptr ''void (struct sock *, u32)''),
      Fld ''icsk_sync_mss'' (Ptr ''unsigned int (struct sock *, u32)''),
      Bits ''icsk_ca_state'' typedef___u8 5,
      Bits ''icsk_ca_initialized'' typedef___u8 1,
      Bits ''icsk_ca_setsockopt'' typedef___u8 1,
      Bits ''icsk_ca_dst_locked'' typedef___u8 1,
      Fld ''icsk_retransmits'' typedef___u8,
      Fld ''icsk_pending'' typedef___u8,
      Fld ''icsk_backoff'' typedef___u8,
      Fld ''icsk_syn_retries'' typedef___u8,
      Fld ''icsk_probes_out'' typedef___u8,
      Fld ''icsk_ext_hdr_len'' typedef___u16,
      Fld ''icsk_ack'' (CStruct [
        Fld ''pending'' typedef___u8,
        Fld ''quick'' typedef___u8,
        Fld ''pingpong'' typedef___u8,
        Fld ''retry'' typedef___u8,
        Bits ''ato'' typedef___u32 8,
        Bits ''lrcv_flowlabel'' typedef___u32 20,
        Bits ''unused'' typedef___u32 4,
        Fld ''timeout'' (Prim CULong),
        Fld ''lrcvtime'' typedef___u32,
        Fld ''last_seg_size'' typedef___u16,
        Fld ''rcv_mss'' typedef___u16]),
      Fld ''icsk_mtup'' (CStruct [
        Fld ''search_high'' (Prim CInt),
        Fld ''search_low'' (Prim CInt),
        Bits ''probe_size'' typedef_u32 31,
        Bits ''enabled'' typedef_u32 1,
        Fld ''probe_timestamp'' typedef_u32]),
      Fld ''icsk_probes_tstamp'' typedef_u32,
      Fld ''icsk_user_timeout'' typedef_u32,
      Fld ''icsk_ca_priv'' (Arr 13 typedef_u64)]"

definition struct_minmax_sample :: ctype where
  "struct_minmax_sample = CStruct [
      Fld ''t'' typedef_u32,
      Fld ''v'' typedef_u32]"

definition struct_minmax :: ctype where
  "struct_minmax = CStruct [
      Fld ''s'' (Arr 3 struct_minmax_sample)]"

definition struct_tcp_options_received :: ctype where
  "struct_tcp_options_received = CStruct [
      Fld ''ts_recent_stamp'' (Prim CInt),
      Fld ''ts_recent'' typedef_u32,
      Fld ''rcv_tsval'' typedef_u32,
      Fld ''rcv_tsecr'' typedef_u32,
      Bits ''saw_tstamp'' typedef_u16 1,
      Bits ''tstamp_ok'' typedef_u16 1,
      Bits ''dsack'' typedef_u16 1,
      Bits ''wscale_ok'' typedef_u16 1,
      Bits ''sack_ok'' typedef_u16 3,
      Bits ''smc_ok'' typedef_u16 1,
      Bits ''snd_wscale'' typedef_u16 4,
      Bits ''rcv_wscale'' typedef_u16 4,
      Bits ''saw_unknown'' typedef_u8 1,
      Bits ''unused'' typedef_u8 7,
      Fld ''num_sacks'' typedef_u8,
      Fld ''user_mss'' typedef_u16,
      Fld ''mss_clamp'' typedef_u16]"

definition struct_tcp_rack :: ctype where
  "struct_tcp_rack = CStruct [
      Fld ''mstamp'' typedef_u64,
      Fld ''rtt_us'' typedef_u32,
      Fld ''end_seq'' typedef_u32,
      Fld ''last_delivered'' typedef_u32,
      Fld ''reo_wnd_steps'' typedef_u8,
      Bits ''reo_wnd_persist'' typedef_u8 5,
      Bits ''dsack_seen'' typedef_u8 1,
      Bits ''advanced'' typedef_u8 1]"

definition struct_tcp_sack_block :: ctype where
  "struct_tcp_sack_block = CStruct [
      Fld ''start_seq'' typedef_u32,
      Fld ''end_seq'' typedef_u32]"

definition struct_tcp_sock :: ctype where
  "struct_tcp_sock = CStruct ([
      Fld ''inet_conn'' struct_inet_connection_sock,
      Fld ''__cacheline_group_begin__tcp_sock_read_tx'' (Arr 0 typedef___u8),
      Fld ''max_window'' typedef_u32,
      Fld ''rcv_ssthresh'' typedef_u32,
      Fld ''reordering'' typedef_u32,
      Fld ''notsent_lowat'' typedef_u32,
      Fld ''gso_segs'' typedef_u16,
      Fld ''lost_skb_hint'' (Ptr ''struct sk_buff''),
      Fld ''retransmit_skb_hint'' (Ptr ''struct sk_buff''),
      Fld ''__cacheline_group_end__tcp_sock_read_tx'' (Arr 0 typedef___u8),
      Fld ''__cacheline_group_begin__tcp_sock_read_txrx'' (Arr 0 typedef___u8),
      Fld ''tsoffset'' typedef_u32,
      Fld ''snd_wnd'' typedef_u32,
      Fld ''mss_cache'' typedef_u32,
      Fld ''snd_cwnd'' typedef_u32,
      Fld ''prr_out'' typedef_u32,
      Fld ''lost_out'' typedef_u32,
      Fld ''sacked_out'' typedef_u32,
      Fld ''tcp_header_len'' typedef_u16,
      Fld ''scaling_ratio'' typedef_u8,
      Bits ''chrono_type'' typedef_u8 2,
      Bits ''repair'' typedef_u8 1,
      Bits ''tcp_usec_ts'' typedef_u8 1,
      Bits ''is_sack_reneg'' typedef_u8 1,
      Bits ''is_cwnd_limited'' typedef_u8 1,
      Fld ''__cacheline_group_end__tcp_sock_read_txrx'' (Arr 0 typedef___u8),
      Fld ''__cacheline_group_begin__tcp_sock_read_rx'' (Arr 0 typedef___u8),
      Fld ''copied_seq'' typedef_u32,
      Fld ''rcv_tstamp'' typedef_u32,
      Fld ''snd_wl1'' typedef_u32,
      Fld ''tlp_high_seq'' typedef_u32,
      Fld ''rttvar_us'' typedef_u32,
      Fld ''retrans_out'' typedef_u32,
      Fld ''advmss'' typedef_u16,
      Fld ''urg_data'' typedef_u16,
      Fld ''lost'' typedef_u32,
      Fld ''rtt_min'' struct_minmax,
      Fld ''out_of_order_queue'' struct_rb_root,
      Fld ''snd_ssthresh'' typedef_u32,
      Bits ''recvmsg_inq'' typedef_u8 1,
      Fld ''__cacheline_group_end__tcp_sock_read_rx'' (Arr 0 typedef___u8)] @ pad64 2 @ [
      Fld ''__cacheline_group_begin__tcp_sock_write_tx'' (Arr 0 typedef___u8),
      Fld ''segs_out'' typedef_u32,
      Fld ''data_segs_out'' typedef_u32,
      Fld ''bytes_sent'' typedef_u64,
      Fld ''snd_sml'' typedef_u32,
      Fld ''chrono_start'' typedef_u32,
      Fld ''chrono_stat'' (Arr 3 typedef_u32),
      Fld ''write_seq'' typedef_u32,
      Fld ''pushed_seq'' typedef_u32,
      Fld ''lsndtime'' typedef_u32,
      Fld ''mdev_us'' typedef_u32,
      Fld ''rtt_seq'' typedef_u32,
      Fld ''tcp_wstamp_ns'' typedef_u64,
      Fld ''tsorted_sent_queue'' struct_list_head,
      Fld ''highest_sack'' (Ptr ''struct sk_buff''),
      Fld ''ecn_flags'' typedef_u8,
      Fld ''__cacheline_group_end__tcp_sock_write_tx'' (Arr 0 typedef___u8),
      Fld ''__cacheline_group_begin__tcp_sock_write_txrx'' (Arr 0 typedef___u8),
      Fld ''pred_flags'' typedef___be32,
      Fld ''tcp_clock_cache'' typedef_u64,
      Fld ''tcp_mstamp'' typedef_u64,
      Fld ''rcv_nxt'' typedef_u32,
      Fld ''snd_nxt'' typedef_u32,
      Fld ''snd_una'' typedef_u32,
      Fld ''window_clamp'' typedef_u32,
      Fld ''srtt_us'' typedef_u32,
      Fld ''packets_out'' typedef_u32,
      Fld ''snd_up'' typedef_u32,
      Fld ''delivered'' typedef_u32,
      Fld ''delivered_ce'' typedef_u32,
      Fld ''app_limited'' typedef_u32,
      Fld ''rcv_wnd'' typedef_u32,
      Fld ''rx_opt'' struct_tcp_options_received,
      Bits ''nonagle'' typedef_u8 4,
      Bits ''rate_app_limited'' typedef_u8 1,
      Fld ''__cacheline_group_end__tcp_sock_write_txrx'' (Arr 0 typedef___u8),
      Bits '''' (Prim CLong) 0,
      Fld ''__cacheline_group_begin__tcp_sock_write_rx'' (Arr 0 typedef___u8),
      Fld ''bytes_received'' typedef_u64,
      Fld ''segs_in'' typedef_u32,
      Fld ''data_segs_in'' typedef_u32,
      Fld ''rcv_wup'' typedef_u32,
      Fld ''max_packets_out'' typedef_u32,
      Fld ''cwnd_usage_seq'' typedef_u32,
      Fld ''rate_delivered'' typedef_u32,
      Fld ''rate_interval_us'' typedef_u32,
      Fld ''rcv_rtt_last_tsecr'' typedef_u32,
      Fld ''first_tx_mstamp'' typedef_u64,
      Fld ''delivered_mstamp'' typedef_u64,
      Fld ''bytes_acked'' typedef_u64,
      Fld ''rcv_rtt_est'' (CStruct [
        Fld ''rtt_us'' typedef_u32,
        Fld ''seq'' typedef_u32,
        Fld ''time'' typedef_u64]),
      Fld ''rcvq_space'' (CStruct [
        Fld ''space'' typedef_u32,
        Fld ''seq'' typedef_u32,
        Fld ''time'' typedef_u64]),
      Fld ''__cacheline_group_end__tcp_sock_write_rx'' (Arr 0 typedef___u8),
      Fld ''dsack_dups'' typedef_u32,
      Fld ''compressed_ack_rcv_nxt'' typedef_u32,
      Fld ''tsq_node'' struct_list_head,
      Fld ''rack'' struct_tcp_rack,
      Fld ''compressed_ack'' typedef_u8,
      Bits ''dup_ack_counter'' typedef_u8 2,
      Bits ''tlp_retrans'' typedef_u8 1,
      Bits ''unused'' typedef_u8 5,
      Bits ''thin_lto'' typedef_u8 1,
      Bits ''fastopen_connect'' typedef_u8 1,
      Bits ''fastopen_no_cookie'' typedef_u8 1,
      Bits ''fastopen_client_fail'' typedef_u8 2,
      Bits ''frto'' typedef_u8 1,
      Fld ''repair_queue'' typedef_u8,
      Bits ''save_syn'' typedef_u8 2,
      Bits ''syn_data'' typedef_u8 1,
      Bits ''syn_fastopen'' typedef_u8 1,
      Bits ''syn_fastopen_exp'' typedef_u8 1,
      Bits ''syn_fastopen_ch'' typedef_u8 1,
      Bits ''syn_data_acked'' typedef_u8 1,
      Fld ''keepalive_probes'' typedef_u8,
      Fld ''tcp_tx_delay'' typedef_u32,
      Fld ''mdev_max_us'' typedef_u32,
      Fld ''reord_seen'' typedef_u32,
      Fld ''snd_cwnd_cnt'' typedef_u32,
      Fld ''snd_cwnd_clamp'' typedef_u32,
      Fld ''snd_cwnd_used'' typedef_u32,
      Fld ''snd_cwnd_stamp'' typedef_u32,
      Fld ''prior_cwnd'' typedef_u32,
      Fld ''prr_delivered'' typedef_u32,
      Fld ''last_oow_ack_time'' typedef_u32,
      Fld ''pacing_timer'' struct_hrtimer,
      Fld ''compressed_ack_timer'' struct_hrtimer,
      Fld ''ooo_last_skb'' (Ptr ''struct sk_buff''),
      Fld ''duplicate_sack'' (Arr 1 struct_tcp_sack_block),
      Fld ''selective_acks'' (Arr 4 struct_tcp_sack_block),
      Fld ''recv_sack_cache'' (Arr 4 struct_tcp_sack_block),
      Fld ''lost_cnt_hint'' (Prim CInt),
      Fld ''prior_ssthresh'' typedef_u32,
      Fld ''high_seq'' typedef_u32,
      Fld ''retrans_stamp'' typedef_u32,
      Fld ''undo_marker'' typedef_u32,
      Fld ''undo_retrans'' (Prim CInt),
      Fld ''bytes_retrans'' typedef_u64,
      Fld ''total_retrans'' typedef_u32,
      Fld ''rto_stamp'' typedef_u32,
      Fld ''total_rto'' typedef_u16,
      Fld ''total_rto_recoveries'' typedef_u16,
      Fld ''total_rto_time'' typedef_u32,
      Fld ''urg_seq'' typedef_u32,
      Fld ''keepalive_time'' (Prim CUInt),
      Fld ''keepalive_intvl'' (Prim CUInt),
      Fld ''linger2'' (Prim CInt),
      Fld ''bpf_sock_ops_cb_flags'' typedef_u8,
      Bits ''bpf_chg_cc_inprogress'' typedef_u8 1,
      Fld ''timeout_rehash'' typedef_u16,
      Fld ''rcv_ooopack'' typedef_u32,
      Fld ''mtu_probe'' (CStruct [
        Fld ''probe_seq_start'' typedef_u32,
        Fld ''probe_seq_end'' typedef_u32]),
      Fld ''plb_rehash'' typedef_u32,
      Fld ''mtu_info'' typedef_u32,
      Fld ''fastopen_req'' (Ptr ''struct tcp_fastopen_request''),
      Fld ''fastopen_rsk'' (Ptr ''struct request_sock''),
      Fld ''saved_syn'' (Ptr ''struct saved_syn''),
      Bits '''' (Prim CLong) 64])"

definition struct_ip_options :: ctype where
  "struct_ip_options = CStruct [
      Fld ''faddr'' typedef___be32,
      Fld ''nexthop'' typedef___be32,
      Fld ''optlen'' (Prim CUChar),
      Fld ''srr'' (Prim CUChar),
      Fld ''rr'' (Prim CUChar),
      Fld ''ts'' (Prim CUChar),
      Bits ''is_strictroute'' (Prim CUChar) 1,
      Bits ''srr_is_hit'' (Prim CUChar) 1,
      Bits ''is_changed'' (Prim CUChar) 1,
      Bits ''rr_needaddr'' (Prim CUChar) 1,
      Bits ''ts_needtime'' (Prim CUChar) 1,
      Bits ''ts_needaddr'' (Prim CUChar) 1,
      Fld ''router_alert'' (Prim CUChar),
      Fld ''cipso'' (Prim CUChar),
      Fld ''__pad2'' (Prim CUChar),
      Fld ''__data'' (Arr 0 (Prim CUChar))]"

definition struct_inet_skb_parm :: ctype where
  "struct_inet_skb_parm = CStruct [
      Fld ''iif'' (Prim CInt),
      Fld ''opt'' struct_ip_options,
      Fld ''flags'' typedef_u16,
      Fld ''frag_max_size'' typedef_u16]"

definition struct_inet6_skb_parm :: ctype where
  "struct_inet6_skb_parm = CStruct [
      Fld ''iif'' (Prim CInt),
      Fld ''ra'' typedef___be16,
      Fld ''dst0'' typedef___u16,
      Fld ''srcrt'' typedef___u16,
      Fld ''dst1'' typedef___u16,
      Fld ''lastopt'' typedef___u16,
      Fld ''nhoff'' typedef___u16,
      Fld ''flags'' typedef___u16,
      Fld ''dsthao'' typedef___u16,
      Fld ''frag_max_size'' typedef___u16,
      Fld ''srhoff'' typedef___u16]"

definition struct_tcp_skb_cb :: ctype where
  "struct_tcp_skb_cb = CStruct [
      Fld ''seq'' typedef___u32,
      Fld ''end_seq'' typedef___u32,
      Fld '''' (CUnion [
        Fld '''' (CStruct [
          Fld ''tcp_gso_segs'' typedef_u16,
          Fld ''tcp_gso_size'' typedef_u16])]),
      Fld ''tcp_flags'' typedef___u8,
      Fld ''sacked'' typedef___u8,
      Fld ''ip_dsfield'' typedef___u8,
      Bits ''txstamp_ack'' typedef___u8 1,
      Bits ''eor'' typedef___u8 1,
      Bits ''has_rxtstamp'' typedef___u8 1,
      Bits ''unused'' typedef___u8 5,
      Fld ''ack_seq'' typedef___u32,
      Fld '''' (CUnion [
        Fld ''tx'' (CStruct [
          Bits ''is_app_limited'' typedef___u32 1,
          Bits ''delivered_ce'' typedef___u32 20,
          Bits ''unused'' typedef___u32 11,
          Fld ''delivered'' typedef___u32,
          Fld ''first_tx_mstamp'' typedef_u64,
          Fld ''delivered_mstamp'' typedef_u64]),
        Fld ''header'' (CUnion [
          Fld ''h4'' struct_inet_skb_parm,
          Fld ''h6'' struct_inet6_skb_parm])])]"

definition struct_idr :: ctype where
  "struct_idr = CStruct [
      Fld ''idr_rt'' struct_xarray,
      Fld ''idr_base'' (Prim CUInt),
      Fld ''idr_next'' (Prim CUInt)]"

definition struct_kernfs_root :: ctype where
  "struct_kernfs_root = CStruct [
      Fld ''kn'' (Ptr ''struct kernfs_node''),
      Fld ''flags'' (Prim CUInt),
      Fld ''ino_idr'' struct_idr,
      Fld ''last_id_lowbits'' typedef_u32,
      Fld ''id_highbits'' typedef_u32,
      Fld ''syscall_ops'' (Ptr ''struct kernfs_syscall_ops''),
      Fld ''supers'' struct_list_head,
      Fld ''deactivate_waitq'' typedef_wait_queue_head_t,
      Fld ''kernfs_rwsem'' struct_rw_semaphore,
      Fld ''kernfs_iattr_rwsem'' struct_rw_semaphore,
      Fld ''kernfs_supers_rwsem'' struct_rw_semaphore,
      Fld ''rcu'' struct_callback_head]"

definition struct_kernfs_open_file :: ctype where
  "struct_kernfs_open_file = CStruct [
      Fld ''kn'' (Ptr ''struct kernfs_node''),
      Fld ''file'' (Ptr ''struct file''),
      Fld ''seq_file'' (Ptr ''struct seq_file''),
      Fld ''priv'' (Ptr ''void''),
      Fld ''mutex'' struct_mutex,
      Fld ''prealloc_mutex'' struct_mutex,
      Fld ''event'' (Prim CInt),
      Fld ''list'' struct_list_head,
      Fld ''prealloc_buf'' (Ptr ''char''),
      Fld ''atomic_write_len'' typedef_size_t,
      Bits ''mmapped'' (Prim CBool) 1,
      Bits ''released'' (Prim CBool) 1,
      Fld ''vm_ops'' (Ptr ''const struct vm_operations_struct'')]"

definition struct_cgroup_subsys :: ctype where
  "struct_cgroup_subsys = CStruct [
      Fld ''css_alloc'' (Ptr ''struct cgroup_subsys_state *(struct cgroup_subsys_state *)''),
      Fld ''css_online'' (Ptr ''int (struct cgroup_subsys_state *)''),
      Fld ''css_offline'' (Ptr ''void (struct cgroup_subsys_state *)''),
      Fld ''css_released'' (Ptr ''void (struct cgroup_subsys_state *)''),
      Fld ''css_free'' (Ptr ''void (struct cgroup_subsys_state *)''),
      Fld ''css_reset'' (Ptr ''void (struct cgroup_subsys_state *)''),
      Fld ''css_rstat_flush'' (Ptr ''void (struct cgroup_subsys_state *, int)''),
      Fld ''css_extra_stat_show'' (Ptr ''int (struct seq_file *, struct cgroup_subsys_state *)''),
      Fld ''css_local_stat_show'' (Ptr ''int (struct seq_file *, struct cgroup_subsys_state *)''),
      Fld ''can_attach'' (Ptr ''int (struct cgroup_taskset *)''),
      Fld ''cancel_attach'' (Ptr ''void (struct cgroup_taskset *)''),
      Fld ''attach'' (Ptr ''void (struct cgroup_taskset *)''),
      Fld ''post_attach'' (Ptr ''void (void)''),
      Fld ''can_fork'' (Ptr ''int (struct task_struct *, struct css_set *)''),
      Fld ''cancel_fork'' (Ptr ''void (struct task_struct *, struct css_set *)''),
      Fld ''fork'' (Ptr ''void (struct task_struct *)''),
      Fld ''exit'' (Ptr ''void (struct task_struct *)''),
      Fld ''release'' (Ptr ''void (struct task_struct *)''),
      Fld ''bind'' (Ptr ''void (struct cgroup_subsys_state *)''),
      Bits ''early_init'' (Prim CBool) 1,
      Bits ''implicit_on_dfl'' (Prim CBool) 1,
      Bits ''threaded'' (Prim CBool) 1,
      Fld ''id'' (Prim CInt),
      Fld ''name'' (Ptr ''const char''),
      Fld ''legacy_name'' (Ptr ''const char''),
      Fld ''root'' (Ptr ''struct cgroup_root''),
      Fld ''css_idr'' struct_idr,
      Fld ''cfts'' struct_list_head,
      Fld ''dfl_cftypes'' (Ptr ''struct cftype''),
      Fld ''legacy_cftypes'' (Ptr ''struct cftype''),
      Fld ''depends_on'' (Prim CUInt)]"

definition struct_cgroup_root :: ctype where
  "struct_cgroup_root = CStruct ([
      Fld ''kf_root'' (Ptr ''struct kernfs_root''),
      Fld ''subsys_mask'' (Prim CUInt),
      Fld ''hierarchy_id'' (Prim CInt),
      Fld ''root_list'' struct_list_head,
      Fld ''rcu'' struct_callback_head] @ pad64 2 @ [
      Fld ''cgrp'' struct_cgroup,
      Fld ''cgrp_ancestor_storage'' (Ptr ''struct cgroup''),
      Fld ''nr_cgrps'' typedef_atomic_t,
      Fld ''flags'' (Prim CUInt),
      Fld ''release_agent_path'' (Arr 4096 (Prim CChar)),
      Fld ''name'' (Arr 64 (Prim CChar))] @ pad64 6)"

definition typedef_fmode_t :: ctype where
  "typedef_fmode_t = Prim CUInt"

definition enum_pid_type :: ctype where
  "enum_pid_type = Enum [(''PIDTYPE_PID'', 0), (''PIDTYPE_TGID'', 1), (''PIDTYPE_PGID'', 2), (''PIDTYPE_SID'', 3),
      (''PIDTYPE_MAX'', 4)]"

definition struct_fown_struct :: ctype where
  "struct_fown_struct = CStruct [
      Fld ''lock'' typedef_rwlock_t,
      Fld ''pid'' (Ptr ''struct pid''),
      Fld ''pid_type'' enum_pid_type,
      Fld ''uid'' typedef_kuid_t,
      Fld ''euid'' typedef_kuid_t,
      Fld ''signum'' (Prim CInt)]"

definition struct_file_ra_state :: ctype where
  "struct_file_ra_state = CStruct [
      Fld ''start'' (Prim CULong),
      Fld ''size'' (Prim CUInt),
      Fld ''async_size'' (Prim CUInt),
      Fld ''ra_pages'' (Prim CUInt),
      Fld ''mmap_miss'' (Prim CUInt),
      Fld ''prev_pos'' typedef_loff_t]"

definition struct_path :: ctype where
  "struct_path = CStruct [
      Fld ''mnt'' (Ptr ''struct vfsmount''),
      Fld ''dentry'' (Ptr ''struct dentry'')]"

definition typedef_errseq_t :: ctype where
  "typedef_errseq_t = typedef_u32"

definition struct_file :: ctype where
  "struct_file = CStruct [
      Fld '''' (CUnion [
        Fld ''f_task_work'' struct_callback_head,
        Fld ''f_llist'' struct_llist_node,
        Fld ''f_iocb_flags'' (Prim CUInt)]),
      Fld ''f_lock'' typedef_spinlock_t,
      Fld ''f_mode'' typedef_fmode_t,
      Fld ''f_count'' typedef_atomic_long_t,
      Fld ''f_pos_lock'' struct_mutex,
      Fld ''f_pos'' typedef_loff_t,
      Fld ''f_flags'' (Prim CUInt),
      Fld ''f_owner'' struct_fown_struct,
      Fld ''f_cred'' (Ptr ''const struct cred''),
      Fld ''f_ra'' struct_file_ra_state,
      Fld ''f_path'' struct_path,
      Fld ''f_inode'' (Ptr ''struct inode''),
      Fld ''f_op'' (Ptr ''const struct file_operations''),
      Fld ''f_version'' typedef_u64,
      Fld ''f_security'' (Ptr ''void''),
      Fld ''private_data'' (Ptr ''void''),
      Fld ''f_ep'' (Ptr ''struct hlist_head''),
      Fld ''f_mapping'' (Ptr ''struct address_space''),
      Fld ''f_wb_err'' typedef_errseq_t,
      Fld ''f_sb_err'' typedef_errseq_t]"

definition typedef___kernel_gid32_t :: ctype where
  "typedef___kernel_gid32_t = Prim CUInt"

definition typedef_gid_t :: ctype where
  "typedef_gid_t = typedef___kernel_gid32_t"

definition typedef_kgid_t :: ctype where
  "typedef_kgid_t = CStruct [
      Fld ''val'' typedef_gid_t]"

definition typedef___kernel_dev_t :: ctype where
  "typedef___kernel_dev_t = typedef_u32"

definition typedef_dev_t :: ctype where
  "typedef_dev_t = typedef___kernel_dev_t"

definition typedef_time64_t :: ctype where
  "typedef_time64_t = typedef___s64"

definition typedef_blkcnt_t :: ctype where
  "typedef_blkcnt_t = typedef_u64"

definition struct_address_space :: ctype where
  "struct_address_space = CStruct [
      Fld ''host'' (Ptr ''struct inode''),
      Fld ''i_pages'' struct_xarray,
      Fld ''invalidate_lock'' struct_rw_semaphore,
      Fld ''gfp_mask'' typedef_gfp_t,
      Fld ''i_mmap_writable'' typedef_atomic_t,
      Fld ''i_mmap'' struct_rb_root_cached,
      Fld ''nrpages'' (Prim CULong),
      Fld ''writeback_index'' (Prim CULong),
      Fld ''a_ops'' (Ptr ''const struct address_space_operations''),
      Fld ''flags'' (Prim CULong),
      Fld ''wb_err'' typedef_errseq_t,
      Fld ''i_private_lock'' typedef_spinlock_t,
      Fld ''i_private_list'' struct_list_head,
      Fld ''i_mmap_rwsem'' struct_rw_semaphore,
      Fld ''i_private_data'' (Ptr ''void'')]"

definition struct_inode :: ctype where
  "struct_inode = CStruct [
      Fld ''i_mode'' typedef_umode_t,
      Fld ''i_opflags'' (Prim CUShort),
      Fld ''i_uid'' typedef_kuid_t,
      Fld ''i_gid'' typedef_kgid_t,
      Fld ''i_flags'' (Prim CUInt),
      Fld ''i_acl'' (Ptr ''struct posix_acl''),
      Fld ''i_default_acl'' (Ptr ''struct posix_acl''),
      Fld ''i_op'' (Ptr ''const struct inode_operations''),
      Fld ''i_sb'' (Ptr ''struct super_block''),
      Fld ''i_mapping'' (Ptr ''struct address_space''),
      Fld ''i_security'' (Ptr ''void''),
      Fld ''i_ino'' (Prim CULong),
      Fld '''' (CUnion [
        Fld ''i_nlink'' (Prim CUInt),
        Fld ''__i_nlink'' (Prim CUInt)]),
      Fld ''i_rdev'' typedef_dev_t,
      Fld ''i_size'' typedef_loff_t,
      Fld ''i_atime_sec'' typedef_time64_t,
      Fld ''i_mtime_sec'' typedef_time64_t,
      Fld ''i_ctime_sec'' typedef_time64_t,
      Fld ''i_atime_nsec'' typedef_u32,
      Fld ''i_mtime_nsec'' typedef_u32,
      Fld ''i_ctime_nsec'' typedef_u32,
      Fld ''i_generation'' typedef_u32,
      Fld ''i_lock'' typedef_spinlock_t,
      Fld ''i_bytes'' (Prim CUShort),
      Fld ''i_blkbits'' typedef_u8,
      Fld ''i_write_hint'' enum_rw_hint,
      Fld ''i_blocks'' typedef_blkcnt_t,
      Fld ''i_state'' (Prim CULong),
      Fld ''i_rwsem'' struct_rw_semaphore,
      Fld ''dirtied_when'' (Prim CULong),
      Fld ''dirtied_time_when'' (Prim CULong),
      Fld ''i_hash'' struct_hlist_node,
      Fld ''i_io_list'' struct_list_head,
      Fld ''i_wb'' (Ptr ''struct bdi_writeback''),
      Fld ''i_wb_frn_winner'' (Prim CInt),
      Fld ''i_wb_frn_avg_time'' typedef_u16,
      Fld ''i_wb_frn_history'' typedef_u16,
      Fld ''i_lru'' struct_list_head,
      Fld ''i_sb_list'' struct_list_head,
      Fld ''i_wb_list'' struct_list_head,
      Fld '''' (CUnion [
        Fld ''i_dentry'' struct_hlist_head,
        Fld ''i_rcu'' struct_callback_head]),
      Fld ''i_version'' typedef_atomic64_t,
      Fld ''i_sequence'' typedef_atomic64_t,
      Fld ''i_count'' typedef_atomic_t,
      Fld ''i_dio_count'' typedef_atomic_t,
      Fld ''i_writecount'' typedef_atomic_t,
      Fld ''i_readcount'' typedef_atomic_t,
      Fld '''' (CUnion [
        Fld ''i_fop'' (Ptr ''const struct file_operations''),
        Fld ''free_inode'' (Ptr ''void (struct inode *)'')]),
      Fld ''i_flctx'' (Ptr ''struct file_lock_context''),
      Fld ''i_data'' struct_address_space,
      Fld ''i_devices'' struct_list_head,
      Fld '''' (CUnion [
        Fld ''i_pipe'' (Ptr ''struct pipe_inode_info''),
        Fld ''i_cdev'' (Ptr ''struct cdev''),
        Fld ''i_link'' (Ptr ''char''),
        Fld ''i_dir_seq'' (Prim CUInt)]),
      Fld ''i_fsnotify_mask'' typedef___u32,
      Fld ''i_fsnotify_marks'' (Ptr ''struct fsnotify_mark_connector''),
      Fld ''i_crypt_info'' (Ptr ''struct fscrypt_inode_info''),
      Fld ''i_private'' (Ptr ''void'')]"

section \<open>Sizes and alignments\<close>

lemma layout_sub_1 [layout_simps]:
  "sizeof typedef_smp_call_func_t = 8" "alignof typedef_smp_call_func_t = 8"
  "wf_ctype typedef_smp_call_func_t" "natural typedef_smp_call_func_t = True"
  "sizeof struct_cfs_rq = 512" "alignof struct_cfs_rq = 8"
  "wf_ctype struct_cfs_rq" "natural struct_cfs_rq = True"
  "sizeof struct_rt_prio_array = 1616" "alignof struct_rt_prio_array = 8"
  "wf_ctype struct_rt_prio_array" "natural struct_rt_prio_array = True"
  "sizeof struct_plist_head = 16" "alignof struct_plist_head = 8"
  "wf_ctype struct_plist_head" "natural struct_plist_head = True"
  "sizeof struct_dl_rq = 104" "alignof struct_dl_rq = 8"
  "wf_ctype struct_dl_rq" "natural struct_dl_rq = True"
  "sizeof typedef_cpu_stop_fn_t = 8" "alignof typedef_cpu_stop_fn_t = 8"
  "wf_ctype typedef_cpu_stop_fn_t" "natural typedef_cpu_stop_fn_t = True"
  "sizeof typedef_cpumask_var_t = 8" "alignof typedef_cpumask_var_t = 8"
  "wf_ctype typedef_cpumask_var_t" "natural typedef_cpumask_var_t = True"
  "sizeof struct_cpu_itimer = 16" "alignof struct_cpu_itimer = 8"
  "wf_ctype struct_cpu_itimer" "natural struct_cpu_itimer = True"
  "sizeof struct_task_cputime_atomic = 24" "alignof struct_task_cputime_atomic = 8"
  "wf_ctype struct_task_cputime_atomic" "natural struct_task_cputime_atomic = True"
  "sizeof typedef_seqlock_t = 8" "alignof typedef_seqlock_t = 4"
  "wf_ctype typedef_seqlock_t" "natural typedef_seqlock_t = True"
  "sizeof struct_rlimit = 16" "alignof struct_rlimit = 8"
  "wf_ctype struct_rlimit" "natural struct_rlimit = True"
  "sizeof struct_pacct_struct = 56" "alignof struct_pacct_struct = 8"
  "wf_ctype struct_pacct_struct" "natural struct_pacct_struct = True"
  by (simp_all add: typedef_smp_call_func_t_def  struct_cfs_rq_def  struct_rt_prio_array_def 
      struct_plist_head_def  struct_dl_rq_def  typedef_cpu_stop_fn_t_def 
      typedef_cpumask_var_t_def  struct_cpu_itimer_def  struct_task_cputime_atomic_def 
      typedef_seqlock_t_def  struct_rlimit_def  struct_pacct_struct_def layout_eval
      layout_simps del: One_nat_def)

lemma layout_sub_2 [layout_simps]:
  "sizeof struct_rw_semaphore = 40" "alignof struct_rw_semaphore = 8"
  "wf_ctype struct_rw_semaphore" "natural struct_rw_semaphore = True"
  "sizeof typedef_lockdep_map_p = 0" "alignof typedef_lockdep_map_p = 1"
  "wf_ctype typedef_lockdep_map_p" "natural typedef_lockdep_map_p = True"
  "sizeof typedef_mm_context_t = 32" "alignof typedef_mm_context_t = 8"
  "wf_ctype typedef_mm_context_t" "natural typedef_mm_context_t = True"
  "sizeof struct_uprobes_state = 8" "alignof struct_uprobes_state = 8"
  "wf_ctype struct_uprobes_state" "natural struct_uprobes_state = True"
  "sizeof struct_xarray = 16" "alignof struct_xarray = 8"
  "wf_ctype struct_xarray" "natural struct_xarray = True"
  "sizeof struct_lockdep_map = 0" "alignof struct_lockdep_map = 1"
  "wf_ctype struct_lockdep_map" "natural struct_lockdep_map = True"
  "sizeof typedef_blk_features_t = 4" "alignof typedef_blk_features_t = 4"
  "wf_ctype typedef_blk_features_t" "natural typedef_blk_features_t = True"
  "sizeof typedef_blk_flags_t = 4" "alignof typedef_blk_flags_t = 4"
  "wf_ctype typedef_blk_flags_t" "natural typedef_blk_flags_t = True"
  "sizeof enum_blk_integrity_checksum = 4" "alignof enum_blk_integrity_checksum = 4"
  "wf_ctype enum_blk_integrity_checksum" "natural enum_blk_integrity_checksum = True"
  "sizeof struct_delayed_work = 88" "alignof struct_delayed_work = 8"
  "wf_ctype struct_delayed_work" "natural struct_delayed_work = True"
  "sizeof struct_mempool_s = 72" "alignof struct_mempool_s = 8"
  "wf_ctype struct_mempool_s" "natural struct_mempool_s = True"
  "sizeof struct_bio_list = 16" "alignof struct_bio_list = 8"
  "wf_ctype struct_bio_list" "natural struct_bio_list = True"
  by (simp_all add: struct_rw_semaphore_def  typedef_lockdep_map_p_def  typedef_mm_context_t_def 
      struct_uprobes_state_def  struct_xarray_def  struct_lockdep_map_def 
      typedef_blk_features_t_def  typedef_blk_flags_t_def  enum_blk_integrity_checksum_def 
      struct_delayed_work_def  struct_mempool_s_def  struct_bio_list_def layout_eval
      layout_simps del: One_nat_def)

lemma layout_sub_3 [layout_simps]:
  "sizeof struct_kref = 4" "alignof struct_kref = 4"
  "wf_ctype struct_kref" "natural struct_kref = True"
  "sizeof typedef_blk_mode_t = 4" "alignof typedef_blk_mode_t = 4"
  "wf_ctype typedef_blk_mode_t" "natural typedef_blk_mode_t = True"
  "sizeof typedef_blk_status_t = 1" "alignof typedef_blk_status_t = 1"
  "wf_ctype typedef_blk_status_t" "natural typedef_blk_status_t = True"
  "sizeof struct_bvec_iter = 20" "alignof struct_bvec_iter = 1"
  "wf_ctype struct_bvec_iter" "natural struct_bvec_iter = False"
  "sizeof typedef_blk_qc_t = 4" "alignof typedef_blk_qc_t = 4"
  "wf_ctype typedef_blk_qc_t" "natural typedef_blk_qc_t = True"
  "sizeof struct_bio_issue = 8" "alignof struct_bio_issue = 8"
  "wf_ctype struct_bio_issue" "natural struct_bio_issue = True"
  "sizeof struct_inet_cork = 56" "alignof struct_inet_cork = 8"
  "wf_ctype struct_inet_cork" "natural struct_inet_cork = True"
  "sizeof typedef___be64 = 8" "alignof typedef___be64 = 8"
  "wf_ctype typedef___be64" "natural typedef___be64 = True"
  "sizeof union_flowi_uli = 4" "alignof union_flowi_uli = 4"
  "wf_ctype union_flowi_uli" "natural union_flowi_uli = True"
  "sizeof struct_fastopen_queue = 40" "alignof struct_fastopen_queue = 8"
  "wf_ctype struct_fastopen_queue" "natural struct_fastopen_queue = True"
  "sizeof struct_minmax_sample = 8" "alignof struct_minmax_sample = 4"
  "wf_ctype struct_minmax_sample" "natural struct_minmax_sample = True"
  "sizeof struct_tcp_options_received = 24" "alignof struct_tcp_options_received = 4"
  "wf_ctype struct_tcp_options_received" "natural struct_tcp_options_received = True"
  by (simp_all add: struct_kref_def  typedef_blk_mode_t_def  typedef_blk_status_t_def 
      struct_bvec_iter_def  typedef_blk_qc_t_def  struct_bio_issue_def  struct_inet_cork_def 
      typedef___be64_def  union_flowi_uli_def  struct_fastopen_queue_def 
      struct_minmax_sample_def  struct_tcp_options_received_def layout_eval
      layout_simps del: One_nat_def)

lemma layout_sub_4 [layout_simps]:
  "sizeof struct_tcp_rack = 24" "alignof struct_tcp_rack = 8"
  "wf_ctype struct_tcp_rack" "natural struct_tcp_rack = True"
  "sizeof struct_tcp_sack_block = 8" "alignof struct_tcp_sack_block = 4"
  "wf_ctype struct_tcp_sack_block" "natural struct_tcp_sack_block = True"
  "sizeof struct_ip_options = 16" "alignof struct_ip_options = 4"
  "wf_ctype struct_ip_options" "natural struct_ip_options = True"
  "sizeof struct_inet6_skb_parm = 24" "alignof struct_inet6_skb_parm = 4"
  "wf_ctype struct_inet6_skb_parm" "natural struct_inet6_skb_parm = True"
  "sizeof struct_kernfs_open_file = 152" "alignof struct_kernfs_open_file = 8"
  "wf_ctype struct_kernfs_open_file" "natural struct_kernfs_open_file = True"
  "sizeof struct_cgroup_root = 6208" "alignof struct_cgroup_root = 8"
  "wf_ctype struct_cgroup_root" "natural struct_cgroup_root = True"
  "sizeof typedef_fmode_t = 4" "alignof typedef_fmode_t = 4"
  "wf_ctype typedef_fmode_t" "natural typedef_fmode_t = True"
  "sizeof enum_pid_type = 4" "alignof enum_pid_type = 4"
  "wf_ctype enum_pid_type" "natural enum_pid_type = True"
  "sizeof struct_file_ra_state = 32" "alignof struct_file_ra_state = 8"
  "wf_ctype struct_file_ra_state" "natural struct_file_ra_state = True"
  "sizeof struct_path = 16" "alignof struct_path = 8"
  "wf_ctype struct_path" "natural struct_path = True"
  "sizeof typedef_errseq_t = 4" "alignof typedef_errseq_t = 4"
  "wf_ctype typedef_errseq_t" "natural typedef_errseq_t = True"
  "sizeof typedef___kernel_gid32_t = 4" "alignof typedef___kernel_gid32_t = 4"
  "wf_ctype typedef___kernel_gid32_t" "natural typedef___kernel_gid32_t = True"
  by (simp_all add: struct_tcp_rack_def  struct_tcp_sack_block_def  struct_ip_options_def 
      struct_inet6_skb_parm_def  struct_kernfs_open_file_def  struct_cgroup_root_def 
      typedef_fmode_t_def  enum_pid_type_def  struct_file_ra_state_def  struct_path_def 
      typedef_errseq_t_def  typedef___kernel_gid32_t_def layout_eval
      layout_simps del: One_nat_def)

lemma layout_sub_5 [layout_simps]:
  "sizeof typedef___kernel_dev_t = 4" "alignof typedef___kernel_dev_t = 4"
  "wf_ctype typedef___kernel_dev_t" "natural typedef___kernel_dev_t = True"
  "sizeof typedef_time64_t = 8" "alignof typedef_time64_t = 8"
  "wf_ctype typedef_time64_t" "natural typedef_time64_t = True"
  "sizeof typedef_blkcnt_t = 8" "alignof typedef_blkcnt_t = 8"
  "wf_ctype typedef_blkcnt_t" "natural typedef_blkcnt_t = True"
  by (simp_all add: typedef___kernel_dev_t_def  typedef_time64_t_def  typedef_blkcnt_t_def layout_eval
      layout_simps del: One_nat_def)

lemma layout_sub_6 [layout_simps]:
  "sizeof struct___call_single_data = 32" "alignof struct___call_single_data = 8"
  "wf_ctype struct___call_single_data" "natural struct___call_single_data = True"
  "sizeof struct_rt_rq = 1688" "alignof struct_rt_rq = 8"
  "wf_ctype struct_rt_rq" "natural struct_rt_rq = True"
  "sizeof struct_cpu_stop_work = 48" "alignof struct_cpu_stop_work = 8"
  "wf_ctype struct_cpu_stop_work" "natural struct_cpu_stop_work = True"
  "sizeof struct_thread_group_cputimer = 24" "alignof struct_thread_group_cputimer = 8"
  "wf_ctype struct_thread_group_cputimer" "natural struct_thread_group_cputimer = True"
  "sizeof struct_maple_tree = 16" "alignof struct_maple_tree = 8"
  "wf_ctype struct_maple_tree" "natural struct_maple_tree = True"
  "sizeof struct_blk_integrity = 12" "alignof struct_blk_integrity = 4"
  "wf_ctype struct_blk_integrity" "natural struct_blk_integrity = True"
  "sizeof typedef_mempool_t = 72" "alignof typedef_mempool_t = 8"
  "wf_ctype typedef_mempool_t" "natural typedef_mempool_t = True"
  "sizeof struct_kobject = 64" "alignof struct_kobject = 8"
  "wf_ctype struct_kobject" "natural struct_kobject = True"
  "sizeof struct_bio = 120" "alignof struct_bio = 8"
  "wf_ctype struct_bio" "natural struct_bio = False"
  "sizeof struct_flowi_tunnel = 8" "alignof struct_flowi_tunnel = 8"
  "wf_ctype struct_flowi_tunnel" "natural struct_flowi_tunnel = True"
  "sizeof struct_request_sock_queue = 80" "alignof struct_request_sock_queue = 8"
  "wf_ctype struct_request_sock_queue" "natural struct_request_sock_queue = True"
  "sizeof struct_minmax = 24" "alignof struct_minmax = 4"
  "wf_ctype struct_minmax" "natural struct_minmax = True"
  by (simp_all add: struct___call_single_data_def  struct_rt_rq_def  struct_cpu_stop_work_def 
      struct_thread_group_cputimer_def  struct_maple_tree_def  struct_blk_integrity_def 
      typedef_mempool_t_def  struct_kobject_def  struct_bio_def  struct_flowi_tunnel_def 
      struct_request_sock_queue_def  struct_minmax_def layout_eval
      layout_simps del: One_nat_def)

lemma layout_sub_7 [layout_simps]:
  "sizeof struct_inet_skb_parm = 24" "alignof struct_inet_skb_parm = 4"
  "wf_ctype struct_inet_skb_parm" "natural struct_inet_skb_parm = True"
  "sizeof struct_idr = 24" "alignof struct_idr = 8"
  "wf_ctype struct_idr" "natural struct_idr = True"
  "sizeof struct_fown_struct = 32" "alignof struct_fown_struct = 8"
  "wf_ctype struct_fown_struct" "natural struct_fown_struct = True"
  "sizeof typedef_gid_t = 4" "alignof typedef_gid_t = 4"
  "wf_ctype typedef_gid_t" "natural typedef_gid_t = True"
  "sizeof typedef_dev_t = 4" "alignof typedef_dev_t = 4"
  "wf_ctype typedef_dev_t" "natural typedef_dev_t = True"
  "sizeof struct_address_space = 192" "alignof struct_address_space = 8"
  "wf_ctype struct_address_space" "natural struct_address_space = True"
  by (simp_all add: struct_inet_skb_parm_def  struct_idr_def  struct_fown_struct_def  typedef_gid_t_def 
      typedef_dev_t_def  struct_address_space_def layout_eval
      layout_simps del: One_nat_def)

lemma layout_sub_8 [layout_simps]:
  "sizeof typedef_call_single_data_t = 32" "alignof typedef_call_single_data_t = 8"
  "wf_ctype typedef_call_single_data_t" "natural typedef_call_single_data_t = True"
  "sizeof struct_signal_struct = 1104" "alignof struct_signal_struct = 8"
  "wf_ctype struct_signal_struct" "natural struct_signal_struct = True"
  "sizeof struct_mm_struct = 1088" "alignof struct_mm_struct = 8"
  "wf_ctype struct_mm_struct" "natural struct_mm_struct = True"
  "sizeof struct_queue_limits = 176" "alignof struct_queue_limits = 8"
  "wf_ctype struct_queue_limits" "natural struct_queue_limits = True"
  "sizeof struct_bio_set = 248" "alignof struct_bio_set = 8"
  "wf_ctype struct_bio_set" "natural struct_bio_set = True"
  "sizeof struct_flowi_common = 40" "alignof struct_flowi_common = 8"
  "wf_ctype struct_flowi_common" "natural struct_flowi_common = True"
  "sizeof struct_tcp_skb_cb = 48" "alignof struct_tcp_skb_cb = 8"
  "wf_ctype struct_tcp_skb_cb" "natural struct_tcp_skb_cb = True"
  "sizeof struct_kernfs_root = 232" "alignof struct_kernfs_root = 8"
  "wf_ctype struct_kernfs_root" "natural struct_kernfs_root = True"
  "sizeof struct_cgroup_subsys = 248" "alignof struct_cgroup_subsys = 8"
  "wf_ctype struct_cgroup_subsys" "natural struct_cgroup_subsys = True"
  "sizeof struct_file = 232" "alignof struct_file = 8"
  "wf_ctype struct_file" "natural struct_file = True"
  "sizeof typedef_kgid_t = 4" "alignof typedef_kgid_t = 4"
  "wf_ctype typedef_kgid_t" "natural typedef_kgid_t = True"
  by (simp_all add: typedef_call_single_data_t_def  struct_signal_struct_def  struct_mm_struct_def 
      struct_queue_limits_def  struct_bio_set_def  struct_flowi_common_def 
      struct_tcp_skb_cb_def  struct_kernfs_root_def  struct_cgroup_subsys_def 
      struct_file_def  typedef_kgid_t_def layout_eval
      layout_simps del: One_nat_def)

lemma layout_sub_9 [layout_simps]:
  "sizeof struct_rq = 3072" "alignof struct_rq = 8"
  "wf_ctype struct_rq" "natural struct_rq = True"
  "sizeof struct_request_queue = 960" "alignof struct_request_queue = 8"
  "wf_ctype struct_request_queue" "natural struct_request_queue = True"
  "sizeof struct_gendisk = 560" "alignof struct_gendisk = 8"
  "wf_ctype struct_gendisk" "natural struct_gendisk = True"
  "sizeof struct_flowi4 = 56" "alignof struct_flowi4 = 8"
  "wf_ctype struct_flowi4" "natural struct_flowi4 = True"
  "sizeof struct_flowi6 = 88" "alignof struct_flowi6 = 8"
  "wf_ctype struct_flowi6" "natural struct_flowi6 = True"
  "sizeof struct_inode = 624" "alignof struct_inode = 8"
  "wf_ctype struct_inode" "natural struct_inode = True"
  by (simp_all add: struct_rq_def  struct_request_queue_def  struct_gendisk_def  struct_flowi4_def 
      struct_flowi6_def  struct_inode_def layout_eval
      layout_simps del: One_nat_def)

lemma layout_sub_10 [layout_simps]:
  "sizeof struct_flowi = 88" "alignof struct_flowi = 8"
  "wf_ctype struct_flowi" "natural struct_flowi = True"
  by (simp_all add: struct_flowi_def layout_eval
      layout_simps del: One_nat_def)

lemma layout_sub_11 [layout_simps]:
  "sizeof struct_inet_cork_full = 144" "alignof struct_inet_cork_full = 8"
  "wf_ctype struct_inet_cork_full" "natural struct_inet_cork_full = True"
  by (simp_all add: struct_inet_cork_full_def layout_eval
      layout_simps del: One_nat_def)

lemma layout_sub_12 [layout_simps]:
  "sizeof struct_inet_sock = 968" "alignof struct_inet_sock = 8"
  "wf_ctype struct_inet_sock" "natural struct_inet_sock = True"
  by (simp_all add: struct_inet_sock_def layout_eval
      layout_simps del: One_nat_def)

lemma layout_sub_13 [layout_simps]:
  "sizeof struct_inet_connection_sock = 1376" "alignof struct_inet_connection_sock = 8"
  "wf_ctype struct_inet_connection_sock" "natural struct_inet_connection_sock = True"
  by (simp_all add: struct_inet_connection_sock_def layout_eval
      layout_simps del: One_nat_def)

lemma layout_sub_14 [layout_simps]:
  "sizeof struct_tcp_sock = 2240" "alignof struct_tcp_sock = 8"
  "wf_ctype struct_tcp_sock" "natural struct_tcp_sock = True"
  by (simp_all add: struct_tcp_sock_def layout_eval
      layout_simps del: One_nat_def)

end
