(* ===== verification/Kernel_Embedding.thy ===== *)
theory Kernel_Embedding
  imports Kernel_Types_Subsystems Program_Layout
begin

text \<open>
  Objects inside objects. A tracepoint hands out a pointer to a general object (a socket, a
  map) that is the first part of a larger one; the programs and the kernel may use either
  type for the same address because of the offsets proved here. The ring buffer of the
  lifecycle events and the argument block of the \<^verbatim>\<open>bpf\<close> system call have layouts that
  user space relies on.
\<close>

section \<open>Members\<close>

lemma fields_tcp:
  "find_field ''inet_conn'' struct_tcp_sock = Some (0, 11008, struct_inet_connection_sock)"
  "find_field ''icsk_inet'' struct_inet_connection_sock = Some (0, 7744, struct_inet_sock)"
  "find_field ''sk'' struct_inet_sock = Some (0, 6016, struct_sock)"
  by (simp_all add: struct_tcp_sock_def struct_inet_connection_sock_def struct_inet_sock_def layout_eval
      layout_simps del: One_nat_def)

lemma fields_maps:
  "find_field ''map'' struct_bpf_htab = Some (0, 1984, struct_bpf_map)"
  "find_field ''map'' struct_bpf_array = Some (0, 1984, struct_bpf_map)"
  "find_field ''max_entries'' struct_bpf_map = Some (288, 32, typedef_u32)"
  by (simp_all add: struct_bpf_htab_def struct_bpf_array_def struct_bpf_map_def layout_eval layout_simps
      del: One_nat_def)

lemma fields_ringbuf:
  "find_field ''consumer_pos'' struct_bpf_ringbuf = Some (32768, 64, Prim CULong)"
  "find_field ''producer_pos'' struct_bpf_ringbuf = Some (65536, 64, Prim CULong)"
  "find_field ''data'' struct_bpf_ringbuf = Some (98304, 0, Arr 0 (Prim CChar))"
  by (simp_all add: struct_bpf_ringbuf_def layout_eval layout_simps del: One_nat_def)

lemma fields_attr:
  "find_field ''map_type'' union_bpf_attr = Some (0, 32, typedef___u32)"
  "find_field ''key_size'' union_bpf_attr = Some (32, 32, typedef___u32)"
  "find_field ''value_size'' union_bpf_attr = Some (64, 32, typedef___u32)"
  "find_field ''max_entries'' union_bpf_attr = Some (96, 32, typedef___u32)"
  by (simp_all add: union_bpf_attr_def layout_eval layout_simps del: One_nat_def)

lemma fields_rq: "find_field ''curr'' struct_rq = Some (19712, 64, Ptr ''struct task_struct'')"
  by (simp add: struct_rq_def layout_eval layout_simps del: One_nat_def)

section \<open>Properties\<close>


text \<open>
  What user space maps and passes. In the ring buffer object the consumer position, the
  producer position and the data start on pages of their own, so that they can be mapped
  with different permissions; in the argument block of the map-creating system call the
  type, key size, value size and capacity are 32-bit words at offsets 0, 4, 8 and 12.
\<close>

theorem user_space_abi:
  "resolve_chain struct_bpf_ringbuf [''consumer_pos''] = Some (1 * 4096, Prim CULong) \<and>
   resolve_chain struct_bpf_ringbuf [''producer_pos''] = Some (2 * 4096, Prim CULong) \<and>
   resolve_chain struct_bpf_ringbuf [''data''] = Some (3 * 4096, Arr 0 (Prim CChar)) \<and>
   sizeof struct_bpf_ringbuf = 3 * 4096 \<and>
   map (\<lambda>f. resolve_chain union_bpf_attr [f]) [''map_type'', ''key_size'', ''value_size'', ''max_entries''] =
     [Some (0, typedef___u32), Some (4, typedef___u32), Some (8, typedef___u32), Some (12, typedef___u32)] \<and>
   sizeof typedef___u32 = 4"
  by (simp add: fields_ringbuf fields_attr layout_simps)

end
