(* ===== verification/Remediation.thy ===== *)
theory Remediation
  imports Complex_Main Prelude
begin

text \<open>
  The acting half of the controller, \<^verbatim>\<open>src/internal/controller/remediation.go\<close>,
  \<^verbatim>\<open>resize.go\<close> and \<^verbatim>\<open>persist.go\<close>: confident offenders are throttled by an in-place resize
  or announced by an Event, throttles are lifted after a fixed window, and a ledger in a
  ConfigMap lets a restarted controller resume them.

  The Kubernetes API is a parameter: \<open>api\<close> holds the answers of the server during one pass.
  The state has the remediator's own fields, the ledger as the server stores it, and the
  mutating calls that succeeded, newest first. Times are nanoseconds, confidences and CPU
  quantities exact rationals; a ledger value that is not valid JSON is \<open>None\<close>. Log lines are
  left out.
\<close>

section \<open>Data\<close>

record RemediationConfig =
  DryRun :: bool
  Cooldown :: int
  Resize :: bool
  RestoreAfter :: int
  Namespaces :: "string list"
  ConfidenceThreshold :: rat

record target =
  t_namespace :: string
  t_pod :: string
  t_container :: string
  t_resource :: string
  t_confidence :: rat

definition pod_key :: "string \<Rightarrow> string \<Rightarrow> string" where
  "pod_key ns p = ns @ ''/'' @ p"

definition target_key :: "target \<Rightarrow> string" where
  "target_key t = pod_key (t_namespace t) (t_pod t)"

record throttleState =
  ts_namespace :: string
  ts_pod :: string
  ts_container :: string
  originalCPULimit :: string
  restoreAt :: int

record persistedThrottle =
  p_Namespace :: string
  p_Pod :: string
  p_Container :: string
  p_OriginalCPULimit :: string
  p_RestoreAt :: int

text \<open>
  What the controller reads of a snapshot: the node, its health, the gate, and label and
  confidence of the offenders.
\<close>

record Snapshot =
  NodeName :: string
  Healthy :: bool
  ConfidenceMin :: rat
  Offenders :: "(string \<times> rat) list"
  IOOffenders :: "(string \<times> rat) list"
  NetOffenders :: "(string \<times> rat) list"

section \<open>The API server\<close>

datatype api_error = NotFound | AlreadyExists | OtherError

record container_spec =
  c_name :: string
  c_limit :: "rat option"
  c_request :: "rat option"

type_synonym ledger = "(string \<times> persistedThrottle option) list"

record api =
  get_pod :: "string \<Rightarrow> string \<Rightarrow> container_spec list option"
  quantity_string :: "rat \<Rightarrow> string"
  patch_error :: "string \<Rightarrow> string \<Rightarrow> string \<Rightarrow> string \<Rightarrow> api_error option"
  event_ok :: "string \<Rightarrow> string \<Rightarrow> bool"
  cm_get_fails :: bool
  cm_create_error :: "api_error option"
  cm_reget :: "api_error + ledger"
  cm_update_error :: "api_error option"

datatype call =
    Patched string string string string
  | Event string string

fun call_key :: "call \<Rightarrow> string" where
  "call_key (Patched ns p c cpu) = pod_key ns p"
| "call_key (Event ns p) = pod_key ns p"

record remediator =
  cfg :: RemediationConfig
  lastActed :: "(string \<times> int) list"
  throttled :: "(string \<times> throttleState) list"
  nsAllow :: "string list option"
  stateNS :: string
  cm_ledger :: "ledger option"
  calls :: "call list"

definition NewRemediator :: "RemediationConfig \<Rightarrow> remediator" where
  "NewRemediator c =
     (let c1 = (if Cooldown c \<le> 0 then c\<lparr>Cooldown := 5 * 60 * 1000000000\<rparr> else c);
          c2 = (if RestoreAfter c1 \<le> 0 then c1\<lparr>RestoreAfter := 10 * 60 * 1000000000\<rparr> else c1)
      in \<lparr>cfg = c2, lastActed = [], throttled = [],
          nsAllow = (if Namespaces c2 = [] then None else Some (Namespaces c2)),
          stateNS = [], cm_ledger = None, calls = []\<rparr>)"

definition EnablePersistence :: "string \<Rightarrow> remediator \<Rightarrow> remediator" where
  "EnablePersistence ns r = r\<lparr>stateNS := ns\<rparr>"

section \<open>The ledger\<close>

definition cmKey :: "string \<Rightarrow> string" where
  "cmKey podKey = map (\<lambda>ch. if ch = CHR ''/'' then CHR ''_'' else ch) podKey"

text \<open>
  Fetch the ledger, creating an empty one if there is none. \<open>cm_get_fails\<close> is a failure other
  than \<open>NotFound\<close>, which is the answer exactly when there is no ledger.
\<close>

definition stateConfigMap :: "api \<Rightarrow> remediator \<Rightarrow> (api_error + ledger) \<times> remediator" where
  "stateConfigMap a r =
     (if cm_get_fails a then (Inl OtherError, r)
      else case cm_ledger r of
             Some d \<Rightarrow> (Inr d, r)
           | None \<Rightarrow>
               (case cm_create_error a of
                  None \<Rightarrow> (Inr [], r\<lparr>cm_ledger := Some []\<rparr>)
                | Some AlreadyExists \<Rightarrow> (cm_reget a, r)
                | Some e \<Rightarrow> (Inl e, r)))"

definition to_persisted :: "throttleState \<Rightarrow> persistedThrottle" where
  "to_persisted st = \<lparr>p_Namespace = ts_namespace st, p_Pod = ts_pod st, p_Container = ts_container st,
     p_OriginalCPULimit = originalCPULimit st, p_RestoreAt = restoreAt st\<rparr>"

definition of_persisted :: "persistedThrottle \<Rightarrow> throttleState" where
  "of_persisted p = \<lparr>ts_namespace = p_Namespace p, ts_pod = p_Pod p, ts_container = p_Container p,
     originalCPULimit = p_OriginalCPULimit p, restoreAt = p_RestoreAt p\<rparr>"

definition persist :: "api \<Rightarrow> string \<Rightarrow> throttleState \<Rightarrow> remediator \<Rightarrow> remediator" where
  "persist a podKey st r =
     (if stateNS r = [] then r
      else case stateConfigMap a r of
             (Inl e, r1) \<Rightarrow> r1
           | (Inr d, r1) \<Rightarrow>
               (if cm_update_error a \<noteq> None then r1
                else r1\<lparr>cm_ledger := Some (AList.update (cmKey podKey) (Some (to_persisted st)) d)\<rparr>))"

definition forget :: "api \<Rightarrow> string \<Rightarrow> remediator \<Rightarrow> remediator" where
  "forget a podKey r =
     (if stateNS r = [] then r
      else case stateConfigMap a r of
             (Inl e, r1) \<Rightarrow> r1
           | (Inr d, r1) \<Rightarrow>
               (if map_of d (cmKey podKey) = None then r1
                else if cm_update_error a \<noteq> None then r1
                else r1\<lparr>cm_ledger := Some (AList.delete (cmKey podKey) d)\<rparr>))"

definition recover_entry :: "persistedThrottle option \<Rightarrow> (string \<times> throttleState) list \<Rightarrow>
    (string \<times> throttleState) list" where
  "recover_entry raw m =
     (case raw of
        None \<Rightarrow> m
      | Some p \<Rightarrow>
          (if p_Namespace p = [] \<or> p_Pod p = [] then m
           else AList.update (pod_key (p_Namespace p) (p_Pod p)) (of_persisted p) m))"

definition Recover :: "api \<Rightarrow> remediator \<Rightarrow> remediator" where
  "Recover a r =
     (if stateNS r = [] \<or> cm_get_fails a then r
      else case cm_ledger r of
             None \<Rightarrow> r
           | Some d \<Rightarrow> r\<lparr>throttled := fold recover_entry (map snd d) (throttled r)\<rparr>)"

section \<open>Throttling and restoring\<close>

definition emitEvent :: "api \<Rightarrow> string \<Rightarrow> string \<Rightarrow> remediator \<Rightarrow> bool \<times> remediator" where
  "emitEvent a ns p r =
     (if event_ok a ns p then (True, r\<lparr>calls := Event ns p # calls r\<rparr>) else (False, r))"

definition patchCPULimit :: "api \<Rightarrow> string \<Rightarrow> string \<Rightarrow> string \<Rightarrow> string \<Rightarrow> remediator \<Rightarrow>
    api_error option \<times> remediator" where
  "patchCPULimit a ns p c cpu r =
     (case patch_error a ns p c cpu of
        Some e \<Rightarrow> (Some e, r)
      | None \<Rightarrow> (None, r\<lparr>calls := Patched ns p c cpu # calls r\<rparr>))"

text \<open>The CPU limit and request of the first container with the name, if it has both.\<close>

definition cpu_bounds :: "string \<Rightarrow> container_spec list \<Rightarrow> (rat \<times> rat) option" where
  "cpu_bounds name cs =
     (case find (\<lambda>c. c_name c = name) cs of
        None \<Rightarrow> None
      | Some c \<Rightarrow>
          (case (c_limit c, c_request c) of
             (Some l, Some q) \<Rightarrow> Some (l, q)
           | _ \<Rightarrow> None))"

definition throttle :: "api \<Rightarrow> int \<Rightarrow> target \<Rightarrow> remediator \<Rightarrow> bool \<times> remediator" where
  "throttle a now t r =
     (case get_pod a (t_namespace t) (t_pod t) of
        None \<Rightarrow> (False, r)
      | Some cs \<Rightarrow>
          (case cpu_bounds (t_container t) cs of
             None \<Rightarrow> (False, r)
           | Some (limit, request) \<Rightarrow>
               (if request \<ge> limit then (False, r)
                else
                  (case patchCPULimit a (t_namespace t) (t_pod t) (t_container t)
                      (quantity_string a request) r of
                     (Some e, r1) \<Rightarrow> (False, r1)
                   | (None, r1) \<Rightarrow>
                       (let st = \<lparr>ts_namespace = t_namespace t, ts_pod = t_pod t,
                              ts_container = t_container t, originalCPULimit = quantity_string a limit,
                              restoreAt = now + RestoreAfter (cfg r)\<rparr>;
                            r2 = r1\<lparr>throttled := AList.update (target_key t) st (throttled r1)\<rparr>;
                            r3 = persist a (target_key t) st r2
                        in (True, snd (emitEvent a (t_namespace t) (t_pod t) r3)))))))"

definition restore :: "api \<Rightarrow> throttleState \<Rightarrow> remediator \<Rightarrow> bool \<times> remediator" where
  "restore a st r =
     (case patchCPULimit a (ts_namespace st) (ts_pod st) (ts_container st) (originalCPULimit st) r of
        (Some NotFound, r1) \<Rightarrow> (True, r1)
      | (Some e, r1) \<Rightarrow> (False, r1)
      | (None, r1) \<Rightarrow> (True, snd (emitEvent a (ts_namespace st) (ts_pod st) r1)))"

text \<open>
  The two halves of what follows a successful restore: the record leaves the memory under
  the lock, then the ledger. Between them other goroutines may run.
\<close>

definition drop_throttle :: "throttleState \<Rightarrow> remediator \<Rightarrow> remediator" where
  "drop_throttle st r =
     r\<lparr>throttled := AList.delete (pod_key (ts_namespace st) (ts_pod st)) (throttled r)\<rparr>"

definition restore_one :: "api \<Rightarrow> throttleState \<Rightarrow> remediator \<Rightarrow> remediator" where
  "restore_one a st r =
     (case restore a st r of
        (False, r1) \<Rightarrow> r1
      | (True, r1) \<Rightarrow> forget a (pod_key (ts_namespace st) (ts_pod st)) (drop_throttle st r1))"

definition restoreDue :: "api \<Rightarrow> int \<Rightarrow> remediator \<Rightarrow> remediator" where
  "restoreDue a now r =
     fold (restore_one a) (filter (\<lambda>st. now > restoreAt st) (map snd (throttled r))) r"

section \<open>One pass over a snapshot\<close>

definition splitPod :: "string \<Rightarrow> (string \<times> string \<times> string) option" where
  "splitPod label =
     (let ns = takeWhile (\<lambda>ch. ch \<noteq> CHR ''/'') label; r1 = dropWhile (\<lambda>ch. ch \<noteq> CHR ''/'') label;
          p = takeWhile (\<lambda>ch. ch \<noteq> CHR ''/'') (tl r1); r2 = dropWhile (\<lambda>ch. ch \<noteq> CHR ''/'') (tl r1)
      in if r1 = [] \<or> r2 = [] \<or> ns = [] \<or> p = [] \<or> tl r2 = [] then None
         else Some (ns, p, tl r2))"

definition add_target :: "rat \<Rightarrow> string \<Rightarrow> string \<times> rat \<Rightarrow> target list" where
  "add_target gate resource o' =
     (if snd o' < gate then []
      else case splitPod (fst o') of
             None \<Rightarrow> []
           | Some (ns, p, c) \<Rightarrow>
               [\<lparr>t_namespace = ns, t_pod = p, t_container = c, t_resource = resource,
                 t_confidence = snd o'\<rparr>])"

definition confidentTargets :: "Snapshot \<Rightarrow> rat \<Rightarrow> target list" where
  "confidentTargets s gate =
     (let gate = (if gate \<le> 0 then ConfidenceMin s else gate)
      in concat (map (add_target gate ''cpu'') (Offenders s)) @
         concat (map (add_target gate ''disk'') (IOOffenders s)) @
         concat (map (add_target gate ''net'') (NetOffenders s)))"

definition isThrottled :: "string \<Rightarrow> remediator \<Rightarrow> bool" where
  "isThrottled key r \<longleftrightarrow> map_of (throttled r) key \<noteq> None"

definition takeCooldown :: "int \<Rightarrow> string \<Rightarrow> remediator \<Rightarrow> bool \<times> remediator" where
  "takeCooldown now key r =
     (case map_of (lastActed r) key of
        Some prev \<Rightarrow>
          (if now - prev < Cooldown (cfg r) then (False, r)
           else (True, r\<lparr>lastActed := AList.update key now (lastActed r)\<rparr>))
      | None \<Rightarrow> (True, r\<lparr>lastActed := AList.update key now (lastActed r)\<rparr>))"

definition clearCooldown :: "string \<Rightarrow> remediator \<Rightarrow> remediator" where
  "clearCooldown key r = r\<lparr>lastActed := AList.delete key (lastActed r)\<rparr>"

definition announce :: "api \<Rightarrow> target \<Rightarrow> remediator \<Rightarrow> remediator" where
  "announce a t r =
     (case emitEvent a (t_namespace t) (t_pod t) r of
        (True, r1) \<Rightarrow> r1
      | (False, r1) \<Rightarrow> clearCooldown (target_key t) r1)"

definition act :: "api \<Rightarrow> int \<Rightarrow> target \<Rightarrow> remediator \<Rightarrow> remediator" where
  "act a now t r =
     (if DryRun (cfg r) then r
      else if Resize (cfg r) \<and> t_resource t = ''cpu''
      then (case throttle a now t r of (True, r1) \<Rightarrow> r1 | (False, r1) \<Rightarrow> announce a t r1)
      else announce a t r)"

text \<open>The clock is read twice per target: for the cooldown and for the end of the throttle.\<close>

definition remediate_one :: "api \<Rightarrow> (target \<Rightarrow> int \<times> int) \<Rightarrow> target \<Rightarrow> remediator \<Rightarrow> remediator" where
  "remediate_one a clk t r =
     (if (case nsAllow r of None \<Rightarrow> False | Some ns \<Rightarrow> t_namespace t \<notin> set ns) then r
      else if isThrottled (target_key t) r then r
      else case takeCooldown (fst (clk t)) (target_key t) r of
             (False, r1) \<Rightarrow> r1
           | (True, r1) \<Rightarrow> act a (snd (clk t)) t r1)"

definition Remediate :: "api \<Rightarrow> (target \<Rightarrow> int \<times> int) \<Rightarrow> Snapshot \<Rightarrow> remediator \<Rightarrow> remediator" where
  "Remediate a clk s r =
     fold (remediate_one a clk) (confidentTargets s (ConfidenceThreshold (cfg r))) r"

end
