(* ===== verification/Throttling.thy ===== *)
theory Throttling
  imports Remediation
begin

text \<open>
  What the remediator guarantees: whom it acts on, how often, that a throttle is lifted
  with the original limit, and when a restarted controller knows of it.
\<close>

section \<open>Frames\<close>

text \<open>What belongs to one pod: when it was acted on, its throttle, and the calls about it.\<close>

definition pod_view :: "string \<Rightarrow> remediator \<Rightarrow> int option \<times> throttleState option \<times> call list" where
  "pod_view k r = (map_of (lastActed r) k, map_of (throttled r) k, filter (\<lambda>c. call_key c = k) (calls r))"

definition fixed :: "remediator \<Rightarrow> RemediationConfig \<times> string list option \<times> string" where
  "fixed r = (cfg r, nsAllow r, stateNS r)"

lemma fixed_update [simp]:
  "fixed (r\<lparr>throttled := x\<rparr>) = fixed r" "fixed (r\<lparr>calls := y\<rparr>) = fixed r"
  "fixed (r\<lparr>lastActed := z\<rparr>) = fixed r" "fixed (r\<lparr>cm_ledger := w\<rparr>) = fixed r"
  by (simp_all add: fixed_def)

lemma stateConfigMap_frame:
  "stateConfigMap a r = (res, r') \<Longrightarrow> pod_view k r' = pod_view k r \<and> fixed r' = fixed r \<and>
     throttled r' = throttled r \<and> calls r' = calls r \<and> lastActed r' = lastActed r"
  by (auto simp: stateConfigMap_def pod_view_def fixed_def split: if_splits option.splits api_error.splits)

lemma persist_frame [simp]:
  "pod_view k (persist a key st r) = pod_view k r" "fixed (persist a key st r) = fixed r"
  "throttled (persist a key st r) = throttled r" "calls (persist a key st r) = calls r"
  by (auto simp: persist_def pod_view_def fixed_def split: prod.splits sum.splits
      dest!: stateConfigMap_frame [where k = k])

lemma forget_frame [simp]:
  "pod_view k (forget a key r) = pod_view k r" "fixed (forget a key r) = fixed r"
  "throttled (forget a key r) = throttled r" "calls (forget a key r) = calls r"
  by (auto simp: forget_def pod_view_def fixed_def split: prod.splits sum.splits
      dest!: stateConfigMap_frame [where k = k])

lemma emitEvent_frame:
  "emitEvent a ns p r = (ok, r') \<Longrightarrow> fixed r' = fixed r \<and> throttled r' = throttled r \<and>
     cm_ledger r' = cm_ledger r \<and> set (calls r) \<subseteq> set (calls r') \<and>
     (pod_key ns p \<noteq> k \<longrightarrow> pod_view k r' = pod_view k r)"
  by (auto simp: emitEvent_def pod_view_def fixed_def split: if_splits)

lemma patch_frame:
  "patchCPULimit a ns p c cpu r = (e, r') \<Longrightarrow> fixed r' = fixed r \<and> throttled r' = throttled r \<and>
     cm_ledger r' = cm_ledger r \<and> set (calls r) \<subseteq> set (calls r') \<and>
     (pod_key ns p \<noteq> k \<longrightarrow> pod_view k r' = pod_view k r) \<and>
     e = patch_error a ns p c cpu \<and> (e = None \<longrightarrow> Patched ns p c cpu \<in> set (calls r')) \<and>
     (e \<noteq> None \<longrightarrow> r' = r)"
  by (auto simp: patchCPULimit_def pod_view_def fixed_def split: option.splits)

section \<open>Throttling one pod\<close>

definition throttle_record :: "api \<Rightarrow> int \<Rightarrow> target \<Rightarrow> remediator \<Rightarrow> rat \<Rightarrow> throttleState" where
  "throttle_record a now t r limit = \<lparr>ts_namespace = t_namespace t, ts_pod = t_pod t,
     ts_container = t_container t, originalCPULimit = quantity_string a limit,
     restoreAt = now + RestoreAfter (cfg r)\<rparr>"

lemma throttle_False: "throttle a now t r = (False, r') \<Longrightarrow> r' = r"
  by (auto simp: throttle_def Let_def split: option.splits prod.splits if_splits dest: patch_frame)

lemma throttle_True:
  assumes "throttle a now t r = (True, r')"
  obtains cs limit request r1 st where
    "get_pod a (t_namespace t) (t_pod t) = Some cs" "cpu_bounds (t_container t) cs = Some (limit, request)"
    "request < limit" "st = throttle_record a now t r limit"
    "patch_error a (t_namespace t) (t_pod t) (t_container t) (quantity_string a request) = None"
    "r1 = persist a (target_key t) st (r\<lparr>calls := Patched (t_namespace t) (t_pod t) (t_container t)
        (quantity_string a request) # calls r, throttled := AList.update (target_key t) st (throttled r)\<rparr>)"
    "r' = snd (emitEvent a (t_namespace t) (t_pod t) r1)"
proof -
  from assms obtain cs limit request where
    "get_pod a (t_namespace t) (t_pod t) = Some cs" "cpu_bounds (t_container t) cs = Some (limit, request)"
    "request < limit"
    "patch_error a (t_namespace t) (t_pod t) (t_container t) (quantity_string a request) = None"
    by (auto simp: throttle_def Let_def patchCPULimit_def split: option.splits prod.splits if_splits)
  moreover from this assms have "r' = snd (emitEvent a (t_namespace t) (t_pod t)
      (persist a (target_key t) (throttle_record a now t r limit)
        (r\<lparr>calls := Patched (t_namespace t) (t_pod t) (t_container t)
        (quantity_string a request) # calls r, throttled := AList.update (target_key t)
        (throttle_record a now t r limit) (throttled r)\<rparr>)))"
    by (simp add: throttle_def throttle_record_def patchCPULimit_def Let_def)
  ultimately show thesis by (intro that) auto
qed

lemma emitEvent_snd [simp]:
  "fixed (snd (emitEvent a ns p r)) = fixed r" "throttled (snd (emitEvent a ns p r)) = throttled r"
  "cm_ledger (snd (emitEvent a ns p r)) = cm_ledger r"
  "set (calls r) \<subseteq> set (calls (snd (emitEvent a ns p r)))"
  "pod_key ns p \<noteq> k \<Longrightarrow> pod_view k (snd (emitEvent a ns p r)) = pod_view k r"
  by (auto simp: emitEvent_def pod_view_def fixed_def)

lemma throttle_frame:
  assumes "throttle a now t r = (ok, r')"
  shows "fixed r' = fixed r \<and> (target_key t \<noteq> k \<longrightarrow> pod_view k r' = pod_view k r)"
proof (cases ok)
  case True
  with assms obtain st r1 cpu where r1: "r1 = persist a (target_key t) st (r\<lparr>calls := Patched (t_namespace t)
        (t_pod t) (t_container t) cpu # calls r, throttled := AList.update (target_key t) st (throttled r)\<rparr>)"
    and r': "r' = snd (emitEvent a (t_namespace t) (t_pod t) r1)"
    by (auto elim: throttle_True)
  have "fixed r1 = fixed r" by (simp add: r1)
  moreover have "pod_view k r1 = pod_view k r" if "target_key t \<noteq> k"
    using that by (simp add: r1) (simp add: pod_view_def target_key_def update_conv')
  ultimately show ?thesis by (simp add: r' target_key_def)
next
  case False
  with assms have "throttle a now t r = (False, r')" by simp
  then have "r' = r" by (rule throttle_False)
  then show ?thesis by simp
qed

lemma announce_frame:
  "fixed (announce a t r) = fixed r" "throttled (announce a t r) = throttled r"
  "cm_ledger (announce a t r) = cm_ledger r"
  "target_key t \<noteq> k \<Longrightarrow> pod_view k (announce a t r) = pod_view k r"
  by (auto simp: announce_def emitEvent_def clearCooldown_def pod_view_def fixed_def target_key_def
      delete_conv')

lemma act_frame:
  "fixed (act a now t r) = fixed r"
  "target_key t \<noteq> k \<Longrightarrow> pod_view k (act a now t r) = pod_view k r"
  using throttle_frame [of a now t r] announce_frame [where a = a and t = t]
  by (auto simp: act_def split: prod.splits bool.splits)

lemma takeCooldown_frame:
  "takeCooldown now key r = (ok, r') \<Longrightarrow> fixed r' = fixed r \<and> throttled r' = throttled r \<and>
     cm_ledger r' = cm_ledger r \<and> calls r' = calls r \<and> (key \<noteq> k \<longrightarrow> pod_view k r' = pod_view k r) \<and>
     (\<not> ok \<longrightarrow> r' = r)"
  by (auto simp: takeCooldown_def pod_view_def fixed_def update_conv' split: option.splits if_splits)

lemma remediate_one_frame:
  "fixed (remediate_one a clk t r) = fixed r"
  "target_key t \<noteq> k \<Longrightarrow> pod_view k (remediate_one a clk t r) = pod_view k r"
  by (auto simp: remediate_one_def act_frame split: prod.splits bool.splits option.splits
      dest!: takeCooldown_frame [where k = k])

text \<open>The three guards in front of every action.\<close>

definition blocked :: "(target \<Rightarrow> int \<times> int) \<Rightarrow> target \<Rightarrow> remediator \<Rightarrow> bool" where
  "blocked clk t r \<longleftrightarrow>
     (case nsAllow r of None \<Rightarrow> False | Some ns \<Rightarrow> t_namespace t \<notin> set ns) \<or>
     isThrottled (target_key t) r \<or>
     (\<exists>t1. map_of (lastActed r) (target_key t) = Some t1 \<and> fst (clk t) - t1 < Cooldown (cfg r))"

lemma remediate_one_blocked: "blocked clk t r \<Longrightarrow> remediate_one a clk t r = r"
  by (auto simp: blocked_def remediate_one_def takeCooldown_def)

lemma blocked_cong:
  "fixed r' = fixed r \<Longrightarrow> pod_view (target_key t) r' = pod_view (target_key t) r \<Longrightarrow>
     blocked clk t r' = blocked clk t r"
  by (simp add: blocked_def fixed_def pod_view_def isThrottled_def)

lemma fold_remediate_blocked:
  "\<forall>t \<in> set ts. target_key t = k \<longrightarrow> blocked clk t r \<Longrightarrow>
     pod_view k (fold (remediate_one a clk) ts r) = pod_view k r \<and>
     fixed (fold (remediate_one a clk) ts r) = fixed r"
proof (induction ts arbitrary: r)
  case (Cons t ts)
  let ?r = "remediate_one a clk t r"
  have same: "pod_view k ?r = pod_view k r" "fixed ?r = fixed r"
    using Cons.prems by (cases "target_key t = k") (simp_all add: remediate_one_blocked remediate_one_frame)
  then have "\<forall>t \<in> set ts. target_key t = k \<longrightarrow> blocked clk t ?r"
    using Cons.prems by (auto simp: blocked_cong [OF same(2)])
  from Cons.IH [OF this] same show ?case by simp
qed simp

section \<open>Restoring\<close>

definition st_key :: "throttleState \<Rightarrow> string" where
  "st_key st = pod_key (ts_namespace st) (ts_pod st)"

text \<open>The API accepts the original limit, or the pod is gone.\<close>

definition lifted :: "api \<Rightarrow> throttleState \<Rightarrow> bool" where
  "lifted a st \<longleftrightarrow> patch_error a (ts_namespace st) (ts_pod st) (ts_container st) (originalCPULimit st)
     \<in> {None, Some NotFound}"

lemma restore_eq: "restore a st r = (lifted a st, snd (restore a st r))"
  by (auto simp: restore_def patchCPULimit_def lifted_def split: option.splits api_error.splits)

lemma restore_frame:
  "throttled (snd (restore a st r)) = throttled r" "fixed (snd (restore a st r)) = fixed r"
  "cm_ledger (snd (restore a st r)) = cm_ledger r"
  "set (calls r) \<subseteq> set (calls (snd (restore a st r)))"
  "patch_error a (ts_namespace st) (ts_pod st) (ts_container st) (originalCPULimit st) = None \<Longrightarrow>
     Patched (ts_namespace st) (ts_pod st) (ts_container st) (originalCPULimit st) \<in>
       set (calls (snd (restore a st r)))"
  by (auto simp: restore_def patchCPULimit_def emitEvent_def fixed_def split: option.splits api_error.splits)

lemma restore_one_eq:
  "restore_one a st r = (if lifted a st then forget a (st_key st) (drop_throttle st (snd (restore a st r)))
     else snd (restore a st r))"
  by (subst restore_one_def, subst restore_eq) (simp add: st_key_def)

lemma restore_one_effect:
  "map_of (throttled (restore_one a st r)) k =
     (if k = st_key st \<and> lifted a st then None else map_of (throttled r) k)"
  "set (calls r) \<subseteq> set (calls (restore_one a st r))"
  "patch_error a (ts_namespace st) (ts_pod st) (ts_container st) (originalCPULimit st) = None \<Longrightarrow>
     Patched (ts_namespace st) (ts_pod st) (ts_container st) (originalCPULimit st) \<in>
       set (calls (restore_one a st r))"
  "fixed (restore_one a st r) = fixed r"
  using restore_frame [where a = a and st = st and r = r]
  by (auto simp: restore_one_eq drop_throttle_def st_key_def delete_conv')

lemma fold_restore_throttled:
  "map_of (throttled (fold (restore_one a) sts r)) k =
     (if \<exists>st \<in> set sts. st_key st = k \<and> lifted a st then None else map_of (throttled r) k)"
  by (induction sts arbitrary: r) (auto simp: restore_one_effect)

lemma fold_restore_frame:
  "set (calls r) \<subseteq> set (calls (fold (restore_one a) sts r)) \<and> fixed (fold (restore_one a) sts r) = fixed r"
proof (induction sts arbitrary: r)
  case (Cons st sts)
  from Cons [of "restore_one a st r"] restore_one_effect(2,4) [where a = a and st = st and r = r]
  show ?case by auto
qed simp

lemma fold_restore_calls:
  "st \<in> set sts \<Longrightarrow>
     patch_error a (ts_namespace st) (ts_pod st) (ts_container st) (originalCPULimit st) = None \<Longrightarrow>
     Patched (ts_namespace st) (ts_pod st) (ts_container st) (originalCPULimit st) \<in>
       set (calls (fold (restore_one a) sts r))"
proof (induction sts arbitrary: r)
  case (Cons s sts)
  show ?case
  proof (cases "s = st")
    case True
    with Cons.prems(2) restore_one_effect(3) [where a = a and st = st and r = r]
      fold_restore_frame [of "restore_one a st r" a sts] show ?thesis by auto
  next
    case False
    with Cons show ?thesis by simp
  qed
qed simp

text \<open>Throttles are filed under the pod they belong to.\<close>

definition throttles_wf :: "remediator \<Rightarrow> bool" where
  "throttles_wf r \<longleftrightarrow> distinct (map fst (throttled r)) \<and>
     (\<forall>k st. map_of (throttled r) k = Some st \<longrightarrow> st_key st = k)"

lemma throttles_wf_lookup: "throttles_wf r \<Longrightarrow> map_of (throttled r) k = Some st \<Longrightarrow> st_key st = k"
  by (simp add: throttles_wf_def)

text \<open>Splitting a label and putting it together again.\<close>

lemma slash_split:
  assumes "dropWhile (\<lambda>ch. ch \<noteq> x) s \<noteq> []"
  shows "s = takeWhile (\<lambda>ch. ch \<noteq> x) s @ x # tl (dropWhile (\<lambda>ch. ch \<noteq> x) s)"
proof -
  have "hd (dropWhile (\<lambda>ch. ch \<noteq> x) s) = x" using hd_dropWhile [OF assms] by simp
  then have "dropWhile (\<lambda>ch. ch \<noteq> x) s = x # tl (dropWhile (\<lambda>ch. ch \<noteq> x) s)"
    using assms by (metis list.collapse)
  then show ?thesis by (metis takeWhile_dropWhile_id)
qed

lemma splitPod_Some:
  assumes "splitPod label = Some (ns, p, c)"
  shows "ns \<noteq> [] \<and> p \<noteq> [] \<and> c \<noteq> [] \<and> CHR ''/'' \<notin> set ns \<and> CHR ''/'' \<notin> set p \<and>
     label = ns @ ''/'' @ p @ ''/'' @ c"
proof -
  let ?r1 = "dropWhile (\<lambda>ch. ch \<noteq> CHR ''/'') label"
  let ?r2 = "dropWhile (\<lambda>ch. ch \<noteq> CHR ''/'') (tl ?r1)"
  have ne: "?r1 \<noteq> []" "?r2 \<noteq> []" and parts: "ns = takeWhile (\<lambda>ch. ch \<noteq> CHR ''/'') label"
    "p = takeWhile (\<lambda>ch. ch \<noteq> CHR ''/'') (tl ?r1)" "c = tl ?r2" "ns \<noteq> []" "p \<noteq> []" "c \<noteq> []"
    using assms by (auto simp: splitPod_def Let_def split: if_splits)
  have "label = ns @ CHR ''/'' # tl ?r1" "tl ?r1 = p @ CHR ''/'' # c"
    using slash_split [OF ne(1)] slash_split [OF ne(2)] parts by simp_all
  then have "label = ns @ ''/'' @ p @ ''/'' @ c" by simp
  moreover have "CHR ''/'' \<notin> set ns" "CHR ''/'' \<notin> set p"
    using parts(1,2) by (auto dest: set_takeWhileD)
  ultimately show ?thesis using parts by simp
qed

lemma add_target_in:
  assumes "t \<in> set (add_target gate resource o')"
  shows "t_namespace t \<noteq> [] \<and> t_pod t \<noteq> [] \<and> t_container t \<noteq> [] \<and>
     CHR ''/'' \<notin> set (t_namespace t) \<and> CHR ''/'' \<notin> set (t_pod t) \<and> gate \<le> t_confidence t \<and>
     t_resource t = resource \<and>
     o' = (t_namespace t @ ''/'' @ t_pod t @ ''/'' @ t_container t, t_confidence t)"
proof -
  from assms obtain ns p c where "splitPod (fst o') = Some (ns, p, c)" "\<not> snd o' < gate"
    and t: "t = \<lparr>t_namespace = ns, t_pod = p, t_container = c, t_resource = resource, t_confidence = snd o'\<rparr>"
    by (cases "splitPod (fst o')") (auto simp: add_target_def split: if_splits)
  with splitPod_Some [OF this(1)] show ?thesis by (cases o') simp
qed

section \<open>Properties\<close>

text \<open>
  Whom the remediator acts on. Every target it takes from a snapshot is a real container,
  with nonempty namespace, pod and container name, the first two without a slash, so that
  its label can be read back in one way only; it was reported as an offender of the
  resource under exactly this label, with a confidence that reaches the gate (the
  policy's when it is positive, the snapshot's otherwise). In particular a label such as
  \<^verbatim>\<open>unknown\<close> or a system cgroup is never a target.
\<close>

theorem targets_attributed:
  assumes "t \<in> set (confidentTargets s gate)"
  shows "t_namespace t \<noteq> [] \<and> t_pod t \<noteq> [] \<and> t_container t \<noteq> [] \<and>
     CHR ''/'' \<notin> set (t_namespace t) \<and> CHR ''/'' \<notin> set (t_pod t) \<and>
     (if gate \<le> 0 then ConfidenceMin s else gate) \<le> t_confidence t \<and>
     (t_namespace t @ ''/'' @ t_pod t @ ''/'' @ t_container t, t_confidence t) \<in>
       (if t_resource t = ''cpu'' then set (Offenders s)
        else if t_resource t = ''disk'' then set (IOOffenders s) else set (NetOffenders s))"
proof -
  let ?gate = "if gate \<le> 0 then ConfidenceMin s else gate"
  from assms consider o' where "o' \<in> set (Offenders s)" "t \<in> set (add_target ?gate ''cpu'' o')"
    | o' where "o' \<in> set (IOOffenders s)" "t \<in> set (add_target ?gate ''disk'' o')"
    | o' where "o' \<in> set (NetOffenders s)" "t \<in> set (add_target ?gate ''net'' o')"
    unfolding confidentTargets_def Let_def set_append set_concat set_map by blast
  then show ?thesis
    by cases (drule add_target_in, simp)+
qed

definition demo_snapshot :: Snapshot where
  "demo_snapshot = \<lparr>NodeName = ''n1'', Healthy = False, ConfidenceMin = 1 / 2, Offenders = [(''default/web/app'', 3 / 4), (''unknown'', 1)],
     IOOffenders = [], NetOffenders = [(''default/web/app'', 1 / 4)]\<rparr>"

definition demo_target :: target where
  "demo_target = \<lparr>t_namespace = ''default'', t_pod = ''web'', t_container = ''app'', t_resource = ''cpu'',
     t_confidence = 3 / 4\<rparr>"

lemma demo_targets: "confidentTargets demo_snapshot 0 = [demo_target]"
  by (simp add: confidentTargets_def demo_snapshot_def demo_target_def add_target_def splitPod_def)

theorem targets_attributed_witness:
  "(''default/web/app'', 3 / 4) \<in> set (Offenders demo_snapshot) \<and> 1 / 2 \<le> t_confidence demo_target"
  using targets_attributed [of demo_target demo_snapshot 0] demo_targets
  by (simp add: demo_target_def demo_snapshot_def)

text \<open>
  C21. The guards hold for a whole pass. Whatever a snapshot contains and the API answers: a pod
  that is in a namespace where remediation is off, is already throttled, or was acted on
  less than the cooldown ago, is left alone. Its throttle and its last action stay as they
  are, and no call concerning it is made.
\<close>

theorem remediate_guards:
  assumes "\<forall>t \<in> set (confidentTargets s (ConfidenceThreshold (cfg r))). target_key t = k \<longrightarrow>
       (\<exists>ns. nsAllow r = Some ns \<and> t_namespace t \<notin> set ns) \<or> isThrottled k r \<or>
       (\<exists>t1. map_of (lastActed r) k = Some t1 \<and> fst (clk t) - t1 < Cooldown (cfg r))"
  shows "map_of (lastActed (Remediate a clk s r)) k = map_of (lastActed r) k \<and>
     map_of (throttled (Remediate a clk s r)) k = map_of (throttled r) k \<and>
     filter (\<lambda>c. call_key c = k) (calls (Remediate a clk s r)) = filter (\<lambda>c. call_key c = k) (calls r)"
proof -
  have "\<forall>t \<in> set (confidentTargets s (ConfidenceThreshold (cfg r))). target_key t = k \<longrightarrow> blocked clk t r"
    using assms by (auto simp: blocked_def)
  from fold_remediate_blocked [OF this, of a] show ?thesis
    by (simp add: Remediate_def pod_view_def)
qed

definition demo_cfg :: RemediationConfig where
  "demo_cfg = \<lparr>DryRun = False, Cooldown = 300, Resize = True, RestoreAfter = 600, Namespaces = [],
     ConfidenceThreshold = 0\<rparr>"

definition demo_api :: api where
  "demo_api = \<lparr>get_pod = (\<lambda>ns p. Some [\<lparr>c_name = ''app'', c_limit = Some 2, c_request = Some 1\<rparr>]),
     quantity_string = (\<lambda>q. if q = 2 then ''2'' else ''1''), patch_error = (\<lambda>ns p c cpu. None),
     event_ok = (\<lambda>ns p. True), cm_get_fails = False, cm_create_error = None,
     cm_reget = Inl OtherError, cm_update_error = None\<rparr>"

definition demo_rem :: remediator where
  "demo_rem = EnablePersistence ''sys'' (NewRemediator demo_cfg)"

theorem remediate_guards_witness:
  "calls (Remediate demo_api (\<lambda>_. (1000, 1000)) demo_snapshot
     (demo_rem\<lparr>lastActed := [(''default/web'', 900)]\<rparr>)) = []"
proof -
  let ?r = "demo_rem\<lparr>lastActed := [(''default/web'', 900)]\<rparr>"
  have r: "cfg ?r = demo_cfg" "calls ?r = []"
    by (simp_all add: demo_rem_def EnablePersistence_def NewRemediator_def demo_cfg_def)
  have key: "target_key demo_target = ''default/web''"
    by (simp add: target_key_def pod_key_def demo_target_def)
  have one: "blocked (\<lambda>_. (1000, 1000)) demo_target ?r"
    using r key by (simp add: blocked_def demo_cfg_def)
  have "filter (\<lambda>c. call_key c = ''default/web'') (calls (Remediate demo_api (\<lambda>_. (1000, 1000)) demo_snapshot ?r)) = []"
    using remediate_guards [of demo_snapshot ?r "''default/web''" "\<lambda>_. (1000, 1000)" demo_api] r demo_targets
    by (simp add: demo_cfg_def)
  moreover have "Remediate demo_api (\<lambda>_. (1000, 1000)) demo_snapshot ?r = ?r"
    using one r demo_targets by (simp add: Remediate_def demo_cfg_def remediate_one_blocked)
  ultimately show ?thesis by (simp add: r)
qed

text \<open>
  C22. Throttles are lifted. At a tick after a throttle's window the pod gets its original limit
  back by a patch, and the throttle is dropped, if the API accepts the patch; it is dropped
  as well if the pod is gone; on any other failure it stays for the next tick. A throttle
  whose window is not over stays untouched.
\<close>

theorem restoreDue_lifts:
  assumes "throttles_wf r" and "map_of (throttled r) k = Some st"
    and "answer = patch_error a (ts_namespace st) (ts_pod st) (ts_container st) (originalCPULimit st)"
  shows "map_of (throttled (restoreDue a now r)) k =
       (if now > restoreAt st \<and> answer \<in> {None, Some NotFound} then None else Some st) \<and>
     (now > restoreAt st \<and> answer = None \<longrightarrow>
        Patched (ts_namespace st) (ts_pod st) (ts_container st) (originalCPULimit st) \<in>
          set (calls (restoreDue a now r)))"
proof -
  let ?due = "filter (\<lambda>st. now > restoreAt st) (map snd (throttled r))"
  have mem: "(k, st) \<in> set (throttled r)" using assms(2) by (rule map_of_SomeD)
  have key: "st_key st = k" using throttles_wf_lookup [OF assms(1,2)] .
  have uniq: "st' = st" if "st' \<in> snd ` set (throttled r)" "st_key st' = k" for st'
  proof -
    from that(1) obtain k' where k': "(k', st') \<in> set (throttled r)" by auto
    then have st': "map_of (throttled r) k' = Some st'"
      using assms(1) by (simp add: throttles_wf_def map_of_is_SomeI)
    then have "k' = k" using assms(1) that(2) by (simp add: throttles_wf_def)
    with st' assms(2) show ?thesis by simp
  qed
  have "(\<exists>st' \<in> set ?due. st_key st' = k \<and> lifted a st') \<longleftrightarrow> now > restoreAt st \<and> lifted a st"
  proof
    assume "\<exists>st' \<in> set ?due. st_key st' = k \<and> lifted a st'"
    then obtain st' where "st' \<in> snd ` set (throttled r)" "st_key st' = k" "now > restoreAt st'" "lifted a st'"
      by auto
    with uniq show "now > restoreAt st \<and> lifted a st" by blast
  next
    assume "now > restoreAt st \<and> lifted a st"
    moreover have "st \<in> set (map snd (throttled r))" using mem by force
    ultimately show "\<exists>st' \<in> set ?due. st_key st' = k \<and> lifted a st'" using key by auto
  qed
  then have "map_of (throttled (restoreDue a now r)) k =
      (if now > restoreAt st \<and> answer \<in> {None, Some NotFound} then None else Some st)"
    using assms(2,3) by (simp add: restoreDue_def fold_restore_throttled lifted_def)
  moreover have "now > restoreAt st \<Longrightarrow> answer = None \<Longrightarrow>
      Patched (ts_namespace st) (ts_pod st) (ts_container st) (originalCPULimit st) \<in>
        set (calls (restoreDue a now r))"
    unfolding restoreDue_def using mem assms(3) by (intro fold_restore_calls) force+
  ultimately show ?thesis by blast
qed

theorem restoreDue_lifts_witness:
  "map_of (throttled (restoreDue demo_api 2000 (demo_rem\<lparr>throttled := [(''default/web'',
     \<lparr>ts_namespace = ''default'', ts_pod = ''web'', ts_container = ''app'', originalCPULimit = ''2'',
       restoreAt = 1600\<rparr>)]\<rparr>))) ''default/web'' = None"
proof -
  let ?st = "\<lparr>ts_namespace = ''default'', ts_pod = ''web'', ts_container = ''app'', originalCPULimit = ''2'',
     restoreAt = 1600\<rparr> :: throttleState"
  have "throttles_wf (demo_rem\<lparr>throttled := [(''default/web'', ?st)]\<rparr>)"
    by (simp add: throttles_wf_def st_key_def pod_key_def)
  from restoreDue_lifts [OF this, of "''default/web''" ?st _ demo_api 2000] show ?thesis
    by (simp add: demo_api_def)
qed

text \<open>
  What a throttle does. It succeeds exactly if the pod exists, the container has a CPU
  request below its limit, and the API accepts the resize. Then the limit has been lowered
  to the request, the limit it had and the end of the window are on record under the pod,
  and all other pods are untouched; if it does not succeed, nothing has changed at all.
\<close>

theorem throttle_effective:
  assumes "throttle a now t r = (ok, r')"
  shows "ok = (\<exists>cs limit request. get_pod a (t_namespace t) (t_pod t) = Some cs \<and>
       cpu_bounds (t_container t) cs = Some (limit, request) \<and> request < limit \<and>
       patch_error a (t_namespace t) (t_pod t) (t_container t) (quantity_string a request) = None) \<and>
     (\<not> ok \<longrightarrow> r' = r) \<and>
     (ok \<longrightarrow> (\<exists>cs limit request. get_pod a (t_namespace t) (t_pod t) = Some cs \<and>
       cpu_bounds (t_container t) cs = Some (limit, request) \<and> request < limit \<and>
       Patched (t_namespace t) (t_pod t) (t_container t) (quantity_string a request) \<in> set (calls r') \<and>
       map_of (throttled r') = (map_of (throttled r))(target_key t \<mapsto>
         \<lparr>ts_namespace = t_namespace t, ts_pod = t_pod t, ts_container = t_container t,
          originalCPULimit = quantity_string a limit, restoreAt = now + RestoreAfter (cfg r)\<rparr>)))"
proof (cases ok)
  case False
  with assms have f: "throttle a now t r = (False, r')" by simp
  from throttle_False [OF this] False f show ?thesis
    by (auto simp: throttle_def patchCPULimit_def Let_def split: option.splits if_splits)
next
  case True
  with assms obtain cs limit request r1 st where g:
    "get_pod a (t_namespace t) (t_pod t) = Some cs" "cpu_bounds (t_container t) cs = Some (limit, request)"
    "request < limit" "st = throttle_record a now t r limit"
    "patch_error a (t_namespace t) (t_pod t) (t_container t) (quantity_string a request) = None"
    and r1: "r1 = persist a (target_key t) st (r\<lparr>calls := Patched (t_namespace t) (t_pod t) (t_container t)
        (quantity_string a request) # calls r, throttled := AList.update (target_key t) st (throttled r)\<rparr>)"
    and r': "r' = snd (emitEvent a (t_namespace t) (t_pod t) r1)"
    by (auto elim: throttle_True)
  have "map_of (throttled r') = (map_of (throttled r))(target_key t \<mapsto> st)"
    by (simp add: r' r1 update_conv')
  moreover have "Patched (t_namespace t) (t_pod t) (t_container t) (quantity_string a request) \<in> set (calls r')"
    using emitEvent_snd(4) [of r1 a "t_namespace t" "t_pod t"] by (auto simp: r' r1)
  ultimately show ?thesis using True g by (simp add: throttle_record_def)
qed

theorem throttle_effective_witness:
  "map_of (throttled (snd (throttle demo_api 1000 demo_target demo_rem))) ''default/web'' =
     Some \<lparr>ts_namespace = ''default'', ts_pod = ''web'', ts_container = ''app'', originalCPULimit = ''2'',
       restoreAt = 1600\<rparr>"
proof -
  obtain ok r' where th: "throttle demo_api 1000 demo_target demo_rem = (ok, r')" by force
  have "RestoreAfter (cfg demo_rem) = 600"
    by (simp add: demo_rem_def EnablePersistence_def NewRemediator_def demo_cfg_def)
  with throttle_effective [OF th] th show ?thesis
    by (auto simp: demo_api_def demo_target_def cpu_bounds_def target_key_def pod_key_def)
qed

end
