(* ===== verification/Throttle_Ledger.thy ===== *)
theory Throttle_Ledger
  imports Throttling
begin

text \<open>
  Restart safety. The ledger mirrors the throttles in memory as long as the API accepts the
  writes, so that a fresh controller that reads it resumes every throttle; and the one
  interleaving of the restore loop with a new throttle in which the mirror breaks.
\<close>

section \<open>Ledger keys\<close>

text \<open>Kubernetes names have no underscore, so no two pods share a ledger key.\<close>

definition clean :: "string \<Rightarrow> bool" where
  "clean k \<longleftrightarrow> CHR ''_'' \<notin> set k"

lemma cmKey_inverse:
  "clean k \<Longrightarrow> map (\<lambda>ch. if ch = CHR ''_'' then CHR ''/'' else ch) (cmKey k) = k"
  unfolding cmKey_def clean_def by (induction k) auto

lemma cmKey_inj: "clean k \<Longrightarrow> clean k' \<Longrightarrow> cmKey k = cmKey k' \<longleftrightarrow> k = k'"
  by (metis cmKey_inverse)

section \<open>The mirror\<close>

definition entries :: "remediator \<Rightarrow> ledger" where
  "entries r = (case cm_ledger r of None \<Rightarrow> [] | Some d \<Rightarrow> d)"

definition cm_ok :: "api \<Rightarrow> bool" where
  "cm_ok a \<longleftrightarrow> \<not> cm_get_fails a \<and> cm_create_error a = None \<and> cm_update_error a = None"

lemma stateConfigMap_ok:
  "cm_ok a \<Longrightarrow> \<exists>r1. stateConfigMap a r = (Inr (entries r), r1) \<and> entries r1 = entries r"
  by (auto simp: stateConfigMap_def cm_ok_def entries_def split: option.split)

lemma persist_entries:
  assumes "cm_ok a" and "stateNS r \<noteq> []"
  shows "entries (persist a k st r) = AList.update (cmKey k) (Some (to_persisted st)) (entries r)"
  using stateConfigMap_ok [OF assms(1), of r] assms
  by (auto simp: persist_def cm_ok_def) (simp add: entries_def)

lemma forget_entries:
  assumes "cm_ok a" and "stateNS r \<noteq> []"
  shows "entries (forget a k r) = AList.delete (cmKey k) (entries r)"
proof -
  obtain r1 where r1: "stateConfigMap a r = (Inr (entries r), r1)" "entries r1 = entries r"
    using stateConfigMap_ok [OF assms(1), of r] by blast
  show ?thesis
  proof (cases "map_of (entries r) (cmKey k)")
    case None
    then have "AList.delete (cmKey k) (entries r) = entries r"
      by (simp add: map_of_eq_None_iff delete_idem)
    with r1 None assms show ?thesis by (simp add: forget_def)
  next
    case (Some v)
    with r1 assms show ?thesis by (simp add: forget_def cm_ok_def) (simp add: entries_def)
  qed
qed

text \<open>
  Every throttle in memory is of a well-named pod and has its entry under its key; every
  entry belongs to a throttle.
\<close>

definition mirror :: "(string \<rightharpoonup> throttleState) \<Rightarrow> (string \<rightharpoonup> persistedThrottle option) \<Rightarrow> bool" where
  "mirror T E \<longleftrightarrow>
     (\<forall>k st. T k = Some st \<longrightarrow> st_key st = k \<and> clean k \<and> ts_namespace st \<noteq> [] \<and> ts_pod st \<noteq> []) \<and>
     (\<forall>k. clean k \<longrightarrow> E (cmKey k) = map_option (\<lambda>st. Some (to_persisted st)) (T k)) \<and>
     (\<forall>ck. E ck \<noteq> None \<longrightarrow> (\<exists>k. ck = cmKey k \<and> T k \<noteq> None))"

lemma mirror_update:
  assumes "mirror T E" and "st_key st = k" and "clean k" and "ts_namespace st \<noteq> []" and "ts_pod st \<noteq> []"
  shows "mirror (T(k \<mapsto> st)) (E(cmKey k \<mapsto> Some (to_persisted st)))"
proof -
  have "\<exists>k'. ck = cmKey k' \<and> (T(k \<mapsto> st)) k' \<noteq> None"
    if "(E(cmKey k \<mapsto> Some (to_persisted st))) ck \<noteq> None" for ck
  proof (cases "ck = cmKey k")
    case False
    with that have "E ck \<noteq> None" by simp
    with assms(1) obtain k' where "ck = cmKey k'" "T k' \<noteq> None" unfolding mirror_def by blast
    then show ?thesis by (intro exI [of _ k']) simp
  qed (intro exI [of _ k], simp)
  with assms show ?thesis unfolding mirror_def by (auto simp: cmKey_inj)
qed

lemma mirror_delete:
  assumes "mirror T E" and "clean k"
  shows "mirror (T(k := None)) (E(cmKey k := None))"
proof -
  have "\<exists>k'. ck = cmKey k' \<and> (T(k := None)) k' \<noteq> None" if "(E(cmKey k := None)) ck \<noteq> None" for ck
  proof -
    from that have "ck \<noteq> cmKey k" "E ck \<noteq> None" by (auto split: if_splits)
    with assms(1) obtain k' where "ck = cmKey k'" "T k' \<noteq> None" unfolding mirror_def by blast
    with \<open>ck \<noteq> cmKey k\<close> show ?thesis by auto
  qed
  with assms show ?thesis unfolding mirror_def by (auto simp: cmKey_inj)
qed

definition mirrored :: "remediator \<Rightarrow> bool" where
  "mirrored r \<longleftrightarrow> stateNS r \<noteq> [] \<and> distinct (map fst (throttled r)) \<and> distinct (map fst (entries r)) \<and>
     mirror (map_of (throttled r)) (map_of (entries r))"

lemma mirrored_update:
  assumes "mirrored r" and "throttled r' = AList.update k st (throttled r)"
    and "entries r' = AList.update (cmKey k) (Some (to_persisted st)) (entries r)"
    and "stateNS r' = stateNS r" and "st_key st = k" and "clean k" and "ts_namespace st \<noteq> []" and "ts_pod st \<noteq> []"
  shows "mirrored r'"
  using assms by (simp add: mirrored_def distinct_update update_conv' mirror_update)

lemma mirrored_delete:
  assumes "mirrored r" and "throttled r' = AList.delete k (throttled r)"
    and "entries r' = AList.delete (cmKey k) (entries r)" and "stateNS r' = stateNS r" and "clean k"
  shows "mirrored r'"
  using assms by (simp add: mirrored_def distinct_delete delete_conv' mirror_delete)

lemma mirrored_cong:
  "throttled r' = throttled r \<Longrightarrow> cm_ledger r' = cm_ledger r \<Longrightarrow> stateNS r' = stateNS r \<Longrightarrow>
     mirrored r' = mirrored r"
  by (simp add: mirrored_def entries_def)

section \<open>Every step keeps the mirror\<close>

definition named :: "target \<Rightarrow> bool" where
  "named t \<longleftrightarrow> clean (t_namespace t) \<and> clean (t_pod t) \<and> t_namespace t \<noteq> [] \<and> t_pod t \<noteq> []"

lemma named_key: "named t \<Longrightarrow> clean (target_key t)"
  by (simp add: named_def clean_def target_key_def pod_key_def)

lemma stateNS_fixed: "fixed r' = fixed r \<Longrightarrow> stateNS r' = stateNS r"
  by (simp add: fixed_def)

lemma entries_cong: "cm_ledger r' = cm_ledger r \<Longrightarrow> entries r' = entries r"
  by (simp add: entries_def)

lemma throttle_effect:
  assumes "throttle a now t r = (True, r')" and "cm_ok a" and "stateNS r \<noteq> []"
  obtains st where "throttled r' = AList.update (target_key t) st (throttled r)"
    "entries r' = AList.update (cmKey (target_key t)) (Some (to_persisted st)) (entries r)"
    "stateNS r' = stateNS r" "st_key st = target_key t"
    "ts_namespace st = t_namespace t" "ts_pod st = t_pod t"
proof -
  from assms(1) obtain limit st r1 c where st: "st = throttle_record a now t r limit"
    and r1: "r1 = persist a (target_key t) st (r\<lparr>calls := c # calls r,
        throttled := AList.update (target_key t) st (throttled r)\<rparr>)"
    and r': "r' = snd (emitEvent a (t_namespace t) (t_pod t) r1)"
    by (auto elim: throttle_True)
  have "entries r1 = AList.update (cmKey (target_key t)) (Some (to_persisted st)) (entries r)"
    using assms(3) by (simp add: r1 persist_entries [OF assms(2)]) (simp add: entries_def)
  then have "entries r' = AList.update (cmKey (target_key t)) (Some (to_persisted st)) (entries r)"
    unfolding r' by (simp add: entries_def)
  moreover have "throttled r' = AList.update (target_key t) st (throttled r)" by (simp add: r' r1)
  moreover have "stateNS r' = stateNS r" by (rule stateNS_fixed) (simp add: r' r1)
  moreover have "st_key st = target_key t" "ts_namespace st = t_namespace t" "ts_pod st = t_pod t"
    by (simp_all add: st throttle_record_def st_key_def target_key_def)
  ultimately show thesis using that by blast
qed

lemma mirrored_throttle:
  assumes "mirrored r" and "cm_ok a" and "named t" and "throttle a now t r = (ok, r')"
  shows "mirrored r'"
proof (cases ok)
  case False
  with assms(4) have "throttle a now t r = (False, r')" by simp
  then have "r' = r" by (rule throttle_False)
  with assms(1) show ?thesis by simp
next
  case True
  with assms(1,2,4) obtain st where "throttled r' = AList.update (target_key t) st (throttled r)"
    "entries r' = AList.update (cmKey (target_key t)) (Some (to_persisted st)) (entries r)"
    "stateNS r' = stateNS r" "st_key st = target_key t"
    "ts_namespace st = t_namespace t" "ts_pod st = t_pod t"
    by (auto simp: mirrored_def elim: throttle_effect)
  with mirrored_update [OF assms(1) this(1-3)] assms(3) named_key show ?thesis by (simp add: named_def)
qed

lemma mirrored_announce: "mirrored (announce a t r) = mirrored r"
  by (intro mirrored_cong announce_frame stateNS_fixed)

lemma mirrored_remediate_one:
  assumes "mirrored r" and "cm_ok a" and "named t"
  shows "mirrored (remediate_one a clk t r)"
proof -
  have act: "mirrored (act a now t q)" if "mirrored q" for now q
    using mirrored_throttle [OF that assms(2,3)] that
    by (auto simp: act_def mirrored_announce split: prod.splits bool.splits)
  obtain ok q where q: "takeCooldown (fst (clk t)) (target_key t) r = (ok, q)" by force
  have "mirrored q = mirrored r"
    using takeCooldown_frame [OF q] by (intro mirrored_cong stateNS_fixed) simp_all
  with act assms(1) have "mirrored q" "mirrored (act a (snd (clk t)) t q)" by simp_all
  with q assms(1) show ?thesis
    by (cases ok) (simp_all add: remediate_one_def)
qed

lemma mirrored_restore_one:
  assumes "mirrored r" and "cm_ok a" and "clean (st_key st)"
  shows "mirrored (restore_one a st r)"
proof -
  let ?q = "snd (restore a st r)"
  have "mirrored ?q = mirrored r"
    by (intro mirrored_cong stateNS_fixed restore_frame)
  with assms(1) have q: "mirrored ?q" "stateNS ?q \<noteq> []" by (simp_all add: mirrored_def)
  have "mirrored (forget a (st_key st) (drop_throttle st ?q))"
  proof (rule mirrored_delete [OF q(1) _ _ _ assms(3)])
    show "throttled (forget a (st_key st) (drop_throttle st ?q)) = AList.delete (st_key st) (throttled ?q)"
      by (simp add: drop_throttle_def st_key_def)
    show "entries (forget a (st_key st) (drop_throttle st ?q)) = AList.delete (cmKey (st_key st)) (entries ?q)"
      using q(2) by (simp add: forget_entries [OF assms(2)] drop_throttle_def) (simp add: entries_def)
    show "stateNS (forget a (st_key st) (drop_throttle st ?q)) = stateNS ?q"
      by (rule stateNS_fixed) (simp add: drop_throttle_def)
  qed
  with q(1) show ?thesis by (simp add: restore_one_eq)
qed

section \<open>Reading the ledger back\<close>

definition resumed :: "string \<times> persistedThrottle option \<Rightarrow> string \<times> throttleState" where
  "resumed e = (let st = of_persisted (the (snd e)) in (st_key st, st))"

lemma of_to_persisted [simp]: "of_persisted (to_persisted st) = st"
  by (simp add: of_persisted_def to_persisted_def)

lemma to_persisted_sel [simp]:
  "p_Namespace (to_persisted st) = ts_namespace st" "p_Pod (to_persisted st) = ts_pod st"
  by (simp_all add: to_persisted_def)

lemma mirror_entry:
  assumes "mirror T (map_of E)" and "distinct (map fst E)" and "e \<in> set E"
  obtains st where "e = (cmKey (st_key st), Some (to_persisted st))" "T (st_key st) = Some st"
    "ts_namespace st \<noteq> []" "ts_pod st \<noteq> []" "resumed e = (st_key st, st)"
proof -
  obtain ck v where e: "e = (ck, v)" by (cases e)
  with assms(2,3) have v: "map_of E ck = Some v" by simp
  with assms(1) obtain k st where k: "ck = cmKey k" "T k = Some st" unfolding mirror_def by blast
  with assms(1) have st: "st_key st = k" "clean k" "ts_namespace st \<noteq> []" "ts_pod st \<noteq> []"
    unfolding mirror_def by blast+
  with assms(1) k v have "v = Some (to_persisted st)" unfolding mirror_def by simp
  with that [of st] e k st show thesis by (simp add: resumed_def)
qed

lemma recover_is_update:
  assumes "mirror T (map_of E)" and "distinct (map fst E)" and "e \<in> set E"
  shows "recover_entry (snd e) m = (\<lambda>(k, v). AList.update k v) (resumed e) m"
  using assms
  by (rule mirror_entry) (simp add: recover_entry_def st_key_def)

lemma recover_mirror:
  assumes "mirror T (map_of E)" and "distinct (map fst E)"
  shows "map_of (fold recover_entry (map snd E) []) = T"
proof
  fix k
  let ?l = "map resumed E"
  have "cmKey (fst (resumed e)) = fst e" if "e \<in> set E" for e
    using assms that by (rule mirror_entry) simp
  then have "map cmKey (map fst ?l) = map fst E" by simp
  then have "distinct (map cmKey (map fst ?l))" using assms(2) by (simp only:)
  then have d: "distinct (map fst ?l)" by (simp only: distinct_map)
  have "fold recover_entry (map snd E) [] = fold (\<lambda>(k, v). AList.update k v) ?l []"
    unfolding fold_map comp_def by (rule fold_cong) (simp_all add: recover_is_update [OF assms] fun_eq_iff)
  then have eq: "map_of (fold recover_entry (map snd E) []) k = map_of ?l k"
    using map_of_fold_update [OF d, of "[]" k] by (simp split: option.split)
  show "map_of (fold recover_entry (map snd E) []) k = T k"
  proof (cases "T k")
    case None
    have "k \<notin> fst ` set ?l"
    proof
      assume "k \<in> fst ` set ?l"
      then obtain e where "e \<in> set E" "k = fst (resumed e)" by auto
      with None show False using mirror_entry [OF assms, of e] by (metis fst_conv option.distinct(1))
    qed
    with None eq show ?thesis by (simp add: map_of_eq_None_iff)
  next
    case (Some st)
    with assms(1) have "map_of E (cmKey k) = Some (Some (to_persisted st))" and st: "st_key st = k"
      unfolding mirror_def by auto
    from map_of_SomeD [OF this(1)] have "(k, st) \<in> set ?l"
      using st by (force simp: resumed_def)
    with d Some eq show ?thesis by simp
  qed
qed

section \<open>A controller and its restarts\<close>

text \<open>
  What happens to the controller: a pass over a snapshot, a tick of the restore loop, and a
  restart, which keeps only the ledger and starts from \<open>Recover\<close>.
\<close>

datatype event =
    Pass api "target \<Rightarrow> int \<times> int" Snapshot
  | Tick api int
  | Restart api RemediationConfig

definition restart :: "api \<Rightarrow> RemediationConfig \<Rightarrow> remediator \<Rightarrow> remediator" where
  "restart a c r = Recover a ((EnablePersistence (stateNS r) (NewRemediator c))
     \<lparr>cm_ledger := cm_ledger r, calls := calls r\<rparr>)"

fun controller_step :: "event \<Rightarrow> remediator \<Rightarrow> remediator" where
  "controller_step (Pass a clk s) r = Remediate a clk s r"
| "controller_step (Tick a now) r = restoreDue a now r"
| "controller_step (Restart a c) r = restart a c r"

fun event_api :: "event \<Rightarrow> api" where
  "event_api (Pass a clk s) = a"
| "event_api (Tick a now) = a"
| "event_api (Restart a c) = a"

fun event_labels :: "event \<Rightarrow> string list" where
  "event_labels (Pass a clk s) = map fst (Offenders s @ IOOffenders s @ NetOffenders s)"
| "event_labels (Tick a now) = []"
| "event_labels (Restart a c) = []"

lemma clean_append [simp]: "clean (xs @ ys) \<longleftrightarrow> clean xs \<and> clean ys"
  by (auto simp: clean_def)

lemma clean_Nil [simp]: "clean []"
  by (simp add: clean_def)

lemma clean_Cons [simp]: "clean (x # xs) \<longleftrightarrow> x \<noteq> CHR ''_'' \<and> clean xs"
  by (auto simp: clean_def)

lemma confident_named:
  assumes "t \<in> set (confidentTargets s gate)" and "\<forall>l \<in> set (event_labels (Pass a clk s)). clean l"
  shows "named t"
proof -
  let ?gate = "if gate \<le> 0 then ConfidenceMin s else gate"
  from assms(1) obtain resource o' where t: "t \<in> set (add_target ?gate resource o')"
    and "o' \<in> set (Offenders s @ IOOffenders s @ NetOffenders s)"
    by (auto simp: confidentTargets_def Let_def)
  then have "clean (fst o')" using assms(2) by auto
  with add_target_in [OF t] show ?thesis by (auto simp: named_def)
qed

lemma mirrored_fold:
  "mirrored r \<Longrightarrow> (\<And>x q. x \<in> set xs \<Longrightarrow> mirrored q \<Longrightarrow> mirrored (f x q)) \<Longrightarrow> mirrored (fold f xs r)"
  by (induction xs arbitrary: r) auto

lemma mirrored_clean:
  "mirrored r \<Longrightarrow> st \<in> set (map snd (throttled r)) \<Longrightarrow> clean (st_key st)"
  unfolding mirrored_def mirror_def by (auto simp: map_of_eq_Some_iff)

lemma restart_frame: "entries (restart a c r) = entries r" "stateNS (restart a c r) = stateNS r"
  by (auto simp: restart_def Recover_def EnablePersistence_def NewRemediator_def Let_def
      entries_def split: option.split)

lemma restart_throttled:
  assumes "stateNS r \<noteq> []" and "cm_ok a"
  shows "throttled (restart a c r) = fold recover_entry (map snd (entries r)) []"
  using assms by (auto simp: restart_def Recover_def EnablePersistence_def NewRemediator_def Let_def
      entries_def cm_ok_def split: option.split)

lemma recover_distinct:
  "distinct (map fst m) \<Longrightarrow> distinct (map fst (fold recover_entry raws m))"
  by (induction raws arbitrary: m)
    (auto simp: recover_entry_def distinct_update split: option.split)

lemma restart_recovers:
  assumes "mirror T (map_of (entries r))" and "distinct (map fst (entries r))"
    and "stateNS r \<noteq> []" and "cm_ok a"
  shows "map_of (throttled (restart a c r)) = T"
  using recover_mirror [OF assms(1,2)] restart_throttled [OF assms(3,4)] by simp

lemma mirrored_restart:
  assumes "mirrored r" and "cm_ok a"
  shows "mirrored (restart a c r)" "map_of (throttled (restart a c r)) = map_of (throttled r)"
proof -
  have "distinct (map fst (throttled (restart a c r)))"
    using assms by (simp add: restart_throttled mirrored_def recover_distinct)
  moreover show "map_of (throttled (restart a c r)) = map_of (throttled r)"
    using assms by (intro restart_recovers) (simp_all add: mirrored_def)
  ultimately show "mirrored (restart a c r)"
    using assms by (simp add: mirrored_def restart_frame)
qed

lemma mirrored_step:
  assumes "mirrored r" and "cm_ok (event_api e)" and "\<forall>l \<in> set (event_labels e). clean l"
  shows "mirrored (controller_step e r)"
proof (cases e)
  case (Pass a clk s)
  have "mirrored (Remediate a clk s r)" unfolding Remediate_def
  proof (rule mirrored_fold [OF assms(1)])
    fix t q
    assume "t \<in> set (confidentTargets s (ConfidenceThreshold (cfg r)))" "mirrored q"
    with confident_named [OF this(1)] assms(2,3) Pass show "mirrored (remediate_one a clk t q)"
      by (intro mirrored_remediate_one) simp_all
  qed
  with Pass show ?thesis by simp
next
  case (Tick a now)
  have "mirrored (restoreDue a now r)" unfolding restoreDue_def
  proof (rule mirrored_fold [OF assms(1)])
    fix st q
    assume "st \<in> set (filter (\<lambda>st. now > restoreAt st) (map snd (throttled r)))" "mirrored q"
    moreover from this mirrored_clean [OF assms(1)] have "clean (st_key st)" by simp
    ultimately show "mirrored (restore_one a st q)"
      using assms(2) Tick by (intro mirrored_restore_one) simp_all
  qed
  with Tick show ?thesis by simp
next
  case (Restart a c)
  with mirrored_restart(1) [OF assms(1)] assms(2) show ?thesis by simp
qed

lemma mirrored_start: "ns \<noteq> [] \<Longrightarrow> mirrored (EnablePersistence ns (NewRemediator c))"
  by (simp add: mirrored_def mirror_def EnablePersistence_def NewRemediator_def Let_def entries_def)

definition orderly :: "event \<Rightarrow> bool" where
  "orderly e \<longleftrightarrow> cm_ok (event_api e) \<and> list_all clean (event_labels e)"

lemma mirrored_run:
  "mirrored r \<Longrightarrow> list_all orderly es \<Longrightarrow> mirrored (fold controller_step es r)"
  by (induction es arbitrary: r) (auto simp: orderly_def list_all_iff intro: mirrored_step)

section \<open>Properties\<close>


lemma demo_cm_ok: "cm_ok demo_api"
  by (simp add: cm_ok_def demo_api_def)

lemma demo_pass:
  "throttled (Remediate demo_api (\<lambda>_. (1000, 1000)) demo_snapshot demo_rem) =
     [(''default/web'', \<lparr>ts_namespace = ''default'', ts_pod = ''web'', ts_container = ''app'',
        originalCPULimit = ''2'', restoreAt = 1600\<rparr>)]"
proof -
  have r: "cfg demo_rem = demo_cfg" "throttled demo_rem = []" "lastActed demo_rem = []" "nsAllow demo_rem = None"
    by (simp_all add: demo_rem_def EnablePersistence_def NewRemediator_def demo_cfg_def)
  have "isThrottled k demo_rem = False" "takeCooldown 1000 k demo_rem =
      (True, demo_rem\<lparr>lastActed := [(k, 1000)]\<rparr>)" for k
    using r by (simp_all add: isThrottled_def takeCooldown_def)
  then show ?thesis
    using r demo_targets
    by (simp add: Remediate_def demo_cfg_def remediate_one_def act_def throttle_def demo_api_def
        cpu_bounds_def patchCPULimit_def demo_target_def Let_def target_key_def pod_key_def)
qed


text \<open>
  C23. The interleaving that loses a throttle. The restore loop first drops a lifted throttle from
  the memory, under the lock, and then from the ledger, by API calls without the lock. If a
  pass throttles the same pod again between the two, the ledger entry that is dropped is the
  new one: the pod stays throttled in memory, but a restarted controller recovers every
  other throttle and not this one, so its limit is never restored.
\<close>

theorem restore_race_loses_throttle:
  assumes "mirrored r" and "cm_ok a" and "cm_ok a'" and "named t" and "target_key t = st_key st"
    and "restore a st r = (True, r1)"
    and "throttle a now t (drop_throttle st r1) = (True, r2)"
    and "r3 = forget a (st_key st) r2"
  shows "isThrottled (st_key st) r3 \<and>
     map_of (throttled (restart a' c r3)) = (map_of (throttled r3))(st_key st := None)"
proof -
  let ?k = "st_key st"
  have r1: "throttled r1 = throttled r" "stateNS r1 = stateNS r" "entries r1 = entries r"
    using restore_frame(1-3) [where a = a and st = st and r = r] assms(6)
    by (simp_all add: fixed_def entries_def)
  have ns: "stateNS r \<noteq> []" and d: "distinct (map fst (throttled r))" "distinct (map fst (entries r))"
    and m: "mirror (map_of (throttled r)) (map_of (entries r))"
    using assms(1) by (simp_all add: mirrored_def)
  have dr: "throttled (drop_throttle st r1) = AList.delete ?k (throttled r)"
    "entries (drop_throttle st r1) = entries r" "stateNS (drop_throttle st r1) = stateNS r"
    using r1 by (simp_all add: drop_throttle_def st_key_def entries_def)
  with assms(2,7) ns obtain st' where st':
    "throttled r2 = AList.update (target_key t) st' (throttled (drop_throttle st r1))"
    "entries r2 = AList.update (cmKey (target_key t)) (Some (to_persisted st')) (entries (drop_throttle st r1))"
    "stateNS r2 = stateNS r" "st_key st' = target_key t"
    "ts_namespace st' = t_namespace t" "ts_pod st' = t_pod t"
    by (auto elim: throttle_effect)
  have clean: "clean ?k" using named_key [OF assms(4)] assms(5) by simp
  have e3: "throttled r3 = throttled r2" "entries r3 = AList.delete (cmKey ?k) (entries r2)"
    "stateNS r3 = stateNS r"
    using st'(3) ns stateNS_fixed [OF forget_frame(2) [of a ?k r2]]
    by (simp_all add: assms(8) forget_entries [OF assms(2)])
  have "mirror ((map_of (throttled r))(?k \<mapsto> st')) ((map_of (entries r))(cmKey ?k \<mapsto> Some (to_persisted st')))"
    using st'(4-6) clean assms(4,5) by (intro mirror_update [OF m]) (simp_all add: named_def)
  from mirror_delete [OF this clean]
  have "mirror ((map_of (throttled r3))(?k := None)) (map_of (entries r3))"
    using st' assms(5) by (simp add: e3 dr update_conv' delete_conv')
  moreover have "distinct (map fst (entries r3))"
    using st' d assms(5) by (simp add: e3 dr distinct_update distinct_delete)
  moreover have "isThrottled ?k r3"
    using st' assms(5) by (simp add: isThrottled_def e3 update_conv')
  ultimately show ?thesis
    using restart_recovers [of _ r3 a' c] e3(3) ns assms(3) by simp
qed

definition demo_st :: throttleState where
  "demo_st = \<lparr>ts_namespace = ''default'', ts_pod = ''web'', ts_container = ''app'',
     originalCPULimit = ''2'', restoreAt = 1600\<rparr>"

definition demo_throttled :: remediator where
  "demo_throttled = demo_rem\<lparr>throttled := [(''default/web'', demo_st)],
     cm_ledger := Some [(''default_web'', Some (to_persisted demo_st))]\<rparr>"

definition demo_raced :: remediator where
  "demo_raced = snd (throttle demo_api 2000 demo_target
     (drop_throttle demo_st (snd (restore demo_api demo_st demo_throttled))))"

lemma demo_st_key: "st_key demo_st = ''default/web''" "target_key demo_target = ''default/web''"
  by (simp_all add: st_key_def demo_st_def target_key_def demo_target_def pod_key_def)

lemma demo_mirrored: "mirrored demo_throttled"
proof -
  have empty: "mirrored demo_rem" unfolding demo_rem_def by (rule mirrored_start) simp
  show ?thesis
  proof (rule mirrored_update [OF empty, where k = "''default/web''" and st = demo_st])
    show "entries demo_throttled = AList.update (cmKey ''default/web'') (Some (to_persisted demo_st)) (entries demo_rem)"
      by (simp add: entries_def demo_throttled_def cmKey_def demo_rem_def EnablePersistence_def
          NewRemediator_def Let_def)
  qed (simp_all add: demo_throttled_def demo_rem_def EnablePersistence_def NewRemediator_def Let_def
      demo_st_key, simp_all add: demo_st_def)
qed

lemma demo_race_steps:
  "restore demo_api demo_st demo_throttled = (True, snd (restore demo_api demo_st demo_throttled))"
  "throttle demo_api 2000 demo_target (drop_throttle demo_st (snd (restore demo_api demo_st demo_throttled))) =
     (True, demo_raced)"
  by (simp add: restore_def patchCPULimit_def demo_api_def)
    (simp add: demo_raced_def throttle_def demo_api_def cpu_bounds_def demo_target_def patchCPULimit_def Let_def)

theorem restore_race_loses_throttle_witness:
  "isThrottled ''default/web'' (forget demo_api ''default/web'' demo_raced) \<and>
     \<not> isThrottled ''default/web'' (restart demo_api demo_cfg (forget demo_api ''default/web'' demo_raced))"
proof -
  have "named demo_target" by (simp add: named_def demo_target_def)
  from restore_race_loses_throttle [OF demo_mirrored demo_cm_ok demo_cm_ok this _ demo_race_steps refl, of demo_cfg]
  show ?thesis by (simp add: demo_st_key isThrottled_def)
qed

end
