(* ===== verification/Cpu_Stat.thy ===== *)
theory Cpu_Stat
  imports Prelude
begin

text \<open>
  CPU throttling counters, \<^verbatim>\<open>src/internal/cgroup/cpustat.go\<close>: the parser of a cgroup's
  \<^verbatim>\<open>cpu.stat\<close> file and the per-interval differences. The file is a string of ASCII
  characters, which is what the kernel writes; the reader may end with an error, which is a
  parameter. What the code uses of the Go library (\<^verbatim>\<open>bufio.Scanner\<close> with its limit on the
  length of a line, \<^verbatim>\<open>strings.TrimSpace\<close>, \<^verbatim>\<open>strings.Cut\<close>, \<^verbatim>\<open>strconv.ParseUint\<close>) is written out.
\<close>

section \<open>Library functions\<close>

definition newline :: char where "newline = CHR 0x0A"
definition carriage_return :: char where "carriage_return = CHR 0x0D"
definition max_token :: nat where "max_token = 64 * 1024"

definition drop_cr :: "string \<Rightarrow> string" where
  "drop_cr l = (if l \<noteq> [] \<and> last l = carriage_return then butlast l else l)"

text \<open>The lines of the input, and whether scanning stopped at a line that fills the buffer.\<close>

function scan_lines :: "string \<Rightarrow> string list \<times> bool" where
  "scan_lines s =
     (if s = [] then ([], False)
      else let l = takeWhile (\<lambda>ch. ch \<noteq> newline) s; r = dropWhile (\<lambda>ch. ch \<noteq> newline) s
           in if max_token \<le> length l then ([], True)
              else let (ls, too_long) = scan_lines (tl r) in (drop_cr l # ls, too_long))"
  by pat_completeness auto
termination
proof (relation "measure length")
  fix s :: string and l r
  assume s: "s \<noteq> []" and r: "r = dropWhile (\<lambda>ch. ch \<noteq> newline) s"
  have "length r \<le> length s" using r by (simp add: length_dropWhile_le)
  then show "(tl r, s) \<in> measure length"
    using s by (cases r) auto
qed simp

declare scan_lines.simps [simp del]

definition is_space :: "char \<Rightarrow> bool" where
  "is_space ch \<longleftrightarrow> ch \<in> {CHR 0x09, CHR 0x0A, CHR 0x0B, CHR 0x0C, CHR 0x0D, CHR '' ''}"

definition TrimSpace :: "string \<Rightarrow> string" where
  "TrimSpace s = rev (dropWhile is_space (rev (dropWhile is_space s)))"

definition Cut :: "string \<Rightarrow> char \<Rightarrow> string \<times> string \<times> bool" where
  "Cut s sep =
     (let before = takeWhile (\<lambda>ch. ch \<noteq> sep) s; rest = dropWhile (\<lambda>ch. ch \<noteq> sep) s
      in if rest = [] then (s, [], False) else (before, tl rest, True))"

definition is_digit :: "char \<Rightarrow> bool" where
  "is_digit ch \<longleftrightarrow> 48 \<le> (of_char ch :: nat) \<and> (of_char ch :: nat) \<le> 57"

definition digit_val :: "char \<Rightarrow> nat" where
  "digit_val ch = of_char ch - 48"

definition ParseUint :: "string \<Rightarrow> u64 option" where
  "ParseUint s =
     (if s = [] \<or> \<not> list_all is_digit s then None
      else let n = foldl (\<lambda>n ch. 10 * n + digit_val ch) 0 s
           in if n < 2 ^ 64 then Some (of_nat n) else None)"

section \<open>The parser\<close>

record CPUStat =
  NrPeriods :: u64
  NrThrottled :: u64
  ThrottledUsec :: u64

definition zero_stat :: CPUStat where
  "zero_stat = \<lparr>NrPeriods = 0, NrThrottled = 0, ThrottledUsec = 0\<rparr>"

definition parse_line :: "string \<Rightarrow> CPUStat \<Rightarrow> CPUStat" where
  "parse_line text s =
     (case Cut (TrimSpace text) (CHR '' '') of
        (key, val, ok) \<Rightarrow>
          (if \<not> ok then s
           else case ParseUint val of
                  None \<Rightarrow> s
                | Some n \<Rightarrow>
                    (if key = ''nr_periods'' then s\<lparr>NrPeriods := n\<rparr>
                     else if key = ''nr_throttled'' then s\<lparr>NrThrottled := n\<rparr>
                     else if key = ''throttled_usec'' then s\<lparr>ThrottledUsec := n\<rparr>
                     else s)))"

definition parseCPUStat :: "string \<Rightarrow> string option \<Rightarrow> CPUStat \<times> string option" where
  "parseCPUStat body read_err =
     (let (ls, too_long) = scan_lines body
      in (fold parse_line ls zero_stat,
          if too_long then Some ''bufio.Scanner: token too long'' else read_err))"

definition monoSub :: "u64 \<Rightarrow> u64 \<Rightarrow> u64" where
  "monoSub cur prev = (if cur < prev then 0 else cur - prev)"

definition Sub :: "CPUStat \<Rightarrow> CPUStat \<Rightarrow> CPUStat" where
  "Sub s prev = \<lparr>NrPeriods = monoSub (NrPeriods s) (NrPeriods prev),
     NrThrottled = monoSub (NrThrottled s) (NrThrottled prev),
     ThrottledUsec = monoSub (ThrottledUsec s) (ThrottledUsec prev)\<rparr>"

section \<open>Printing and reading numbers\<close>

text \<open>How the kernel prints a counter.\<close>

definition digit_chr :: "nat \<Rightarrow> char" where
  "digit_chr d = ''0123456789'' ! d"

fun print_nat :: "nat \<Rightarrow> string" where
  "print_nat n = (if n < 10 then [digit_chr n] else print_nat (n div 10) @ [digit_chr (n mod 10)])"

declare print_nat.simps [simp del]

lemma digit_char:
  assumes "d < 10"
  shows "is_digit (digit_chr d)" and "digit_val (digit_chr d) = d"
    and "\<not> is_space (digit_chr d)" and "digit_chr d \<noteq> newline"
proof -
  have "d \<in> {0, 1, 2, 3, 4, 5, 6, 7, 8, 9}" using assms by auto
  then show "is_digit (digit_chr d)" and "digit_val (digit_chr d) = d"
    and "\<not> is_space (digit_chr d)" and "digit_chr d \<noteq> newline"
    by (auto simp: is_digit_def digit_val_def is_space_def newline_def digit_chr_def)
qed

lemma print_nat_props:
  "list_all is_digit (print_nat n) \<and> print_nat n \<noteq> [] \<and>
   foldl (\<lambda>n ch. 10 * n + digit_val ch) 0 (print_nat n) = n \<and>
   (\<forall>ch \<in> set (print_nat n). \<not> is_space ch \<and> ch \<noteq> newline)"
proof (induction n rule: print_nat.induct)
  case (1 n)
  show ?case
  proof (cases "n < 10")
    case True
    then show ?thesis by (simp add: print_nat.simps [of n] digit_char)
  next
    case False
    with "1.IH" digit_char [of "n mod 10"] show ?thesis by (auto simp: print_nat.simps [of n])
  qed
qed

lemma ParseUint_print: "n < 2 ^ 64 \<Longrightarrow> ParseUint (print_nat n) = Some (of_nat n)"
  using print_nat_props [of n] by (simp add: ParseUint_def)

section \<open>Lines of a file\<close>

definition print_line :: "string \<times> nat \<Rightarrow> string" where
  "print_line e = fst e @ '' '' @ print_nat (snd e)"

definition print_file :: "string list \<Rightarrow> string" where
  "print_file ls = concat (map (\<lambda>l. l @ [newline]) ls)"

text \<open>A line that a scanner returns as it is: no newline or final carriage return in it, and not too long.\<close>

definition line_ok :: "string \<Rightarrow> bool" where
  "line_ok l \<longleftrightarrow> newline \<notin> set l \<and> (l \<noteq> [] \<longrightarrow> last l \<noteq> carriage_return) \<and> length l < max_token"

lemma takeWhile_line:
  "newline \<notin> set l \<Longrightarrow> takeWhile (\<lambda>ch. ch \<noteq> newline) (l @ newline # r) = l"
  "newline \<notin> set l \<Longrightarrow> dropWhile (\<lambda>ch. ch \<noteq> newline) (l @ newline # r) = newline # r"
  by (induction l) auto

lemma scan_print:
  "list_all line_ok ls \<Longrightarrow> scan_lines (print_file ls) = (ls, False)"
proof (induction ls)
  case Nil
  then show ?case by (simp add: print_file_def scan_lines.simps)
next
  case (Cons l ls)
  have split: "print_file (l # ls) = l @ newline # print_file ls" by (simp add: print_file_def)
  have "newline \<notin> set l" "drop_cr l = l" "\<not> max_token \<le> length l"
    using Cons.prems by (auto simp: line_ok_def drop_cr_def)
  with Cons show ?case
    by (subst scan_lines.simps) (simp add: split takeWhile_line)
qed

lemma TrimSpace_id:
  assumes "s \<noteq> []" and "\<not> is_space (hd s)" and "\<not> is_space (last s)"
  shows "TrimSpace s = s"
proof -
  have "dropWhile is_space s = s" using assms by (cases s) simp_all
  moreover have "dropWhile is_space (rev s) = rev s"
    using assms by (cases "rev s") (simp_all add: last_rev hd_rev [symmetric])
  ultimately show ?thesis by (simp add: TrimSpace_def)
qed

definition key_ok :: "string \<Rightarrow> bool" where
  "key_ok k \<longleftrightarrow> k \<noteq> [] \<and> (\<forall>ch \<in> set k. \<not> is_space ch)"

lemma Cut_print:
  assumes "key_ok k"
  shows "Cut (TrimSpace (print_line (k, n))) (CHR '' '') = (k, print_nat n, True)"
proof -
  let ?l = "print_line (k, n)"
  have p: "print_nat n \<noteq> []" "\<forall>ch \<in> set (print_nat n). \<not> is_space ch" using print_nat_props [of n] by auto
  have "TrimSpace ?l = ?l"
    using assms p by (intro TrimSpace_id) (auto simp: print_line_def key_ok_def last_append hd_append)
  moreover have "CHR '' '' \<notin> set k" using assms by (auto simp: key_ok_def is_space_def)
  then have "takeWhile (\<lambda>ch. ch \<noteq> CHR '' '') ?l = k" "dropWhile (\<lambda>ch. ch \<noteq> CHR '' '') ?l = CHR '' '' # print_nat n"
    unfolding print_line_def by (induction k) auto
  ultimately show ?thesis by (simp add: Cut_def)
qed

lemma parse_print_line:
  assumes "key_ok k" and "n < 2 ^ 64"
  shows "parse_line (print_line (k, n)) s =
     (if k = ''nr_periods'' then s\<lparr>NrPeriods := of_nat n\<rparr>
      else if k = ''nr_throttled'' then s\<lparr>NrThrottled := of_nat n\<rparr>
      else if k = ''throttled_usec'' then s\<lparr>ThrottledUsec := of_nat n\<rparr> else s)"
  by (simp add: parse_line_def Cut_print [OF assms(1)] ParseUint_print [OF assms(2)])

text \<open>The value of a key: the last line that has it, and 0 if none does.\<close>

definition last_value :: "string \<Rightarrow> (string \<times> nat) list \<Rightarrow> nat" where
  "last_value k kvs = (case map_of (rev kvs) k of None \<Rightarrow> 0 | Some n \<Rightarrow> n)"

lemma fold_parse_print:
  assumes "\<forall>(k, n) \<in> set kvs. key_ok k \<and> n < 2 ^ 64"
  shows "fold parse_line (map print_line kvs) s =
     \<lparr>NrPeriods = (case map_of (rev kvs) ''nr_periods'' of None \<Rightarrow> NrPeriods s | Some n \<Rightarrow> of_nat n),
      NrThrottled = (case map_of (rev kvs) ''nr_throttled'' of None \<Rightarrow> NrThrottled s | Some n \<Rightarrow> of_nat n),
      ThrottledUsec = (case map_of (rev kvs) ''throttled_usec'' of None \<Rightarrow> ThrottledUsec s | Some n \<Rightarrow> of_nat n)\<rparr>"
  using assms
proof (induction kvs arbitrary: s)
  case (Cons e kvs)
  obtain k n where e: "e = (k, n)" by (cases e)
  with Cons.prems have "key_ok k" "n < 2 ^ 64" by auto
  note line = parse_print_line [OF this]
  consider "k = ''nr_periods''" | "k = ''nr_throttled''" | "k = ''throttled_usec''"
    | "k \<noteq> ''nr_periods''" "k \<noteq> ''nr_throttled''" "k \<noteq> ''throttled_usec''" by blast
  then show ?case
    using Cons e line [of s] by cases (simp_all add: map_add_def split: option.split)
qed simp

section \<open>Properties\<close>

text \<open>
  C39. Parsing reads back what the kernel writes. For a file of \<open>key value\<close> lines with any
  keys in any order and 64-bit values, the parser returns without error the last value
  of each of the three throttling keys, and 0 for one that does not occur, as in a cgroup
  without a quota.
\<close>

theorem cpu_stat_roundtrip:
  assumes "\<forall>(k, n) \<in> set kvs. key_ok k \<and> n < 2 ^ 64" and "list_all line_ok (map print_line kvs)"
  shows "parseCPUStat (print_file (map print_line kvs)) None =
     (\<lparr>NrPeriods = of_nat (last_value ''nr_periods'' kvs),
       NrThrottled = of_nat (last_value ''nr_throttled'' kvs),
       ThrottledUsec = of_nat (last_value ''throttled_usec'' kvs)\<rparr>, None)"
  using scan_print [OF assms(2)] fold_parse_print [OF assms(1), of zero_stat]
  by (simp add: parseCPUStat_def last_value_def zero_stat_def split: option.split)

theorem cpu_stat_roundtrip_witness:
  "parseCPUStat (print_file (map print_line [(''nr_periods'', 5), (''usage_usec'', 7), (''nr_throttled'', 2)])) None =
     (\<lparr>NrPeriods = 5, NrThrottled = 2, ThrottledUsec = 0\<rparr>, None)"
proof -
  let ?kvs = "[(''nr_periods'', 5), (''usage_usec'', 7), (''nr_throttled'', 2)] :: (string \<times> nat) list"
  have "\<forall>(k, n) \<in> set ?kvs. key_ok k \<and> n < 2 ^ 64" by (simp add: key_ok_def is_space_def)
  moreover have "list_all line_ok (map print_line ?kvs)"
    by (simp add: line_ok_def print_line_def print_nat.simps digit_chr_def newline_def carriage_return_def
        max_token_def)
  ultimately show ?thesis
    using cpu_stat_roundtrip [of ?kvs] by (simp add: last_value_def)
qed

text \<open>
  Lines that are not understood change nothing: a line without a blank, one whose value
  is empty, has a character other than a digit or does not fit 64 bits, and one with
  another key, may stand anywhere in the file without any effect on the result.
\<close>

theorem malformed_lines_ignored:
  assumes "list_all line_ok (ls @ bad # ls')"
    and "case Cut (TrimSpace bad) (CHR '' '') of (key, val, ok) \<Rightarrow>
       \<not> ok \<or> ParseUint val = None \<or> key \<notin> {''nr_periods'', ''nr_throttled'', ''throttled_usec''}"
  shows "parseCPUStat (print_file (ls @ bad # ls')) err = parseCPUStat (print_file (ls @ ls')) err"
proof -
  have "parse_line bad s = s" for s
    using assms(2) by (auto simp: parse_line_def split: option.splits)
  moreover have "list_all line_ok (ls @ ls')" using assms(1) by simp
  ultimately show ?thesis
    by (simp add: parseCPUStat_def scan_print [OF assms(1)] scan_print)
qed

theorem malformed_lines_ignored_witness:
  "parseCPUStat (print_file ([''nr_periods 5''] @ ''nr_periods -1'' # [])) None =
   parseCPUStat (print_file ([''nr_periods 5''] @ [])) None"
  by (rule malformed_lines_ignored)
    (simp_all add: line_ok_def newline_def carriage_return_def max_token_def Cut_def TrimSpace_def
      is_space_def ParseUint_def is_digit_def)

text \<open>
  Differences of counters never wrap: every field of \<open>Sub\<close> is the true difference when the
  counter has grown, and 0 after a reset; it never exceeds the new value, and consecutive
  differences of growing counters add up to the total growth.
\<close>

theorem Sub_no_wrap:
  "unat (NrPeriods (Sub s prev)) = unat (NrPeriods s) - unat (NrPeriods prev) \<and>
   unat (NrThrottled (Sub s prev)) = unat (NrThrottled s) - unat (NrThrottled prev) \<and>
   unat (ThrottledUsec (Sub s prev)) = unat (ThrottledUsec s) - unat (ThrottledUsec prev) \<and>
   (NrPeriods prev \<le> NrPeriods m \<and> NrPeriods m \<le> NrPeriods s \<longrightarrow>
      NrPeriods (Sub s m) + NrPeriods (Sub m prev) = NrPeriods (Sub s prev))"
proof -
  have sub: "unat (monoSub a b) = unat a - unat b" for a b
    by (auto simp: monoSub_def word_less_nat_alt unat_sub word_le_nat_alt)
  have "monoSub a b + monoSub b c = monoSub a c" if "c \<le> b" "b \<le> a" for a b c
    using that by (auto simp: monoSub_def)
  with sub show ?thesis by (simp add: Sub_def)
qed

theorem Sub_no_wrap_witness:
  "unat (NrPeriods (Sub zero_stat \<lparr>NrPeriods = 9, NrThrottled = 1, ThrottledUsec = 1\<rparr>)) = 0"
  using Sub_no_wrap [of zero_stat "\<lparr>NrPeriods = 9, NrThrottled = 1, ThrottledUsec = 1\<rparr>" zero_stat]
  by (simp add: zero_stat_def)

end
