(* ===== verification/Policy.thy ===== *)
theory Policy
  imports Throttling Cpu_Stat
begin

text \<open>
  NodeHealthPolicies, \<^verbatim>\<open>src/internal/controller/policy.go\<close>: reading a policy out of an
  unstructured object, the choice of the active policy and its meaning for the remediator.
\<close>

section \<open>Values of an unstructured object\<close>

text \<open>
  A decoded JSON value. Numbers are exact: float64 values are rationals, and an integer is
  converted without loss, as it is up to \<open>2 ^ 53\<close>.
\<close>

datatype any =
    ANil
  | ABool bool
  | AInt int
  | AFloat rat
  | AString string
  | ASlice "any list"
  | AMap "(string \<times> any) list"

fun as_map :: "any \<Rightarrow> (string \<times> any) list option" where
  "as_map (AMap kvs) = Some kvs"
| "as_map v = None"

fun as_string :: "any \<Rightarrow> string option" where
  "as_string (AString s) = Some s"
| "as_string v = None"

fun as_bool :: "any \<Rightarrow> bool option" where
  "as_bool (ABool b) = Some b"
| "as_bool v = None"

definition field :: "(string \<times> any) list \<Rightarrow> string \<Rightarrow> any" where
  "field kvs k = (case map_of kvs k of None \<Rightarrow> ANil | Some v \<Rightarrow> v)"

fun toFloat :: "any \<Rightarrow> rat" where
  "toFloat (AFloat q) = q"
| "toFloat (AInt n) = of_int n"
| "toFloat v = 0"

definition toInt :: "any \<Rightarrow> int" where
  "toInt v = (if toFloat v < 0 then \<lceil>toFloat v\<rceil> else \<lfloor>toFloat v\<rfloor>)"

fun toStringSlice :: "any \<Rightarrow> string list" where
  "toStringSlice (ASlice items) = concat (map (\<lambda>it. case as_string it of Some s \<Rightarrow> [s] | None \<Rightarrow> []) items)"
| "toStringSlice v = []"

section \<open>Durations\<close>

text \<open>
  Go's \<^verbatim>\<open>time.ParseDuration\<close>: signed sequences of numbers with units, in nanoseconds, with its
  tests for overflow of 63 bits. Fractions are computed exactly and rounded down.
\<close>

fun leadingInt :: "nat \<Rightarrow> string \<Rightarrow> (nat \<times> string) option" where
  "leadingInt x [] = Some (x, [])"
| "leadingInt x (ch # s) =
     (if \<not> is_digit ch then Some (x, ch # s)
      else if x > 2 ^ 63 div 10 then None
      else if 10 * x + digit_val ch > 2 ^ 63 then None
      else leadingInt (10 * x + digit_val ch) s)"

text \<open>The digits after the point, their scale, and whether further digits are dropped.\<close>

fun leadingFraction :: "nat \<Rightarrow> nat \<Rightarrow> bool \<Rightarrow> string \<Rightarrow> nat \<times> nat \<times> string" where
  "leadingFraction x scale overflow [] = (x, scale, [])"
| "leadingFraction x scale overflow (ch # s) =
     (if \<not> is_digit ch then (x, scale, ch # s)
      else if overflow \<or> x > (2 ^ 63 - 1) div 10 \<or> 10 * x + digit_val ch > 2 ^ 63
      then leadingFraction x scale True s
      else leadingFraction (10 * x + digit_val ch) (10 * scale) False s)"

definition unitMap :: "(string \<times> nat) list" where
  "unitMap = [(''ns'', 1), (''us'', 1000), ([CHR 0xC2, CHR 0xB5, CHR ''s''], 1000),
     ([CHR 0xCE, CHR 0xBC, CHR ''s''], 1000), (''ms'', 1000000), (''s'', 1000000000),
     (''m'', 60 * 1000000000), (''h'', 3600 * 1000000000)]"

definition unit_char :: "char \<Rightarrow> bool" where
  "unit_char ch \<longleftrightarrow> ch \<noteq> CHR ''.'' \<and> \<not> is_digit ch"

text \<open>One number with its unit: the nanoseconds and the rest of the string.\<close>

definition parse_part :: "string \<Rightarrow> (nat \<times> string) option" where
  "parse_part s =
     (if s = [] \<or> \<not> (hd s = CHR ''.'' \<or> is_digit (hd s)) then None
      else case leadingInt 0 s of
             None \<Rightarrow> None
           | Some (v, s1) \<Rightarrow>
               (case (if s1 \<noteq> [] \<and> hd s1 = CHR ''.'' then leadingFraction 0 1 False (tl s1) else (0, 1, s1)) of
                  (f, scale, s2) \<Rightarrow>
                    (if s1 = s \<and> (s1 = [] \<or> hd s1 \<noteq> CHR ''.'' \<or> s2 = tl s1) then None
                     else case map_of unitMap (takeWhile unit_char s2) of
                            None \<Rightarrow> None
                          | Some unit \<Rightarrow>
                              (if v > 2 ^ 63 div unit then None
                               else if v * unit + f * unit div scale > 2 ^ 63 then None
                               else Some (v * unit + f * unit div scale, dropWhile unit_char s2)))))"

lemma leadingInt_length: "leadingInt x s = Some (v, s') \<Longrightarrow> length s' \<le> length s"
  by (induction x s rule: leadingInt.induct) (auto split: if_splits)

lemma leadingFraction_length: "leadingFraction x scale ov s = (f, sc, s') \<Longrightarrow> length s' \<le> length s"
  by (induction x scale ov s rule: leadingFraction.induct) (auto split: if_splits)

lemma parse_part_length:
  assumes "parse_part s = Some (v, s')"
  shows "length s' < length s"
proof -
  from assms obtain x s1 f scale s2 unit where s1: "leadingInt 0 s = Some (x, s1)"
    and s2: "(if s1 \<noteq> [] \<and> hd s1 = CHR ''.'' then leadingFraction 0 1 False (tl s1) else (0, 1, s1)) = (f, scale, s2)"
    and u: "map_of unitMap (takeWhile unit_char s2) = Some unit" and s': "s' = dropWhile unit_char s2"
    by (auto simp: parse_part_def split: if_splits option.splits prod.splits)
  have "takeWhile unit_char s2 \<noteq> []" using u by (auto simp: unitMap_def)
  then have "length s' < length s2"
    unfolding s' by (cases s2) (auto simp: length_dropWhile_le le_imp_less_Suc split: if_splits)
  also have "length s2 \<le> length s1"
    using s2 by (auto split: if_splits dest!: leadingFraction_length)
  also have "length s1 \<le> length s" using s1 by (rule leadingInt_length)
  finally show ?thesis .
qed

function parse_parts :: "nat \<Rightarrow> string \<Rightarrow> nat option" where
  "parse_parts d s =
     (if s = [] then Some d
      else case parse_part s of
             None \<Rightarrow> None
           | Some (v, s') \<Rightarrow> (if d + v > 2 ^ 63 then None else parse_parts (d + v) s'))"
  by pat_completeness auto
termination
  by (relation "measure (\<lambda>(d, s). length s)") (auto dest: parse_part_length)

declare parse_parts.simps [simp del]

definition ParseDuration :: "string \<Rightarrow> int option" where
  "ParseDuration s =
     (let neg = (s \<noteq> [] \<and> hd s = CHR ''-'');
          s1 = (if s \<noteq> [] \<and> hd s \<in> {CHR ''-'', CHR ''+''} then tl s else s)
      in if s1 = ''0'' then Some 0
         else if s1 = [] then None
         else case parse_parts 0 s1 of
                None \<Rightarrow> None
              | Some d \<Rightarrow> (if neg then Some (- int d) else if d > 2 ^ 63 - 1 then None else Some (int d)))"

definition toDuration :: "any \<Rightarrow> int" where
  "toDuration v =
     (case as_string v of
        None \<Rightarrow> 0
      | Some s \<Rightarrow> if s = [] then 0 else (case ParseDuration s of None \<Rightarrow> 0 | Some d \<Rightarrow> d))"

section \<open>Policies\<close>

definition ModeObserve :: string where "ModeObserve = ''observe''"
definition ModeAlert :: string where "ModeAlert = ''alert''"
definition ModeEnforce :: string where "ModeEnforce = ''enforce''"

record NodeHealthPolicy =
  np_Name :: string
  np_Mode :: string
  np_Priority :: int
  np_ConfidenceThreshold :: rat
  np_Resize :: bool
  np_ResizeSet :: bool
  np_Cooldown :: int
  np_RestoreAfter :: int
  np_Namespaces :: "string list"

definition ToConfig :: "NodeHealthPolicy \<Rightarrow> RemediationConfig \<times> bool" where
  "ToConfig p =
     (let c = \<lparr>DryRun = False, Cooldown = np_Cooldown p, Resize = False, RestoreAfter = np_RestoreAfter p,
            Namespaces = np_Namespaces p, ConfidenceThreshold = np_ConfidenceThreshold p\<rparr>
      in if np_Mode p = ModeAlert then (c, True)
         else if np_Mode p = ModeEnforce
         then (c\<lparr>Resize := (if np_ResizeSet p then np_Resize p else True)\<rparr>, True)
         else (c, False))"

definition parse_remediation :: "(string \<times> any) list \<Rightarrow> NodeHealthPolicy \<Rightarrow> NodeHealthPolicy" where
  "parse_remediation rem p =
     (let p1 = (case as_bool (field rem ''resize'') of
                  Some v \<Rightarrow> p\<lparr>np_Resize := v, np_ResizeSet := True\<rparr> | None \<Rightarrow> p)
      in p1\<lparr>np_Cooldown := toDuration (field rem ''cooldown''),
            np_RestoreAfter := toDuration (field rem ''restoreAfter''),
            np_Namespaces := toStringSlice (field rem ''namespaces'')\<rparr>)"

text \<open>An object whose spec is missing, empty of a mode, or badly typed is an observing policy.\<close>

definition parsePolicy :: "any \<Rightarrow> NodeHealthPolicy" where
  "parsePolicy obj =
     (let kvs = (case as_map obj of Some kvs \<Rightarrow> kvs | None \<Rightarrow> []);
          p0 = \<lparr>np_Name = [], np_Mode = ModeObserve, np_Priority = 0, np_ConfidenceThreshold = 0,
                np_Resize = False, np_ResizeSet = False, np_Cooldown = 0, np_RestoreAfter = 0,
                np_Namespaces = []\<rparr>;
          p1 = (case as_map (field kvs ''metadata'') of
                  Some meta \<Rightarrow> p0\<lparr>np_Name := (case as_string (field meta ''name'') of Some n \<Rightarrow> n | None \<Rightarrow> [])\<rparr>
                | None \<Rightarrow> p0)
      in case as_map (field kvs ''spec'') of
           None \<Rightarrow> p1
         | Some spec \<Rightarrow>
             (let p2 = (case as_string (field spec ''mode'') of
                          Some m \<Rightarrow> if m \<noteq> [] then p1\<lparr>np_Mode := m\<rparr> else p1
                        | None \<Rightarrow> p1);
                  p3 = p2\<lparr>np_Priority := toInt (field spec ''priority'')\<rparr>;
                  p4 = (case as_map (field spec ''attribution'') of
                          Some attr \<Rightarrow> p3\<lparr>np_ConfidenceThreshold := toFloat (field attr ''confidenceThreshold'')\<rparr>
                        | None \<Rightarrow> p3)
              in case as_map (field spec ''remediation'') of
                   Some rem \<Rightarrow> parse_remediation rem p4
                 | None \<Rightarrow> p4))"

text \<open>Byte-wise comparison of strings, and a stable sort by insertion from the right.\<close>

fun str_less :: "string \<Rightarrow> string \<Rightarrow> bool" where
  "str_less [] ys = (ys \<noteq> [])"
| "str_less (x # xs) [] = False"
| "str_less (x # xs) (y # ys) =
     ((of_char x :: nat) < of_char y \<or> x = y \<and> str_less xs ys)"

definition before :: "NodeHealthPolicy \<Rightarrow> NodeHealthPolicy \<Rightarrow> bool" where
  "before p q =
     (if np_Priority p \<noteq> np_Priority q then np_Priority p > np_Priority q
      else str_less (np_Name p) (np_Name q))"

fun insert_stable :: "NodeHealthPolicy \<Rightarrow> NodeHealthPolicy list \<Rightarrow> NodeHealthPolicy list" where
  "insert_stable p [] = [p]"
| "insert_stable p (q # qs) = (if before q p then q # insert_stable p qs else p # q # qs)"

definition LoadActivePolicy :: "api_error + any list \<Rightarrow> api_error + NodeHealthPolicy option" where
  "LoadActivePolicy listed =
     (case listed of
        Inl e \<Rightarrow> Inl e
      | Inr items \<Rightarrow>
          (let policies = map parsePolicy items
           in if policies = [] then Inr None else Inr (Some (hd (foldr insert_stable policies [])))))"

section \<open>The order of policies\<close>

lemma str_less_irrefl [simp]: "\<not> str_less xs xs"
  by (induction xs) auto

lemma str_less_trans: "str_less xs ys \<Longrightarrow> str_less ys zs \<Longrightarrow> str_less xs zs"
proof (induction xs ys arbitrary: zs rule: str_less.induct)
  case (1 ys)
  then show ?case by (cases zs; cases ys) auto
next
  case (3 x xs y ys)
  then show ?case by (cases zs) auto
qed simp

lemma str_less_total: "xs \<noteq> ys \<Longrightarrow> str_less xs ys \<or> str_less ys xs"
proof (induction xs ys rule: str_less.induct)
  case (3 x xs y ys)
  then show ?case
    by (metis linorder_neqE_nat of_char_eq_iff str_less.simps(3))
qed auto

lemma before_trans: "before p q \<Longrightarrow> before q r \<Longrightarrow> before p r"
  by (auto simp: before_def split: if_splits intro: str_less_trans)

lemma before_irrefl [simp]: "\<not> before p p"
  by (simp add: before_def)

lemma before_total: "np_Name p \<noteq> np_Name q \<Longrightarrow> before p q \<or> before q p"
  using str_less_total by (auto simp: before_def)

lemma set_insert_stable [simp]: "set (insert_stable p qs) = insert p (set qs)"
  by (induction qs) auto

lemma insert_stable_ne [simp]: "insert_stable p qs \<noteq> []"
  by (cases qs) auto

lemma foldr_insert_set [simp]: "set (foldr insert_stable ps []) = set ps"
  by (induction ps) auto

lemma sorted_hd:
  assumes "distinct (map np_Name ps)" and "q \<in> set ps" and "q \<noteq> hd (foldr insert_stable ps [])"
  shows "before (hd (foldr insert_stable ps [])) q"
  using assms
proof (induction ps arbitrary: q)
  case (Cons p ps)
  let ?l = "foldr insert_stable ps []"
  show ?case
  proof (cases ?l)
    case Nil
    then have "ps = []" using foldr_insert_set [of ps] by (metis set_empty2)
    with Cons.prems show ?thesis by simp
  next
    case l: (Cons h t)
    then have "h \<in> set ps" using foldr_insert_set [of ps] by auto
    with Cons.prems(1) have ne: "np_Name p \<noteq> np_Name h" by force
    have h: "q' = h \<or> before h q'" if "q' \<in> set ps" for q'
      using Cons.IH [of q'] Cons.prems(1) that l by auto
    show ?thesis
    proof (cases "before h p")
      case True
      with Cons.prems h l show ?thesis by auto
    next
      case False
      with before_total [OF ne] have "before p h" by blast
      with False Cons.prems h l show ?thesis by (auto intro: before_trans)
    qed
  qed
qed simp

lemma before_asym: "before p q \<Longrightarrow> \<not> before q p"
  using before_trans before_irrefl by blast

text \<open>
  One policy decides, whatever order the server lists them in. If the names differ, as
  those of cluster-wide objects do, the active policy is one of the listed objects and comes
  before every other: it has a higher priority, or the same and an earlier name. Listing the
  same objects in any other order gives the same one.
\<close>

theorem active_policy_best:
  assumes "distinct (map (np_Name \<circ> parsePolicy) objs)" and "objs \<noteq> []"
    and "set objs' = set objs" and "distinct (map (np_Name \<circ> parsePolicy) objs')"
  shows "\<exists>p \<in> parsePolicy ` set objs. LoadActivePolicy (Inr objs) = Inr (Some p) \<and>
     LoadActivePolicy (Inr objs') = Inr (Some p) \<and>
     (\<forall>q \<in> parsePolicy ` set objs. q \<noteq> p \<longrightarrow> np_Priority q < np_Priority p \<or>
        np_Priority q = np_Priority p \<and> str_less (np_Name p) (np_Name q))"
proof -
  let ?ps = "map parsePolicy objs" and ?qs = "map parsePolicy objs'"
  let ?p = "hd (foldr insert_stable ?ps [])" and ?q = "hd (foldr insert_stable ?qs [])"
  have d: "distinct (map np_Name ?ps)" "distinct (map np_Name ?qs)" and ne: "objs' \<noteq> []"
    and eq: "set ?qs = set ?ps"
    using assms by (simp_all add: comp_def) auto
  have "foldr insert_stable l [] \<noteq> []" if "l \<noteq> []" for l using that by (cases l) auto
  then have mem: "?p \<in> set ?ps" "?q \<in> set ?qs"
    using assms(2) ne foldr_insert_set [of ?ps] foldr_insert_set [of ?qs]
    by (metis list.set_sel(1) map_is_Nil_conv)+
  have "?p = ?q"
    using sorted_hd [OF d(1), of ?q] sorted_hd [OF d(2), of ?p] mem eq before_asym by metis
  moreover have "np_Priority q < np_Priority ?p \<or>
      np_Priority q = np_Priority ?p \<and> str_less (np_Name ?p) (np_Name q)" if "q \<in> set ?ps" "q \<noteq> ?p" for q
    using sorted_hd [OF d(1) that] by (auto simp: before_def split: if_splits)
  ultimately show ?thesis
    using mem assms(2) ne by (intro bexI [of _ ?p]) (simp_all add: LoadActivePolicy_def)
qed

definition demo_object :: "string \<Rightarrow> string \<Rightarrow> int \<Rightarrow> any" where
  "demo_object n m pr = AMap [(''metadata'', AMap [(''name'', AString n)]),
     (''spec'', AMap [(''mode'', AString m), (''priority'', AInt pr),
        (''remediation'', AMap [(''cooldown'', AString ''1m30s''),
           (''namespaces'', ASlice [AString ''default''])])])]"

lemma demo_duration: "ParseDuration ''1m30s'' = Some 90000000000"
  by (simp add: ParseDuration_def parse_parts.simps parse_part_def is_digit_def digit_val_def unit_char_def
      unitMap_def)

lemma demo_parsed:
  "parsePolicy (demo_object n m pr) = \<lparr>np_Name = n, np_Mode = (if m = [] then ModeObserve else m),
     np_Priority = pr, np_ConfidenceThreshold = 0, np_Resize = False, np_ResizeSet = False,
     np_Cooldown = 90000000000, np_RestoreAfter = 0, np_Namespaces = [''default'']\<rparr>"
  by (simp add: demo_object_def parsePolicy_def field_def Let_def parse_remediation_def toDuration_def
      demo_duration toInt_def)

theorem active_policy_best_witness:
  "LoadActivePolicy (Inr [demo_object ''a'' ''observe'' 1, demo_object ''b'' ''alert'' 2]) =
   LoadActivePolicy (Inr [demo_object ''b'' ''alert'' 2, demo_object ''a'' ''observe'' 1])"
proof -
  let ?a = "demo_object ''a'' ''observe'' 1" and ?b = "demo_object ''b'' ''alert'' 2"
  have "distinct (map (np_Name \<circ> parsePolicy) [?a, ?b])" "distinct (map (np_Name \<circ> parsePolicy) [?b, ?a])"
    by (simp_all add: demo_parsed)
  moreover have "set [?b, ?a] = set [?a, ?b]" by auto
  ultimately have "\<exists>p. LoadActivePolicy (Inr [?a, ?b]) = Inr (Some p) \<and> LoadActivePolicy (Inr [?b, ?a]) = Inr (Some p)"
    using active_policy_best [of "[?a, ?b]" "[?b, ?a]"] by blast
  then show ?thesis by auto
qed

end
