(* ===== verification/Cluster_Controller.thy ===== *)
theory Cluster_Controller
  imports Policy
begin

text \<open>
  The controller around the remediator: \<^verbatim>\<open>src/internal/controller/controller.go\<close> (reports of
  the nodes) and the start-up from a policy in \<^verbatim>\<open>src/cmd/controller/main.go\<close>. HTTP, JSON and log
  lines are left out.
\<close>

section \<open>Reports\<close>

record nodeState =
  ns_Snapshot :: Snapshot
  LastSeen :: int

record Controller =
  staleAfter :: int
  c_remediator :: "remediator option"
  nodes :: "(string \<times> nodeState) list"

definition New :: "int \<Rightarrow> Controller" where
  "New stale = \<lparr>staleAfter = stale, c_remediator = None, nodes = []\<rparr>"

definition WithRemediator :: "remediator \<Rightarrow> Controller \<Rightarrow> Controller" where
  "WithRemediator r c = c\<lparr>c_remediator := Some r\<rparr>"

definition ingest :: "api \<Rightarrow> (target \<Rightarrow> int \<times> int) \<Rightarrow> Snapshot \<Rightarrow> int \<Rightarrow> Controller \<Rightarrow> Controller" where
  "ingest a clk s now c =
     (let name = (if NodeName s = [] then ''unknown'' else NodeName s);
          c1 = c\<lparr>nodes := AList.update name \<lparr>ns_Snapshot = s, LastSeen = now\<rparr> (nodes c)\<rparr>
      in case c_remediator c1 of
           None \<Rightarrow> c1
         | Some r \<Rightarrow> (if Healthy s then c1 else c1\<lparr>c_remediator := Some (Remediate a clk s r)\<rparr>))"

text \<open>The counts of the cluster summary: healthy, contended and stale nodes.\<close>

definition logCluster :: "int \<Rightarrow> Controller \<Rightarrow> nat \<times> nat \<times> nat" where
  "logCluster now c =
     fold (\<lambda>st (healthy, contended, stale).
         if now - LastSeen st > staleAfter c then (healthy, contended, stale + 1)
         else if Healthy (ns_Snapshot st) then (healthy + 1, contended, stale)
         else (healthy, contended + 1, stale))
       (map snd (nodes c)) (0, 0, 0)"

section \<open>Start-up\<close>

definition enableResizeRestore :: "api \<Rightarrow> string \<Rightarrow> remediator \<Rightarrow> remediator" where
  "enableResizeRestore a ns r = Recover a (EnablePersistence ns r)"

text \<open>\<open>led\<close> is the ledger that an earlier controller left on the server.\<close>

definition configureFromPolicy ::
    "api \<Rightarrow> string \<Rightarrow> ledger option \<Rightarrow> api_error + any list \<Rightarrow> Controller \<Rightarrow> Controller" where
  "configureFromPolicy a ns led listed c =
     (case LoadActivePolicy listed of
        Inl e \<Rightarrow> c
      | Inr None \<Rightarrow> c
      | Inr (Some p) \<Rightarrow>
          (case ToConfig p of
             (rcfg, active) \<Rightarrow>
               (if \<not> active then c
                else let r = (NewRemediator rcfg)\<lparr>cm_ledger := led\<rparr>
                     in WithRemediator (if Resize rcfg then enableResizeRestore a ns r else r) c)))"

section \<open>What a policy allows\<close>

fun call_ns :: "call \<Rightarrow> string" where
  "call_ns (Patched ns p c cpu) = ns"
| "call_ns (Event ns p) = ns"

fun is_event :: "call \<Rightarrow> bool" where
  "is_event (Patched ns p c cpu) = False"
| "is_event (Event ns p) = True"

fun allowed :: "string list option \<Rightarrow> string \<Rightarrow> bool" where
  "allowed None ns = True"
| "allowed (Some l) ns = (ns \<in> set l)"

text \<open>All calls so far concern allowed namespaces, and are Events unless resizing is on.\<close>

definition permitted :: "string list option \<Rightarrow> bool \<Rightarrow> remediator \<Rightarrow> bool" where
  "permitted allow resize r \<longleftrightarrow> nsAllow r = allow \<and> Resize (cfg r) = resize \<and>
     (\<forall>call \<in> set (calls r).
        allowed allow (call_ns call) \<and> (\<not> resize \<longrightarrow> is_event call))"

lemma within_cong:
  "nsAllow r' = nsAllow r \<Longrightarrow> cfg r' = cfg r \<Longrightarrow> calls r' = calls r \<Longrightarrow> permitted al rz r' = permitted al rz r"
  by (simp add: permitted_def)

lemma within_Cons:
  "permitted al rz r \<Longrightarrow> allowed al (call_ns call) \<Longrightarrow>
     (\<not> rz \<longrightarrow> is_event call) \<Longrightarrow> permitted al rz (r\<lparr>calls := call # calls r\<rparr>)"
  by (simp add: permitted_def)

lemma within_emit:
  assumes "permitted al rz r" and "allowed al ns"
  shows "permitted al rz (snd (emitEvent a ns p r))"
  using assms within_Cons [OF assms(1), of "Event ns p"] by (simp add: emitEvent_def)

lemma within_announce:
  assumes "permitted al rz r" and "allowed al (t_namespace t)"
  shows "permitted al rz (announce a t r)"
  using within_emit [OF assms, of a "t_pod t"]
  by (auto simp: announce_def clearCooldown_def permitted_def split: prod.splits bool.splits)

lemma within_throttle:
  assumes "permitted al True r" and "allowed al (t_namespace t)"
    and "throttle a now t r = (ok, r')"
  shows "permitted al True r'"
proof (cases ok)
  case False
  with assms(3) have "throttle a now t r = (False, r')" by simp
  then have "r' = r" by (rule throttle_False)
  with assms(1) show ?thesis by simp
next
  case True
  with assms(3) obtain st r1 cpu where r1: "r1 = persist a (target_key t) st (r\<lparr>calls := Patched (t_namespace t)
        (t_pod t) (t_container t) cpu # calls r, throttled := AList.update (target_key t) st (throttled r)\<rparr>)"
    and r': "r' = snd (emitEvent a (t_namespace t) (t_pod t) r1)"
    by (auto elim: throttle_True)
  have "fixed r1 = fixed r" by (simp add: r1)
  then have "permitted al True r1"
    using assms(1,2) by (auto simp: permitted_def fixed_def) (auto simp: r1)
  then show ?thesis unfolding r' using assms(2) by (rule within_emit)
qed

lemma within_act:
  assumes "permitted al rz r" and "allowed al (t_namespace t)"
  shows "permitted al rz (act a now t r)"
proof -
  obtain ok r' where th: "throttle a now t r = (ok, r')" by force
  have rz: "Resize (cfg r) = rz" using assms(1) by (simp add: permitted_def)
  show ?thesis
  proof (cases rz)
    case True
    with within_throttle [OF _ assms(2) th] assms(1) have "permitted al rz r'" by simp
    with True rz th assms within_announce [OF _ assms(2)] show ?thesis
      by (auto simp: act_def split: bool.splits)
  next
    case False
    with rz assms within_announce [OF assms] show ?thesis by (simp add: act_def)
  qed
qed

lemma within_remediate_one:
  assumes "permitted al rz r"
  shows "permitted al rz (remediate_one a clk t r)"
proof -
  obtain ok q where q: "takeCooldown (fst (clk t)) (target_key t) r = (ok, q)" by force
  have "permitted al rz q = permitted al rz r"
    using takeCooldown_frame [OF q] by (intro within_cong) (simp_all add: fixed_def)
  with assms have w: "permitted al rz q" by simp
  have al: "nsAllow r = al" using assms by (simp add: permitted_def)
  with within_act [OF w, of t a "snd (clk t)"] w assms q show ?thesis
    by (cases ok) (auto simp: remediate_one_def split: option.splits)
qed

lemma within_Remediate: "permitted al rz r \<Longrightarrow> permitted al rz (Remediate a clk s r)"
  unfolding Remediate_def
  by (rule fold_invariant [where Q = "\<lambda>_. True"]) (auto intro: within_remediate_one)

type_synonym delivery = "api \<times> (target \<Rightarrow> int \<times> int) \<times> Snapshot \<times> int"

definition ingest_all :: "delivery list \<Rightarrow> Controller \<Rightarrow> Controller" where
  "ingest_all ds = fold (\<lambda>(a, clk, s, now). ingest a clk s now) ds"

lemma ingest_within:
  "pred_option (permitted al rz) (c_remediator c) \<Longrightarrow>
     pred_option (permitted al rz) (c_remediator (ingest_all ds c)) \<and>
     (c_remediator (ingest_all ds c) = None \<longleftrightarrow> c_remediator c = None)"
proof (induction ds arbitrary: c)
  case (Cons d ds)
  obtain a clk s now where d: "d = (a, clk, s, now)" by (cases d)
  have "pred_option (permitted al rz) (c_remediator (ingest a clk s now c))"
    "c_remediator (ingest a clk s now c) = None \<longleftrightarrow> c_remediator c = None"
    using Cons.prems within_Remediate
    by (auto simp: ingest_def Let_def split: option.splits)
  with Cons.IH [of "ingest a clk s now c"] d show ?case by (simp add: ingest_all_def)
qed (simp add: ingest_all_def)

definition resizing :: "NodeHealthPolicy \<Rightarrow> bool" where
  "resizing p \<longleftrightarrow> np_Mode p = ModeEnforce \<and> (np_ResizeSet p \<longrightarrow> np_Resize p)"

lemma Recover_frame: "calls (Recover a r) = calls r" "nsAllow (Recover a r) = nsAllow r" "cfg (Recover a r) = cfg r"
  by (auto simp: Recover_def split: option.split)

lemma within_start:
  assumes "LoadActivePolicy listed = Inr (Some p)" and "c_remediator c = None"
  shows "pred_option (permitted (if np_Namespaces p = [] then None else Some (np_Namespaces p)) (resizing p))
       (c_remediator (configureFromPolicy a ns led listed c))"
    "c_remediator (configureFromPolicy a ns led listed c) = None \<longleftrightarrow> np_Mode p \<notin> {ModeAlert, ModeEnforce}"
  using assms
  by (auto simp: configureFromPolicy_def ToConfig_def Let_def WithRemediator_def enableResizeRestore_def
      permitted_def resizing_def NewRemediator_def EnablePersistence_def Recover_frame
      ModeAlert_def ModeEnforce_def)


definition demo_alert :: remediator where
  "demo_alert = NewRemediator \<lparr>DryRun = False, Cooldown = 90000000000, Resize = False, RestoreAfter = 0,
     Namespaces = [''default''], ConfidenceThreshold = 0\<rparr>"

definition demo_controller :: Controller where
  "demo_controller = configureFromPolicy demo_api ''sys'' None (Inr [demo_object ''b'' ''alert'' 2]) (New 60)"

lemma demo_load:
  "LoadActivePolicy (Inr [demo_object ''b'' ''alert'' 2]) = Inr (Some (parsePolicy (demo_object ''b'' ''alert'' 2)))"
  by (simp add: LoadActivePolicy_def)

lemma demo_configured: "demo_controller = WithRemediator demo_alert (New 60)"
  unfolding demo_controller_def configureFromPolicy_def demo_load demo_parsed
  by (simp add: ToConfig_def ModeAlert_def Let_def demo_alert_def NewRemediator_def)

lemma demo_alerted:
  "calls (Remediate demo_api (\<lambda>_. (1000, 1000)) demo_snapshot demo_alert) = [Event ''default'' ''web'']"
proof -
  have r: "ConfidenceThreshold (cfg demo_alert) = 0" "\<not> Resize (cfg demo_alert)" "\<not> DryRun (cfg demo_alert)"
    "throttled demo_alert = []" "lastActed demo_alert = []" "nsAllow demo_alert = Some [''default'']"
    "calls demo_alert = []"
    by (simp_all add: demo_alert_def NewRemediator_def)
  have t: "t_namespace demo_target = ''default''" "t_pod demo_target = ''web''"
    by (simp_all add: demo_target_def)
  have "event_ok demo_api ns p" for ns p by (simp add: demo_api_def)
  with r t show ?thesis
    by (simp add: Remediate_def demo_targets remediate_one_def isThrottled_def takeCooldown_def act_def
        announce_def emitEvent_def)
qed


end
