(* ===== verification/Log2_Loop.thy ===== *)
theory Log2_Loop
  imports Log2_Histogram "HOL-Library.While_Combinator" "HOL-Library.Log_Nat"
begin

text \<open>
  The shift loop of \<^verbatim>\<open>log2_bucket\<close> as the loop it is. The BPF verifier accepts a program only if
  its loops are bounded; here the loop is a \<open>while_option\<close> over its condition and body, and it
  is shown to stop, after how many rounds, and with which result.
\<close>

definition log2_cond :: "u64 \<times> u64 \<Rightarrow> bool" where
  "log2_cond = (\<lambda>(val, bucket). val > 1 \<and> bucket < of_nat MAX_SLOTS - 1)"

definition log2_body :: "u64 \<times> u64 \<Rightarrow> u64 \<times> u64" where
  "log2_body = (\<lambda>(val, bucket). (drop_bit 1 val, bucket + 1))"

lemma log2_loop_while:
  "\<exists>val'. while_option log2_cond log2_body (val, bucket) = Some (val', log2_loop val bucket)"
proof (induction val bucket rule: log2_loop.induct)
  case (1 val bucket)
  show ?case
  proof (cases "log2_cond (val, bucket)")
    case True
    then have step: "val > 1 \<and> bucket < of_nat MAX_SLOTS - 1" by (simp add: log2_cond_def)
    from "1.IH" [OF this] True show ?thesis
      by (subst while_option_unfold) (simp add: log2_body_def log2_loop.simps [of val bucket] step)
  next
    case False
    then have "log2_loop val bucket = bucket"
      unfolding log2_cond_def prod.case by (subst log2_loop.simps) (rule if_not_P)
    with False show ?thesis by (subst while_option_unfold) simp
  qed
qed

lemma log2_body_funpow:
  "k \<le> 26 \<Longrightarrow> snd ((log2_body ^^ k) (val, 0)) = of_nat k"
  by (induction k) (simp_all add: log2_body_def split_beta)

text \<open>The number of rounds is read off the counter.\<close>

lemma while_rounds:
  assumes "while_option b c s = Some t"
  obtains k where "t = (c ^^ k) s" "\<not> b t" "\<And>j. j < k \<Longrightarrow> b ((c ^^ j) s)"
proof -
  let ?k = "LEAST k. \<not> b ((c ^^ k) s)"
  from assms have ex: "\<exists>k. \<not> b ((c ^^ k) s)" and t: "t = (c ^^ ?k) s"
    by (auto simp: while_option_def split: if_splits)
  from LeastI_ex [OF ex] t have "\<not> b t" by simp
  moreover have "b ((c ^^ j) s)" if "j < ?k" for j using not_less_Least [OF that] by simp
  ultimately show thesis using that t by blast
qed

lemma floorlog_bucket:
  assumes "0 < unat v"
  shows "unat (log2_bucket v) = min 26 (floorlog 2 (unat v) - 1)"
proof -
  let ?r = "unat (log2_bucket v)" and ?n = "unat v"
  have lo: "2 ^ ?r \<le> ?n" and hi: "?r < 26 \<Longrightarrow> ?n < 2 ^ Suc ?r" and le: "?r \<le> 26"
    using log2_bucket_range [of v] log2_bucket_le [of v] assms by (auto simp: word_less_nat_alt)
  have "Suc ?r \<le> floorlog 2 ?n" using lo assms by (intro floorlog_ge_SucI) simp_all
  moreover have "floorlog 2 ?n \<le> Suc ?r" if "?r < 26" using hi [OF that] by (intro floorlog_leI) simp_all
  ultimately show ?thesis using le by (cases "?r < 26") auto
qed

text \<open>
  C33. The bucket loop is bounded. For every 64-bit value the loop stops, after exactly
  \<open>min 26 \<lfloor>log\<^sub>2 v\<rfloor>\<close> rounds (none for the value 0), its condition holding before each of
  them, and the number of rounds is the bucket it returns; so at most 26 rounds, whatever
  the value, and the result is an index into the 27 slots.
\<close>

theorem log2_loop_terminates:
  "while_option log2_cond log2_body (v, 0) = Some ((log2_body ^^ rounds) (v, 0)) \<and>
     snd ((log2_body ^^ rounds) (v, 0)) = log2_bucket v \<and>
     (\<forall>k. k < rounds \<longrightarrow> log2_cond ((log2_body ^^ k) (v, 0))) \<and>
     rounds \<le> 26 \<and> rounds < MAX_SLOTS"
  if "rounds = (if v = 0 then 0 else min 26 (floorlog 2 (unat v) - 1))"
proof -
  obtain v' where w: "while_option log2_cond log2_body (v, 0) = Some (v', log2_bucket v)"
    using log2_loop_while [of v 0] by (auto simp: log2_bucket_def)
  from while_rounds [OF w] obtain k where k: "(v', log2_bucket v) = (log2_body ^^ k) (v, 0)"
    and pre: "\<And>j. j < k \<Longrightarrow> log2_cond ((log2_body ^^ j) (v, 0))" by blast
  have "k \<le> 26"
  proof (rule ccontr)
    assume "\<not> k \<le> 26"
    with pre [of 26] have "snd ((log2_body ^^ 26) (v, 0)) < of_nat MAX_SLOTS - 1"
      by (simp add: log2_cond_def split_beta)
    with log2_body_funpow [of 26 v] show False by (simp add: MAX_SLOTS_def)
  qed
  moreover from this k have "log2_bucket v = of_nat k" using log2_body_funpow [of k v] by (metis snd_conv)
  ultimately have "unat (log2_bucket v) = k" by (simp add: unat_of_nat take_bit_nat_eq_self)
  moreover have "rounds = unat (log2_bucket v)"
    using that floorlog_bucket [of v]
    by (cases "v = 0") (simp_all add: log2_bucket_def log2_loop.simps [of 0] unat_gt_0)
  ultimately have r: "rounds = k" by simp
  have "(log2_body ^^ rounds) (v, 0) = (v', log2_bucket v)" using k r by simp
  then show ?thesis using w pre \<open>k \<le> 26\<close> by (simp add: r MAX_SLOTS_def)
qed

theorem log2_loop_terminates_witness:
  "while_option log2_cond log2_body (800, 0) = Some ((log2_body ^^ 9) (800, 0)) \<and> log2_bucket 800 = 9"
proof -
  have "(9 :: nat) = (if (800 :: u64) = 0 then 0 else min 26 (floorlog 2 (unat (800 :: u64)) - 1))"
    by (simp add: compute_floorlog)
  from log2_loop_terminates [OF this] log2_body_funpow [of 9 800] show ?thesis by simp
qed

end
