(* ===== verification/Float64.thy ===== *)
theory Float64
  imports Prelude Complex_Main "HOL-Library.Log_Nat"
begin

text \<open>
  The float64 arithmetic of the Go code: IEEE 754 binary64 with rounding to nearest, ties to
  even. A finite value is the rational number it denotes; \<open>fl\<close> rounds a rational to the
  nearest representable one, subnormal numbers included, and every operation is the exact one
  followed by \<open>fl\<close>. Infinities and NaN do not occur: the code guards its divisions, and its
  largest results, sums of squares of 64-bit counters, stay far below the overflow bound
  \<open>2 ^ 1024\<close>.
\<close>

section \<open>Rounding\<close>

text \<open>The exponent \<open>e\<close> with \<open>2 ^ e \<le> q < 2 ^ (e + 1)\<close> of a positive number.\<close>

definition expo :: "rat \<Rightarrow> int" where
  "expo q =
     (let (a, b) = quotient_of q; k = bitlen a - bitlen b
      in if 2 powi k \<le> q then k else k - 1)"

definition round_even :: "rat \<Rightarrow> int" where
  "round_even x =
     (let f = \<lfloor>x\<rfloor>; d = x - of_int f
      in if d < 1 / 2 then f else if d > 1 / 2 then f + 1 else if even f then f else f + 1)"

text \<open>The exponent of the last place: 53 significant bits, and none below \<open>2 ^ -1074\<close>.\<close>

definition ulp :: "rat \<Rightarrow> int" where
  "ulp q = max (expo \<bar>q\<bar> - 52) (- 1074)"

definition fl :: "rat \<Rightarrow> rat" where
  "fl q = (if q = 0 then 0 else of_int (round_even (q / 2 powi ulp q)) * 2 powi ulp q)"

section \<open>Operations\<close>

definition fadd :: "rat \<Rightarrow> rat \<Rightarrow> rat" where "fadd x y = fl (x + y)"
definition fsub :: "rat \<Rightarrow> rat \<Rightarrow> rat" where "fsub x y = fl (x - y)"
definition fmul :: "rat \<Rightarrow> rat \<Rightarrow> rat" where "fmul x y = fl (x * y)"
definition fdiv :: "rat \<Rightarrow> rat \<Rightarrow> rat" where "fdiv x y = fl (x / y)"

definition float64 :: "u64 \<Rightarrow> rat" where "float64 n = fl (of_nat (unat n))"
definition float64_int :: "int \<Rightarrow> rat" where "float64_int n = fl (of_int n)"

text \<open>The evaluator reads a word as an integer rather than as a unary number.\<close>

lemma float64_code [code]: "float64 n = fl (of_int (uint n))"
  by (simp add: float64_def)

lemmas float_ops = fadd_def fsub_def fmul_def fdiv_def float64_def float64_int_def

section \<open>Exponents\<close>

lemma bitlen_rat_bounds:
  assumes "0 < a"
  shows "2 powi (bitlen a - 1) \<le> (of_int a :: rat)" and "(of_int a :: rat) < 2 powi bitlen a"
proof -
  have b: "2 ^ nat (bitlen a - 1) \<le> a" "a < 2 ^ nat (bitlen a)" "0 < bitlen a"
    using bitlen_bounds [OF assms] bitlen_nonneg [of a] bitlen_eq_zero_iff [of a] assms by auto
  have "(2 :: rat) powi (bitlen a - 1) = of_int (2 ^ nat (bitlen a - 1))"
    and "(2 :: rat) powi bitlen a = of_int (2 ^ nat (bitlen a))"
    using b(3) by (simp_all add: power_int_def)
  with b show "2 powi (bitlen a - 1) \<le> (of_int a :: rat)" and "(of_int a :: rat) < 2 powi bitlen a"
    by (simp_all only: of_int_le_iff of_int_less_iff)
qed

lemma powi_2_pos [simp]: "0 < (2 :: rat) powi k"
  by (simp add: zero_less_power_int)

lemma powi_2_mono: "k \<le> l \<Longrightarrow> (2 :: rat) powi k \<le> 2 powi l"
  by (rule power_int_increasing) simp_all

lemma powi_2_less_iff [simp]: "(2 :: rat) powi k < 2 powi l \<longleftrightarrow> k < l"
  by (metis linorder_not_le order_less_irrefl order_less_le powi_2_mono power_int_strict_increasing
      one_less_numeral_iff semiring_norm(76))

lemma expo_bounds:
  assumes "0 < q"
  shows "2 powi expo q \<le> q \<and> q < 2 powi (expo q + 1)"
proof -
  obtain a b where ab: "quotient_of q = (a, b)" by force
  have b: "0 < b" using quotient_of_denom_pos [OF ab] .
  have q: "q = of_int a / of_int b" using quotient_of_div [OF ab] .
  have a: "0 < a" using assms q b by (simp add: zero_less_divide_iff)
  let ?k = "bitlen a - bitlen b"
  have "(2 :: rat) powi (?k - 1) * of_int b \<le> 2 powi (?k - 1) * 2 powi bitlen b"
    using bitlen_rat_bounds(2) [OF b] by (intro mult_left_mono) simp_all
  also have "\<dots> = 2 powi (bitlen a - 1)" by (simp add: power_int_add [symmetric])
  also have "\<dots> \<le> of_int a" using bitlen_rat_bounds(1) [OF a] .
  finally have lo: "2 powi (?k - 1) \<le> q" using b by (simp add: q pos_le_divide_eq)
  have "of_int a < (2 :: rat) powi bitlen a" using bitlen_rat_bounds(2) [OF a] .
  also have "\<dots> = 2 powi (?k + 1) * 2 powi (bitlen b - 1)" by (simp add: power_int_add [symmetric])
  also have "\<dots> \<le> 2 powi (?k + 1) * of_int b"
    using bitlen_rat_bounds(1) [OF b] by (intro mult_left_mono) simp_all
  finally have "q < 2 powi (?k + 1)" using b by (simp add: q pos_divide_less_eq)
  with lo show ?thesis by (simp add: expo_def ab Let_def)
qed

lemma expo_unique:
  assumes "0 < q" and "2 powi e \<le> q" and "q < 2 powi (e + 1)"
  shows "expo q = e"
proof -
  from expo_bounds [OF assms(1)] assms have "(2 :: rat) powi e < 2 powi (expo q + 1)"
    "(2 :: rat) powi expo q < 2 powi (e + 1)" by linarith+
  then show ?thesis by simp
qed

lemma expo_mono: "0 < q \<Longrightarrow> q \<le> r \<Longrightarrow> expo q \<le> expo r"
proof -
  assume "0 < q" "q \<le> r"
  with expo_bounds [of q] expo_bounds [of r] have "(2 :: rat) powi expo q < 2 powi (expo r + 1)" by linarith
  then show ?thesis by simp
qed

section \<open>Rounding to an integer\<close>

lemma floor_split:
  fixes x :: rat
  obtains f where "\<lfloor>x\<rfloor> = f" "of_int f \<le> x" "x < of_int f + 1"
proof
  show "of_int \<lfloor>x\<rfloor> \<le> x" "x < of_int \<lfloor>x\<rfloor> + 1" by linarith+
qed simp

lemma round_even_le:
  assumes "x \<le> of_int m"
  shows "round_even x \<le> m"
proof -
  obtain f where f: "\<lfloor>x\<rfloor> = f" "of_int f \<le> x" "x < of_int f + 1" by (rule floor_split)
  with assms have "f \<le> m" by linarith
  moreover have "f < m" if "of_int f < x"
    using that assms by linarith
  ultimately show ?thesis
    using f(2) unfolding round_even_def Let_def f(1) by (cases "of_int f = x") auto
qed

lemma round_even_ge:
  assumes "of_int m \<le> x"
  shows "m \<le> round_even x"
proof -
  have "m \<le> \<lfloor>x\<rfloor>" using assms by (simp add: le_floor_iff)
  then show ?thesis unfolding round_even_def Let_def by simp
qed

lemma round_even_of_int [simp]: "round_even (of_int m) = m"
  by (intro antisym round_even_le round_even_ge) simp_all

lemma round_even_error: "\<bar>of_int (round_even x) - x\<bar> \<le> 1 / 2"
proof -
  obtain f where "\<lfloor>x\<rfloor> = f" "of_int f \<le> x" "x < of_int f + 1" by (rule floor_split)
  then show ?thesis unfolding round_even_def Let_def abs_le_iff by auto
qed

lemma round_even_mono: "x \<le> y \<Longrightarrow> round_even x \<le> round_even y"
proof (cases "\<lfloor>x\<rfloor> = \<lfloor>y\<rfloor>")
  case True
  assume "x \<le> y"
  with True show ?thesis unfolding round_even_def Let_def by simp
next
  case False
  assume "x \<le> y"
  with False have "\<lfloor>x\<rfloor> + 1 \<le> \<lfloor>y\<rfloor>" using floor_mono [of x y] by simp
  moreover have "round_even x \<le> \<lfloor>x\<rfloor> + 1" by (rule round_even_le) linarith
  moreover have "\<lfloor>y\<rfloor> \<le> round_even y" by (rule round_even_ge) linarith
  ultimately show ?thesis by simp
qed

lemma round_even_minus: "round_even (- x) = - round_even x"
proof (cases "x = of_int \<lfloor>x\<rfloor>")
  case True
  then show ?thesis by (metis of_int_minus round_even_of_int)
next
  case False
  obtain f where f: "\<lfloor>x\<rfloor> = f" "of_int f \<le> x" "x < of_int f + 1" by (rule floor_split)
  with False have "of_int f < x" by simp
  with f have neg: "\<lfloor>- x\<rfloor> = - f - 1" by (simp add: floor_eq_iff)
  have "round_even (- x) = (if of_int f + 1 - x < 1 / 2 then - f - 1 else if of_int f + 1 - x > 1 / 2 then - f
      else if odd f then - f - 1 else - f)"
    unfolding round_even_def Let_def neg by simp
  moreover have "round_even x = (if x - of_int f < 1 / 2 then f else if x - of_int f > 1 / 2 then f + 1
      else if even f then f else f + 1)"
    unfolding round_even_def Let_def f(1) by simp
  ultimately show ?thesis by auto
qed

section \<open>Laws of rounding\<close>

lemma fl_0 [simp]: "fl 0 = 0"
  by (simp add: fl_def)

lemma fl_minus [simp]: "fl (- q) = - fl q"
  by (simp add: fl_def ulp_def round_even_minus)

lemma fl_nonneg: "0 \<le> q \<Longrightarrow> 0 \<le> fl q"
  using round_even_ge [of 0 "q / 2 powi ulp q"]
  by (simp add: fl_def zero_le_mult_iff)

text \<open>Numbers on the grid of \<open>q\<close> bound its rounding.\<close>

lemma grid_multiple:
  assumes "k \<le> l"
  shows "of_int m * 2 powi l / 2 powi k = (of_int (m * 2 ^ nat (l - k)) :: rat)"
proof -
  have "(2 :: rat) powi l = 2 powi k * 2 ^ nat (l - k)"
    using assms by (simp add: power_int_add [symmetric] flip: power_int_of_nat)
  then show ?thesis by simp
qed

lemma fl_le_grid:
  assumes "q \<le> of_int m * 2 powi l" and "ulp q \<le> l" and "q \<noteq> 0"
  shows "fl q \<le> of_int m * 2 powi l"
proof -
  have "q / 2 powi ulp q \<le> of_int m * 2 powi l / 2 powi ulp q"
    using assms(1) by (simp add: divide_right_mono)
  then have "round_even (q / 2 powi ulp q) \<le> m * 2 ^ nat (l - ulp q)"
    unfolding grid_multiple [OF assms(2)] by (rule round_even_le)
  then have "of_int (round_even (q / 2 powi ulp q)) \<le> of_int m * 2 powi l / (2 :: rat) powi ulp q"
    unfolding grid_multiple [OF assms(2)] by (simp only: of_int_le_iff)
  with assms(3) show ?thesis by (simp add: fl_def pos_le_divide_eq)
qed

lemma fl_ge_grid:
  assumes "of_int m * 2 powi l \<le> q" and "ulp q \<le> l" and "q \<noteq> 0"
  shows "of_int m * 2 powi l \<le> fl q"
  using fl_le_grid [of "- q" "- m" l] assms by (simp add: ulp_def)

lemma fl_exact: "ulp q \<le> l \<Longrightarrow> q = of_int m * 2 powi l \<Longrightarrow> fl q = q"
  by (cases "q = 0") (auto intro!: antisym fl_le_grid fl_ge_grid)

lemma ulp_mono: "0 < q \<Longrightarrow> q \<le> r \<Longrightarrow> ulp q \<le> ulp r"
  using expo_mono [of q r] by (simp add: ulp_def)

lemma fl_mono_pos:
  assumes "0 < q" and "q \<le> r"
  shows "fl q \<le> fl r"
proof (cases "ulp q = ulp r")
  case True
  have "round_even (q / 2 powi ulp r) \<le> round_even (r / 2 powi ulp r)"
    using assms(2) by (intro round_even_mono divide_right_mono) simp_all
  with True assms show ?thesis by (simp add: fl_def)
next
  case False
  with ulp_mono [OF assms] have less: "ulp q < ulp r" by simp
  then have e: "ulp r = expo r - 52" "expo q < expo r"
    using assms by (auto simp: ulp_def)
  have "(2 :: rat) powi (expo q + 1) \<le> 2 powi expo r" using e(2) by (intro powi_2_mono) simp
  then have "q \<le> of_int 1 * 2 powi expo r" using expo_bounds [OF assms(1)] by simp
  then have "fl q \<le> of_int 1 * 2 powi expo r"
    using less e assms(1) by (intro fl_le_grid) simp_all
  also have "\<dots> \<le> fl r"
    using expo_bounds [of r] assms e by (intro fl_ge_grid) simp_all
  finally show ?thesis .
qed

lemma fl_mono: "q \<le> r \<Longrightarrow> fl q \<le> fl r"
proof (cases "0 < q")
  case True
  then show "q \<le> r \<Longrightarrow> fl q \<le> fl r" by (rule fl_mono_pos)
next
  case False
  assume "q \<le> r"
  show ?thesis
  proof (cases "0 \<le> r")
    case True
    then show ?thesis using fl_nonneg [of r] fl_nonneg [of "- q"] False by simp
  next
    case False
    then show ?thesis using fl_mono_pos [of "- r" "- q"] \<open>q \<le> r\<close> by simp
  qed
qed

lemma expo_less:
  assumes "0 < q" and "q < 2 powi k"
  shows "expo q < k"
proof -
  from expo_bounds [OF assms(1)] assms(2) have "(2 :: rat) powi expo q < 2 powi k" by linarith
  then show ?thesis by simp
qed

lemma fl_dyadic:
  assumes "\<bar>m\<bar> < 2 ^ 53" and "- 1074 \<le> k"
  shows "fl (of_int m * 2 powi k) = of_int m * 2 powi k"
proof (cases "m = 0")
  case False
  let ?q = "of_int m * 2 powi k :: rat"
  have "(of_int \<bar>m\<bar> :: rat) < of_int (2 ^ 53)" using assms(1) by (simp only: of_int_less_iff)
  then have "\<bar>of_int m :: rat\<bar> < 2 ^ 53" by simp
  then have "\<bar>?q\<bar> < 2 ^ 53 * 2 powi k" by (simp add: abs_mult)
  also have "\<dots> = 2 powi (53 + k)" using power_int_add [of "2 :: rat" 53 k] by simp
  finally have "expo \<bar>?q\<bar> < 53 + k" using False by (intro expo_less) simp_all
  then have "ulp ?q \<le> k" using assms(2) by (simp add: ulp_def)
  then show ?thesis by (rule fl_exact) (rule refl)
qed simp

lemma fl_int: "\<bar>m\<bar> < 2 ^ 53 \<Longrightarrow> fl (of_int m) = of_int m"
  using fl_dyadic [of m 0] by simp

lemma fl_nat: "n < 2 ^ 53 \<Longrightarrow> fl (of_nat n) = of_nat n"
  using fl_int [of "int n"] by simp

lemma fl_1 [simp]: "fl 1 = 1"
  using fl_int [of 1] by simp

lemma fl_le_nat: "q \<le> of_nat n \<Longrightarrow> n < 2 ^ 53 \<Longrightarrow> fl q \<le> of_nat n"
  using fl_mono [of q "of_nat n"] by (simp add: fl_nat)

lemma fl_ge_nat: "of_nat n \<le> q \<Longrightarrow> n < 2 ^ 53 \<Longrightarrow> of_nat n \<le> fl q"
  using fl_mono [of "of_nat n" q] by (simp add: fl_nat)

text \<open>The relative error is at most half a unit in the 53rd place.\<close>

lemma fl_error:
  assumes "2 powi - 1022 \<le> q"
  shows "\<bar>fl q - q\<bar> \<le> q / 2 ^ 53"
proof -
  have "0 < (2 :: rat) powi - 1022" by (rule powi_2_pos)
  with assms have q: "0 < q" by linarith
  from assms expo_bounds [OF q] have "(2 :: rat) powi - 1022 < 2 powi (expo q + 1)" by linarith
  then have "- 1022 < expo q + 1" by (rule powi_2_less_iff [THEN iffD1])
  then have ulp: "ulp q = expo q - 52" using q by (simp add: ulp_def)
  let ?u = "2 powi ulp q :: rat" and ?m = "of_int (round_even (q / 2 powi ulp q)) :: rat"
  have "\<bar>fl q - q\<bar> = \<bar>(?m - q / ?u) * ?u\<bar>" using q by (simp add: fl_def left_diff_distrib)
  also have "\<dots> = \<bar>?m - q / ?u\<bar> * ?u" by (simp only: abs_mult abs_of_pos [OF powi_2_pos])
  also have "\<dots> \<le> 1 / 2 * ?u"
    using round_even_error [of "q / ?u"] by (intro mult_right_mono) simp_all
  finally have "\<bar>fl q - q\<bar> \<le> 1 / 2 * 2 powi ulp q" .
  also have "(1 / 2 * 2 powi ulp q :: rat) = 2 powi expo q / 2 ^ 53"
    unfolding ulp by (simp add: power_int_diff)
  also have "\<dots> \<le> q / 2 ^ 53" using expo_bounds [OF q] by simp
  finally show ?thesis .
qed

text \<open>The rounding mode of IEEE 754: whatever is nearest to the number among the multiples of the
  unit in the last place, or as near as any and even, is its rounding.\<close>

lemma round_even_eq:
  assumes "\<bar>x - of_int m\<bar> < 1 / 2 \<or> \<bar>x - of_int m\<bar> = 1 / 2 \<and> even m"
  shows "round_even x = m"
proof -
  obtain f where f: "\<lfloor>x\<rfloor> = f" "of_int f \<le> x" "x < of_int f + 1" by (rule floor_split)
  have "\<bar>x - of_int m\<bar> \<le> 1 / 2" using assms by auto
  then have "of_int m - 1 < (of_int f + 1 :: rat)" "of_int f < (of_int m + 1 :: rat)"
    using f(2,3) unfolding abs_le_iff by linarith+
  then have "m < f + 2" "f < m + 1" by linarith+
  then consider "m = f" | "m = f + 1" by linarith
  then show ?thesis
  proof cases
    case 1
    with assms f have "x - of_int f < 1 / 2 \<or> x - of_int f = 1 / 2 \<and> even f" by auto
    with 1 show ?thesis unfolding round_even_def Let_def f(1) by auto
  next
    case 2
    with assms f have "x - of_int f > 1 / 2 \<or> x - of_int f = 1 / 2 \<and> odd f" by (auto simp: abs_if split: if_splits)
    with 2 show ?thesis unfolding round_even_def Let_def f(1) by auto
  qed
qed

lemma fl_eval:
  assumes "2 ^ 52 * 2 ^ e \<le> q" and "q < 2 ^ 53 * 2 ^ e"
    and "2 * \<bar>q - of_int m * 2 ^ e\<bar> < 2 ^ e \<or> 2 * \<bar>q - of_int m * 2 ^ e\<bar> = 2 ^ e \<and> even m"
  shows "fl q = of_int m * 2 ^ e"
proof -
  have "0 < (2 :: rat) ^ 52 * 2 ^ e" by simp
  with assms(1) have q: "0 < q" by linarith
  have pow: "(2 :: rat) powi (int a) = 2 ^ a" for a by simp
  have "expo q = int (52 + e)"
    using assms(1,2) pow [of "52 + e"] pow [of "53 + e"]
    by (intro expo_unique [OF q]) (simp_all add: power_add algebra_simps)
  then have u: "ulp q = int e" using q by (simp add: ulp_def)
  have "\<bar>q / 2 ^ e - of_int m\<bar> = \<bar>q - of_int m * 2 ^ e\<bar> / 2 ^ e"
  proof -
    have "q / 2 ^ e - of_int m = (q - of_int m * 2 ^ e) / 2 ^ e" by (simp add: diff_divide_distrib)
    then show ?thesis by (simp add: abs_divide)
  qed
  then have "round_even (q / 2 ^ e) = m"
    using assms(3) by (intro round_even_eq) (auto simp: field_simps)
  with u q show ?thesis by (simp add: fl_def)
qed

section \<open>Relative error\<close>

text \<open>One rounding changes a normal number by a factor between \<open>1 - eps\<close> and \<open>1 + eps\<close>.\<close>

definition eps :: rat where "eps = 1 / 2 ^ 53"
definition least_normal :: rat where "least_normal = 2 powi - 1022"

lemma fl_factor:
  assumes "q = 0 \<or> least_normal \<le> q"
  shows "fl q \<le> q * (1 + eps)" and "q * (1 - eps) \<le> fl q"
proof -
  have "\<bar>fl q - q\<bar> \<le> q * eps"
    using assms fl_error [of q] by (auto simp: eps_def least_normal_def)
  then have "fl q - q \<le> q * eps" "q - fl q \<le> q * eps" by linarith+
  then show "fl q \<le> q * (1 + eps)" and "q * (1 - eps) \<le> fl q"
    by (simp_all add: algebra_simps)
qed

lemma least_normal_le: "k \<le> 1022 \<Longrightarrow> 1 \<le> q * 2 ^ k \<Longrightarrow> least_normal \<le> q"
proof -
  assume k: "k \<le> 1022" and q: "1 \<le> q * 2 ^ k"
  have "least_normal \<le> 2 powi - int k" using k unfolding least_normal_def by (intro powi_2_mono) simp
  also have "\<dots> = 1 / 2 ^ k" by (simp add: power_int_minus inverse_eq_divide)
  also have "\<dots> \<le> q" using q by (simp add: divide_le_eq)
  finally show ?thesis .
qed

lemma nat_normal: "of_nat n = (0 :: rat) \<or> least_normal \<le> of_nat n" for n :: nat
proof (cases "n = 0")
  case False
  then have "(1 :: rat) \<le> of_nat n" by simp
  then show ?thesis using least_normal_le [of 0 "of_nat n"] by simp
qed simp

lemma float64_nat: "float64 n = fl (of_nat (unat n))" "unat n < 2 ^ 64"
  using unsigned_less [of n] by (simp_all add: float64_def)

lemma fl_of_nat_ge_1: "0 < n \<Longrightarrow> 1 \<le> fl (of_nat n)" for n :: nat
  using fl_ge_nat [of 1 "of_nat n"] by simp

lemma fl_of_nat_le: "n < 2 ^ 64 \<Longrightarrow> fl (of_nat n) \<le> 2 ^ 64" for n :: nat
proof -
  assume "n < 2 ^ 64"
  then have "(of_nat n :: rat) \<le> of_nat (2 ^ 64)" by (subst of_nat_le_iff) simp
  then have "fl (of_nat n) \<le> fl (2 ^ 64)" by (intro fl_mono) simp
  also have "fl (2 ^ 64) = 2 ^ 64" using fl_dyadic [of 1 64] by (simp add: power_int_def)
  finally show ?thesis .
qed

lemma eps_numeric: "(1 - 1 / 2 ^ 49) * (1 + eps) ^ 5 \<le> 1 - eps" "0 < eps" "eps < 1"
  by (simp_all add: eps_def power_numeral_reduce)

section \<open>Evaluation\<close>

text \<open>The same functions on integers, for the evaluator.\<close>

definition round_div :: "int \<Rightarrow> int \<Rightarrow> int" where
  "round_div a b =
     (let f = a div b; r = 2 * (a mod b)
      in if r < b then f else if r > b then f + 1 else if even f then f else f + 1)"

lemma round_div: "0 < b \<Longrightarrow> round_even (of_int a / of_int b) = round_div a b"
proof -
  assume b: "0 < b"
  have f: "\<lfloor>of_int a / (of_int b :: rat)\<rfloor> = a div b" by (rule floor_divide_of_int_eq)
  have d: "of_int a / (of_int b :: rat) - of_int (a div b) = of_int (a mod b) / of_int b"
    using b by (simp add: field_simps flip: of_int_mult of_int_add of_int_diff)
  have half: "(of_int m / of_int b < (1 / 2 :: rat)) \<longleftrightarrow> 2 * m < b"
    "((1 / 2 :: rat) < of_int m / of_int b) \<longleftrightarrow> b < 2 * m" for m
  proof -
    have "(of_int m / of_int b < (1 / 2 :: rat)) \<longleftrightarrow> of_int (2 * m) < (of_int b :: rat)"
      "((1 / 2 :: rat) < of_int m / of_int b) \<longleftrightarrow> of_int b < (of_int (2 * m) :: rat)"
      using b by (simp_all add: divide_less_eq less_divide_eq mult.commute)
    then show "(of_int m / of_int b < (1 / 2 :: rat)) \<longleftrightarrow> 2 * m < b"
      "((1 / 2 :: rat) < of_int m / of_int b) \<longleftrightarrow> b < 2 * m" by (simp_all only: of_int_less_iff)
  qed
  show ?thesis unfolding round_even_def Let_def f d half round_div_def ..
qed

lemma rat_quotient:
  assumes "quotient_of q = (a, b)"
  shows "q = of_int a / of_int b" "0 < b"
  using assms quotient_of_div quotient_of_denom_pos by blast+

lemma powi_pos: "0 \<le> k \<Longrightarrow> (2 :: rat) powi k = of_int (2 ^ nat k)"
  by (simp add: power_int_def)

lemma powi_neg: "\<not> 0 \<le> k \<Longrightarrow> (2 :: rat) powi k = 1 / of_int (2 ^ nat (- k))"
  by (simp add: power_int_def power_one_over inverse_eq_divide)

lemma expo_code [code]:
  "expo q =
     (case quotient_of q of (a, b) \<Rightarrow>
        (let k = bitlen a - bitlen b
         in if (if 0 \<le> k then 2 ^ nat k * b \<le> a else b \<le> a * 2 ^ nat (- k)) then k else k - 1))"
proof -
  obtain a b where q: "quotient_of q = (a, b)" by fastforce
  note ab = rat_quotient [OF q]
  have "2 powi k \<le> q \<longleftrightarrow> (if 0 \<le> k then 2 ^ nat k * b \<le> a else b \<le> a * 2 ^ nat (- k))" for k
  proof (cases "0 \<le> k")
    case True
    have "2 powi k \<le> q \<longleftrightarrow> of_int (2 ^ nat k * b) \<le> (of_int a :: rat)"
      using ab by (simp add: powi_pos [OF True] pos_le_divide_eq)
    then show ?thesis using True by (simp only: of_int_le_iff if_True)
  next
    case False
    have "2 powi k \<le> q \<longleftrightarrow> of_int b \<le> (of_int (a * 2 ^ nat (- k)) :: rat)"
      unfolding ab(1) using ab(2) by (simp add: powi_neg [OF False] field_simps)
    then show ?thesis using False by (simp only: of_int_le_iff if_False)
  qed
  then show ?thesis by (simp add: expo_def q Let_def)
qed

lemma fl_code [code]:
  "fl q =
     (if q = 0 then 0
      else case quotient_of q of (a, b) \<Rightarrow>
        (let u = ulp q
         in if 0 \<le> u then of_int (round_div a (b * 2 ^ nat u) * 2 ^ nat u)
            else of_int (round_div (a * 2 ^ nat (- u)) b) / of_int (2 ^ nat (- u))))"
proof -
  obtain a b where q: "quotient_of q = (a, b)" by fastforce
  note ab = rat_quotient [OF q]
  have "of_int (round_even (q / 2 powi u)) * (2 :: rat) powi u =
      (if 0 \<le> u then of_int (round_div a (b * 2 ^ nat u) * 2 ^ nat u)
       else of_int (round_div (a * 2 ^ nat (- u)) b) / of_int (2 ^ nat (- u)))" for u
  proof (cases "0 \<le> u")
    case True
    have "q / 2 powi u = of_int a / of_int (b * 2 ^ nat u)" by (simp add: ab(1) powi_pos [OF True])
    moreover have "0 < b * 2 ^ nat u" using ab(2) by simp
    ultimately have "round_even (q / 2 powi u) = round_div a (b * 2 ^ nat u)" by (simp only: round_div)
    then show ?thesis using True by (simp add: powi_pos [OF True])
  next
    case False
    have "q / 2 powi u = of_int (a * 2 ^ nat (- u)) / of_int b" by (simp add: ab(1) powi_neg [OF False])
    then have "round_even (q / 2 powi u) = round_div (a * 2 ^ nat (- u)) b" using ab(2) by (simp only: round_div)
    then show ?thesis using False by (simp add: powi_neg [OF False])
  qed
  then show ?thesis by (simp add: fl_def q Let_def)
qed

end
