(* ===== verification/Percentile.thy ===== *)
theory Percentile
  imports Float64 Log2_Histogram "HOL-Library.Multiset"
begin

text \<open>
  Percentiles of a log2 histogram, \<^verbatim>\<open>src/internal/metrics/histogram.go\<close>, and what they say about
  the latencies that the monitors counted into its slots.
\<close>

section \<open>The estimate\<close>

text \<open>\<^verbatim>\<open>math.Pow(2, i)\<close> is exact for the slots of a histogram.\<close>

definition bucketMidpoint :: "nat \<Rightarrow> rat" where
  "bucketMidpoint i = fmul (2 ^ i) (3 / 2)"

definition percentile_target :: "rat \<Rightarrow> u64 \<Rightarrow> u64" where
  "percentile_target p tot =
     (let target = word_of_int \<lceil>fmul (fdiv p 100) (float64 tot)\<rceil>
      in if target = 0 then 1 else target)"

fun percentile_loop :: "u64 \<Rightarrow> u64 \<Rightarrow> nat \<Rightarrow> u64 list \<Rightarrow> nat option" where
  "percentile_loop target cum i [] = None"
| "percentile_loop target cum i (c # cs) =
     (if cum + c \<ge> target then Some i else percentile_loop target (cum + c) (i + 1) cs)"

definition Percentile :: "u64 list \<Rightarrow> rat \<Rightarrow> rat" where
  "Percentile slots p =
     (let tot = sum_list slots
      in if tot = 0 then 0
         else case percentile_loop (percentile_target p tot) 0 0 slots of
                Some i \<Rightarrow> bucketMidpoint i
              | None \<Rightarrow> bucketMidpoint (length slots - 1))"

definition Mean :: "u64 \<Rightarrow> u64 \<Rightarrow> rat" where
  "Mean tot cnt = (if cnt = 0 then 0 else fdiv (float64 tot) (float64 cnt))"

section \<open>The loop\<close>

lemma percentile_loop_Some:
  assumes "unat cum + sum_list (map unat cs) < 2 ^ 64" and "j < length cs"
    and "unat cum + sum_list (map unat (take j cs)) < unat target"
    and "unat target \<le> unat cum + sum_list (map unat (take (Suc j) cs))"
  shows "percentile_loop target cum i cs = Some (i + j)"
  using assms
proof (induction cs arbitrary: cum i j)
  case (Cons c cs)
  from Cons.prems(1) have add: "unat (cum + c) = unat cum + unat c"
    by (intro unat_add_lem [THEN iffD1]) simp
  show ?case
  proof (cases j)
    case 0
    with Cons.prems add show ?thesis by (simp add: word_le_nat_alt)
  next
    case (Suc j')
    have "\<not> target \<le> cum + c" using Cons.prems(3) Suc by (simp add: word_le_nat_alt add)
    with Cons.IH [of "cum + c" j' "i + 1"] Cons.prems Suc add show ?thesis by simp
  qed
qed simp

section \<open>Order statistics\<close>

text \<open>In a list sorted by \<open>f\<close>, the elements below the one at \<open>k\<close> are among the first \<open>k\<close>.\<close>

lemma sorted_count_less:
  assumes "sorted (map f xs)" and "k < length xs"
  shows "length (filter (\<lambda>x. f x < f (xs ! k)) xs) \<le> (k :: nat)"
proof -
  let ?P = "\<lambda>x. f x < f (xs ! k)"
  have "f (xs ! k) \<le> f x" if "x \<in> set (drop k xs)" for x
  proof -
    from that obtain i where "x = xs ! (k + i)" "k + i < length xs"
      by (auto simp: in_set_conv_nth)
    then show ?thesis using sorted_nth_mono [OF assms(1), of k "k + i"] assms(2) by simp
  qed
  then have "filter ?P (drop k xs) = []" by (auto simp: filter_empty_conv not_less)
  then have "length (filter ?P xs) = length (filter ?P (take k xs))"
    by (metis append_Nil2 append_take_drop_id filter_append)
  also have "\<dots> \<le> k" using length_filter_le [of ?P "take k xs"] assms(2) by simp
  finally show ?thesis .
qed

lemma sorted_count_le:
  assumes "sorted (map f xs)" and "k < length xs"
  shows "Suc k \<le> length (filter (\<lambda>x. f x \<le> f (xs ! k)) xs)"
proof -
  let ?P = "\<lambda>x. f x \<le> f (xs ! k)"
  have "?P x" if "x \<in> set (take (Suc k) xs)" for x
  proof -
    from that obtain i where "x = xs ! i" "i \<le> k" by (auto simp: in_set_conv_nth)
    then show ?thesis using sorted_nth_mono [OF assms(1), of i k] assms(2) by simp
  qed
  then have "filter ?P (take (Suc k) xs) = take (Suc k) xs" by (simp add: filter_id_conv)
  then have "Suc k = length (filter ?P (take (Suc k) xs))" using assms(2) by simp
  also have "\<dots> \<le> length (filter ?P xs)"
    by (metis append_take_drop_id filter_append le_add1 length_append)
  finally show ?thesis .
qed

section \<open>What the slots count\<close>

abbreviation bucket_of :: "u64 \<Rightarrow> nat" where
  "bucket_of v \<equiv> unat (log2_bucket v)"

definition record_all :: "u64 list \<Rightarrow> u64 list" where
  "record_all vs = fold (\<lambda>v. slots_inc (cap_bucket (log2_bucket v))) vs (replicate MAX_SLOTS 0)"

lemma bucket_mono: "v \<le> w \<Longrightarrow> bucket_of v \<le> bucket_of w"
proof (cases "v = 0 \<or> bucket_of w = 26")
  case True
  then show ?thesis
    using log2_bucket_le [of v] by (auto simp: log2_bucket_def log2_loop.simps [of 0])
next
  case False
  assume "v \<le> w"
  have "(2 :: nat) ^ bucket_of v \<le> unat v" using log2_bucket_range [of v] False by (simp add: word_neq_0_conv)
  also have "\<dots> \<le> unat w" using \<open>v \<le> w\<close> by (simp add: word_le_nat_alt)
  also have "\<dots> < 2 ^ Suc (bucket_of w)"
    using log2_bucket_range [of w] log2_bucket_le [of w] False by simp
  finally show ?thesis by (simp del: power_Suc)
qed

lemma record_all_snoc: "record_all (vs @ [v]) = slots_inc (log2_bucket v) (record_all vs)"
  by (simp add: record_all_def)

lemma record_all_ok: "slots_ok (record_all vs)"
  by (induction vs rule: rev_induct) (simp_all add: record_all_snoc, simp add: record_all_def)

lemma record_all_nth:
  assumes "length vs < 2 ^ 64" and "i < MAX_SLOTS"
  shows "unat (record_all vs ! i) = length (filter (\<lambda>v. bucket_of v = i) vs)"
  using assms(1)
proof (induction vs rule: rev_induct)
  case Nil
  then show ?case using assms(2) by (simp add: record_all_def)
next
  case (snoc v vs)
  have "length (filter (\<lambda>v. bucket_of v = i) vs) \<le> length vs" by (rule length_filter_le)
  moreover have "unat (record_all vs ! i) = length (filter (\<lambda>v. bucket_of v = i) vs)" using snoc by simp
  ultimately have "unat (record_all vs ! i) + unat (1 :: u64) < 2 ^ LENGTH(64)"
    using snoc.prems by (simp del: length_filter_le)
  then have "unat (record_all vs ! i + 1) = unat (record_all vs ! i) + 1"
    unfolding unat_add_lem by simp
  with snoc show ?case
    using assms(2) by (auto simp: record_all_snoc nth_slots_inc [OF record_all_ok])
qed

lemma record_all_sum:
  assumes "length vs < 2 ^ 64"
  shows "j \<le> MAX_SLOTS \<Longrightarrow> sum_list (map unat (take j (record_all vs))) = length (filter (\<lambda>v. bucket_of v < j) vs)"
proof (induction j)
  case (Suc j)
  have "length (filter (\<lambda>v. bucket_of v < Suc j) vs) =
      length (filter (\<lambda>v. bucket_of v < j) vs) + length (filter (\<lambda>v. bucket_of v = j) vs)"
    by (induction vs) auto
  with Suc record_all_nth [OF assms, of j] record_all_ok [of vs] show ?case
    by (simp add: take_Suc_conv_app_nth slots_ok_def)
qed simp

lemma record_all_total:
  assumes "length vs < 2 ^ 64"
  shows "sum_list (map unat (record_all vs)) = length vs" and "sum_list (record_all vs) = of_nat (length vs)"
proof -
  have "bucket_of v < MAX_SLOTS" for v using log2_bucket_le [of v] by (simp add: MAX_SLOTS_def)
  then have "filter (\<lambda>v. bucket_of v < MAX_SLOTS) vs = vs" by (simp add: filter_id_conv)
  then show "sum_list (map unat (record_all vs)) = length vs"
    using record_all_sum [OF assms, of MAX_SLOTS] record_all_ok [of vs] by (simp add: slots_ok_def)
  show "sum_list (record_all vs) = of_nat (length vs)"
    by (induction vs rule: rev_induct)
      (simp_all add: record_all_snoc sum_slots_inc [OF record_all_ok], simp add: record_all_def sum_list_replicate)
qed

section \<open>The rank\<close>

lemma bucketMidpoint_exact:
  assumes "i < 40"
  shows "bucketMidpoint i = 3 / 2 * 2 ^ i"
proof -
  have "(2 :: int) ^ i \<le> 2 ^ 40" using assms by (intro power_increasing) simp_all
  then have "fl (of_int (3 * 2 ^ i) * 2 powi - 1) = of_int (3 * 2 ^ i) * 2 powi - 1"
    by (intro fl_dyadic) (simp_all add: abs_mult)
  then show ?thesis by (simp add: bucketMidpoint_def fmul_def field_simps)
qed

lemma percentile_target_bounds:
  assumes "0 < n" and "n < 2 ^ 53" and "1 \<le> p" and "p \<le> 100"
    and "rank = unat (percentile_target p (of_nat n))"
  shows "1 \<le> rank \<and> rank \<le> n \<and> \<bar>of_nat rank - 1 / 2 - p / 100 * of_nat n\<bar> \<le> 1 / 2 + of_nat n / 2 ^ 52"
proof -
  define a where "a = fl (p / 100)"
  define y where "y = fl (a * of_nat n)"
  have small: "(2 :: rat) powi - 1022 \<le> 2 powi - 10" by (rule powi_2_mono) simp
  have tiny: "(2 :: rat) powi - 10 = 1 / 1024" by (simp add: power_int_def power_divide)
  have a_err: "\<bar>a - p / 100\<bar> \<le> p / 100 / 2 ^ 53"
    unfolding a_def using small assms(3) by (intro fl_error) (simp add: tiny)
  have a_le: "a \<le> 1" unfolding a_def using fl_mono [of "p / 100" 1] assms(4) by simp
  have "p / 100 / 2 ^ 53 \<le> p / 200" using assms(3) by simp
  with a_err have "- (a - p / 100) \<le> p / 200" by (meson abs_le_iff order_trans)
  then have a_ge: "1 / 200 \<le> a" using assms(3) by simp
  have n: "1 \<le> (of_nat n :: rat)" using assms(1) by simp
  have an: "1 / 200 \<le> a * of_nat n" using mult_mono [OF a_ge n] a_ge by simp
  have an_le: "a * of_nat n \<le> of_nat n" using a_le by (simp add: mult_left_le_one_le a_ge order_trans [OF _ a_ge])
  have y_err: "\<bar>y - a * of_nat n\<bar> \<le> a * of_nat n / 2 ^ 53"
    unfolding y_def using small an by (intro fl_error) (simp add: tiny)
  have y_le: "y \<le> of_nat n" unfolding y_def using an_le assms(2) by (rule fl_le_nat)
  have "a * of_nat n / 2 ^ 53 \<le> a * of_nat n / 2" using an by simp
  with y_err have "- (y - a * of_nat n) \<le> a * of_nat n / 2" by (meson abs_le_iff order_trans)
  then have y_pos: "0 < y" using an by simp
  have c: "1 \<le> \<lceil>y\<rceil>" "\<lceil>y\<rceil> \<le> int n" using y_pos y_le by (simp_all add: ceiling_le_iff)
  have "unat (of_nat n :: u64) = n" using assms(2) by (simp add: unat_of_nat take_bit_nat_eq_self)
  then have "float64 (of_nat n) = of_nat n" using assms(2) by (simp add: float64_def fl_nat)
  then have "percentile_target p (of_nat n) = (let t = word_of_int \<lceil>y\<rceil> in if t = 0 then 1 else t)"
    by (simp add: percentile_target_def fmul_def fdiv_def y_def a_def)
  moreover have "unat (word_of_int \<lceil>y\<rceil> :: u64) = nat \<lceil>y\<rceil>"
  proof -
    have "int n < 2 ^ 64" using assms(2) by simp
    with c have "0 \<le> \<lceil>y\<rceil>" "\<lceil>y\<rceil> < 2 ^ 64" by linarith+
    then show ?thesis by (simp add: unat_eq_nat_uint uint_word_of_int_eq take_bit_int_eq_self)
  qed
  ultimately have rank: "rank = nat \<lceil>y\<rceil>"
    using c assms(5) by (auto simp: Let_def split: if_splits)
  have err: "\<bar>y - p / 100 * of_nat n\<bar> \<le> of_nat n / 2 ^ 52"
  proof -
    have "\<bar>a * of_nat n - p / 100 * of_nat n\<bar> = \<bar>a - p / 100\<bar> * of_nat n"
      by (simp only: left_diff_distrib [symmetric] abs_mult abs_of_nat)
    also have "\<dots> \<le> 1 / 2 ^ 53 * of_nat n"
      using a_err assms(4) by (intro mult_right_mono) simp_all
    finally have "\<bar>y - a * of_nat n\<bar> + \<bar>a * of_nat n - p / 100 * of_nat n\<bar> \<le> of_nat n / 2 ^ 52"
      using y_err an_le by simp
    moreover have "\<bar>y - p / 100 * of_nat n\<bar> \<le> \<bar>y - a * of_nat n\<bar> + \<bar>a * of_nat n - p / 100 * of_nat n\<bar>"
      using abs_triangle_ineq [of "y - a * of_nat n" "a * of_nat n - p / 100 * of_nat n"] by simp
    ultimately show ?thesis by (rule order_trans [rotated])
  qed
  have near: "\<bar>r - 1 / 2 - x\<bar> \<le> 1 / 2 + e" if "y \<le> r" "r < y + 1" "\<bar>y - x\<bar> \<le> e" for r x e :: rat
    using that abs_le_D1 [OF that(3)] abs_le_D2 [OF that(3)] by (intro abs_leI) simp_all
  have "(of_nat rank :: rat) = of_int \<lceil>y\<rceil>" using rank c by simp
  moreover have "\<bar>of_int \<lceil>y\<rceil> - 1 / 2 - p / 100 * of_nat n\<bar> \<le> 1 / 2 + of_nat n / 2 ^ 52"
    by (rule near [OF _ _ err]) linarith+
  ultimately show ?thesis using rank c by (simp add: nat_le_iff le_nat_iff)
qed

text \<open>
  C7. A percentile is an order statistic. For any latencies (fewer than \<open>2 ^ 53\<close>) counted into a
  fresh histogram by the monitors' bucket function, and \<open>1 \<le> p \<le> 100\<close>, the estimate is the
  midpoint of the bucket of the latency with a certain rank in the sorted list. The rank is
  at least 1, at most their number, and is \<open>p\<close> percent of it rounded up, up to an error of the
  floating-point product of at most one part in \<open>2 ^ 52\<close>. For a latency of 1 to \<open>2 ^ 27 - 1\<close>
  microseconds the estimate is off by at most half of it.
\<close>

theorem percentile_order_statistic:
  assumes "vs \<noteq> []" and "length vs < 2 ^ 53" and "1 \<le> p" and "p \<le> 100"
    and "rank = unat (percentile_target p (of_nat (length vs)))" and "v = sort vs ! (rank - 1)"
  shows "1 \<le> rank \<and> rank \<le> length vs \<and>
     \<bar>of_nat rank - 1 / 2 - p / 100 * of_nat (length vs)\<bar> \<le> 1 / 2 + of_nat (length vs) / 2 ^ 52 \<and>
     Percentile (record_all vs) p = bucketMidpoint (unat (log2_bucket v)) \<and>
     (0 < v \<and> unat v < 2 ^ 27 \<longrightarrow> \<bar>Percentile (record_all vs) p - of_nat (unat v)\<bar> \<le> of_nat (unat v) / 2)"
proof -
  let ?n = "length vs" and ?s = "sort vs" and ?slots = "record_all vs"
  have n: "0 < ?n" "?n < 2 ^ 64" using assms(1,2) by auto
  note b = percentile_target_bounds [OF n(1) assms(2-5)]
  have sorted: "sorted (map bucket_of ?s)"
    using sorted_wrt_mono_rel [of ?s "(\<le>)" "\<lambda>v w. bucket_of v \<le> bucket_of w"] bucket_mono
    by (simp add: sorted_wrt_map)
  have k: "rank - 1 < length ?s" using b n(1) by simp linarith
  have count: "length (filter P ?s) = length (filter P vs)" for P
    by (metis mset_filter mset_sort size_mset)
  have lo: "length (filter (\<lambda>x. bucket_of x < bucket_of v) vs) < rank"
    using sorted_count_less [OF sorted k] b unfolding count assms(6) by linarith
  have hi: "rank \<le> length (filter (\<lambda>x. bucket_of x < Suc (bucket_of v)) vs)"
    using sorted_count_le [OF sorted k] b unfolding count assms(6) by (simp add: less_Suc_eq_le)
  have le: "bucket_of v \<le> 26" by (rule log2_bucket_le)
  have "percentile_loop (percentile_target p (of_nat ?n)) 0 0 ?slots = Some (0 + bucket_of v)"
    using record_all_total(1) [OF n(2)] record_all_ok [of vs] record_all_sum [OF n(2)] lo hi le n(2)
    by (intro percentile_loop_Some) (simp_all add: slots_ok_def MAX_SLOTS_def assms(5))
  moreover have "(of_nat ?n :: u64) \<noteq> 0" 
  proof
    assume "(of_nat ?n :: u64) = 0"
    then have "unat (of_nat ?n :: u64) = 0" by simp
    with n show False by (simp add: unat_of_nat take_bit_nat_eq_self)
  qed
  ultimately have P: "Percentile ?slots p = bucketMidpoint (bucket_of v)"
    unfolding Percentile_def record_all_total(2) [OF n(2)] by (simp add: Let_def)
  moreover have "\<bar>bucketMidpoint (bucket_of v) - of_nat (unat v)\<bar> \<le> of_nat (unat v) / 2"
    if "0 < v" "unat v < 2 ^ 27"
  proof -
    have "unat v < 2 ^ Suc (bucket_of v)"
      using log2_bucket_range [of v] le that(2) by (cases "bucket_of v = 26") auto
    moreover have "2 ^ bucket_of v \<le> unat v" using log2_bucket_range [of v] that(1) by simp
    ultimately have range: "(of_nat (2 ^ bucket_of v) :: rat) \<le> of_nat (unat v)"
      "(of_nat (unat v) :: rat) < of_nat (2 ^ Suc (bucket_of v))"
      by (simp_all only: of_nat_le_iff of_nat_less_iff)
    have mid: "bucketMidpoint (bucket_of v) = 3 / 2 * of_nat (2 ^ bucket_of v)"
      using le by (simp add: bucketMidpoint_exact)
    have near: "\<bar>3 / 2 * b - x\<bar> \<le> x / 2" if "b \<le> x" "x < 2 * b" for b x :: rat
      using that by (intro abs_leI) simp_all
    show ?thesis unfolding mid using range by (intro near) simp_all
  qed
  ultimately show ?thesis using b by simp
qed

theorem percentile_order_statistic_witness:
  "Percentile (record_all [800, 3, 5]) 50 = bucketMidpoint (unat (log2_bucket 5))"
proof -
  have r: "unat (percentile_target 50 (of_nat (length [800, 3, 5 :: u64]))) = 2" by code_simp
  have "sort [800, 3, 5 :: u64] ! (2 - 1) = 5" by simp
  with percentile_order_statistic [of "[800, 3, 5]" 50 2 5] r show ?thesis by simp
qed

end
