(* ===== verification/Baseline.thy ===== *)
theory Baseline
  imports Float64
begin

text \<open>
  Learned normals, \<^verbatim>\<open>src/internal/metrics/baseline.go\<close>: per key an exponential moving average,
  trusted after a warm-up, frozen while the key is anomalous, and dropped when the key has not
  been observed for a number of rounds. Each method runs under the lock and is one step.
\<close>

section \<open>The tracker\<close>

definition pruneAfterMisses :: int where
  "pruneAfterMisses = 12"

record avg =
  avg_value :: rat
  samples :: int
  touched :: bool
  misses :: int

record Baseline =
  alpha :: rat
  warmup :: int
  bstate :: "(u64 \<times> avg) list"

definition NewBaseline :: "rat \<Rightarrow> int \<Rightarrow> Baseline" where
  "NewBaseline al wu = \<lparr>alpha = al, warmup = wu, bstate = []\<rparr>"

definition Deviation :: "Baseline \<Rightarrow> u64 \<Rightarrow> rat \<Rightarrow> rat \<times> bool" where
  "Deviation b key current =
     (case map_of (bstate b) key of
        None \<Rightarrow> (0, False)
      | Some a \<Rightarrow>
          (if samples a < warmup b \<or> avg_value a \<le> 0 then (0, False)
           else (fdiv current (avg_value a), True)))"

definition Observe :: "u64 \<Rightarrow> rat \<Rightarrow> bool \<Rightarrow> Baseline \<Rightarrow> Baseline" where
  "Observe key current update b =
     (case map_of (bstate b) key of
        None \<Rightarrow>
          b\<lparr>bstate := AList.update key
             \<lparr>avg_value = current, samples = 1, touched = True, misses = 0\<rparr> (bstate b)\<rparr>
      | Some a \<Rightarrow>
          (let a1 = a\<lparr>touched := True, misses := 0, samples := samples a + 1\<rparr>;
               a2 = (if update
                     then a1\<lparr>avg_value := fadd (fmul (alpha b) current)
                            (fmul (fsub 1 (alpha b)) (avg_value a1))\<rparr>
                     else a1)
           in b\<lparr>bstate := AList.update key a2 (bstate b)\<rparr>))"

definition prune_entry :: "avg \<Rightarrow> avg option" where
  "prune_entry a =
     (if touched a then Some (a\<lparr>touched := False\<rparr>)
      else if misses a + 1 \<ge> pruneAfterMisses then None
      else Some (a\<lparr>misses := misses a + 1\<rparr>))"

definition Prune :: "Baseline \<Rightarrow> Baseline" where
  "Prune b = b\<lparr>bstate := List.map_filter (\<lambda>(k, a). map_option (Pair k) (prune_entry a)) (bstate b)\<rparr>"

definition Len :: "Baseline \<Rightarrow> nat" where
  "Len b = length (bstate b)"

section \<open>Laws\<close>

definition baseline_wf :: "Baseline \<Rightarrow> bool" where
  "baseline_wf b \<longleftrightarrow> distinct (map fst (bstate b))"

lemma wf_New [wf_intros]: "baseline_wf (NewBaseline al wu)"
  by (simp add: baseline_wf_def NewBaseline_def)

lemma Observe_frame [simp]: "alpha (Observe k c u b) = alpha b" "warmup (Observe k c u b) = warmup b"
  by (simp_all add: Observe_def Let_def split: option.split)

lemma Prune_frame [simp]: "alpha (Prune b) = alpha b" "warmup (Prune b) = warmup b"
  by (simp_all add: Prune_def)

lemma wf_Observe [wf_intros]: "baseline_wf b \<Longrightarrow> baseline_wf (Observe k c u b)"
  by (simp add: baseline_wf_def Observe_def Let_def distinct_update split: option.split)

lemma map_filter_entry:
  "List.map_filter (\<lambda>(k, a). map_option (Pair k) (f a)) ((k, a) # m) =
     (case f a of None \<Rightarrow> [] | Some a' \<Rightarrow> [(k, a')]) @ List.map_filter (\<lambda>(k, a). map_option (Pair k) (f a)) m"
  by (simp add: List.map_filter_def split: option.split)

lemma map_filter_keys:
  "set (map fst (List.map_filter (\<lambda>(k, a). map_option (Pair k) (f a)) m)) \<subseteq> set (map fst m)"
proof (induction m)
  case (Cons e m)
  obtain k a where "e = (k, a)" by (cases e)
  with Cons show ?case by (auto simp: map_filter_entry split: option.splits)
qed (simp add: List.map_filter_def)

lemma wf_Prune [wf_intros]: "baseline_wf b \<Longrightarrow> baseline_wf (Prune b)"
proof -
  have "distinct (map fst m) \<Longrightarrow> distinct (map fst (List.map_filter (\<lambda>(k, a). map_option (Pair k) (prune_entry a)) m))" for m
  proof (induction m)
    case (Cons e m)
    obtain k a where e: "e = (k, a)" by (cases e)
    with Cons map_filter_keys [of prune_entry m] show ?case
      by (auto simp: map_filter_entry split: option.split)
  qed (simp add: List.map_filter_def)
  then show "baseline_wf b \<Longrightarrow> baseline_wf (Prune b)" by (simp add: baseline_wf_def Prune_def)
qed

lemma map_of_filter_entry:
  "distinct (map fst m) \<Longrightarrow>
     map_of (List.map_filter (\<lambda>(k, a). map_option (Pair k) (f a)) m) k = Option.bind (map_of m k) f"
proof (induction m)
  case (Cons e m)
  obtain i a where e: "e = (i, a)" by (cases e)
  show ?case
  proof (cases "i = k")
    case True
    with Cons.prems e have "map_of m k = None" by (simp add: map_of_eq_None_iff)
    with Cons e True show ?thesis by (simp add: map_filter_entry split: option.split)
  next
    case False
    with Cons e show ?thesis by (simp add: map_filter_entry split: option.split)
  qed
qed (simp add: List.map_filter_def)

lemma Prune_lookup:
  "baseline_wf b \<Longrightarrow> map_of (bstate (Prune b)) k = Option.bind (map_of (bstate b) k) prune_entry"
  by (simp add: baseline_wf_def Prune_def map_of_filter_entry)

lemma Observe_other: "k \<noteq> key \<Longrightarrow> map_of (bstate (Observe key c u b)) k = map_of (bstate b) k"
  by (simp add: Observe_def Let_def update_conv' split: option.split)

lemma Observe_same:
  "\<exists>a. map_of (bstate (Observe key c u b)) key = Some a \<and> touched a \<and> misses a = 0"
  by (simp add: Observe_def Let_def update_conv' split: option.split)

section \<open>Rounds\<close>

text \<open>One interval: some keys are observed, each with its value and whether to learn it; then \<open>Prune\<close>.\<close>

type_synonym round = "(u64 \<times> rat \<times> bool) list"

definition observe_all :: "round \<Rightarrow> Baseline \<Rightarrow> Baseline" where
  "observe_all obs = fold (\<lambda>(k, c, u). Observe k c u) obs"

definition run_round :: "round \<Rightarrow> Baseline \<Rightarrow> Baseline" where
  "run_round obs b = Prune (observe_all obs b)"

lemma wf_observe_all: "baseline_wf b \<Longrightarrow> baseline_wf (observe_all obs b)"
  unfolding observe_all_def by (induction obs arbitrary: b) (auto intro: wf_Observe)

lemma wf_run_round [wf_intros]: "baseline_wf b \<Longrightarrow> baseline_wf (run_round obs b)"
  by (simp add: run_round_def wf_Prune wf_observe_all)

lemma observe_all_unseen:
  "k \<notin> fst ` set obs \<Longrightarrow> map_of (bstate (observe_all obs b)) k = map_of (bstate b) k"
  unfolding observe_all_def by (induction obs arbitrary: b) (auto simp: Observe_other)

lemma observe_all_seen:
  "k \<in> fst ` set obs \<Longrightarrow>
     \<exists>a. map_of (bstate (observe_all obs b)) k = Some a \<and> touched a \<and> misses a = 0"
proof (induction obs rule: rev_induct)
  case (snoc e obs)
  obtain i c u where e: "e = (i, c, u)" by (cases e)
  then have step: "observe_all (obs @ [e]) b = Observe i c u (observe_all obs b)"
    by (simp add: observe_all_def)
  show ?case
  proof (cases "i = k")
    case True
    then show ?thesis unfolding step using Observe_same by blast
  next
    case False
    with snoc e show ?thesis unfolding step by (auto simp: Observe_other)
  qed
qed simp

text \<open>The number of rounds since a key was last observed, if it ever was.\<close>

fun since_seen :: "u64 \<Rightarrow> round list \<Rightarrow> nat option" where
  "since_seen k [] = None"
| "since_seen k (obs # older) =
     (if k \<in> fst ` set obs then Some 0 else map_option Suc (since_seen k older))"

definition run_rounds :: "round list \<Rightarrow> Baseline \<Rightarrow> Baseline" where
  "run_rounds newest_first b = foldr run_round newest_first b"

lemma wf_run_rounds: "baseline_wf b \<Longrightarrow> baseline_wf (run_rounds rs b)"
  unfolding run_rounds_def by (induction rs) (auto intro: wf_run_round)

lemma tracked_iff:
  "case since_seen k rs of
     None \<Rightarrow> map_of (bstate (run_rounds rs (NewBaseline al wu))) k = None
   | Some n \<Rightarrow>
       (if n < 12 then \<exists>a. map_of (bstate (run_rounds rs (NewBaseline al wu))) k = Some a \<and>
            \<not> touched a \<and> misses a = int n
        else map_of (bstate (run_rounds rs (NewBaseline al wu))) k = None)"
proof (induction rs)
  case (Cons obs rs)
  let ?b = "run_rounds rs (NewBaseline al wu)"
  have wf: "baseline_wf (observe_all obs ?b)"
    by (intro wf_observe_all wf_run_rounds wf_New)
  have step: "map_of (bstate (run_rounds (obs # rs) (NewBaseline al wu))) k =
      Option.bind (map_of (bstate (observe_all obs ?b)) k) prune_entry"
    using Prune_lookup [OF wf] by (simp add: run_rounds_def run_round_def)
  show ?case
  proof (cases "k \<in> fst ` set obs")
    case True
    with observe_all_seen [OF True, of ?b] show ?thesis by (auto simp: step prune_entry_def)
  next
    case False
    then have same: "map_of (bstate (observe_all obs ?b)) k = map_of (bstate ?b) k"
      by (rule observe_all_unseen)
    with Cons.IH False show ?thesis
      by (auto simp: step prune_entry_def pruneAfterMisses_def split: option.splits if_splits)
  qed
qed (simp add: run_rounds_def NewBaseline_def)

text \<open>
  C28. Keys are forgotten exactly when they should be. After any rounds of observations, each
  followed by pruning, a key is tracked if and only if it was observed in one of the last
  twelve rounds; each key is tracked once, so the tracker never grows beyond the keys of
  twelve intervals.
\<close>

theorem baseline_tracks_recent:
  "(map_of (bstate (run_rounds rs (NewBaseline al wu))) k \<noteq> None \<longleftrightarrow>
      (\<exists>i < 12. i < length rs \<and> k \<in> fst ` set (rs ! i))) \<and>
   distinct (map fst (bstate (run_rounds rs (NewBaseline al wu))))"
proof -
  have "(\<exists>n. since_seen k rs = Some n \<and> n < m) \<longleftrightarrow> (\<exists>i < m. i < length rs \<and> k \<in> fst ` set (rs ! i))" for m
  proof (induction rs arbitrary: m)
    case (Cons obs rs)
    show ?case
    proof (cases m)
      case (Suc m')
      have "(\<exists>i < Suc m'. i < length (obs # rs) \<and> k \<in> fst ` set ((obs # rs) ! i)) \<longleftrightarrow>
          k \<in> fst ` set obs \<or> (\<exists>i < m'. i < length rs \<and> k \<in> fst ` set (rs ! i))"
        by (simp add: Ex_less_Suc2)
      with Cons.IH [of m'] Suc show ?thesis by auto
    qed simp
  qed simp
  moreover have "map_of (bstate (run_rounds rs (NewBaseline al wu))) k \<noteq> None \<longleftrightarrow>
      (\<exists>n. since_seen k rs = Some n \<and> n < 12)"
    using tracked_iff [where k = k and rs = rs and al = al and wu = wu] by (auto split: option.splits if_splits)
  moreover have "distinct (map fst (bstate (run_rounds rs (NewBaseline al wu))))"
    using wf_run_rounds [OF wf_New] by (simp add: baseline_wf_def)
  ultimately show ?thesis by simp
qed

end
