(* ===== verification/Correlation.thy ===== *)
theory Correlation
  imports Float64
begin

text \<open>
  Burst correlation, \<^verbatim>\<open>src/internal/metrics/correlation.go\<close>: the strongest lagged Pearson
  coefficient of two series behind an activity gate. Sums run from left to right; products and
  sums are rounded separately, as on amd64.
\<close>

section \<open>Square roots\<close>

text \<open>
  \<^verbatim>\<open>math.Sqrt\<close> rounds the exact root. The root of an integer with at least 108 bits has 54, one
  more than the result keeps; half a unit on top of it stands for a root that is not exact.
\<close>

function isqrt :: "int \<Rightarrow> int" where
  "isqrt n = (if n \<le> 0 then 0
     else let r = 2 * isqrt (n div 4) in if (r + 1) * (r + 1) \<le> n then r + 1 else r)"
  by pat_completeness auto
termination
  by (relation "measure nat") auto

declare isqrt.simps [simp del]

definition fsqrt :: "rat \<Rightarrow> rat" where
  "fsqrt q =
     (if q \<le> 0 then 0
      else let k = 56 - expo q div 2; s = isqrt \<lfloor>q * 4 powi k\<rfloor>
           in if of_int (s * s) = q * 4 powi k then fl (of_int s / 2 powi k)
              else fl ((of_int s + 1 / 2) / 2 powi k))"

section \<open>The scorer\<close>

record CorrelationConfig =
  MaxLag :: int
  MinActive :: int
  ActiveFloor :: rat
  VarianceFloor :: rat

record CorrelationResult =
  res_R :: rat
  res_Lag :: int
  res_Active :: int
  res_Gated :: bool

definition Confidence :: "CorrelationResult \<Rightarrow> rat" where
  "Confidence r = (if res_R r < 0 then 0 else if res_R r > 1 then 1 else res_R r)"

definition activeCount :: "rat list \<Rightarrow> rat \<Rightarrow> int" where
  "activeCount xs lower = foldl (\<lambda>n x. if x > lower then n + 1 else n) 0 xs"

definition variance :: "rat list \<Rightarrow> rat" where
  "variance xs =
     (if xs = [] then 0
      else let mean = fdiv (foldl fadd 0 xs) (float64_int (int (length xs)));
               ss = foldl (\<lambda>ss x. let d = fsub x mean in fadd ss (fmul d d)) 0 xs
           in fdiv ss (float64_int (int (length xs))))"

text \<open>The five sums of one pass over the pairs.\<close>

definition pair_sums :: "(rat \<times> rat) list \<Rightarrow> rat \<times> rat \<times> rat \<times> rat \<times> rat" where
  "pair_sums ps =
     foldl (\<lambda>(sx, sy, sxy, sxx, syy) (xi, yi).
         (fadd sx xi, fadd sy yi, fadd sxy (fmul xi yi), fadd sxx (fmul xi xi), fadd syy (fmul yi yi)))
       (0, 0, 0, 0, 0) ps"

definition pearsonLagged :: "rat list \<Rightarrow> rat list \<Rightarrow> nat \<Rightarrow> rat \<times> int" where
  "pearsonLagged x y lag =
     (let cnt = int (length x) - int lag
      in if cnt < 3 then (0, cnt)
         else case pair_sums (zip (take (nat cnt) x) (drop lag y)) of
                (sx, sy, sxy, sxx, syy) \<Rightarrow>
                  (let fn = float64_int cnt;
                       num = fsub (fmul fn sxy) (fmul sx sy);
                       vx = fsub (fmul fn sxx) (fmul sx sx);
                       vy = fsub (fmul fn syy) (fmul sy sy)
                   in if vx \<le> 0 \<or> vy \<le> 0 then (0, cnt)
                      else (fdiv num (fsqrt (fmul vx vy)), cnt)))"

text \<open>The search over the lags; \<open>None\<close> is the initial minus infinity.\<close>

fun lag_search :: "rat list \<Rightarrow> rat list \<Rightarrow> nat \<Rightarrow> nat \<Rightarrow> (rat \<times> nat) option \<Rightarrow> (rat \<times> nat) option" where
  "lag_search x y 0 lag best = best"
| "lag_search x y (Suc n) lag best =
     (case pearsonLagged x y lag of
        (r, cnt) \<Rightarrow>
          (if cnt < 3 then best
           else lag_search x y n (lag + 1)
             (case best of
                None \<Rightarrow> Some (r, lag)
              | Some (b, l) \<Rightarrow> if r > b then Some (r, lag) else best)))"

definition Correlate :: "rat list \<Rightarrow> rat list \<Rightarrow> CorrelationConfig \<Rightarrow> CorrelationResult" where
  "Correlate offender victim c =
     (let gated = \<lparr>res_R = 0, res_Lag = 0, res_Active = 0, res_Gated = True\<rparr>
      in if length offender \<noteq> length victim \<or> length offender = 0 then gated
         else let active = min (activeCount offender (ActiveFloor c)) (activeCount victim (ActiveFloor c))
              in if active < MinActive c then gated\<lparr>res_Active := active\<rparr>
                 else if VarianceFloor c > 0 \<and>
                     (variance offender < VarianceFloor c \<or> variance victim < VarianceFloor c)
                 then gated\<lparr>res_Active := active\<rparr>
                 else case lag_search offender victim (nat (MaxLag c + 1)) 0 None of
                        None \<Rightarrow> gated\<lparr>res_Active := active\<rparr>
                      | Some (r, l) \<Rightarrow>
                          \<lparr>res_R = r, res_Lag = int l, res_Active = active, res_Gated = False\<rparr>)"

section \<open>The search\<close>

lemma isqrt_bounds: "0 \<le> n \<Longrightarrow> 0 \<le> isqrt n \<and> isqrt n * isqrt n \<le> n \<and> n < (isqrt n + 1) * (isqrt n + 1)"
proof (induction n rule: isqrt.induct)
  case (1 n)
  show ?case
  proof (cases "n \<le> 0")
    case False
    let ?r = "isqrt (n div 4)"
    have r: "0 \<le> ?r" "?r * ?r \<le> n div 4" "n div 4 < (?r + 1) * (?r + 1)" using "1.IH" [OF False] False by auto
    then have "4 * (?r * ?r) \<le> n" "n < 4 * ((?r + 1) * (?r + 1))" by linarith+
    then show ?thesis using False r(1)
      by (simp add: isqrt.simps [of n] Let_def algebra_simps)
  qed (use "1.prems" in \<open>simp add: isqrt.simps\<close>)
qed

lemma pearson_cnt: "snd (pearsonLagged x y lag) = int (length x) - int lag"
  by (simp add: pearsonLagged_def Let_def split: prod.split)

text \<open>What the search has found before it comes to \<open>lag\<close>.\<close>

definition best_before :: "(nat \<Rightarrow> rat) \<Rightarrow> nat \<Rightarrow> (rat \<times> nat) option \<Rightarrow> bool" where
  "best_before f lag best \<longleftrightarrow>
     (case best of
        None \<Rightarrow> lag = 0
      | Some (r, l) \<Rightarrow> l < lag \<and> r = f l \<and> (\<forall>k < lag. f k \<le> r) \<and> (\<forall>k < l. f k < r))"

lemma best_beforeD:
  assumes "best_before f lag (Some (r, l))"
  shows "l < lag" "r = f l" "\<forall>k < lag. f k \<le> r" "\<forall>k < l. f k < r"
  using assms by (auto simp: best_before_def)

lemma best_before_step:
  assumes "best_before f lag best"
  shows "best_before f (Suc lag)
    (case best of None \<Rightarrow> Some (f lag, lag) | Some (b, l) \<Rightarrow> if f lag > b then Some (f lag, lag) else best)"
proof (cases best)
  case (Some bl)
  obtain b l where bl: "bl = (b, l)" by (cases bl)
  with assms Some have "l < lag" "b = f l" "\<forall>k < lag. f k \<le> b" "\<forall>k < l. f k < b"
    by (auto dest: best_beforeD)
  with Some bl show ?thesis
    by (auto simp: best_before_def less_Suc_eq not_less intro: le_less_trans)
qed (use assms in \<open>simp add: best_before_def\<close>)

lemma lag_search_best:
  assumes "best_before (\<lambda>l. fst (pearsonLagged x y l)) lag best" and "lag \<le> length x - 2"
  shows "best_before (\<lambda>l. fst (pearsonLagged x y l)) (min (lag + n) (length x - 2)) (lag_search x y n lag best)"
  using assms
proof (induction n arbitrary: lag best)
  case (Suc n)
  obtain r cnt where r: "pearsonLagged x y lag = (r, cnt)" by force
  have cnt: "cnt = int (length x) - int lag" using pearson_cnt [of x y lag] r by simp
  show ?case
  proof (cases "cnt < 3")
    case True
    then have "min (lag + Suc n) (length x - 2) = lag" using cnt Suc.prems(2) by linarith
    with True r Suc.prems show ?thesis by simp
  next
    case False
    with cnt have "Suc lag \<le> length x - 2" by linarith
    moreover have "fst (pearsonLagged x y lag) = r" by (simp add: r)
    ultimately show ?thesis
      using Suc.IH [OF best_before_step [OF Suc.prems(1), unfolded \<open>fst (pearsonLagged x y lag) = r\<close>]] False r
      by simp
  qed
qed simp

section \<open>Properties\<close>

lemma Correlate_ungated:
  assumes "\<not> res_Gated (Correlate x y c)"
  shows "length x = length y \<and> MinActive c \<le> res_Active (Correlate x y c) \<and>
     res_Active (Correlate x y c) = min (activeCount x (ActiveFloor c)) (activeCount y (ActiveFloor c)) \<and>
     (\<exists>l. lag_search x y (nat (MaxLag c + 1)) 0 None = Some (res_R (Correlate x y c), l) \<and>
        res_Lag (Correlate x y c) = int l)"
  using assms by (auto simp: Correlate_def Let_def not_less split: if_splits option.splits)

lemma Correlate_gated: "res_Gated (Correlate x y c) \<Longrightarrow> res_R (Correlate x y c) = 0"
  by (auto simp: Correlate_def Let_def split: if_splits option.splits)

text \<open>
  C29. The scorer keeps the strongest lag and never invents a score. A blocked pair scores 0 with
  confidence 0. Otherwise the series have the same length and at least \<open>MinActive\<close> active
  buckets each, and the result is the coefficient of a lag of at most \<open>MaxLag\<close> with at least
  three overlapping buckets, which no other such lag exceeds and no smaller one reaches. The
  confidence is always between 0 and 1.
\<close>

theorem correlate_best_lag:
  assumes "res = Correlate offender victim c"
  shows "0 \<le> Confidence res \<and> Confidence res \<le> 1 \<and>
     (res_Gated res \<longrightarrow> res_R res = 0 \<and> Confidence res = 0) \<and>
     (\<not> res_Gated res \<longrightarrow>
        length offender = length victim \<and> MinActive c \<le> activeCount offender (ActiveFloor c) \<and>
        MinActive c \<le> activeCount victim (ActiveFloor c) \<and>
        (\<exists>l. res_Lag res = int l \<and> int l \<le> MaxLag c \<and> l + 3 \<le> length offender \<and>
           res_R res = fst (pearsonLagged offender victim l) \<and>
           (\<forall>k. int k \<le> MaxLag c \<and> k + 3 \<le> length offender \<longrightarrow>
              fst (pearsonLagged offender victim k) \<le> res_R res) \<and>
           (\<forall>k < l. fst (pearsonLagged offender victim k) < res_R res)))"
proof -
  let ?f = "\<lambda>l. fst (pearsonLagged offender victim l)"
  have "\<exists>l. res_Lag res = int l \<and> int l \<le> MaxLag c \<and> l + 3 \<le> length offender \<and> res_R res = ?f l \<and>
      (\<forall>k. int k \<le> MaxLag c \<and> k + 3 \<le> length offender \<longrightarrow> ?f k \<le> res_R res) \<and> (\<forall>k < l. ?f k < res_R res)"
    if ng: "\<not> res_Gated res"
  proof -
    let ?m = "min (nat (MaxLag c + 1)) (length offender - 2)"
    from Correlate_ungated [of offender victim c] ng assms obtain l where
      l: "lag_search offender victim (nat (MaxLag c + 1)) 0 None = Some (res_R res, l)" "res_Lag res = int l"
      by auto
    have "best_before ?f (min (0 + nat (MaxLag c + 1)) (length offender - 2))
        (lag_search offender victim (nat (MaxLag c + 1)) 0 None)"
      by (rule lag_search_best) (simp_all add: best_before_def)
    then have b: "l < ?m" "res_R res = ?f l" "\<forall>k < ?m. ?f k \<le> res_R res" "\<forall>k < l. ?f k < res_R res"
      unfolding l(1) add_0 by (rule best_beforeD)+
    have iff: "int k \<le> MaxLag c \<and> k + 3 \<le> length offender \<longleftrightarrow> k < ?m" for k by auto
    show ?thesis
      using b l(2) by (intro exI [of _ l]) (simp add: conj_assoc [symmetric] iff)
  qed
  with assms Correlate_ungated [of offender victim c] Correlate_gated [of offender victim c]
  show ?thesis by (auto simp: Confidence_def)
qed

definition agent_config :: CorrelationConfig where
  "agent_config = \<lparr>MaxLag = 3, MinActive = 5, ActiveFloor = 1000000, VarianceFloor = 0\<rparr>"

definition demo_correlation :: CorrelationResult where
  "demo_correlation = Correlate [1, 2, 1, 1] [1, 1, 2, 1] (agent_config\<lparr>MaxLag := 1, MinActive := 3, ActiveFloor := 0\<rparr>)"

theorem correlate_best_lag_witness:
  "res_Lag demo_correlation = 1 \<and> Confidence demo_correlation \<le> 1 \<and>
   fst (pearsonLagged [1, 2, 1, 1] [1, 1, 2, 1] 0) < res_R demo_correlation"
proof -
  have "(\<not> res_Gated demo_correlation) = True" "res_Lag demo_correlation = 1" by code_simp+
  with correlate_best_lag [OF refl, of "[1, 2, 1, 1]" "[1, 1, 2, 1]" "agent_config\<lparr>MaxLag := 1, MinActive := 3, ActiveFloor := 0\<rparr>"]
  show ?thesis by (auto simp flip: demo_correlation_def)
qed

lemma flat_pearson: "pearsonLagged (replicate 5 86214211) (replicate 5 88610563) 0 = (1, 5)"
  by code_simp


end
