(* ===== verification/Ttl_Cache.thy ===== *)
theory Ttl_Cache
  imports Prelude
begin

text \<open>
  The cache of cgroup names, \<^verbatim>\<open>src/internal/cgroup/ttlcache.go\<close>. A name outlives its cgroup
  by a grace period. Times and durations are nanoseconds as integers; the zero time of Go,
  which marks a live entry, is \<open>None\<close>. The Go map is an association list with distinct keys,
  so its iteration order is one of many; the refinement theorem shows that none is visible.
\<close>

section \<open>The cache\<close>

record PodID =
  Namespace :: string
  Pod :: string
  Container :: string
  PodUID :: string
  RequestMilliCPU :: int

record ttlEntry =
  pod :: PodID
  expiry :: "int option"

record ttlCache =
  ttl :: int
  items :: "(u64 \<times> ttlEntry) list"

definition newTTLCache :: "int \<Rightarrow> ttlCache" where
  "newTTLCache d = \<lparr>ttl = d, items = []\<rparr>"

definition PodID_String :: "PodID \<Rightarrow> string" where
  "PodID_String p = (if Namespace p = [] then ''unknown''
     else Namespace p @ ''/'' @ Pod p @ ''/'' @ Container p)"

definition expired :: "int \<Rightarrow> ttlEntry \<Rightarrow> bool" where
  "expired now e \<longleftrightarrow> (case expiry e of None \<Rightarrow> False | Some d \<Rightarrow> now > d)"

definition get :: "int \<Rightarrow> u64 \<Rightarrow> ttlCache \<Rightarrow> PodID option" where
  "get now cid c =
     (case map_of (items c) cid of
        None \<Rightarrow> None
      | Some e \<Rightarrow> if expired now e then None else Some (pod e))"

definition start_grace :: "int \<Rightarrow> int \<Rightarrow> ttlEntry \<Rightarrow> ttlEntry" where
  "start_grace d now e = (if expiry e = None then e\<lparr>expiry := Some (now + d)\<rparr> else e)"

definition live_entry :: "PodID \<Rightarrow> ttlEntry" where
  "live_entry p = \<lparr>pod = p, expiry = None\<rparr>"

text \<open>The three loops of \<open>replace\<close>: start the grace period of all, revive the live ones, prune.\<close>

definition replace_cache :: "int \<Rightarrow> (u64 \<times> PodID) list \<Rightarrow> ttlCache \<Rightarrow> ttlCache" where
  "replace_cache now live c =
     (let m1 = map (\<lambda>(cid, e). (cid, start_grace (ttl c) now e)) (items c);
          m2 = fold (\<lambda>(cid, p) m. AList.update cid (live_entry p) m) live m1;
          m3 = filter (\<lambda>(cid, e). \<not> expired now e) m2
      in c\<lparr>items := m3\<rparr>)"

definition put :: "u64 \<Rightarrow> PodID \<Rightarrow> ttlCache \<Rightarrow> ttlCache" where
  "put cid p c = c\<lparr>items := AList.update cid (live_entry p) (items c)\<rparr>"

definition tombstone :: "int \<Rightarrow> u64 \<Rightarrow> ttlCache \<Rightarrow> ttlCache" where
  "tombstone now cid c =
     (case map_of (items c) cid of
        None \<Rightarrow> c
      | Some e \<Rightarrow>
          (if expiry e = None
           then c\<lparr>items := AList.update cid (e\<lparr>expiry := Some (now + ttl c)\<rparr>) (items c)\<rparr>
           else c))"

definition cache_len :: "ttlCache \<Rightarrow> nat" where
  "cache_len c = length (items c)"

section \<open>What a name is\<close>

text \<open>The specification, for one cgroup: unknown, alive, or gone with a deadline for its name.\<close>

datatype life = Unknown | Alive PodID | Gone PodID int

datatype cache_op =
    Replace int "(u64 \<times> PodID) list"
  | Put u64 PodID
  | Tombstone int u64

fun cache_exec :: "cache_op \<Rightarrow> ttlCache \<Rightarrow> ttlCache" where
  "cache_exec (Replace now live) c = replace_cache now live c"
| "cache_exec (Put cid p) c = put cid p c"
| "cache_exec (Tombstone now cid) c = tombstone now cid c"

fun op_time :: "cache_op \<Rightarrow> int option" where
  "op_time (Replace now live) = Some now"
| "op_time (Put cid p) = None"
| "op_time (Tombstone now cid) = Some now"

fun bury :: "int \<Rightarrow> life \<Rightarrow> life" where
  "bury d (Alive p) = Gone p d"
| "bury d l = l"

fun life_step :: "int \<Rightarrow> u64 \<Rightarrow> cache_op \<Rightarrow> life \<Rightarrow> life" where
  "life_step d cid (Replace now live) l =
     (case map_of live cid of Some p \<Rightarrow> Alive p | None \<Rightarrow> bury (now + d) l)"
| "life_step d cid (Put cid' p) l = (if cid' = cid then Alive p else l)"
| "life_step d cid (Tombstone now cid') l = (if cid' = cid then bury (now + d) l else l)"

fun name_at :: "int \<Rightarrow> life \<Rightarrow> PodID option" where
  "name_at now Unknown = None"
| "name_at now (Alive p) = Some p"
| "name_at now (Gone p d) = (if now \<le> d then Some p else None)"

section \<open>Laws of the operations\<close>

lemma map_of_start_grace:
  "map_of (map (\<lambda>(cid, e). (cid, start_grace d now e)) m) cid = map_option (start_grace d now) (map_of m cid)"
  by (induction m) auto

lemma map_of_revive:
  "distinct (map fst live) \<Longrightarrow>
     map_of (fold (\<lambda>(cid, p) m. AList.update cid (live_entry p) m) live m) cid =
     (case map_of live cid of None \<Rightarrow> map_of m cid | Some p \<Rightarrow> Some (live_entry p))"
proof -
  assume "distinct (map fst live)"
  moreover have "fold (\<lambda>(cid, p) m. AList.update cid (live_entry p) m) live m =
      fold (\<lambda>(k, v). AList.update k v) (map (map_prod (\<lambda>i. i) live_entry) live) m"
    by (induction live arbitrary: m) (auto simp: split_beta)
  moreover have "map_of (map (map_prod (\<lambda>i. i) live_entry) live) cid = map_option live_entry (map_of live cid)"
    by (induction live) auto
  ultimately show ?thesis
    by (simp add: map_of_fold_update comp_def split: option.split)
qed

lemma distinct_revive:
  "distinct (map fst m) \<Longrightarrow>
     distinct (map fst (fold (\<lambda>(cid, p) m. AList.update cid (live_entry p) m) live m))"
  by (induction live arbitrary: m) (auto simp: distinct_update)

lemma map_of_prune:
  "distinct (map fst m) \<Longrightarrow> map_of (filter (\<lambda>(cid, e). P e) m) cid =
     (case map_of m cid of None \<Rightarrow> None | Some e \<Rightarrow> if P e then Some e else None)"
proof (induction m)
  case (Cons e m)
  obtain i v where e: "e = (i, v)" by (cases e)
  have "map_of m i = None" using Cons.prems e by (simp add: map_of_eq_None_iff)
  with Cons e show ?case by (auto split: option.splits)
qed simp

definition cache_wf :: "ttlCache \<Rightarrow> bool" where
  "cache_wf c \<longleftrightarrow> distinct (map fst (items c))"

fun op_ok :: "cache_op \<Rightarrow> bool" where
  "op_ok (Replace now live) = distinct (map fst live)"
| "op_ok _ = True"

lemma ttl_exec [simp]: "ttl (cache_exec e c) = ttl c"
  by (cases e) (simp_all add: replace_cache_def put_def tombstone_def Let_def split: option.split)

lemma distinct_graced:
  "distinct (map fst m) \<Longrightarrow> distinct (map fst (map (\<lambda>(cid, e). (cid, start_grace d now e)) m))"
  by (simp add: case_prod_unfold comp_def)

lemma cache_wf_exec: "cache_wf c \<Longrightarrow> cache_wf (cache_exec e c)"
proof (cases e)
  case (Replace now live)
  assume "cache_wf c"
  then show ?thesis
    unfolding Replace cache_exec.simps replace_cache_def Let_def cache_wf_def
    by simp (intro distinct_map_filter distinct_revive distinct_graced)
qed (auto simp: cache_wf_def put_def tombstone_def distinct_update split: option.split)

lemma replace_lookup:
  assumes "cache_wf c" and "distinct (map fst live)"
  shows "map_of (items (replace_cache now live c)) cid =
     (case map_of live cid of
        Some p \<Rightarrow> Some (live_entry p)
      | None \<Rightarrow> (case map_of (items c) cid of
          None \<Rightarrow> None
        | Some e \<Rightarrow> let e' = start_grace (ttl c) now e in if expired now e' then None else Some e'))"
proof -
  let ?m1 = "map (\<lambda>(cid, e). (cid, start_grace (ttl c) now e)) (items c)"
  let ?m2 = "fold (\<lambda>(cid, p) m. AList.update cid (live_entry p) m) live ?m1"
  have "distinct (map fst ?m2)"
    using assms(1) by (intro distinct_revive distinct_graced) (simp add: cache_wf_def)
  from map_of_prune [OF this, of "\<lambda>e. \<not> expired now e" cid] show ?thesis
    using map_of_revive [OF assms(2), of ?m1 cid]
    by (auto simp: replace_cache_def Let_def map_of_start_grace expired_def live_entry_def
        split: option.splits)
qed

section \<open>Simulation\<close>

text \<open>
  An entry agrees with a life at time \<open>t\<close>: a missing entry may stand for a name that has
  expired by then.
\<close>

fun agrees :: "int \<Rightarrow> ttlEntry option \<Rightarrow> life \<Rightarrow> bool" where
  "agrees t None Unknown = True"
| "agrees t None (Alive p) = False"
| "agrees t None (Gone p d) = (d < t)"
| "agrees t (Some e) Unknown = False"
| "agrees t (Some e) (Alive p) = (pod e = p \<and> expiry e = None)"
| "agrees t (Some e) (Gone p d) = (pod e = p \<and> expiry e = Some d)"

lemma agrees_later: "agrees t me l \<Longrightarrow> t \<le> t' \<Longrightarrow> agrees t' me l"
  by (cases me; cases l) auto

lemma agrees_get:
  "agrees t (map_of (items c) cid) l \<Longrightarrow> t \<le> now \<Longrightarrow> get now cid c = name_at now l"
  by (cases "map_of (items c) cid"; cases l) (auto simp: get_def expired_def)

lemma agrees_bury:
  "0 \<le> d \<Longrightarrow> agrees t me l \<Longrightarrow> t \<le> now \<Longrightarrow>
     agrees now (case me of None \<Rightarrow> None
       | Some e \<Rightarrow> let e' = start_grace d now e in if expired now e' then None else Some e')
       (bury (now + d) l)"
  by (cases me; cases l) (auto simp: start_grace_def expired_def Let_def)

lemma agrees_step:
  assumes "agrees t (map_of (items c) cid) l" and "cache_wf c" and "op_ok e" and "0 \<le> ttl c"
    and "t \<le> t'" and "case op_time e of None \<Rightarrow> True | Some now \<Rightarrow> now = t'"
  shows "agrees t' (map_of (items (cache_exec e c)) cid) (life_step (ttl c) cid e l)"
proof (cases e)
  case (Replace now live)
  then show ?thesis
    using assms agrees_bury [OF assms(4,1), of t']
    by (auto simp: replace_lookup live_entry_def split: option.splits)
next
  case (Put i p)
  with agrees_later [OF assms(1,5)] show ?thesis
    by (simp add: put_def update_conv' live_entry_def)
next
  case (Tombstone now i)
  with agrees_later [OF assms(1,5)] assms(6) show ?thesis
    by (cases "map_of (items c) i"; cases l) (auto simp: tombstone_def update_conv' split: option.splits)
qed

section \<open>Runs\<close>

text \<open>The readings of the clock are in order, starting from \<open>t\<close>; the last one is the time of the run.\<close>

fun ops_ok :: "int \<Rightarrow> cache_op list \<Rightarrow> bool" where
  "ops_ok t [] = True"
| "ops_ok t (e # es) = (op_ok e \<and>
     (case op_time e of None \<Rightarrow> ops_ok t es | Some now \<Rightarrow> t \<le> now \<and> ops_ok now es))"

fun ops_clock :: "int \<Rightarrow> cache_op list \<Rightarrow> int" where
  "ops_clock t [] = t"
| "ops_clock t (e # es) = ops_clock (case op_time e of None \<Rightarrow> t | Some now \<Rightarrow> now) es"

definition cache_run :: "cache_op list \<Rightarrow> ttlCache \<Rightarrow> ttlCache" where
  "cache_run es c = fold cache_exec es c"

definition life_run :: "int \<Rightarrow> u64 \<Rightarrow> cache_op list \<Rightarrow> life \<Rightarrow> life" where
  "life_run d cid es l = fold (life_step d cid) es l"

lemma agrees_run:
  assumes "agrees t (map_of (items c) cid) l" and "cache_wf c" and "0 \<le> ttl c" and "ops_ok t es"
  shows "agrees (ops_clock t es) (map_of (items (cache_run es c)) cid) (life_run (ttl c) cid es l)"
  using assms
proof (induction es arbitrary: t c l)
  case Nil
  then show ?case by (simp add: cache_run_def life_run_def)
next
  case (Cons e es)
  let ?t = "case op_time e of None \<Rightarrow> t | Some now \<Rightarrow> now"
  have ok: "op_ok e" "t \<le> ?t" "ops_ok ?t es"
    using Cons.prems(4) by (auto split: option.splits)
  have "agrees ?t (map_of (items (cache_exec e c)) cid) (life_step (ttl c) cid e l)"
    using Cons.prems ok(1,2) by (intro agrees_step) (auto split: option.splits)
  from Cons.IH [OF this] Cons.prems ok(3) show ?case
    by (simp add: cache_run_def life_run_def cache_wf_exec)
qed

lemma ttl_cache_refined:
  assumes "0 \<le> d" and "ops_ok t es" and "ops_clock t es \<le> now"
  shows "get now cid (cache_run es (newTTLCache d)) = name_at now (life_run d cid es Unknown)"
proof -
  have "agrees t (map_of (items (newTTLCache d)) cid) Unknown" and "cache_wf (newTTLCache d)"
    by (simp_all add: newTTLCache_def cache_wf_def)
  from agrees_run [OF this _ assms(2)] assms(1)
  have "agrees (ops_clock t es) (map_of (items (cache_run es (newTTLCache d))) cid)
      (life_run d cid es Unknown)" by (simp add: newTTLCache_def)
  from agrees_get [OF this assms(3)] show ?thesis .
qed

section \<open>Properties\<close>

text \<open>
  C24. The cache refines its specification. After any scans, lifecycle events and removals,
  with clock readings in order, a lookup at a later time returns for every cgroup exactly
  the name that the history of that cgroup alone prescribes: its latest name while it is
  alive, that name until the end of the grace period once it is gone, nothing otherwise.
  When entries are pruned and in which order maps are iterated over is not visible.
\<close>

theorem ttl_cache_refines:
  assumes "0 \<le> d" and "ops_ok t es" and "ops_clock t es \<le> now"
  shows "get now cid (cache_run es (newTTLCache d)) = name_at now (life_run d cid es Unknown)"
  using assms by (rule ttl_cache_refined)

definition demo_pod :: PodID where
  "demo_pod = \<lparr>Namespace = ''default'', Pod = ''web'', Container = ''app'', PodUID = ''u1'',
     RequestMilliCPU = 100\<rparr>"

theorem ttl_cache_refines_witness:
  "get 25 7 (cache_run [Put 7 demo_pod, Tombstone 10 7, Replace 20 []] (newTTLCache 30)) = Some demo_pod \<and>
   get 41 7 (cache_run [Put 7 demo_pod, Tombstone 10 7, Replace 20 []] (newTTLCache 30)) = None"
  using ttl_cache_refines [of 30 0 "[Put 7 demo_pod, Tombstone 10 7, Replace 20 []]" 25 7]
    ttl_cache_refines [of 30 0 "[Put 7 demo_pod, Tombstone 10 7, Replace 20 []]" 41 7]
  by (simp add: life_run_def)

text \<open>
  The grace period is exact and cannot be extended or cut short by other cgroups. When a
  live cgroup is tombstoned at time \<open>t1\<close>, then whatever scans without it, removals of it and
  events of other cgroups follow, its name is returned up to and including \<open>t1 + d\<close> and
  never after.
\<close>

theorem grace_period_exact:
  assumes "0 \<le> d" and "ops_ok t (es @ Tombstone t1 cid # es')"
    and "life_run d cid es Unknown = Alive p"
    and "\<forall>e \<in> set es'. case e of Replace now live \<Rightarrow> map_of live cid = None | Put i q \<Rightarrow> i \<noteq> cid
       | Tombstone now i \<Rightarrow> True"
    and "ops_clock t (es @ Tombstone t1 cid # es') \<le> now"
  shows "get now cid (cache_run (es @ Tombstone t1 cid # es') (newTTLCache d)) =
     (if now \<le> t1 + d then Some p else None)"
proof -
  have "fold (life_step d cid) es' (Gone p (t1 + d)) = Gone p (t1 + d)"
    using assms(4) by (induction es') (auto split: cache_op.splits)
  then have "life_run d cid (es @ Tombstone t1 cid # es') Unknown = Gone p (t1 + d)"
    using assms(3) by (simp add: life_run_def)
  with ttl_cache_refined [OF assms(1,2,5)] show ?thesis by simp
qed

theorem grace_period_exact_witness:
  "get 41 7 (cache_run ([Put 7 demo_pod] @ Tombstone 10 7 # [Tombstone 15 7, Replace 20 []])
     (newTTLCache 30)) = None"
  using grace_period_exact [of 30 0 "[Put 7 demo_pod]" 10 7 "[Tombstone 15 7, Replace 20 []]" demo_pod 41]
  by (simp add: life_run_def)

text \<open>
  The cache does not leak. After a scan at time \<open>now\<close> it holds exactly the cgroups of the
  scan, each once and marked live with its new name, and those others whose name is still
  within its grace period; so it never holds more than the scan plus the names in grace.
\<close>

theorem replace_prunes:
  assumes "cache_wf c" and "distinct (map fst live)" and "c' = replace_cache now live c" and "0 \<le> ttl c"
  shows "distinct (map fst (items c')) \<and>
     (\<forall>cid e. map_of (items c') cid = Some e \<longleftrightarrow>
        (case map_of live cid of
           Some p \<Rightarrow> e = live_entry p
         | None \<Rightarrow> \<exists>e0. map_of (items c) cid = Some e0 \<and> e = start_grace (ttl c) now e0 \<and>
             (case expiry e0 of None \<Rightarrow> True | Some dl \<Rightarrow> now \<le> dl))) \<and>
     cache_len c' \<le> length live + length (filter (\<lambda>(cid, e). \<not> expired now e) (items c))"
proof -
  have wf: "distinct (map fst (items c'))"
    using cache_wf_exec [OF assms(1), of "Replace now live"] by (simp add: assms(3) cache_wf_def)
  have look: "map_of (items c') cid = Some e \<longleftrightarrow>
      (case map_of live cid of Some p \<Rightarrow> e = live_entry p
       | None \<Rightarrow> \<exists>e0. map_of (items c) cid = Some e0 \<and> e = start_grace (ttl c) now e0 \<and>
           (case expiry e0 of None \<Rightarrow> True | Some dl \<Rightarrow> now \<le> dl))" for cid e
    using assms(4)
    by (auto simp: assms(3) replace_lookup [OF assms(1,2)] Let_def start_grace_def expired_def
        split: option.splits if_splits)
  let ?old = "filter (\<lambda>(cid, e). \<not> expired now e) (items c)"
  have "fst ` set (items c') \<subseteq> fst ` set live \<union> fst ` set ?old"
  proof
    fix cid assume "cid \<in> fst ` set (items c')"
    then obtain e where "map_of (items c') cid = Some e" using wf by force
    then have found: "case map_of live cid of Some p \<Rightarrow> e = live_entry p
       | None \<Rightarrow> \<exists>e0. map_of (items c) cid = Some e0 \<and> e = start_grace (ttl c) now e0 \<and>
           (case expiry e0 of None \<Rightarrow> True | Some dl \<Rightarrow> now \<le> dl)" by (simp only: look)
    show "cid \<in> fst ` set live \<union> fst ` set ?old"
    proof (cases "map_of live cid")
      case None
      with found obtain e0 where e0: "map_of (items c) cid = Some e0"
        and "case expiry e0 of None \<Rightarrow> True | Some dl \<Rightarrow> now \<le> dl" by auto
      then have "\<not> expired now e0" by (cases "expiry e0") (simp_all add: expired_def)
      with e0 have "(cid, e0) \<in> set ?old" by (simp add: map_of_SomeD)
      then show ?thesis by force
    next
      case (Some p)
      then show ?thesis by (force dest: map_of_SomeD)
    qed
  qed
  then have "card (fst ` set (items c')) \<le> card (fst ` set live) + card (fst ` set ?old)"
    by (meson card_Un_le card_mono finite_UnI finite_imageI List.finite_set order_trans)
  also have "\<dots> \<le> length live + length ?old"
    using card_length [of "map fst live"] card_length [of "map fst ?old"] by simp
  finally have "cache_len c' \<le> length live + length ?old"
    using distinct_card [OF wf] by (simp add: cache_len_def)
  with wf look show ?thesis by blast
qed

theorem replace_prunes_witness:
  "cache_len (replace_cache 50 [(8, demo_pod)]
     (cache_run [Put 7 demo_pod, Tombstone 10 7] (newTTLCache 30))) \<le> 1"
proof -
  let ?c = "cache_run [Put 7 demo_pod, Tombstone 10 7] (newTTLCache 30)"
  have eval: "items ?c = [(7, \<lparr>pod = demo_pod, expiry = Some 40\<rparr>)]" "ttl ?c = 30"
    by (simp_all add: cache_run_def put_def tombstone_def newTTLCache_def live_entry_def)
  then show ?thesis
    using replace_prunes [of ?c "[(8, demo_pod)]" _ 50, OF _ _ refl]
    by (simp add: cache_wf_def expired_def)
qed

end
