(* ===== verification/Resolver.thy ===== *)
theory Resolver
  imports Ttl_Cache Cpu_Stat Cgroup_Monitor
begin

text \<open>
  The resolver, \<^verbatim>\<open>src/internal/cgroup/resolver.go\<close>: it names cgroups by joining the cgroup tree
  with the container runtime, in full scans and one container at a time when the kernel
  reports a new cgroup (\<^verbatim>\<open>runLifecycle\<close> in \<^verbatim>\<open>src/internal/agent/agent.go\<close>). The runtime's answers,
  the directories of a scan and the files are parameters.
\<close>

section \<open>The world outside\<close>

record container_status =
  cs_labels :: "(string \<times> string) list"
  cs_shares :: int

record cri =
  ListContainers :: "string + (string \<times> (string \<times> string) list) list"
  ContainerStatus :: "string \<Rightarrow> container_status option"

text \<open>A directory of the walk: its name, its path, and its inode if it can be read.\<close>

type_synonym dir_entry = "string \<times> string \<times> u64 option"

section \<open>Container scopes\<close>

definition is_hex :: "char \<Rightarrow> bool" where
  "is_hex ch \<longleftrightarrow> is_digit ch \<or> ch \<in> {CHR ''a'', CHR ''b'', CHR ''c'', CHR ''d'', CHR ''e'', CHR ''f''}"

text \<open>
  The match of \<^verbatim>\<open>(?:cri-containerd-|crio-|docker-)([0-9a-f]{64})\.scope$\<close>. It ends with the text
  and its group has 64 characters, so the last 70 characters decide what the group is.
\<close>

definition scopeRe :: "string \<Rightarrow> string option" where
  "scopeRe s =
     (let front = take (length s - 70) s; tail = drop (length s - 70) s; cid = take 64 tail
      in if 70 \<le> length s \<and> drop 64 tail = ''.scope'' \<and> list_all is_hex cid \<and>
            list_ex (\<lambda>p. suffix p front) [''cri-containerd-'', ''crio-'', ''docker-'']
         then Some cid else None)"

section \<open>The resolver\<close>

record cgroupScope =
  sc_ino :: u64
  sc_dir :: string

record Resolver =
  r_cache :: ttlCache
  r_paths :: "(u64 \<times> string) list"

definition label_of :: "(string \<times> string) list \<Rightarrow> string \<Rightarrow> string" where
  "label_of l k = (case map_of l k of None \<Rightarrow> [] | Some v \<Rightarrow> v)"

definition requestMilliCPU :: "cri \<Rightarrow> string \<Rightarrow> int" where
  "requestMilliCPU rt cid =
     (case ContainerStatus rt cid of
        None \<Rightarrow> 0
      | Some st \<Rightarrow> if cs_shares st < 2 then 0 else cs_shares st * 1000 div 1024)"

definition pod_of_labels :: "(string \<times> string) list \<Rightarrow> int \<Rightarrow> PodID" where
  "pod_of_labels l req = \<lparr>Namespace = label_of l ''io.kubernetes.pod.namespace'',
     Pod = label_of l ''io.kubernetes.pod.name'', Container = label_of l ''io.kubernetes.container.name'',
     PodUID = label_of l ''io.kubernetes.pod.uid'', RequestMilliCPU = req\<rparr>"

text \<open>
  The walk never fails: its callback swallows every error. A directory that cannot be read has
  no inode here.
\<close>

definition scanCgroups :: "dir_entry list \<Rightarrow> (string \<times> cgroupScope) list" where
  "scanCgroups dirs =
     fold (\<lambda>(name, path, ino) out.
         case scopeRe name of
           None \<Rightarrow> out
         | Some cid \<Rightarrow>
             (case ino of
                None \<Rightarrow> out
              | Some i \<Rightarrow> AList.update cid \<lparr>sc_ino = i, sc_dir = path\<rparr> out)) dirs []"

definition join_step :: "cri \<Rightarrow> (string \<times> cgroupScope) list \<Rightarrow> string \<times> (string \<times> string) list \<Rightarrow>
    (u64 \<times> PodID) list \<times> (u64 \<times> string) list \<Rightarrow> (u64 \<times> PodID) list \<times> (u64 \<times> string) list" where
  "join_step rt scopes c acc =
     (case map_of scopes (fst c) of
        None \<Rightarrow> acc
      | Some sc \<Rightarrow>
          (AList.update (sc_ino sc) (pod_of_labels (snd c) (requestMilliCPU rt (fst c))) (fst acc),
           AList.update (sc_ino sc) (sc_dir sc) (snd acc)))"

definition join :: "cri \<Rightarrow> dir_entry list \<Rightarrow> (string \<times> (string \<times> string) list) list \<Rightarrow>
    (u64 \<times> PodID) list \<times> (u64 \<times> string) list" where
  "join rt dirs cs = fold (join_step rt (scanCgroups dirs)) cs ([], [])"

definition Refresh :: "cri \<Rightarrow> dir_entry list \<Rightarrow> int \<Rightarrow> Resolver \<Rightarrow> string option \<times> Resolver" where
  "Refresh rt dirs now r =
     (case ListContainers rt of
        Inl e \<Rightarrow> (Some (''CRI ListContainers: '' @ e), r)
      | Inr cs \<Rightarrow>
          (case join rt dirs cs of
             (nxt, paths) \<Rightarrow> (None, r\<lparr>r_cache := replace_cache now nxt (r_cache r), r_paths := paths\<rparr>)))"

definition NewResolver :: "cri \<Rightarrow> dir_entry list \<Rightarrow> int \<Rightarrow> int \<Rightarrow> string + Resolver" where
  "NewResolver rt dirs cacheTTL now =
     (case Refresh rt dirs now \<lparr>r_cache = newTTLCache cacheTTL, r_paths = []\<rparr> of
        (Some e, r) \<Rightarrow> Inl e
      | (None, r) \<Rightarrow> Inr r)"

definition Resolve :: "int \<Rightarrow> u64 \<Rightarrow> Resolver \<Rightarrow> PodID option" where
  "Resolve now cgroupID r = get now cgroupID (r_cache r)"

definition Resolver_Len :: "Resolver \<Rightarrow> nat" where
  "Resolver_Len r = cache_len (r_cache r)"

definition Tombstone_cgroup :: "int \<Rightarrow> u64 \<Rightarrow> Resolver \<Rightarrow> Resolver" where
  "Tombstone_cgroup now cgroupID r = r\<lparr>r_cache := tombstone now cgroupID (r_cache r)\<rparr>"

definition ResolveCgroupPath :: "cri \<Rightarrow> u64 \<Rightarrow> string \<Rightarrow> Resolver \<Rightarrow> bool \<times> Resolver" where
  "ResolveCgroupPath rt cgroupID path r =
     (case scopeRe path of
        None \<Rightarrow> (False, r)
      | Some cid \<Rightarrow>
          (case ContainerStatus rt cid of
             None \<Rightarrow> (False, r)
           | Some st \<Rightarrow>
               (if label_of (cs_labels st) ''io.kubernetes.pod.namespace'' = [] then (False, r)
                else let req = (if cs_shares st \<ge> 2 then cs_shares st * 1000 div 1024 else 0)
                     in (True, r\<lparr>r_cache := put cgroupID (pod_of_labels (cs_labels st) req) (r_cache r)\<rparr>))))"

text \<open>A file is its contents and the error that reading it may end with; \<open>None\<close> if it cannot be opened.\<close>

definition ReadCPUStat :: "(string \<Rightarrow> (string \<times> string option) option) \<Rightarrow> u64 \<Rightarrow> Resolver \<Rightarrow> CPUStat option" where
  "ReadCPUStat fs cgroupID r =
     (case map_of (r_paths r) cgroupID of
        None \<Rightarrow> None
      | Some dir \<Rightarrow>
          (case fs (dir @ ''/cpu.stat'') of
             None \<Rightarrow> None
           | Some (body, err) \<Rightarrow>
               (case parseCPUStat body err of
                  (s, Some e) \<Rightarrow> None
                | (s, None) \<Rightarrow> Some s)))"

section \<open>Lifecycle events\<close>

definition path_string :: "u8 list \<Rightarrow> string" where
  "path_string bs = map (\<lambda>b. char_of (unat b)) bs"

definition handle_event :: "cri \<Rightarrow> int \<Rightarrow> CgroupEvent \<Rightarrow> Resolver \<Rightarrow> Resolver" where
  "handle_event rt now ev r =
     (if ce_Op ev = CGROUP_OP_MKDIR then snd (ResolveCgroupPath rt (ce_CgroupID ev) (path_string (ce_Path ev)) r)
      else if ce_Op ev = CGROUP_OP_RMDIR then Tombstone_cgroup now (ce_CgroupID ev) r
      else r)"

text \<open>
  The loop of \<open>runLifecycle\<close> over what the reader returns, each result with the state of the
  runtime and the time at which it is handled. It ends at the first error.
\<close>

fun runLifecycle :: "((string + CgroupEvent) \<times> cri \<times> int) list \<Rightarrow> Resolver \<Rightarrow> Resolver" where
  "runLifecycle [] r = r"
| "runLifecycle ((Inl err, rt, now) # rest) r = r"
| "runLifecycle ((Inr ev, rt, now) # rest) r = runLifecycle rest (handle_event rt now ev r)"

section \<open>Scopes\<close>

lemma scopeRe_scope:
  assumes "length cid = 64" and "list_all is_hex cid" and "p \<in> {''cri-containerd-'', ''crio-'', ''docker-''}"
  shows "scopeRe (pre @ p @ cid @ ''.scope'') = Some cid"
proof -
  let ?s = "(pre @ p) @ cid @ ''.scope''"
  have "length ?s - 70 = length (pre @ p)" using assms(1) by simp
  then have "take (length ?s - 70) ?s = pre @ p" "drop (length ?s - 70) ?s = cid @ ''.scope''" by simp_all
  moreover have "list_ex (\<lambda>q. suffix q (pre @ p)) [''cri-containerd-'', ''crio-'', ''docker-'']"
    using assms(3) by (auto simp: suffix_def)
  ultimately have "scopeRe ?s = Some cid" using assms(1,2) unfolding scopeRe_def Let_def by simp
  then show ?thesis by simp
qed

lemma scopeRe_Some:
  assumes "scopeRe s = Some cid"
  shows "length cid = 64 \<and> list_all is_hex cid \<and>
     (\<exists>pre p. p \<in> {''cri-containerd-'', ''crio-'', ''docker-''} \<and> s = pre @ p @ cid @ ''.scope'')"
proof -
  let ?front = "take (length s - 70) s" and ?tail = "drop (length s - 70) s"
  from assms have len: "70 \<le> length s" and tail: "drop 64 ?tail = ''.scope''" and cid: "cid = take 64 ?tail"
    and hex: "list_all is_hex cid"
    and p: "\<exists>p \<in> {''cri-containerd-'', ''crio-'', ''docker-''}. suffix p ?front"
    by (auto simp: scopeRe_def Let_def split: if_splits)
  have s: "s = ?front @ cid @ ''.scope''" using tail cid by (metis append_take_drop_id)
  from p obtain q pre where q: "q \<in> {''cri-containerd-'', ''crio-'', ''docker-''}" and f: "?front = pre @ q"
    unfolding suffix_def by blast
  from s have "s = (pre @ q) @ cid @ ''.scope''" unfolding f .
  then have "s = pre @ q @ cid @ ''.scope''" unfolding append.assoc .
  moreover have "length cid = 64" using len cid by simp
  ultimately show ?thesis using q hex by blast
qed

section \<open>The resolver on its cache\<close>

definition naming :: "cri \<Rightarrow> string \<Rightarrow> PodID option" where
  "naming rt path =
     (case scopeRe path of
        None \<Rightarrow> None
      | Some cid \<Rightarrow>
          (case ContainerStatus rt cid of
             None \<Rightarrow> None
           | Some st \<Rightarrow>
               (if label_of (cs_labels st) ''io.kubernetes.pod.namespace'' = [] then None
                else Some (pod_of_labels (cs_labels st)
                       (if cs_shares st \<ge> 2 then cs_shares st * 1000 div 1024 else 0)))))"

lemma ResolveCgroupPath_naming:
  "ResolveCgroupPath rt i path r =
     (case naming rt path of
        None \<Rightarrow> (False, r)
      | Some p \<Rightarrow> (True, r\<lparr>r_cache := put i p (r_cache r)\<rparr>))"
  by (simp add: ResolveCgroupPath_def naming_def Let_def split: option.split)

text \<open>What an event means for the cache.\<close>

definition event_ops :: "cri \<Rightarrow> int \<Rightarrow> CgroupEvent \<Rightarrow> cache_op list" where
  "event_ops rt now ev =
     (if ce_Op ev = CGROUP_OP_MKDIR
      then (case naming rt (path_string (ce_Path ev)) of None \<Rightarrow> [] | Some p \<Rightarrow> [Put (ce_CgroupID ev) p])
      else if ce_Op ev = CGROUP_OP_RMDIR then [Tombstone now (ce_CgroupID ev)]
      else [])"

lemma handle_event_ops: "r_cache (handle_event rt now ev r) = cache_run (event_ops rt now ev) (r_cache r)"
  by (simp add: handle_event_def event_ops_def cache_run_def ResolveCgroupPath_naming Tombstone_cgroup_def
      split: option.split)

lemma cache_run_append: "cache_run (es @ es') c = cache_run es' (cache_run es c)"
  by (simp add: cache_run_def)

lemma runLifecycle_ops:
  "r_cache (runLifecycle (map (\<lambda>(ev, ctx). (Inr ev, ctx)) evs) r) =
     cache_run (concat (map (\<lambda>(ev, rt, now). event_ops rt now ev) evs)) (r_cache r)"
proof (induction evs arbitrary: r)
  case (Cons e evs)
  then show ?case by (cases e) (auto simp: cache_run_append handle_event_ops)
qed (simp add: cache_run_def)

text \<open>The clock readings at which events are handled are in order.\<close>

fun times_ok :: "int \<Rightarrow> (CgroupEvent \<times> cri \<times> int) list \<Rightarrow> bool" where
  "times_ok t [] = True"
| "times_ok t ((ev, rt, now) # evs) = (t \<le> now \<and> times_ok now evs)"

fun last_time :: "int \<Rightarrow> (CgroupEvent \<times> cri \<times> int) list \<Rightarrow> int" where
  "last_time t [] = t"
| "last_time t ((ev, rt, now) # evs) = last_time now evs"

lemma ops_ok_mono: "t' \<le> t \<Longrightarrow> ops_ok t es \<Longrightarrow> ops_ok t' es"
  by (induction es arbitrary: t t') (auto split: option.splits)

lemma ops_clock_mono: "t \<le> t' \<Longrightarrow> ops_clock t es \<le> ops_clock t' es"
  by (induction es arbitrary: t t') (auto split: option.splits)

lemma times_ops:
  "times_ok t evs \<Longrightarrow> ops_ok t (concat (map (\<lambda>(ev, rt, now). event_ops rt now ev) evs)) \<and>
     ops_clock t (concat (map (\<lambda>(ev, rt, now). event_ops rt now ev) evs)) \<le> last_time t evs"
proof (induction t evs rule: times_ok.induct)
  case (2 t ev rt now evs)
  let ?ops = "concat (map (\<lambda>(ev, rt, now). event_ops rt now ev) evs)"
  from 2 have IH: "ops_ok now ?ops" "ops_clock now ?ops \<le> last_time now evs" and le: "t \<le> now" by auto
  have "ops_ok t ?ops" "ops_clock t ?ops \<le> last_time now evs"
    using ops_ok_mono [OF le IH(1)] ops_clock_mono [OF le, of ?ops] IH(2) by auto
  with IH le show ?case
    by (auto simp: event_ops_def split: option.split)
qed simp

lemma lifecycle_refined:
  assumes "0 \<le> d" and "times_ok t evs" and "last_time t evs \<le> now"
  shows "Resolve now i (runLifecycle (map (\<lambda>(ev, ctx). (Inr ev, ctx)) evs) \<lparr>r_cache = newTTLCache d, r_paths = p\<rparr>) =
     name_at now (life_run d i (concat (map (\<lambda>(ev, rt, now). event_ops rt now ev) evs)) Unknown)"
proof -
  let ?ops = "concat (map (\<lambda>(ev, rt, now). event_ops rt now ev) evs)"
  have "ops_ok t ?ops" "ops_clock t ?ops \<le> now" using times_ops [OF assms(2)] assms(3) by auto
  from ttl_cache_refined [OF assms(1) this] show ?thesis by (simp add: Resolve_def runLifecycle_ops)
qed

section \<open>From the kernel to the name\<close>

text \<open>The same read off a kernel event, before it was encoded and sent through the ring.\<close>

fun kernel_ops :: "cg_event \<Rightarrow> cri \<times> int \<Rightarrow> cache_op list" where
  "kernel_ops (Cg_Mkdir K reserve cgrp path) (rt, now) =
     (case naming rt (path_string (event_path K path)) of
        None \<Rightarrow> [] | Some p \<Rightarrow> [Put (cgroup_kn_id K cgrp) p])"
| "kernel_ops (Cg_Rmdir K reserve cgrp path) (rt, now) = [Tombstone now (cgroup_kn_id K cgrp)]"

lemma event_ops_told: "event_ops rt now (cg_told e) = kernel_ops e (rt, now)"
  by (cases e) (simp_all add: event_ops_def CGROUP_OP_MKDIR_def CGROUP_OP_RMDIR_def split: option.split)

lemma event_ops_zip:
  "concat (map (\<lambda>(ev, rt, now). event_ops rt now ev) (zip (map cg_told es) ctxs)) =
     concat (map2 kernel_ops es ctxs)"
proof (induction es ctxs rule: list_induct2')
  case (4 e es ctx ctxs)
  then show ?case by (cases ctx) (simp add: event_ops_told)
qed simp_all

text \<open>
  C5. Names from kernel events. Let cgroups be created and removed in any interleaving with reads
  of the ring, and let the agent's loop handle what it reads with whatever the runtime
  answers at that time. Then what it has read is a prefix of the kernel's events for which
  the ring had room, without any decoding error, and at a later time a cgroup resolves to
  exactly the name that these kernel events prescribe: the pod and container the runtime
  gave for the scope in its path at creation, until the end of the grace period after its
  removal, and nothing before or after.
\<close>

theorem names_from_kernel_events:
  assumes "\<forall>e. Some e \<in> set es \<longrightarrow> reserve_sized (cg_reserve e)"
    and "channel_run cg_exec (ReadEvent None) cg_accepts (\<lambda>e. Inr (cg_told e)) es cgroup_init = (s', acc, got)"
    and "length ctxs = length got" and "sorted (t # map snd ctxs)" and "0 \<le> d"
    and "last (t # map snd ctxs) \<le> now"
  shows "\<exists>kept n. subseq kept (sent es) \<and> n \<le> length kept \<and> got = map (\<lambda>e. Inr (cg_told e)) (take n kept) \<and>
     Resolve now i (runLifecycle (zip got ctxs) \<lparr>r_cache = newTTLCache d, r_paths = paths\<rparr>) =
     name_at now (life_run d i (concat (map2 kernel_ops (take n kept) ctxs)) Unknown)"
proof -
  from channel_accepted [OF assms(2)] obtain kept where acc: "acc = map (\<lambda>e. Inr (cg_told e)) kept"
    and sub: "subseq kept (sent es)" by blast
  from lifecycle.in_order [OF assms(1,2)] have eq: "map (\<lambda>e. Inr (cg_told e)) kept = got @ map decode_event (cgroup_events s')"
    by (simp add: acc cgroup_init_def)
  let ?n = "length got"
  from eq have got: "got = map (\<lambda>e. Inr (cg_told e)) (take ?n kept)"
    by (metis append_eq_conv_conj take_map)
  have n: "?n \<le> length kept" using arg_cong [OF eq, of length] by simp
  let ?evs = "zip (map cg_told (take ?n kept)) ctxs"
  have zip: "zip got ctxs = map (\<lambda>(ev, ctx). (Inr ev, ctx)) ?evs"
    by (subst got) (simp add: zip_map1 case_prod_unfold comp_def)
  have "times_ok t ?evs \<and> last_time t ?evs \<le> now"
  proof -
    have len: "length (map cg_told (take ?n kept)) = length ctxs" using n assms(3) by simp
    have "times_ok t (zip evs cs) \<and> last_time t (zip evs cs) = last (t # map snd cs)"
      if "length evs = length cs" "sorted (t # map snd cs)" for evs t and cs :: "(cri \<times> int) list"
      using that by (induction evs cs arbitrary: t rule: list_induct2) auto
    from this [OF len assms(4)] assms(6) show ?thesis by simp
  qed
  with lifecycle_refined [OF assms(5)] have
    "Resolve now i (runLifecycle (zip got ctxs) \<lparr>r_cache = newTTLCache d, r_paths = paths\<rparr>) =
     name_at now (life_run d i (concat (map2 kernel_ops (take ?n kept) ctxs)) Unknown)"
    unfolding zip event_ops_zip [symmetric] by blast
  with got n sub show ?thesis by blast
qed

definition demo_scope :: "u8 list" where
  "demo_scope = [99, 114, 105, 111, 45] @ replicate 64 97 @ [46, 115, 99, 111, 112, 101]"

text \<open>The demonstration kernel with the path of a container scope at \<open>0xA000\<close>.\<close>

definition scope_kernel :: kernel where
  "scope_kernel = demo_kernel\<lparr>kmem := (\<lambda>a. if a < 0xA000 then kmem demo_kernel a
     else if a < 0xA04B then Some (demo_scope ! unat (a - 0xA000)) else Some 0)\<rparr>"

definition demo_cri :: cri where
  "demo_cri = \<lparr>ListContainers = Inr [], ContainerStatus = (\<lambda>cid. Some \<lparr>cs_labels =
     [(''io.kubernetes.pod.namespace'', ''default''), (''io.kubernetes.pod.name'', ''web''),
      (''io.kubernetes.container.name'', ''app''), (''io.kubernetes.pod.uid'', ''u1'')], cs_shares = 102\<rparr>)\<rparr>"

definition demo_life :: "cg_event option list" where
  "demo_life = [Some (Cg_Mkdir scope_kernel demo_reserve 0x3000 0xA000), None,
     Some (Cg_Rmdir scope_kernel demo_reserve 0x3000 0xA000), None]"

lemma demo_scope_path: "event_path scope_kernel 0xA000 = demo_scope" "cgroup_kn_id scope_kernel 0x3000 = 42"
  by code_simp+

lemma demo_naming: "naming demo_cri (path_string demo_scope) = Some \<lparr>Namespace = ''default'', Pod = ''web'',
    Container = ''app'', PodUID = ''u1'', RequestMilliCPU = 99\<rparr>"
  by code_simp

lemma demo_sized: "reserve_sized demo_reserve"
  by (auto simp: reserve_sized_def demo_reserve_def split: if_splits)

lemma demo_read:
  assumes "cg_reserve e = demo_reserve"
  shows "ReadEvent None (cg_exec e cgroup_init) = Some (Inr (cg_told e), cgroup_init)"
  using cg_exec_pending [of e cgroup_init] assms demo_sized
  by (auto simp: cgroup_init_def ReadEvent_def cg_accepts_def demo_reserve_def)

lemma demo_received:
  "channel_run cg_exec (ReadEvent None) cg_accepts (\<lambda>e. Inr (cg_told e)) demo_life cgroup_init =
     (cgroup_init, map Inr (map cg_told (sent demo_life)), map Inr (map cg_told (sent demo_life)))"
  using demo_read [of "Cg_Mkdir scope_kernel demo_reserve 0x3000 0xA000"]
    demo_read [of "Cg_Rmdir scope_kernel demo_reserve 0x3000 0xA000"]
  by (simp add: demo_life_def cg_accepts_def demo_reserve_def cgroup_init_def)

theorem names_from_kernel_events_witness:
  "\<exists>p. Resolve 30 42 (runLifecycle (zip (map Inr (map cg_told (sent demo_life))) [(demo_cri, 1), (demo_cri, 5)])
       \<lparr>r_cache = newTTLCache 30, r_paths = []\<rparr>) = Some p \<and> Pod p = ''web''"
proof -
  let ?got = "map Inr (map cg_told (sent demo_life)) :: (string + CgroupEvent) list"
  have "\<forall>e. Some e \<in> set demo_life \<longrightarrow> reserve_sized (cg_reserve e)"
    using demo_sized by (auto simp: demo_life_def)
  from names_from_kernel_events [OF this demo_received, of "[(demo_cri, 1), (demo_cri, 5)]" 0 30 30 42 "[]"]
  obtain kept n where kept: "subseq kept (sent demo_life)" "n \<le> length kept"
    "?got = map (\<lambda>e. Inr (cg_told e)) (take n kept)"
    and res: "Resolve 30 42 (runLifecycle (zip ?got [(demo_cri, 1), (demo_cri, 5)])
        \<lparr>r_cache = newTTLCache 30, r_paths = []\<rparr>) =
      name_at 30 (life_run 30 42 (concat (map2 kernel_ops (take n kept) [(demo_cri, 1), (demo_cri, 5)])) Unknown)"
    by (auto simp: demo_life_def)
  have "length (sent demo_life) = n"
    using arg_cong [OF kept(3), of length] kept(2) by simp
  moreover have "length kept \<le> length (sent demo_life)" using kept(1) by (rule list_emb_length)
  ultimately have "take n kept = sent demo_life"
    using kept(1,2) subseq_same_length [OF kept(1)] by simp
  with res show ?thesis by (simp add: demo_life_def demo_scope_path demo_naming life_run_def)
qed

end
