(* ===== verification/Agent_Judgement.thy ===== *)
theory Agent_Judgement
  imports Percentile Baseline Correlation Resolver Sched_Observer Blkio_Accounting Net_Monitor Throttling
    "HOL-Library.Monad_Syntax"
begin

text \<open>
  The agent's judgement, \<^verbatim>\<open>src/internal/agent/agent.go\<close> and \<^verbatim>\<open>config.go\<close>, on the types of
  \<^verbatim>\<open>src/internal/report\<close>: who is starved of CPU, disk or network in an interval, who uses the
  resource, and how confident the agent is that a pod is the cause.
\<close>

section \<open>Configuration and state\<close>

record Config =
  cf_ReadInterval :: int
  cf_TopN :: int
  cf_ResolveRefresh :: int
  cf_CacheTTL :: int
  cf_MinSamples :: int
  cf_RunqWarn :: int
  cf_DeviationFactor :: rat
  cf_BaselineAlpha :: rat
  cf_BaselineWarmup :: int
  cf_ConfidenceThreshold :: rat
  cf_IOWarn :: int
  cf_MinOps :: int
  cf_RetransWarn :: int
  cf_RetransRateWarn :: rat
  cf_MinSegs :: int
  cf_ControllerAddr :: string
  cf_NodeName :: string

text \<open>The decimal constants are those of the source, rounded by the compiler.\<close>

definition DefaultConfig :: Config where
  "DefaultConfig = \<lparr>cf_ReadInterval = 5 * 1000000000, cf_TopN = 20, cf_ResolveRefresh = 60 * 1000000000,
     cf_CacheTTL = 30 * 1000000000, cf_MinSamples = 100, cf_RunqWarn = 5 * 1000000,
     cf_DeviationFactor = 3, cf_BaselineAlpha = fl (15 / 100), cf_BaselineWarmup = 3,
     cf_ConfidenceThreshold = fl (7 / 10), cf_IOWarn = 20 * 1000000, cf_MinOps = 20,
     cf_RetransWarn = 10, cf_RetransRateWarn = fl (1 / 100), cf_MinSegs = 50,
     cf_ControllerAddr = [], cf_NodeName = []\<rparr>"

record Agent =
  a_cfg :: Config
  a_timeline :: "CgroupTimeline list"
  prevThrottle :: "(u64 \<times> CPUStat) list"
  a_baseline :: Baseline
  ioBaseline :: Baseline
  netBaseline :: Baseline
  cpuUsage :: Baseline
  ioUsage :: Baseline
  netUsage :: Baseline

definition New_Agent :: "Config \<Rightarrow> Agent" where
  "New_Agent c =
     (let b = NewBaseline (cf_BaselineAlpha c) (cf_BaselineWarmup c)
      in \<lparr>a_cfg = c, a_timeline = [], prevThrottle = [], a_baseline = b, ioBaseline = b, netBaseline = b,
          cpuUsage = b, ioUsage = b, netUsage = b\<rparr>)"

section \<open>The report\<close>

record Offender =
  of_Pod :: string
  CPUms :: rat
  Intensity :: rat
  ReqMilli :: int
  ThrottlePct :: rat
  CorrelPct :: rat
  of_Confidence :: rat
  Verdict :: string

record IOOffender =
  io_Pod :: string
  io_MB :: rat
  io_SharePct :: rat
  Ops :: u64
  io_Confidence :: rat

record NetOffender =
  no_Pod :: string
  no_MB :: rat
  no_SharePct :: rat
  no_Segs :: u64
  no_Confidence :: rat

record Victim =
  vi_Pod :: string
  P50us :: rat
  P99us :: rat
  vi_Degradation :: rat
  Events :: u64

record NetVictim =
  nv_Pod :: string
  nv_Retransmits :: u64
  RatePct :: rat
  nv_Degradation :: rat
  nv_Segs :: u64

record report_Snapshot =
  sn_NodeName :: string
  sn_Time :: string
  sn_Healthy :: bool
  CgroupsSeen :: nat
  RunqWarnUs :: rat
  sn_MinSamples :: int
  sn_ConfidenceMin :: rat
  MaxConfidence :: rat
  sn_Offenders :: "Offender list"
  Victims :: "Victim list"
  IOMaxConfidence :: rat
  sn_IOOffenders :: "IOOffender list"
  IOVictims :: "Victim list"
  NetMaxConfidence :: rat
  sn_NetOffenders :: "NetOffender list"
  NetVictims :: "NetVictim list"

text \<open>What the controller reads of it.\<close>

definition received :: "report_Snapshot \<Rightarrow> Snapshot" where
  "received s = \<lparr>NodeName = sn_NodeName s, Healthy = sn_Healthy s, ConfidenceMin = sn_ConfidenceMin s,
     Offenders = map (\<lambda>v. (of_Pod v, of_Confidence v)) (sn_Offenders s),
     IOOffenders = map (\<lambda>v. (io_Pod v, io_Confidence v)) (sn_IOOffenders s),
     NetOffenders = map (\<lambda>v. (no_Pod v, no_Confidence v)) (sn_NetOffenders s)\<rparr>"

section \<open>Library functions\<close>

text \<open>
  \<^verbatim>\<open>Duration.Microseconds\<close> truncates. A slice \<^verbatim>\<open>xs[:n]\<close> panics for negative \<open>n\<close>, here \<open>None\<close>. The
  verb \<^verbatim>\<open>%.1f\<close> rounds the decimal to even. \<^verbatim>\<open>sort.Slice\<close> is not stable, so which of the sorted
  permutations it returns is a parameter.
\<close>

definition Microseconds :: "int \<Rightarrow> int" where
  "Microseconds d = (if d < 0 then - (- d div 1000) else d div 1000)"

definition cut_at :: "int \<Rightarrow> 'a list \<Rightarrow> 'a list option" where
  "cut_at n xs =
     (if int (length xs) > n then (if n < 0 then None else Some (take (nat n) xs)) else Some xs)"

definition fmt_1 :: "rat \<Rightarrow> string" where
  "fmt_1 x =
     (let n = round_even (10 * \<bar>x\<bar>)
      in (if x < 0 then ''-'' else []) @ print_nat (nat (n div 10)) @ ''.'' @ print_nat (nat (n mod 10)))"

record sorting =
  sort_victims :: "Victim list \<Rightarrow> Victim list"
  sort_net_victims :: "NetVictim list \<Rightarrow> NetVictim list"
  sort_cpu :: "CgroupCPUTime list \<Rightarrow> CgroupCPUTime list"
  sort_blkio :: "CgroupBlkio list \<Rightarrow> CgroupBlkio list"
  sort_net :: "CgroupNet list \<Rightarrow> CgroupNet list"

definition sorts_by :: "('a list \<Rightarrow> 'a list) \<Rightarrow> ('a \<Rightarrow> 'b :: linorder) \<Rightarrow> bool" where
  "sorts_by f key \<longleftrightarrow> (\<forall>xs. mset (f xs) = mset xs \<and> sorted_wrt (\<lambda>x y. key x \<ge> key y) (f xs))"

definition sorting_ok :: "sorting \<Rightarrow> bool" where
  "sorting_ok S \<longleftrightarrow> sorts_by (sort_victims S) P99us \<and> sorts_by (sort_net_victims S) nv_Retransmits \<and>
     sorts_by (sort_cpu S) OnCpuNs \<and> sorts_by (sort_blkio S) bk_Bytes \<and> sorts_by (sort_net S) TxBytes"

section \<open>Names\<close>

text \<open>
  While a report is built, the cache changes under it: its entries expire, and the other
  goroutines refresh it. So each lookup sees a resolver and a clock of its own, and none at
  all if the agent runs without a resolver.
\<close>

datatype dimension = CPU | Disk | Network

datatype lookup = Victim_Label dimension | Total_Request | Offender_Label dimension
  | Offender_Pod dimension | Cpu_Stat_File

type_synonym view = "lookup \<Rightarrow> u64 \<Rightarrow> (Resolver \<times> int) option"

definition resolve :: "(Resolver \<times> int) option \<Rightarrow> u64 \<Rightarrow> PodID option" where
  "resolve res cgroupID = (case res of None \<Rightarrow> None | Some (r, now) \<Rightarrow> Resolve now cgroupID r)"

definition label :: "(Resolver \<times> int) option \<Rightarrow> u64 \<Rightarrow> string" where
  "label res cgroupID =
     (case resolve res cgroupID of
        Some p \<Rightarrow> PodID_String p
      | None \<Rightarrow> ''system(cg:'' @ print_nat (unat cgroupID) @ '')'')"

section \<open>Victims\<close>

definition clamp :: "rat \<Rightarrow> rat \<Rightarrow> rat \<Rightarrow> rat" where
  "clamp x lo hi = min hi (max lo x)"

definition judgeVictim :: "Config \<Rightarrow> rat \<Rightarrow> u64 \<Rightarrow> rat \<Rightarrow> Baseline \<Rightarrow> (bool \<times> rat) \<times> Baseline" where
  "judgeVictim c lower cg v b =
     (case Deviation b cg v of
        (ratio, ready) \<Rightarrow>
          (let isVictim = (if ready \<and> ratio < cf_DeviationFactor c then False else v \<ge> lower);
               b1 = Observe cg v (\<not> (ready \<and> isVictim)) b;
               deg = (if ready then ratio else 0)
           in ((isVictim, deg), b1)))"

definition capVictims :: "Victim list \<Rightarrow> int \<Rightarrow> Victim list option" where
  "capVictims v n = cut_at n v"

text \<open>The loops of \<^verbatim>\<open>cpuVictims\<close> and \<^verbatim>\<open>ioVictims\<close> have the same body; only the former keeps the ids.\<close>

record 'v judged =
  j_baseline :: Baseline
  j_out :: "'v list"
  j_ids :: "u64 list"
  j_worst :: rat

definition latency_step :: "Config \<Rightarrow> int \<Rightarrow> rat \<Rightarrow> (u64 \<Rightarrow> string) \<Rightarrow> u64 \<times> u64 list \<times> u64 \<Rightarrow>
    Victim judged \<Rightarrow> Victim judged" where
  "latency_step c least lower lab r s =
     (case r of (cg, hist, cnt) \<Rightarrow>
        (if cnt < word_of_int least then s
         else let p99 = Percentile hist 99
              in case judgeVictim c lower cg p99 (j_baseline s) of
                   ((isVictim, deg), b1) \<Rightarrow>
                     (if isVictim
                      then s\<lparr>j_baseline := b1, j_worst := (if deg > j_worst s then deg else j_worst s),
                             j_ids := j_ids s @ [cg],
                             j_out := j_out s @ [\<lparr>vi_Pod = lab cg, P50us = Percentile hist 50, P99us = p99,
                               vi_Degradation = deg, Events = cnt\<rparr>]\<rparr>
                      else s\<lparr>j_baseline := b1\<rparr>)))"

definition cpuVictims :: "sorting \<Rightarrow> view \<Rightarrow> CgroupLatency list \<Rightarrow> Agent \<Rightarrow>
    ((Victim list \<times> rat \<times> u64 list) \<times> Agent) option" where
  "cpuVictims S V runq a =
     (let lower = float64_int (Microseconds (cf_RunqWarn (a_cfg a)));
          s = fold (\<lambda>r. latency_step (a_cfg a) (cf_MinSamples (a_cfg a)) lower
                  (\<lambda>cg. label (V (Victim_Label CPU) cg) cg) (lat_CgroupID r, lat_Slots r, lat_Count r))
                runq \<lparr>j_baseline = a_baseline a, j_out = [], j_ids = [], j_worst = 0\<rparr>
      in case capVictims (sort_victims S (j_out s)) (cf_TopN (a_cfg a)) of
           None \<Rightarrow> None
         | Some vs \<Rightarrow> Some ((vs, j_worst s, j_ids s), a\<lparr>a_baseline := Prune (j_baseline s)\<rparr>))"

definition ioVictims :: "sorting \<Rightarrow> view \<Rightarrow> CgroupBlkio list \<Rightarrow> Agent \<Rightarrow> ((Victim list \<times> rat) \<times> Agent) option" where
  "ioVictims S V blkio a =
     (let lower = float64_int (Microseconds (cf_IOWarn (a_cfg a)));
          s = fold (\<lambda>r. latency_step (a_cfg a) (cf_MinOps (a_cfg a)) lower
                  (\<lambda>cg. label (V (Victim_Label Disk) cg) cg) (bk_CgroupID r, bk_Slots r, bk_Count r))
                blkio \<lparr>j_baseline = ioBaseline a, j_out = [], j_ids = [], j_worst = 0\<rparr>
      in case capVictims (sort_victims S (j_out s)) (cf_TopN (a_cfg a)) of
           None \<Rightarrow> None
         | Some vs \<Rightarrow> Some ((vs, j_worst s), a\<lparr>ioBaseline := Prune (j_baseline s)\<rparr>))"

definition net_step :: "Config \<Rightarrow> (u64 \<Rightarrow> string) \<Rightarrow> CgroupNet \<Rightarrow> NetVictim judged \<Rightarrow> NetVictim judged" where
  "net_step c lab r s =
     (if TxSegs r < word_of_int (cf_MinSegs c) then s
      else if Retransmits r < word_of_int (cf_RetransWarn c) then s
      else let rate = fdiv (float64 (Retransmits r)) (float64 (TxSegs r))
           in case judgeVictim c (cf_RetransRateWarn c) (nt_CgroupID r) rate (j_baseline s) of
                ((isVictim, deg), b1) \<Rightarrow>
                  (if isVictim
                   then s\<lparr>j_baseline := b1, j_worst := (if deg > j_worst s then deg else j_worst s),
                          j_ids := j_ids s @ [nt_CgroupID r],
                          j_out := j_out s @ [\<lparr>nv_Pod = lab (nt_CgroupID r), nv_Retransmits = Retransmits r,
                            RatePct = fmul rate 100, nv_Degradation = deg, nv_Segs = TxSegs r\<rparr>]\<rparr>
                   else s\<lparr>j_baseline := b1\<rparr>))"

definition netVictims :: "sorting \<Rightarrow> view \<Rightarrow> CgroupNet list \<Rightarrow> Agent \<Rightarrow> ((NetVictim list \<times> rat) \<times> Agent) option" where
  "netVictims S V network a =
     (let s = fold (net_step (a_cfg a) (\<lambda>cg. label (V (Victim_Label Network) cg) cg))
                network \<lparr>j_baseline = netBaseline a, j_out = [], j_ids = [], j_worst = 0\<rparr>
      in case cut_at (cf_TopN (a_cfg a)) (sort_net_victims S (j_out s)) of
           None \<Rightarrow> None
         | Some vs \<Rightarrow> Some ((vs, j_worst s), a\<lparr>netBaseline := Prune (j_baseline s)\<rparr>))"

section \<open>Usage\<close>

definition observeUsage :: "Config \<Rightarrow> u64 \<Rightarrow> rat \<Rightarrow> Baseline \<Rightarrow> Baseline" where
  "observeUsage c cg usage b =
     (case Deviation b cg usage of
        (ratio, ready) \<Rightarrow> Observe cg usage (\<not> (ready \<and> ratio \<ge> cf_DeviationFactor c)) b)"

definition trackCPUUsage :: "CgroupCPUTime list \<Rightarrow> Agent \<Rightarrow> Agent" where
  "trackCPUUsage cpu a = a\<lparr>cpuUsage := Prune (fold (\<lambda>r. observeUsage (a_cfg a) (cpu_CgroupID r)
     (float64 (OnCpuNs r))) cpu (cpuUsage a))\<rparr>"

definition trackIOUsage :: "CgroupBlkio list \<Rightarrow> Agent \<Rightarrow> Agent" where
  "trackIOUsage blkio a = a\<lparr>ioUsage := Prune (fold (\<lambda>r. observeUsage (a_cfg a) (bk_CgroupID r)
     (float64 (bk_Bytes r))) blkio (ioUsage a))\<rparr>"

definition trackNetUsage :: "CgroupNet list \<Rightarrow> Agent \<Rightarrow> Agent" where
  "trackNetUsage network a = a\<lparr>netUsage := Prune (fold (\<lambda>r. observeUsage (a_cfg a) (nt_CgroupID r)
     (float64 (TxBytes r))) network (netUsage a))\<rparr>"

section \<open>Offenders\<close>

definition signalFromRatio :: "rat \<Rightarrow> rat" where
  "signalFromRatio worst = (if worst > 1 then clamp (fdiv (fsub worst 1) 4) 0 1 else 1 / 2)"

definition share :: "u64 \<Rightarrow> u64 \<Rightarrow> rat" where
  "share part tot = (if tot = 0 then 0 else fmul (fdiv (float64 part) (float64 tot)) 100)"

definition offenderConfidence :: "Baseline \<Rightarrow> u64 \<Rightarrow> rat \<Rightarrow> rat \<Rightarrow> rat \<Rightarrow> rat \<Rightarrow> rat \<Rightarrow> rat" where
  "offenderConfidence b cg usage sharePct victimSignal fallback thr =
     (let magnitude = clamp (fdiv (fdiv sharePct 100) (1 / 4)) 0 1;
          changed = (case Deviation b cg usage of
             (ratio, ready) \<Rightarrow> if ready then clamp (fdiv (fsub ratio 1) 4) 0 1 else fallback);
          changed = (if thr > 0 then max changed (clamp thr 0 1) else changed)
      in if changed < 0 then - 1
         else clamp (min (min changed magnitude) victimSignal) 0 1)"

definition timelineByCgroup :: "CgroupTimeline list \<Rightarrow> (u64 \<times> CgroupTimeline) list" where
  "timelineByCgroup ts = fold (\<lambda>t m. AList.update (tl_CgroupID t) t m) ts []"

definition toFloat :: "u64 list \<Rightarrow> rat list" where
  "toFloat u = map float64 u"

definition burstCorrelation :: "(u64 \<times> CgroupTimeline) list \<Rightarrow> u64 \<Rightarrow> u64 list \<Rightarrow> rat \<times> int" where
  "burstCorrelation rings offender victims =
     (case map_of rings offender of
        None \<Rightarrow> (0, 0)
      | Some off \<Rightarrow>
          fold (\<lambda>v (best, bestLag).
              case map_of rings v of
                None \<Rightarrow> (best, bestLag)
              | Some vt \<Rightarrow>
                  (let res = Correlate (toFloat (CpuNs off)) (toFloat (RunqLatNs vt)) agent_config
                   in if Confidence res > best then (Confidence res, res_Lag res) else (best, bestLag)))
            victims (0, 0))"

definition ThrottledFraction :: "CPUStat \<Rightarrow> rat" where
  "ThrottledFraction s =
     (if NrPeriods s = 0 then 0 else fdiv (float64 (NrThrottled s)) (float64 (NrPeriods s)))"

definition throttleFraction :: "(string \<Rightarrow> (string \<times> string option) option) \<Rightarrow> (Resolver \<times> int) option \<Rightarrow>
    (u64 \<times> CPUStat) list \<Rightarrow> u64 \<Rightarrow> (u64 \<times> CPUStat) list \<Rightarrow> rat \<times> (u64 \<times> CPUStat) list" where
  "throttleFraction fs res prevs cgroupID cur =
     (case res of
        None \<Rightarrow> (0, cur)
      | Some (r, _) \<Rightarrow>
          (case ReadCPUStat fs cgroupID r of
             None \<Rightarrow> (0, cur)
           | Some now \<Rightarrow>
               (case map_of prevs cgroupID of
                  None \<Rightarrow> (0, AList.update cgroupID now cur)
                | Some prev \<Rightarrow> (ThrottledFraction (Sub now prev), AList.update cgroupID now cur))))"

definition fairShareVerdict :: "rat \<Rightarrow> int \<Rightarrow> int \<Rightarrow> string" where
  "fairShareVerdict intensity reqMilli totalReqMilli =
     (if reqMilli \<le> 0 then ''no request (best-effort)''
      else if totalReqMilli \<le> 0 then ''no request data''
      else let fair = fmul (fdiv (float64_int reqMilli) (float64_int totalReqMilli)) 100
           in if intensity > fair then ''OVER fair share ('' @ fmt_1 fair @ ''%)''
              else ''within request ('' @ fmt_1 fair @ ''%)'')"

text \<open>
  One offender of the CPU table, with the snapshot's maximum and the \<^verbatim>\<open>cpu.stat\<close> readings kept
  for the next interval.
\<close>

definition cpu_offender :: "(string \<Rightarrow> (string \<times> string option) option) \<Rightarrow> view \<Rightarrow> Agent \<Rightarrow> u64 \<Rightarrow> int \<Rightarrow>
    (u64 \<times> CgroupTimeline) list \<Rightarrow> rat \<Rightarrow> u64 list \<Rightarrow> CgroupCPUTime \<Rightarrow>
    Offender list \<times> rat \<times> (u64 \<times> CPUStat) list \<Rightarrow> Offender list \<times> rat \<times> (u64 \<times> CPUStat) list" where
  "cpu_offender fs V a totalNs totalReq rings victimSignal victimIDs r acc =
     (case acc of (out, maxConf, newThrottle) \<Rightarrow>
        (let cg = cpu_CgroupID r;
             intensity = (if totalNs > 0 then fmul (fdiv (float64 (OnCpuNs r)) (float64 totalNs)) 100 else 0);
             v = \<lparr>of_Pod = label (V (Offender_Label CPU) cg) cg, CPUms = fdiv (float64 (OnCpuNs r)) 1000000,
               Intensity = intensity, ReqMilli = - 1, ThrottlePct = 0, CorrelPct = - 1, of_Confidence = - 1,
               Verdict = ''system / unattributed''\<rparr>
         in case resolve (V (Offender_Pod CPU) cg) cg of
              None \<Rightarrow> (out @ [v], maxConf, newThrottle)
            | Some p \<Rightarrow>
                (case throttleFraction fs (V Cpu_Stat_File cg) (prevThrottle a) cg newThrottle of
                   (thr, newThrottle) \<Rightarrow>
                     (let corr = fst (burstCorrelation rings cg victimIDs);
                          fallback = (if totalReq > 0
                            then let fair = fmul (fdiv (float64_int (RequestMilliCPU p)) (float64_int totalReq)) 100
                                 in clamp (fdiv (fdiv (fsub intensity fair) 100) (1 / 2)) 0 1
                            else - 1);
                          harm = max victimSignal corr;
                          conf = offenderConfidence (cpuUsage a) cg (float64 (OnCpuNs r)) intensity harm fallback thr;
                          v = v\<lparr>ReqMilli := RequestMilliCPU p,
                            Verdict := fairShareVerdict intensity (RequestMilliCPU p) totalReq,
                            ThrottlePct := fmul thr 100, CorrelPct := fmul corr 100, of_Confidence := conf\<rparr>
                      in (out @ [v], if conf > maxConf then conf else maxConf, newThrottle)))))"

definition cpu_totals :: "view \<Rightarrow> CgroupCPUTime list \<Rightarrow> u64 \<times> int" where
  "cpu_totals V cpu =
     fold (\<lambda>r (totalNs, totalReq). (totalNs + OnCpuNs r,
         case resolve (V Total_Request (cpu_CgroupID r)) (cpu_CgroupID r) of
           None \<Rightarrow> totalReq | Some p \<Rightarrow> totalReq + RequestMilliCPU p)) cpu (0, 0)"

definition cpuOffenders :: "sorting \<Rightarrow> (string \<Rightarrow> (string \<times> string option) option) \<Rightarrow> view \<Rightarrow>
    CgroupCPUTime list \<Rightarrow> rat \<Rightarrow> u64 list \<Rightarrow> rat \<Rightarrow> Agent \<Rightarrow> ((Offender list \<times> rat) \<times> Agent) option" where
  "cpuOffenders S fs V cpu victimSignal victimIDs maxConf a =
     (let (totalNs, totalReq) = cpu_totals V cpu
      in case cut_at (cf_TopN (a_cfg a)) (sort_cpu S cpu) of
           None \<Rightarrow> None
         | Some tops \<Rightarrow>
             (case fold (cpu_offender fs V a totalNs totalReq (timelineByCgroup (a_timeline a)) victimSignal victimIDs)
                     tops ([], maxConf, []) of
                (out, maxConf, newThrottle) \<Rightarrow> Some ((out, maxConf), a\<lparr>prevThrottle := newThrottle\<rparr>)))"

definition io_offender :: "view \<Rightarrow> Agent \<Rightarrow> u64 \<Rightarrow> rat \<Rightarrow> CgroupBlkio \<Rightarrow> IOOffender list \<times> rat \<Rightarrow>
    IOOffender list \<times> rat" where
  "io_offender V a tot victimSignal r acc =
     (case acc of (out, maxConf) \<Rightarrow>
        (let cg = bk_CgroupID r;
             v = \<lparr>io_Pod = label (V (Offender_Label Disk) cg) cg, io_MB = fdiv (float64 (bk_Bytes r)) 1000000,
               io_SharePct = share (bk_Bytes r) tot, Ops = bk_Count r, io_Confidence = - 1\<rparr>
         in case resolve (V (Offender_Pod Disk) cg) cg of
              None \<Rightarrow> (out @ [v], maxConf)
            | Some p \<Rightarrow>
                (let conf = offenderConfidence (ioUsage a) cg (float64 (bk_Bytes r)) (io_SharePct v) victimSignal (- 1) 0
                 in (out @ [v\<lparr>io_Confidence := conf\<rparr>], if conf > maxConf then conf else maxConf))))"

definition ioOffenders :: "sorting \<Rightarrow> view \<Rightarrow> CgroupBlkio list \<Rightarrow> rat \<Rightarrow> rat \<Rightarrow> Agent \<Rightarrow>
    (IOOffender list \<times> rat) option" where
  "ioOffenders S V blkio victimSignal maxConf a =
     (let tot = fold (\<lambda>r t. t + bk_Bytes r) blkio 0
      in map_option (\<lambda>tops. fold (io_offender V a tot victimSignal) tops ([], maxConf))
           (cut_at (cf_TopN (a_cfg a)) (sort_blkio S blkio)))"

definition net_offender :: "view \<Rightarrow> Agent \<Rightarrow> u64 \<Rightarrow> rat \<Rightarrow> CgroupNet \<Rightarrow> NetOffender list \<times> rat \<Rightarrow>
    NetOffender list \<times> rat" where
  "net_offender V a tot victimSignal r acc =
     (case acc of (out, maxConf) \<Rightarrow>
        (let cg = nt_CgroupID r;
             v = \<lparr>no_Pod = label (V (Offender_Label Network) cg) cg, no_MB = fdiv (float64 (TxBytes r)) 1000000,
               no_SharePct = share (TxBytes r) tot, no_Segs = TxSegs r, no_Confidence = - 1\<rparr>
         in case resolve (V (Offender_Pod Network) cg) cg of
              None \<Rightarrow> (out @ [v], maxConf)
            | Some p \<Rightarrow>
                (let conf = offenderConfidence (netUsage a) cg (float64 (TxBytes r)) (no_SharePct v) victimSignal (- 1) 0
                 in (out @ [v\<lparr>no_Confidence := conf\<rparr>], if conf > maxConf then conf else maxConf))))"

definition netOffenders :: "sorting \<Rightarrow> view \<Rightarrow> CgroupNet list \<Rightarrow> rat \<Rightarrow> rat \<Rightarrow> Agent \<Rightarrow>
    (NetOffender list \<times> rat) option" where
  "netOffenders S V network victimSignal maxConf a =
     (let tot = fold (\<lambda>r t. t + TxBytes r) network 0
      in map_option (\<lambda>tops. fold (net_offender V a tot victimSignal) tops ([], maxConf))
           (cut_at (cf_TopN (a_cfg a)) (sort_net S network)))"

section \<open>The snapshot\<close>

definition empty_snapshot :: "string \<Rightarrow> nat \<Rightarrow> Config \<Rightarrow> report_Snapshot" where
  "empty_snapshot tm seen c = \<lparr>sn_NodeName = cf_NodeName c, sn_Time = tm, sn_Healthy = False, CgroupsSeen = seen,
     RunqWarnUs = float64_int (Microseconds (cf_RunqWarn c)), sn_MinSamples = cf_MinSamples c,
     sn_ConfidenceMin = cf_ConfidenceThreshold c, MaxConfidence = - 1, sn_Offenders = [], Victims = [],
     IOMaxConfidence = - 1, sn_IOOffenders = [], IOVictims = [],
     NetMaxConfidence = - 1, sn_NetOffenders = [], NetVictims = []\<rparr>"

definition blame_cpu :: "sorting \<Rightarrow> (string \<Rightarrow> (string \<times> string option) option) \<Rightarrow> view \<Rightarrow> CgroupCPUTime list \<Rightarrow>
    Victim list \<times> rat \<times> u64 list \<Rightarrow> report_Snapshot \<times> Agent \<Rightarrow> (report_Snapshot \<times> Agent) option" where
  "blame_cpu S fs V cpu victims sa =
     (case (victims, sa) of ((vs, worst, ids), (snap, a)) \<Rightarrow>
        (if vs = [] then Some (snap, a)
         else case cpuOffenders S fs V cpu (signalFromRatio worst) ids (MaxConfidence snap) a of
                None \<Rightarrow> None
              | Some ((out, mc), a1) \<Rightarrow>
                  Some (snap\<lparr>sn_Offenders := out, MaxConfidence := mc, Victims := vs\<rparr>, a1)))"

definition blame_io :: "sorting \<Rightarrow> view \<Rightarrow> CgroupBlkio list \<Rightarrow> Victim list \<times> rat \<Rightarrow>
    report_Snapshot \<times> Agent \<Rightarrow> (report_Snapshot \<times> Agent) option" where
  "blame_io S V blkio victims sa =
     (case (victims, sa) of ((vs, worst), (snap, a)) \<Rightarrow>
        (if vs = [] then Some (snap, a)
         else case ioOffenders S V blkio (signalFromRatio worst) (IOMaxConfidence snap) a of
                None \<Rightarrow> None
              | Some (out, mc) \<Rightarrow>
                  Some (snap\<lparr>sn_IOOffenders := out, IOMaxConfidence := mc, IOVictims := vs\<rparr>, a)))"

definition blame_net :: "sorting \<Rightarrow> view \<Rightarrow> CgroupNet list \<Rightarrow> NetVictim list \<times> rat \<Rightarrow>
    report_Snapshot \<times> Agent \<Rightarrow> (report_Snapshot \<times> Agent) option" where
  "blame_net S V network victims sa =
     (case (victims, sa) of ((vs, worst), (snap, a)) \<Rightarrow>
        (if vs = [] then Some (snap, a)
         else case netOffenders S V network (signalFromRatio worst) (NetMaxConfidence snap) a of
                None \<Rightarrow> None
              | Some (out, mc) \<Rightarrow>
                  Some (snap\<lparr>sn_NetOffenders := out, NetMaxConfidence := mc, NetVictims := vs\<rparr>, a)))"

text \<open>\<open>None\<close> is the panic of a slice with a negative bound.\<close>

definition buildSnapshot :: "sorting \<Rightarrow> (string \<Rightarrow> (string \<times> string option) option) \<Rightarrow> view \<Rightarrow> string \<Rightarrow>
    CgroupCPUTime list \<Rightarrow> CgroupLatency list \<Rightarrow> CgroupBlkio list \<Rightarrow> CgroupNet list \<Rightarrow> Agent \<Rightarrow>
    (report_Snapshot \<times> Agent) option" where
  "buildSnapshot S fs V tm cpu runq blkio network a =
     do {
       (cv, a) \<leftarrow> cpuVictims S V runq a;
       (iv, a) \<leftarrow> ioVictims S V blkio a;
       (nv, a) \<leftarrow> netVictims S V network a;
       let a = trackNetUsage network (trackIOUsage blkio (trackCPUUsage cpu a));
       let healthy = (fst cv = [] \<and> fst iv = [] \<and> fst nv = []);
       let snap = (empty_snapshot tm (length runq) (a_cfg a))\<lparr>sn_Healthy := healthy\<rparr>;
       if healthy then Some (snap, a)
       else do {
         sa \<leftarrow> blame_cpu S fs V cpu cv (snap, a);
         sa \<leftarrow> blame_io S V blkio iv sa;
         blame_net S V network nv sa
       }
     }"

end
