(* ===== verification/Agent_Snapshot.thy ===== *)
theory Agent_Snapshot
  imports Agent_Judgement
begin

text \<open>
  What a snapshot of the agent contains: the confidence of one offender in terms of its signals,
  the tables of offenders and victims, and when building them panics.
\<close>

section \<open>Confidence\<close>

lemma clamp_ge: "0 < g \<Longrightarrow> g \<le> 1 \<Longrightarrow> g \<le> clamp x 0 1 \<longleftrightarrow> g \<le> x"
  by (auto simp: clamp_def)

lemma clamp_range: "0 \<le> clamp x 0 1" "clamp x 0 1 \<le> 1"
  by (auto simp: clamp_def)

lemma confidence_signals:
  assumes "0 < g" and "g \<le> 1" and "Deviation b cg usage = (ratio, ready)"
    and "conf = offenderConfidence b cg usage sharePct victimSignal fallback thr"
  shows "(conf = - 1 \<longleftrightarrow> \<not> ready \<and> fallback < 0 \<and> thr \<le> 0) \<and> (conf = - 1 \<or> 0 \<le> conf \<and> conf \<le> 1) \<and>
     (g \<le> conf \<longleftrightarrow> g \<le> victimSignal \<and> g \<le> fdiv (fdiv sharePct 100) (1 / 4) \<and>
        (g \<le> thr \<or> g \<le> (if ready then fdiv (fsub ratio 1) 4 else fallback)))"
proof -
  let ?dev = "if ready then clamp (fdiv (fsub ratio 1) 4) 0 1 else fallback"
  let ?ch = "if thr > 0 then max ?dev (clamp thr 0 1) else ?dev"
  let ?mag = "clamp (fdiv (fdiv sharePct 100) (1 / 4)) 0 1"
  have conf: "conf = (if ?ch < 0 then - 1 else clamp (min (min ?ch ?mag) victimSignal) 0 1)"
    using assms(3,4) by (simp add: offenderConfidence_def Let_def)
  have neg: "?ch < 0 \<longleftrightarrow> \<not> ready \<and> fallback < 0 \<and> thr \<le> 0"
    using clamp_range(1) [of thr] clamp_range(1) [of "fdiv (fsub ratio 1) 4"] by (auto simp: max_def)
  have dev: "g \<le> ?dev \<longleftrightarrow> g \<le> (if ready then fdiv (fsub ratio 1) 4 else fallback)"
    using assms(1,2) by (simp add: clamp_ge)
  have ch: "g \<le> ?ch \<longleftrightarrow> g \<le> thr \<or> g \<le> ?dev"
    using assms(1,2) by (auto simp: clamp_ge le_max_iff_disj)
  show ?thesis
  proof (cases "?ch < 0")
    case True
    then have "\<not> g \<le> ?ch" using assms(1) by linarith
    with True neg conf ch dev assms(1) show ?thesis by auto
  next
    case False
    have "g \<le> conf \<longleftrightarrow> g \<le> min (min ?ch ?mag) victimSignal"
      using False conf assms(1,2) by (simp only: if_False clamp_ge)
    also have "\<dots> \<longleftrightarrow> g \<le> victimSignal \<and> g \<le> fdiv (fdiv sharePct 100) (1 / 4) \<and> g \<le> ?ch"
      using assms(1,2) by (simp only: min.bounded_iff clamp_ge) blast
    finally have g: "g \<le> conf \<longleftrightarrow> g \<le> victimSignal \<and> g \<le> fdiv (fdiv sharePct 100) (1 / 4) \<and> g \<le> ?ch" .
    have r: "0 \<le> conf" "conf \<le> 1" using False conf clamp_range by simp_all
    then have "conf \<noteq> - 1" by linarith
    with g r ch dev neg False show ?thesis by blast
  qed
qed


lemma confidence_range: "offenderConfidence b cg u sp h fb thr = - 1 \<or>
    0 \<le> offenderConfidence b cg u sp h fb thr \<and> offenderConfidence b cg u sp h fb thr \<le> 1"
proof -
  obtain ratio ready where dev: "Deviation b cg u = (ratio, ready)" by fastforce
  show ?thesis by (rule confidence_signals [of 1, OF _ _ dev refl, THEN conjunct2, THEN conjunct1]) simp_all
qed


text \<open>
  C20. The weakest signal decides. A pod's confidence is \<open>- 1\<close> exactly if nothing is known of it: its
  normal is not learned, there is no fallback and it was not throttled. Otherwise it is
  between 0 and 1, and it reaches a level \<open>g\<close> exactly if all three signals do: the victims'
  harm, four times its share of the resource, and the change of its usage, which is measured
  against its own normal once that is learned, by the fallback before, or by throttling.
\<close>

theorem confidence_weakest_signal:
  assumes "0 < g" and "g \<le> 1" and "Deviation b cg usage = (ratio, ready)"
    and "conf = offenderConfidence b cg usage sharePct victimSignal fallback thr"
  shows "(conf = - 1 \<longleftrightarrow> \<not> ready \<and> fallback < 0 \<and> thr \<le> 0) \<and> (conf = - 1 \<or> 0 \<le> conf \<and> conf \<le> 1) \<and>
     (g \<le> conf \<longleftrightarrow> g \<le> victimSignal \<and> g \<le> fdiv (fdiv sharePct 100) (1 / 4) \<and>
        (g \<le> thr \<or> g \<le> (if ready then fdiv (fsub ratio 1) 4 else fallback)))"
  using confidence_signals [OF assms] .

theorem confidence_weakest_signal_witness:
  "1 / 2 \<le> offenderConfidence (NewBaseline (1 / 8) 3) 7 4096 50 (1 / 2) (3 / 4) 0"
proof -
  have dev: "Deviation (NewBaseline (1 / 8) 3) 7 4096 = (0, False)" by (simp add: Deviation_def NewBaseline_def)
  have "fdiv (fdiv 50 100) (1 / 4) = 2" by code_simp
  with confidence_weakest_signal [of "1 / 2", OF _ _ dev refl, of 50 "1 / 2" "3 / 4" 0] show ?thesis by simp
qed

section \<open>Tables of offenders\<close>

text \<open>
  The loops over the offenders append one entry each and keep the greatest confidence.
\<close>

lemma fold_greatest: "fold (\<lambda>r m. max m (f r)) rs mc = Max (insert mc (f ` set rs))" for mc :: rat
proof (induction rs arbitrary: mc)
  case (Cons r rs)
  then show ?case by (cases "rs = []") (simp_all add: max.assoc)
qed simp

locale offender_table =
  fixes step :: "'r \<Rightarrow> 'e list \<times> rat \<Rightarrow> 'e list \<times> rat"
    and entry :: "'r \<Rightarrow> 'e"
    and conf :: "'e \<Rightarrow> rat"
  assumes step: "- 1 \<le> mc \<Longrightarrow> step r (out, mc) = (out @ [entry r], max mc (conf (entry r)))"
begin

lemma table: "- 1 \<le> mc \<Longrightarrow>
    fold step rs (out, mc) = (out @ map entry rs, fold (\<lambda>r m. max m (conf (entry r))) rs mc)"
  by (induction rs arbitrary: out mc) (simp_all add: step)

lemma table_of: "fold step rs ([], - 1) = (map entry rs, Max (insert (- 1) (conf ` entry ` set rs)))"
  by (simp add: table fold_greatest image_image)

end

definition io_entry :: "view \<Rightarrow> Baseline \<Rightarrow> u64 \<Rightarrow> rat \<Rightarrow> CgroupBlkio \<Rightarrow> IOOffender" where
  "io_entry V b tot victimSignal r =
     (let cg = bk_CgroupID r
      in \<lparr>io_Pod = label (V (Offender_Label Disk) cg) cg, io_MB = fdiv (float64 (bk_Bytes r)) 1000000,
          io_SharePct = share (bk_Bytes r) tot, Ops = bk_Count r,
          io_Confidence = (if resolve (V (Offender_Pod Disk) cg) cg = None then - 1
            else offenderConfidence b cg (float64 (bk_Bytes r)) (share (bk_Bytes r) tot) victimSignal (- 1) 0)\<rparr>)"

definition net_entry :: "view \<Rightarrow> Baseline \<Rightarrow> u64 \<Rightarrow> rat \<Rightarrow> CgroupNet \<Rightarrow> NetOffender" where
  "net_entry V b tot victimSignal r =
     (let cg = nt_CgroupID r
      in \<lparr>no_Pod = label (V (Offender_Label Network) cg) cg, no_MB = fdiv (float64 (TxBytes r)) 1000000,
          no_SharePct = share (TxBytes r) tot, no_Segs = TxSegs r,
          no_Confidence = (if resolve (V (Offender_Pod Network) cg) cg = None then - 1
            else offenderConfidence b cg (float64 (TxBytes r)) (share (TxBytes r) tot) victimSignal (- 1) 0)\<rparr>)"

lemma max_confidence: "(if conf > mc then conf else mc) = max mc (conf :: rat)"
  by (simp add: max_def)

interpretation io: offender_table "io_offender V a tot vs" "io_entry V (ioUsage a) tot vs" io_Confidence
  for V a tot vs
  by unfold_locales (simp add: io_offender_def io_entry_def Let_def max_confidence max_absorb1 split: option.split)

interpretation net: offender_table "net_offender V a tot vs" "net_entry V (netUsage a) tot vs" no_Confidence
  for V a tot vs
  by unfold_locales (simp add: net_offender_def net_entry_def Let_def max_confidence max_absorb1 split: option.split)

text \<open>The entries of the CPU table do not depend on the \<^verbatim>\<open>cpu.stat\<close> readings collected so far.\<close>

definition cpu_entry :: "(string \<Rightarrow> (string \<times> string option) option) \<Rightarrow> view \<Rightarrow> Agent \<Rightarrow> u64 \<Rightarrow> int \<Rightarrow>
    (u64 \<times> CgroupTimeline) list \<Rightarrow> rat \<Rightarrow> u64 list \<Rightarrow> CgroupCPUTime \<Rightarrow> Offender" where
  "cpu_entry fs V a totalNs totalReq rings victimSignal victimIDs r =
     hd (fst (cpu_offender fs V a totalNs totalReq rings victimSignal victimIDs r ([], - 1, [])))"

lemma cpu_step:
  assumes "- 1 \<le> mc"
  shows "\<exists>nt'. cpu_offender fs V a totalNs totalReq rings vs ids r (out, mc, nt) =
     (out @ [cpu_entry fs V a totalNs totalReq rings vs ids r],
      max mc (of_Confidence (cpu_entry fs V a totalNs totalReq rings vs ids r)), nt')"
proof -
  let ?cg = "cpu_CgroupID r"
  obtain t n where t: "throttleFraction fs (V Cpu_Stat_File ?cg) (prevThrottle a) ?cg nt = (t, n)" by fastforce
  obtain n0 where t0: "throttleFraction fs (V Cpu_Stat_File ?cg) (prevThrottle a) ?cg [] = (t, n0)"
    using t by (auto simp: throttleFraction_def split: option.splits prod.splits)
  show ?thesis using assms
    by (simp add: cpu_entry_def cpu_offender_def Let_def t t0 max_confidence max_absorb1 split: option.split)
qed

lemma cpu_table:
  "- 1 \<le> mc \<Longrightarrow> \<exists>nt'. fold (cpu_offender fs V a totalNs totalReq rings vs ids) rs (out, mc, nt) =
     (out @ map (cpu_entry fs V a totalNs totalReq rings vs ids) rs,
      fold (\<lambda>r m. max m (of_Confidence (cpu_entry fs V a totalNs totalReq rings vs ids r))) rs mc, nt')"
proof (induction rs arbitrary: out mc nt)
  case (Cons r rs)
  let ?e = "cpu_entry fs V a totalNs totalReq rings vs ids r"
  from cpu_step [OF Cons.prems] obtain n1 where
    "cpu_offender fs V a totalNs totalReq rings vs ids r (out, mc, nt) = (out @ [?e], max mc (of_Confidence ?e), n1)" by blast
  moreover have "- 1 \<le> max mc (of_Confidence ?e)" using Cons.prems by simp
  ultimately show ?case using Cons.IH [of "max mc (of_Confidence ?e)" "out @ [?e]" n1] by simp
qed simp

lemma cpu_entry_fields:
  "of_Pod (cpu_entry fs V a totalNs totalReq rings vs ids r) =
     label (V (Offender_Label CPU) (cpu_CgroupID r)) (cpu_CgroupID r)"
  "resolve (V (Offender_Pod CPU) (cpu_CgroupID r)) (cpu_CgroupID r) = None \<Longrightarrow>
     of_Confidence (cpu_entry fs V a totalNs totalReq rings vs ids r) = - 1"
  by (auto simp: cpu_entry_def cpu_offender_def Let_def split: option.split prod.split)

lemma cpu_entry_conf:
  "resolve (V (Offender_Pod CPU) (cpu_CgroupID r)) (cpu_CgroupID r) \<noteq> None \<Longrightarrow>
   \<exists>b u h fallback thr. of_Confidence (cpu_entry fs V a totalNs totalReq rings vs ids r) =
     offenderConfidence b (cpu_CgroupID r) u (share (OnCpuNs r) totalNs) h fallback thr"
  by (auto simp: cpu_entry_def cpu_offender_def Let_def share_def word_gt_0 split: option.split prod.split) blast+

section \<open>Victims\<close>

definition starved :: "Config \<Rightarrow> int \<Rightarrow> Victim \<Rightarrow> bool" where
  "starved c warn v \<longleftrightarrow> float64_int (Microseconds warn) \<le> P99us v \<and>
     (vi_Degradation v = 0 \<or> cf_DeviationFactor c \<le> vi_Degradation v)"

definition net_starved :: "Config \<Rightarrow> NetVictim \<Rightarrow> bool" where
  "net_starved c v \<longleftrightarrow> word_of_int (cf_RetransWarn c) \<le> nv_Retransmits v \<and>
     cf_RetransRateWarn c \<le> fdiv (float64 (nv_Retransmits v)) (float64 (nv_Segs v)) \<and>
     (nv_Degradation v = 0 \<or> cf_DeviationFactor c \<le> nv_Degradation v)"

lemma judgeVictim_floor:
  "judgeVictim c lower cg v b = ((isVictim, deg), b1) \<Longrightarrow> isVictim \<Longrightarrow>
     lower \<le> v \<and> (deg = 0 \<or> cf_DeviationFactor c \<le> deg)"
  by (auto simp: judgeVictim_def Let_def split: prod.splits if_splits)

lemma latency_step_out:
  "v \<in> set (j_out (latency_step c least lower lab r s)) \<Longrightarrow>
     v \<in> set (j_out s) \<or> lower \<le> P99us v \<and> (vi_Degradation v = 0 \<or> cf_DeviationFactor c \<le> vi_Degradation v)"
  by (auto simp: latency_step_def Let_def split: prod.splits if_splits dest: judgeVictim_floor)

lemma latency_victims:
  assumes "v \<in> set (j_out (fold (\<lambda>r. latency_step c least lower lab (f r)) rs s))"
  shows "v \<in> set (j_out s) \<or> lower \<le> P99us v \<and> (vi_Degradation v = 0 \<or> cf_DeviationFactor c \<le> vi_Degradation v)"
  using assms by (induction rs arbitrary: s) (auto dest!: latency_step_out)

lemma net_step_out:
  "v \<in> set (j_out (net_step c lab r s)) \<Longrightarrow>
     v \<in> set (j_out s) \<or> net_starved c v"
  by (auto simp: net_step_def Let_def net_starved_def not_less split: prod.splits if_splits dest: judgeVictim_floor)

lemma net_victims:
  assumes "v \<in> set (j_out (fold (net_step c lab) rs s))"
  shows "v \<in> set (j_out s) \<or> net_starved c v"
  using assms by (induction rs arbitrary: s) (auto dest!: net_step_out)

lemma cut_at_Some: "cut_at n xs = Some ys \<Longrightarrow> ys = take (nat n) xs \<and> (0 \<le> n)"
  by (auto simp: cut_at_def split: if_splits)

lemma cut_at_None: "cut_at n xs = None \<longleftrightarrow> n < 0"
  by (auto simp: cut_at_def)

lemma sorts_by_set: "sorts_by f key \<Longrightarrow> set (f xs) = set xs"
  by (metis sorts_by_def mset_eq_setD)

lemma cut_subset: "sorts_by f key \<Longrightarrow> cut_at n (f xs) = Some ys \<Longrightarrow> set ys \<subseteq> set xs"
  by (metis cut_at_Some set_take_subset sorts_by_set)

lemma cpuVictims_starved:
  assumes "sorting_ok S" and "cpuVictims S V runq a = Some ((vs, worst, ids), a1)"
  shows "(\<forall>v \<in> set vs. starved (a_cfg a) (cf_RunqWarn (a_cfg a)) v) \<and> (\<exists>b. a1 = a\<lparr>a_baseline := b\<rparr>)"
proof -
  from assms(1) have S: "sorts_by (sort_victims S) P99us" by (simp add: sorting_ok_def)
  from assms(2) show ?thesis
    using cut_subset [OF S] latency_victims
    by (auto simp: cpuVictims_def capVictims_def Let_def starved_def split: option.splits) (fastforce | metis)+
qed


lemma ioVictims_starved:
  assumes "sorting_ok S" and "ioVictims S V blkio a = Some ((vs, worst), a1)"
  shows "(\<forall>v \<in> set vs. starved (a_cfg a) (cf_IOWarn (a_cfg a)) v) \<and> (\<exists>b. a1 = a\<lparr>ioBaseline := b\<rparr>)"
proof -
  from assms(1) have S: "sorts_by (sort_victims S) P99us" by (simp add: sorting_ok_def)
  from assms(2) show ?thesis
    using cut_subset [OF S] latency_victims
    by (auto simp: ioVictims_def capVictims_def Let_def starved_def split: option.splits) (fastforce | metis)+
qed

lemma netVictims_starved:
  assumes "sorting_ok S" and "netVictims S V network a = Some ((vs, worst), a1)"
  shows "(\<forall>v \<in> set vs. net_starved (a_cfg a) v) \<and> (\<exists>b. a1 = a\<lparr>netBaseline := b\<rparr>)"
proof -
  from assms(1) have S: "sorts_by (sort_net_victims S) nv_Retransmits" by (simp add: sorting_ok_def)
  from assms(2) show ?thesis
    using cut_subset [OF S] net_victims
    by (auto simp: netVictims_def Let_def split: option.splits) fastforce
qed

section \<open>The parts of a snapshot\<close>

lemma cpu_totals_ns: "fst (cpu_totals V cpu) = sum_list (map OnCpuNs cpu)"
proof -
  have "fst (fold (\<lambda>r (ns, req). (ns + OnCpuNs r, h r req)) cpu s) = fst s + sum_list (map OnCpuNs cpu)"
    for s :: "u64 \<times> int" and h
    by (induction cpu arbitrary: s) (auto simp: add.assoc split: prod.split)
  then show ?thesis by (simp add: cpu_totals_def)
qed

abbreviation cpu_entry_of :: "(string \<Rightarrow> (string \<times> string option) option) \<Rightarrow> view \<Rightarrow> CgroupCPUTime list \<Rightarrow> rat \<Rightarrow>
    u64 list \<Rightarrow> Agent \<Rightarrow> CgroupCPUTime \<Rightarrow> Offender" where
  "cpu_entry_of fs V cpu worst ids a \<equiv> cpu_entry fs V a (fst (cpu_totals V cpu)) (snd (cpu_totals V cpu))
     (timelineByCgroup (a_timeline a)) (signalFromRatio worst) ids"

lemma cpuOffenders_table:
  assumes "cpuOffenders S fs V cpu (signalFromRatio worst) ids (- 1) a = Some ((out, mc), a1)"
  shows "\<exists>rs nt. cut_at (cf_TopN (a_cfg a)) (sort_cpu S cpu) = Some rs \<and> out = map (cpu_entry_of fs V cpu worst ids a) rs \<and>
     mc = Max (insert (- 1) (of_Confidence ` set out)) \<and> a1 = a\<lparr>prevThrottle := nt\<rparr>"
proof -
  let ?e = "cpu_entry_of fs V cpu worst ids a"
  from assms obtain rs where rs: "cut_at (cf_TopN (a_cfg a)) (sort_cpu S cpu) = Some rs"
    by (auto simp: cpuOffenders_def Let_def split: option.splits prod.splits)
  obtain nt where "fold (cpu_offender fs V a (fst (cpu_totals V cpu)) (snd (cpu_totals V cpu)) (timelineByCgroup (a_timeline a))
      (signalFromRatio worst) ids) rs ([], - 1, []) = (map ?e rs, Max (insert (- 1) (of_Confidence ` ?e ` set rs)), nt)"
    using cpu_table [of "- 1" fs V a "fst (cpu_totals V cpu)" "snd (cpu_totals V cpu)" "timelineByCgroup (a_timeline a)"
      "signalFromRatio worst" ids rs "[]" "[]"] by (auto simp: fold_greatest image_image)
  with assms rs show ?thesis by (auto simp: cpuOffenders_def Let_def split: prod.splits)
qed

lemma ioOffenders_table:
  assumes "ioOffenders S V blkio vs (- 1) a = Some (out, mc)"
  shows "\<exists>rs. cut_at (cf_TopN (a_cfg a)) (sort_blkio S blkio) = Some rs \<and>
     out = map (io_entry V (ioUsage a) (sum_list (map bk_Bytes blkio)) vs) rs \<and>
     mc = Max (insert (- 1) (io_Confidence ` set out))"
proof -
  have "fold (\<lambda>r t. t + bk_Bytes r) blkio n = n + sum_list (map bk_Bytes blkio)" for n
    by (induction blkio arbitrary: n) (auto simp: add.assoc)
  with assms show ?thesis by (auto simp: ioOffenders_def Let_def io.table_of image_image)
qed

lemma netOffenders_table:
  assumes "netOffenders S V network vs (- 1) a = Some (out, mc)"
  shows "\<exists>rs. cut_at (cf_TopN (a_cfg a)) (sort_net S network) = Some rs \<and>
     out = map (net_entry V (netUsage a) (sum_list (map TxBytes network)) vs) rs \<and>
     mc = Max (insert (- 1) (no_Confidence ` set out))"
proof -
  have "fold (\<lambda>r t. t + TxBytes r) network n = n + sum_list (map TxBytes network)" for n
    by (induction network arbitrary: n) (auto simp: add.assoc)
  with assms show ?thesis by (auto simp: netOffenders_def Let_def net.table_of image_image)
qed


text \<open>One dimension of a snapshot: a table and its maximum, both empty without victims.\<close>

definition part_ok :: "('e \<Rightarrow> rat) \<Rightarrow> int \<Rightarrow> 'v list \<Rightarrow> 'r list \<Rightarrow> ('r \<Rightarrow> 'e) \<Rightarrow> 'e list \<Rightarrow> rat \<Rightarrow> bool" where
  "part_ok conf n vs ranked entry out mc \<longleftrightarrow>
     mc = Max (insert (- 1) (conf ` set out)) \<and>
     (if vs = [] then out = [] else cut_at n ranked \<noteq> None \<and> out = map entry (the (cut_at n ranked)))"

lemma part_okI:
  "cut_at n ranked = Some rs \<Longrightarrow> out = map entry rs \<Longrightarrow> mc = Max (insert (- 1) (conf ` set out)) \<Longrightarrow> vs \<noteq> [] \<Longrightarrow>
     part_ok conf n vs ranked entry out mc"
  by (simp add: part_ok_def)

lemma blame_cpu_part:
  assumes "blame_cpu S fs V cpu (vs, worst, ids) (snap, a) = Some (snap1, a1)"
    and "MaxConfidence snap = - 1" and "sn_Offenders snap = []" and "Victims snap = []"
  shows "\<exists>out mc nt. snap1 = snap\<lparr>sn_Offenders := out, MaxConfidence := mc, Victims := vs\<rparr> \<and>
     a1 = a\<lparr>prevThrottle := nt\<rparr> \<and>
     part_ok of_Confidence (cf_TopN (a_cfg a)) vs (sort_cpu S cpu) (cpu_entry_of fs V cpu worst ids a) out mc"
proof (cases "vs = []")
  case True
  with assms show ?thesis
    by (intro exI [of _ "[]"] exI [of _ "- 1"] exI [of _ "prevThrottle a"]) (simp add: blame_cpu_def part_ok_def)
next
  case False
  with assms obtain out mc where off: "cpuOffenders S fs V cpu (signalFromRatio worst) ids (- 1) a = Some ((out, mc), a1)"
    and snap: "snap1 = snap\<lparr>sn_Offenders := out, MaxConfidence := mc, Victims := vs\<rparr>"
    by (auto simp: blame_cpu_def split: option.splits)
  from cpuOffenders_table [OF off] part_okI [OF _ _ _ False] snap show ?thesis by blast
qed

lemma blame_io_part:
  assumes "blame_io S V blkio (vs, worst) (snap, a) = Some (snap1, a1)"
    and "IOMaxConfidence snap = - 1" and "sn_IOOffenders snap = []" and "IOVictims snap = []"
  shows "\<exists>out mc. snap1 = snap\<lparr>sn_IOOffenders := out, IOMaxConfidence := mc, IOVictims := vs\<rparr> \<and> a1 = a \<and>
     part_ok io_Confidence (cf_TopN (a_cfg a)) vs (sort_blkio S blkio)
       (io_entry V (ioUsage a) (sum_list (map bk_Bytes blkio)) (signalFromRatio worst)) out mc"
proof (cases "vs = []")
  case True
  with assms show ?thesis
    by (intro exI [of _ "[]"] exI [of _ "- 1"]) (simp add: blame_io_def part_ok_def)
next
  case False
  with assms obtain out mc where off: "ioOffenders S V blkio (signalFromRatio worst) (- 1) a = Some (out, mc)"
    and snap: "snap1 = snap\<lparr>sn_IOOffenders := out, IOMaxConfidence := mc, IOVictims := vs\<rparr>" "a1 = a"
    by (auto simp: blame_io_def split: option.splits)
  from ioOffenders_table [OF off] part_okI [OF _ _ _ False] snap show ?thesis by blast
qed

lemma blame_net_part:
  assumes "blame_net S V network (vs, worst) (snap, a) = Some (snap1, a1)"
    and "NetMaxConfidence snap = - 1" and "sn_NetOffenders snap = []" and "NetVictims snap = []"
  shows "\<exists>out mc. snap1 = snap\<lparr>sn_NetOffenders := out, NetMaxConfidence := mc, NetVictims := vs\<rparr> \<and> a1 = a \<and>
     part_ok no_Confidence (cf_TopN (a_cfg a)) vs (sort_net S network)
       (net_entry V (netUsage a) (sum_list (map TxBytes network)) (signalFromRatio worst)) out mc"
proof (cases "vs = []")
  case True
  with assms show ?thesis
    by (intro exI [of _ "[]"] exI [of _ "- 1"]) (simp add: blame_net_def part_ok_def)
next
  case False
  with assms obtain out mc where off: "netOffenders S V network (signalFromRatio worst) (- 1) a = Some (out, mc)"
    and snap: "snap1 = snap\<lparr>sn_NetOffenders := out, NetMaxConfidence := mc, NetVictims := vs\<rparr>" "a1 = a"
    by (auto simp: blame_net_def split: option.splits)
  from netOffenders_table [OF off] part_okI [OF _ _ _ False] snap show ?thesis by blast
qed

text \<open>The agent between the victims and the offenders: all that is learned in the interval.\<close>

definition learned :: "sorting \<Rightarrow> view \<Rightarrow> CgroupCPUTime list \<Rightarrow> CgroupLatency list \<Rightarrow> CgroupBlkio list \<Rightarrow>
    CgroupNet list \<Rightarrow> Agent \<Rightarrow> ((Victim list \<times> rat \<times> u64 list) \<times> (Victim list \<times> rat) \<times> (NetVictim list \<times> rat) \<times> Agent) option" where
  "learned S V cpu runq blkio network a =
     do {
       (cv, a) \<leftarrow> cpuVictims S V runq a;
       (iv, a) \<leftarrow> ioVictims S V blkio a;
       (nv, a) \<leftarrow> netVictims S V network a;
       Some (cv, iv, nv, trackNetUsage network (trackIOUsage blkio (trackCPUUsage cpu a)))
     }"

lemma learned_starved:
  assumes "sorting_ok S" and "learned S V cpu runq blkio network a = Some ((cvs, cw, ids), (ivs, iw), (nvs, nw), au)"
  shows "(\<forall>v \<in> set cvs. starved (a_cfg a) (cf_RunqWarn (a_cfg a)) v) \<and>
    (\<forall>v \<in> set ivs. starved (a_cfg a) (cf_IOWarn (a_cfg a)) v) \<and> (\<forall>v \<in> set nvs. net_starved (a_cfg a) v) \<and>
    a_cfg au = a_cfg a \<and> a_timeline au = a_timeline a"
proof -
  from assms(2) obtain a1 a2 a3 where c: "cpuVictims S V runq a = Some ((cvs, cw, ids), a1)"
    and i: "ioVictims S V blkio a1 = Some ((ivs, iw), a2)" and n: "netVictims S V network a2 = Some ((nvs, nw), a3)"
    and au: "au = trackNetUsage network (trackIOUsage blkio (trackCPUUsage cpu a3))"
    by (auto simp: learned_def split: bind_splits)
  from cpuVictims_starved [OF assms(1) c] obtain b1 where 1: "\<forall>v \<in> set cvs. starved (a_cfg a) (cf_RunqWarn (a_cfg a)) v" "a1 = a\<lparr>a_baseline := b1\<rparr>" by blast
  from ioVictims_starved [OF assms(1) i] obtain b2 where 2: "\<forall>v \<in> set ivs. starved (a_cfg a1) (cf_IOWarn (a_cfg a1)) v" "a2 = a1\<lparr>ioBaseline := b2\<rparr>" by blast
  from netVictims_starved [OF assms(1) n] obtain b3 where 3: "\<forall>v \<in> set nvs. net_starved (a_cfg a2) v" "a3 = a2\<lparr>netBaseline := b3\<rparr>" by blast
  from 1 2 3 au show ?thesis by (simp add: trackNetUsage_def trackIOUsage_def trackCPUUsage_def)
qed

definition blame :: "sorting \<Rightarrow> (string \<Rightarrow> (string \<times> string option) option) \<Rightarrow> view \<Rightarrow> string \<Rightarrow>
    CgroupCPUTime list \<Rightarrow> CgroupLatency list \<Rightarrow> CgroupBlkio list \<Rightarrow> CgroupNet list \<Rightarrow>
    Victim list \<times> rat \<times> u64 list \<Rightarrow> Victim list \<times> rat \<Rightarrow> NetVictim list \<times> rat \<Rightarrow> Agent \<Rightarrow> (report_Snapshot \<times> Agent) option" where
  "blame S fs V tm cpu runq blkio network cv iv nv au =
     (let healthy = (fst cv = [] \<and> fst iv = [] \<and> fst nv = []);
          snap = (empty_snapshot tm (length runq) (a_cfg au))\<lparr>sn_Healthy := healthy\<rparr>
      in if healthy then Some (snap, au)
         else do {
           sa \<leftarrow> blame_cpu S fs V cpu cv (snap, au);
           sa \<leftarrow> blame_io S V blkio iv sa;
           blame_net S V network nv sa
         })"

lemma buildSnapshot_blame:
  "buildSnapshot S fs V tm cpu runq blkio network a =
     learned S V cpu runq blkio network a \<bind> (\<lambda>(cv, iv, nv, au). blame S fs V tm cpu runq blkio network cv iv nv au)"
  by (simp add: buildSnapshot_def learned_def blame_def Let_def Option.bind_assoc case_prod_unfold cong: if_cong)

text \<open>How a snapshot comes from what the interval has taught.\<close>

definition snapshot_parts :: "sorting \<Rightarrow> (string \<Rightarrow> (string \<times> string option) option) \<Rightarrow> view \<Rightarrow> CgroupCPUTime list \<Rightarrow>
    CgroupLatency list \<Rightarrow> CgroupBlkio list \<Rightarrow> CgroupNet list \<Rightarrow> Agent \<Rightarrow> report_Snapshot \<Rightarrow>
    rat \<Rightarrow> u64 list \<Rightarrow> rat \<Rightarrow> rat \<Rightarrow> Agent \<Rightarrow> bool" where
  "snapshot_parts S fs V cpu runq blkio network a snap cw ids iw nw au \<longleftrightarrow>
     learned S V cpu runq blkio network a = Some ((Victims snap, cw, ids), (IOVictims snap, iw), (NetVictims snap, nw), au) \<and>
     (sn_Healthy snap \<longleftrightarrow> Victims snap = [] \<and> IOVictims snap = [] \<and> NetVictims snap = []) \<and>
     sn_NodeName snap = cf_NodeName (a_cfg a) \<and> sn_ConfidenceMin snap = cf_ConfidenceThreshold (a_cfg a) \<and>
     part_ok of_Confidence (cf_TopN (a_cfg a)) (Victims snap) (sort_cpu S cpu) (cpu_entry_of fs V cpu cw ids au)
       (sn_Offenders snap) (MaxConfidence snap) \<and>
     part_ok io_Confidence (cf_TopN (a_cfg a)) (IOVictims snap) (sort_blkio S blkio)
       (io_entry V (ioUsage au) (sum_list (map bk_Bytes blkio)) (signalFromRatio iw)) (sn_IOOffenders snap) (IOMaxConfidence snap) \<and>
     part_ok no_Confidence (cf_TopN (a_cfg a)) (NetVictims snap) (sort_net S network)
       (net_entry V (netUsage au) (sum_list (map TxBytes network)) (signalFromRatio nw)) (sn_NetOffenders snap) (NetMaxConfidence snap)"

lemma snapshot_partsD:
  assumes "snapshot_parts S fs V cpu runq blkio network a snap cw ids iw nw au"
  shows "learned S V cpu runq blkio network a = Some ((Victims snap, cw, ids), (IOVictims snap, iw), (NetVictims snap, nw), au)"
    and "sn_Healthy snap \<longleftrightarrow> Victims snap = [] \<and> IOVictims snap = [] \<and> NetVictims snap = []"
    and "sn_ConfidenceMin snap = cf_ConfidenceThreshold (a_cfg a)"
    and "part_ok of_Confidence (cf_TopN (a_cfg a)) (Victims snap) (sort_cpu S cpu) (cpu_entry_of fs V cpu cw ids au)
       (sn_Offenders snap) (MaxConfidence snap)"
    and "part_ok io_Confidence (cf_TopN (a_cfg a)) (IOVictims snap) (sort_blkio S blkio)
       (io_entry V (ioUsage au) (sum_list (map bk_Bytes blkio)) (signalFromRatio iw)) (sn_IOOffenders snap) (IOMaxConfidence snap)"
    and "part_ok no_Confidence (cf_TopN (a_cfg a)) (NetVictims snap) (sort_net S network)
       (net_entry V (netUsage au) (sum_list (map TxBytes network)) (signalFromRatio nw)) (sn_NetOffenders snap) (NetMaxConfidence snap)"
  using assms unfolding snapshot_parts_def by blast+

lemma buildSnapshot_parts:
  assumes "sorting_ok S" and "buildSnapshot S fs V tm cpu runq blkio network a = Some (snap, a')"
  shows "\<exists>cw ids iw nw au. snapshot_parts S fs V cpu runq blkio network a snap cw ids iw nw au"
proof -
  from assms(2) obtain cvs cw ids ivs iw nvs nw au where
    l: "learned S V cpu runq blkio network a = Some ((cvs, cw, ids), (ivs, iw), (nvs, nw), au)"
    and rest: "blame S fs V tm cpu runq blkio network (cvs, cw, ids) (ivs, iw) (nvs, nw) au = Some (snap, a')"
    unfolding buildSnapshot_blame by (auto split: bind_splits)
  have cfg: "a_cfg au = a_cfg a" using learned_starved [OF assms(1) l] by simp
  show ?thesis
  proof (cases "cvs = [] \<and> ivs = [] \<and> nvs = []")
    case True
    with rest have snap: "snap = (empty_snapshot tm (length runq) (a_cfg au))\<lparr>sn_Healthy := True\<rparr>" "a' = au" by (auto simp: blame_def Let_def)
    have "snapshot_parts S fs V cpu runq blkio network a snap cw ids iw nw au"
      using True snap l cfg by (simp add: snapshot_parts_def empty_snapshot_def part_ok_def)
    then show ?thesis by blast
  next
    case False
    let ?s = "(empty_snapshot tm (length runq) (a_cfg au))\<lparr>sn_Healthy := False\<rparr>"
    from False rest obtain s1 a1 s2 a2 where c: "blame_cpu S fs V cpu (cvs, cw, ids) (?s, au) = Some (s1, a1)"
      and i: "blame_io S V blkio (ivs, iw) (s1, a1) = Some (s2, a2)"
      and n: "blame_net S V network (nvs, nw) (s2, a2) = Some (snap, a')"
      by (auto simp: blame_def Let_def split: bind_splits if_splits)
    from blame_cpu_part [OF c] obtain out1 mc1 nt where 1: "s1 = ?s\<lparr>sn_Offenders := out1, MaxConfidence := mc1, Victims := cvs\<rparr>"
      "a1 = au\<lparr>prevThrottle := nt\<rparr>" "part_ok of_Confidence (cf_TopN (a_cfg au)) cvs (sort_cpu S cpu) (cpu_entry_of fs V cpu cw ids au) out1 mc1"
      by (auto simp: empty_snapshot_def)
    from blame_io_part [OF i] 1 obtain out2 mc2 where 2: "s2 = s1\<lparr>sn_IOOffenders := out2, IOMaxConfidence := mc2, IOVictims := ivs\<rparr>"
      "a2 = a1" "part_ok io_Confidence (cf_TopN (a_cfg au)) ivs (sort_blkio S blkio)
         (io_entry V (ioUsage au) (sum_list (map bk_Bytes blkio)) (signalFromRatio iw)) out2 mc2"
      by (auto simp: empty_snapshot_def)
    from blame_net_part [OF n] 1 2 obtain out3 mc3 where 3: "snap = s2\<lparr>sn_NetOffenders := out3, NetMaxConfidence := mc3, NetVictims := nvs\<rparr>"
      "a' = a2" "part_ok no_Confidence (cf_TopN (a_cfg au)) nvs (sort_net S network)
         (net_entry V (netUsage au) (sum_list (map TxBytes network)) (signalFromRatio nw)) out3 mc3"
      by (auto simp: empty_snapshot_def)
    have "snapshot_parts S fs V cpu runq blkio network a snap cw ids iw nw au"
      using False 1 2 3 l cfg by (simp add: snapshot_parts_def empty_snapshot_def)
    then show ?thesis by blast
  qed
qed


lemma victims_panic:
  "cpuVictims S V runq a = None \<longleftrightarrow> cf_TopN (a_cfg a) < 0"
  "ioVictims S V blkio a = None \<longleftrightarrow> cf_TopN (a_cfg a) < 0"
  "netVictims S V network a = None \<longleftrightarrow> cf_TopN (a_cfg a) < 0"
  by (auto simp: cpuVictims_def ioVictims_def netVictims_def capVictims_def Let_def cut_at_None split: option.split dest: cut_at_Some)

lemma victims_cfg:
  "cpuVictims S V runq a = Some (c, a1) \<Longrightarrow> a_cfg a1 = a_cfg a"
  "ioVictims S V blkio a = Some (i, a1) \<Longrightarrow> a_cfg a1 = a_cfg a"
  "netVictims S V network a = Some (n, a1) \<Longrightarrow> a_cfg a1 = a_cfg a"
  by (auto simp: cpuVictims_def ioVictims_def netVictims_def Let_def split: option.splits)

lemma track_cfg [simp]: "a_cfg (trackNetUsage network (trackIOUsage blkio (trackCPUUsage cpu a))) = a_cfg a"
  by (simp add: trackNetUsage_def trackIOUsage_def trackCPUUsage_def)

lemma blame_returns:
  assumes "0 \<le> cf_TopN (a_cfg a)"
  shows "\<exists>s1 a1. blame_cpu S fs V cpu cv (snap, a) = Some (s1, a1) \<and> a_cfg a1 = a_cfg a"
    and "\<exists>s1 a1. blame_io S V blkio iv (snap, a) = Some (s1, a1) \<and> a_cfg a1 = a_cfg a"
    and "\<exists>s1 a1. blame_net S V network nv (snap, a) = Some (s1, a1) \<and> a_cfg a1 = a_cfg a"
proof -
  have cut: "\<exists>ys. cut_at (cf_TopN (a_cfg a)) xs = Some ys" for xs :: "'x list"
    using assms cut_at_None [of "cf_TopN (a_cfg a)" xs] by auto
  obtain rs where "cut_at (cf_TopN (a_cfg a)) (sort_cpu S cpu) = Some rs" using cut by blast
  then show "\<exists>s1 a1. blame_cpu S fs V cpu cv (snap, a) = Some (s1, a1) \<and> a_cfg a1 = a_cfg a"
    by (simp add: blame_cpu_def cpuOffenders_def Let_def split: prod.split)
  obtain rs where "cut_at (cf_TopN (a_cfg a)) (sort_blkio S blkio) = Some rs" using cut by blast
  then show "\<exists>s1 a1. blame_io S V blkio iv (snap, a) = Some (s1, a1) \<and> a_cfg a1 = a_cfg a"
    by (simp add: blame_io_def ioOffenders_def Let_def split: prod.split)
  obtain rs where "cut_at (cf_TopN (a_cfg a)) (sort_net S network) = Some rs" using cut by blast
  then show "\<exists>s1 a1. blame_net S V network nv (snap, a) = Some (s1, a1) \<and> a_cfg a1 = a_cfg a"
    by (simp add: blame_net_def netOffenders_def Let_def split: prod.split)
qed

lemma learned_cfg: "learned S V cpu runq blkio network a = Some (cv, iv, nv, au) \<Longrightarrow> a_cfg au = a_cfg a"
  by (auto simp: learned_def split: bind_splits dest!: victims_cfg)

lemma blame_total:
  assumes "0 \<le> cf_TopN (a_cfg au)"
  shows "blame S fs V tm cpu runq blkio network cv iv nv au \<noteq> None"
proof -
  let ?s = "(empty_snapshot tm (length runq) (a_cfg au))\<lparr>sn_Healthy := fst cv = [] \<and> fst iv = [] \<and> fst nv = []\<rparr>"
  obtain s1 a1 where 1: "blame_cpu S fs V cpu cv (?s, au) = Some (s1, a1)" "a_cfg a1 = a_cfg au"
    using blame_returns(1) [OF assms] by blast
  obtain s2 a2 where 2: "blame_io S V blkio iv (s1, a1) = Some (s2, a2)" "a_cfg a2 = a_cfg a1"
    using blame_returns(2) [of a1] assms unfolding 1(2) by metis
  obtain s3 a3 where 3: "blame_net S V network nv (s2, a2) = Some (s3, a3)"
    using blame_returns(3) [of a2] assms unfolding 1(2) 2(2) by metis
  from 1 2 3 show ?thesis by (simp add: blame_def Let_def)
qed

lemma learned_None: "learned S V cpu runq blkio network a = None \<longleftrightarrow> cf_TopN (a_cfg a) < 0"
proof
  assume "learned S V cpu runq blkio network a = None"
  then show "cf_TopN (a_cfg a) < 0"
    using victims_cfg victims_panic by (auto simp: learned_def split: bind_splits) (metis+)?
qed (simp add: learned_def victims_panic(1) [THEN iffD2])

lemma build_None:
  "buildSnapshot S fs V tm cpu runq blkio network a = None \<longleftrightarrow> cf_TopN (a_cfg a) < 0"
proof (cases "learned S V cpu runq blkio network a")
  case None
  with learned_None [of S V cpu runq blkio network a] show ?thesis by (simp add: buildSnapshot_blame)
next
  case (Some l)
  obtain cv iv nv au where l: "l = (cv, iv, nv, au)" by (cases l)
  have "0 \<le> cf_TopN (a_cfg au)" using Some l learned_cfg learned_None by (metis not_less option.distinct(1))
  from blame_total [OF this] Some l show ?thesis
    using learned_None [of S V cpu runq blkio network a] by (simp add: buildSnapshot_blame)
qed

text \<open>
  When building a snapshot panics. Whatever was measured, the agent panics while it builds a
  snapshot if and only if its limit on the lists is negative, as the flag \<^verbatim>\<open>-top\<close> allows: a slice
  with a negative bound is taken even of an empty list of victims.
\<close>

theorem negative_top_panics:
  "buildSnapshot S fs V tm cpu runq blkio network a = None \<longleftrightarrow> cf_TopN (a_cfg a) < 0"
  by (rule build_None)

text \<open>One dimension as a reader of the snapshot sees it.\<close>

definition table_ok :: "int \<Rightarrow> ('v \<Rightarrow> 'k :: linorder) \<Rightarrow> 'v list \<Rightarrow> rat list \<Rightarrow> rat \<Rightarrow> bool" where
  "table_ok n key vs confs mc \<longleftrightarrow>
     int (length vs) \<le> n \<and> int (length confs) \<le> n \<and> sorted_wrt (\<lambda>x y. key x \<ge> key y) vs \<and>
     (vs = [] \<longrightarrow> confs = []) \<and> (\<forall>c \<in> set confs. c = - 1 \<or> 0 \<le> c \<and> c \<le> 1) \<and>
     mc = Max (insert (- 1) (set confs))"

lemma part_table:
  assumes "part_ok conf n vs ranked entry out mc" and "0 \<le> n" and "int (length vs) \<le> n" and "sorted_wrt (\<lambda>x y. key x \<ge> key y) vs"
    and "\<And>r. conf (entry r) = - 1 \<or> 0 \<le> conf (entry r) \<and> conf (entry r) \<le> 1"
  shows "table_ok n key vs (map conf out) mc"
  using assms by (auto simp: part_ok_def table_ok_def cut_at_def split: if_splits)

lemma cut_sorted:
  assumes "sorts_by f key" and "cut_at n (f xs) = Some ys"
  shows "sorted_wrt (\<lambda>x y. key x \<ge> key y) ys \<and> int (length ys) \<le> n"
  using assms cut_at_Some [OF assms(2)] by (auto simp: sorts_by_def cut_at_def sorted_wrt_take split: if_splits)

lemma learned_sorted:
  assumes "sorting_ok S" and "learned S V cpu runq blkio network a = Some ((cvs, cw, ids), (ivs, iw), (nvs, nw), au)"
  shows "(sorted_wrt (\<lambda>x y. P99us x \<ge> P99us y) cvs \<and> int (length cvs) \<le> cf_TopN (a_cfg a)) \<and>
    (sorted_wrt (\<lambda>x y. P99us x \<ge> P99us y) ivs \<and> int (length ivs) \<le> cf_TopN (a_cfg a)) \<and>
    (sorted_wrt (\<lambda>x y. nv_Retransmits x \<ge> nv_Retransmits y) nvs \<and> int (length nvs) \<le> cf_TopN (a_cfg a))"
proof -
  from assms(2) obtain a1 a2 a3 where c: "cpuVictims S V runq a = Some ((cvs, cw, ids), a1)"
    and i: "ioVictims S V blkio a1 = Some ((ivs, iw), a2)" and n: "netVictims S V network a2 = Some ((nvs, nw), a3)"
    by (auto simp: learned_def split: bind_splits)
  have cfg: "a_cfg a1 = a_cfg a" "a_cfg a2 = a_cfg a" using victims_cfg c i by metis+
  from assms(1) have S: "sorts_by (sort_victims S) P99us" "sorts_by (sort_net_victims S) nv_Retransmits"
    by (simp_all add: sorting_ok_def)
  show ?thesis using c i n cut_sorted [OF S(1)] cut_sorted [OF S(2)] unfolding cfg [symmetric]
    by (auto simp: cpuVictims_def ioVictims_def netVictims_def capVictims_def Let_def cfg split: option.splits)
qed

lemma entry_range:
  "of_Confidence (cpu_entry fs V a totalNs totalReq rings vs ids r) = - 1 \<or>
     0 \<le> of_Confidence (cpu_entry fs V a totalNs totalReq rings vs ids r) \<and>
     of_Confidence (cpu_entry fs V a totalNs totalReq rings vs ids r) \<le> 1"
  "io_Confidence (io_entry V b tot h q) = - 1 \<or> 0 \<le> io_Confidence (io_entry V b tot h q) \<and> io_Confidence (io_entry V b tot h q) \<le> 1"
  "no_Confidence (net_entry V b tot h w) = - 1 \<or> 0 \<le> no_Confidence (net_entry V b tot h w) \<and> no_Confidence (net_entry V b tot h w) \<le> 1"
  using cpu_entry_fields(2) [of V r fs a totalNs totalReq rings vs ids] cpu_entry_conf [of V r fs a totalNs totalReq rings vs ids]
    confidence_range by (metis, simp_all add: io_entry_def net_entry_def Let_def confidence_range)


section \<open>A demonstration\<close>

definition demo_sorting :: sorting where
  "demo_sorting = \<lparr>sort_victims = \<lambda>xs. rev (sort_key P99us xs), sort_net_victims = \<lambda>xs. rev (sort_key nv_Retransmits xs),
     sort_cpu = \<lambda>xs. rev (sort_key OnCpuNs xs), sort_blkio = \<lambda>xs. rev (sort_key bk_Bytes xs), sort_net = \<lambda>xs. rev (sort_key TxBytes xs)\<rparr>"

lemma rev_sort_key_sorts: "sorts_by (\<lambda>xs. rev (sort_key key xs)) key"
proof -
  have "sorted_wrt (\<lambda>x y. key y \<le> key x) (rev (sort_key key xs))" for xs
    using sorted_sort_key [of key xs] by (simp add: sorted_wrt_rev sorted_map)
  then show ?thesis by (simp add: sorts_by_def)
qed

lemma demo_sorting_ok: "sorting_ok demo_sorting"
  by (simp add: sorting_ok_def demo_sorting_def rev_sort_key_sorts)

definition demo_pod :: "string \<Rightarrow> int \<Rightarrow> PodID" where
  "demo_pod p m = \<lparr>Namespace = ''default'', Pod = p, Container = ''app'', PodUID = ''u'', RequestMilliCPU = m\<rparr>"

definition demo_view :: view where
  "demo_view q cg = Some (\<lparr>r_cache = put 8 (demo_pod ''batch'' 0) (put 7 (demo_pod ''web'' 1000) (newTTLCache 30)), r_paths = []\<rparr>, 0)"

definition demo_config :: Config where
  "demo_config = \<lparr>cf_ReadInterval = 5000000000, cf_TopN = 2, cf_ResolveRefresh = 60000000000,
     cf_CacheTTL = 30000000000, cf_MinSamples = 100, cf_RunqWarn = 5000000,
     cf_DeviationFactor = 3, cf_BaselineAlpha = 1 / 8, cf_BaselineWarmup = 3,
     cf_ConfidenceThreshold = 1 / 2, cf_IOWarn = 10000, cf_MinOps = 8,
     cf_RetransWarn = 10, cf_RetransRateWarn = 1 / 64, cf_MinSegs = 50,
     cf_ControllerAddr = [], cf_NodeName = ''n1''\<rparr>"

definition demo_agent :: Agent where
  "demo_agent = (New_Agent demo_config)\<lparr>ioUsage := \<lparr>alpha = 1 / 8, warmup = 3,
     bstate = [(8, \<lparr>avg_value = 512, samples = 5, touched = False, misses = 0\<rparr>)]\<rparr>\<rparr>"

definition demo_blkio :: "CgroupBlkio list" where
  "demo_blkio = [\<lparr>bk_CgroupID = 7, bk_Slots = [0, 0, 0, 0, 32], bk_TotalUs = 0, bk_Count = 32, bk_Bytes = 1024\<rparr>,
     \<lparr>bk_CgroupID = 8, bk_Slots = [], bk_TotalUs = 0, bk_Count = 0, bk_Bytes = 4096\<rparr>]"

definition demo_snap :: "(report_Snapshot \<times> Agent) option" where
  "demo_snap = buildSnapshot demo_sorting (\<lambda>_. None) demo_view ''12:00:00'' [] [] demo_blkio [] demo_agent"


end
