(* ===== verification/Agent_Blame.thy ===== *)
theory Agent_Blame
  imports Agent_Snapshot
begin

text \<open>
  From the agent's tables to the controller's targets: what must have happened for a pod to be
  acted on.
\<close>

section \<open>Rounding of shares\<close>

text \<open>Only a pod with its part of the resource has a magnitude.\<close>

lemma fl_chain:
  assumes "0 < p" and "p < 2 ^ 64" and "0 < n" and "n < 2 ^ 64"
  shows "fl (fl (fl (fl (fl (of_nat p) / fl (of_nat n)) * 100) / 100) * 4) \<le> 4 * (fl (of_nat p) / fl (of_nat n)) * (1 + eps) ^ 4"
proof -
  let ?p = "fl (of_nat p) :: rat" and ?n = "fl (of_nat n) :: rat"
  have b: "1 \<le> ?p" "1 \<le> ?n" "?n \<le> 2 ^ 64" using assms fl_of_nat_ge_1 fl_of_nat_le by auto
  then have low: "1 / 2 ^ 64 \<le> ?p / ?n"
    by (intro frac_le) auto
  let ?x = "?p / ?n"
  have grow: "fl q \<le> q * (1 + eps)" "1 / 2 ^ (k + 1) \<le> fl q" if "1 / 2 ^ k \<le> q" "k < 500" for q k
  proof -
    from that have "least_normal \<le> q" by (intro least_normal_le [of k]) (auto simp: field_simps)
    then show "fl q \<le> q * (1 + eps)" using fl_factor by blast
    have "q * (1 / 2) \<le> q * (1 - eps)"
      using that(1) by (intro mult_left_mono) (auto simp: eps_def intro: order_trans [rotated])
    also have "\<dots> \<le> fl q" using \<open>least_normal \<le> q\<close> fl_factor by blast
    finally show "1 / 2 ^ (k + 1) \<le> fl q" using that(1) by simp
  qed
  let ?a = "fl ?x" and ?b = "fl (fl ?x * 100)" and ?c = "fl (fl (fl ?x * 100) / 100)"
  have a: "?a \<le> ?x * (1 + eps)" "1 / 2 ^ 65 \<le> ?a" using grow [OF low] by simp_all
  then have "1 / 2 ^ 65 \<le> ?a * 100" by simp
  from grow [OF this] have b: "?b \<le> ?a * 100 * (1 + eps)" "1 / 2 ^ 66 \<le> ?b" by simp_all
  then have "1 / 2 ^ 73 \<le> ?b / 100" by simp
  from grow [OF this] have c: "?c \<le> ?b / 100 * (1 + eps)" "1 / 2 ^ 74 \<le> ?c" by simp_all
  then have "1 / 2 ^ 74 \<le> ?c * 4" by simp
  from grow [OF this] have "fl (?c * 4) \<le> ?c * 4 * (1 + eps)" by simp
  also have "\<dots> \<le> (?b / 100 * (1 + eps)) * 4 * (1 + eps)"
    using c eps_numeric by (intro mult_right_mono) auto
  also have "\<dots> \<le> ((?a * 100 * (1 + eps)) / 100 * (1 + eps)) * 4 * (1 + eps)"
    using b eps_numeric by (intro mult_right_mono divide_right_mono) auto
  also have "\<dots> \<le> (((?x * (1 + eps)) * 100 * (1 + eps)) / 100 * (1 + eps)) * 4 * (1 + eps)"
    using a eps_numeric by (intro mult_right_mono divide_right_mono) auto
  also have "\<dots> = 4 * ?x * (1 + eps) ^ 4" by (simp add: power4_eq_xxxx)
  finally show ?thesis .
qed

lemma share_magnitude:
  assumes "g \<le> clamp (fdiv (fdiv (share part tot) 100) (1 / 4)) 0 1" and "0 < g"
  shows "g * of_nat (unat tot) * (1 - 1 / 2 ^ 49) \<le> 4 * of_nat (unat part)"
proof -
  let ?p = "unat part" and ?n = "unat tot"
  let ?r = "fl (fl (fl (fl (fl (of_nat ?p) / fl (of_nat ?n)) * 100) / 100) * 4)"
  from assms have nz: "tot \<noteq> 0" and le: "g \<le> ?r"
    by (auto simp: share_def clamp_def fdiv_def fmul_def float64_def min_def max_def split: if_splits)
  have pz: "0 < ?p" using assms(2) le by (cases "?p = 0") (auto simp del: of_nat_unat)
  have nz: "0 < ?n" using nz by (simp add: unat_gt_0)
  note lt = float64_nat(2) [of part] float64_nat(2) [of tot]
  let ?P = "fl (of_nat ?p) :: rat" and ?N = "fl (of_nat ?n) :: rat"
  have N: "1 \<le> ?N" using fl_of_nat_ge_1 [OF nz] .
  from le fl_chain [OF pz lt(1) nz lt(2)] have "g \<le> 4 * (?P / ?N) * (1 + eps) ^ 4" by linarith
  then have "g * ?N \<le> 4 * ?P * (1 + eps) ^ 4" using N by (simp add: field_simps)
  also have "\<dots> \<le> 4 * (of_nat ?p * (1 + eps)) * (1 + eps) ^ 4"
    using fl_factor(1) [OF nat_normal [of ?p]] eps_numeric by (intro mult_right_mono mult_left_mono) auto
  finally have up: "g * ?N \<le> 4 * of_nat ?p * (1 + eps) ^ 5" by (simp add: power_numeral_reduce mult_ac)
  have "g * of_nat ?n * ((1 - 1 / 2 ^ 49) * (1 + eps) ^ 5) \<le> g * of_nat ?n * (1 - eps)"
    using eps_numeric(1) assms(2) by (intro mult_left_mono mult_nonneg_nonneg of_nat_0_le_iff) auto
  also have "\<dots> \<le> g * ?N"
    using fl_factor(2) [OF nat_normal [of ?n]] assms(2) by (simp only: mult.assoc) (intro mult_left_mono, auto)
  also note up
  finally have "(g * of_nat ?n * (1 - 1 / 2 ^ 49)) * (1 + eps) ^ 5 \<le> (4 * of_nat ?p) * (1 + eps) ^ 5"
    by (simp only: mult.assoc)
  moreover have "0 < (1 + eps) ^ 5" using eps_numeric by simp
  ultimately show ?thesis by (rule mult_right_le_imp_le)
qed

section \<open>Blame\<close>

definition named :: "view \<Rightarrow> dimension \<Rightarrow> u64 \<Rightarrow> target \<Rightarrow> bool" where
  "named V d cg t \<longleftrightarrow> (\<exists>p. resolve (V (Offender_Label d) cg) cg = Some p \<and>
       PodID_String p = t_namespace t @ ''/'' @ t_pod t @ ''/'' @ t_container t) \<and>
     resolve (V (Offender_Pod d) cg) cg \<noteq> None"

text \<open>A part of the total that is at least \<open>g / 4\<close>, up to the rounding of the computation.\<close>

definition quarter_of :: "rat \<Rightarrow> u64 \<Rightarrow> u64 \<Rightarrow> bool" where
  "quarter_of g part tot \<longleftrightarrow> g * of_nat (unat tot) * (1 - 1 / 2 ^ 49) \<le> 4 * of_nat (unat part)"

lemma confidence_share:
  assumes "0 < g" and "g \<le> offenderConfidence b cg usage (share part tot) vs fallback thr"
  shows "quarter_of g part tot"
proof -
  obtain ratio ready where dev: "Deviation b cg usage = (ratio, ready)" by fastforce
  have "offenderConfidence b cg usage (share part tot) vs fallback thr \<le> 1"
    using confidence_range [of b cg usage "share part tot" vs fallback thr] by linarith
  then have g1: "g \<le> 1" using assms(2) by linarith
  from confidence_signals [OF assms(1) g1 dev refl] assms(2) have "g \<le> fdiv (fdiv (share part tot) 100) (1 / 4)" by blast
  then show ?thesis unfolding quarter_of_def using share_magnitude [OF _ assms(1)] clamp_ge [OF assms(1) g1] by blast
qed

lemma print_nat_no_slash: "CHR ''/'' \<notin> set (print_nat n)"
  using print_nat_props [of n] by (auto simp: list_all_iff is_digit_def)

lemma label_slash:
  assumes "label res cg = ns @ ''/'' @ rest"
  shows "\<exists>p. resolve res cg = Some p \<and> PodID_String p = ns @ ''/'' @ rest"
proof (cases "resolve res cg")
  case None
  have "CHR ''/'' \<in> set (label res cg)" by (simp add: assms)
  with None show ?thesis by (simp add: label_def print_nat_no_slash)
qed (use assms in \<open>simp add: label_def\<close>)

lemma table_entry:
  assumes "part_ok conf n vs ranked entry out mc" and "e \<in> set out"
  shows "vs \<noteq> [] \<and> (\<exists>r \<in> set ranked. e = entry r)"
  using assms set_take_subset [of "nat n" ranked]
  by (fastforce simp: part_ok_def cut_at_def split: if_splits)

lemma nonempty_all: "xs \<noteq> [] \<Longrightarrow> \<forall>x \<in> set xs. P x \<Longrightarrow> \<exists>x \<in> set xs. P x"
  by (cases xs) auto

lemma part_blamed:
  assumes "part_ok conf n vs ranked entry out mc" and "(l, c) \<in> (\<lambda>e. (nm e, conf e)) ` set out"
  obtains r where "vs \<noteq> []" "r \<in> set ranked" "nm (entry r) = l" "conf (entry r) = c"
  using table_entry [OF assms(1)] assms(2) by auto

lemma resolved_named:
  assumes "label (V (Offender_Label d) cg) cg = t_namespace t @ ''/'' @ t_pod t @ ''/'' @ t_container t"
    and "resolve (V (Offender_Pod d) cg) cg \<noteq> None"
  shows "named V d cg t"
  using label_slash [OF assms(1)] assms(2) unfolding named_def by blast

lemma blamed:
  assumes ok: "part_ok conf n vs ranked entry out mc"
    and tab: "(t_namespace t @ ''/'' @ t_pod t @ ''/'' @ t_container t, t_confidence t) \<in> (\<lambda>e. (nm e, conf e)) ` set out"
    and g: "0 < g" "g \<le> t_confidence t"
    and lab: "\<And>r. nm (entry r) = label (V (Offender_Label d) (cg r)) (cg r)"
    and none: "\<And>r. resolve (V (Offender_Pod d) (cg r)) (cg r) = None \<Longrightarrow> conf (entry r) = - 1"
    and some: "\<And>r. resolve (V (Offender_Pod d) (cg r)) (cg r) \<noteq> None \<Longrightarrow>
       \<exists>b u h fb thr. conf (entry r) = offenderConfidence b (cg r) u (share (part r) tot) h fb thr"
  shows "vs \<noteq> [] \<and> (\<exists>r \<in> set ranked. named V d (cg r) t \<and> quarter_of g (part r) tot)"
proof -
  from part_blamed [OF ok tab] obtain r where vs: "vs \<noteq> []" and r: "r \<in> set ranked"
    and l: "nm (entry r) = t_namespace t @ ''/'' @ t_pod t @ ''/'' @ t_container t" and c: "conf (entry r) = t_confidence t"
    by metis
  have res: "resolve (V (Offender_Pod d) (cg r)) (cg r) \<noteq> None" using none [of r] c g by fastforce
  with some [OF res] c g confidence_share [OF g(1)] have "quarter_of g (part r) tot" by metis
  with resolved_named [where V = V and d = d and cg = "cg r", OF _ res] l lab vs r show ?thesis by metis
qed

text \<open>
  C2. Blame is justified. Whatever was measured and whatever the cache answers at each moment: if the
  controller takes a pod from the agent's snapshot as a confident target for a resource,
  then the snapshot is not healthy, some pod was starved of this very resource (over the
  threshold, and over its own normal by the deviation factor if that was known), the target
  is the container that the resolver names for a cgroup measured in this interval, and this
  cgroup used at least \<open>g / 4\<close> of the resource, where \<open>g\<close> is the gate in force. The factor
  \<open>1 - 1 / 2 ^ 49\<close> is the rounding of the computation.
\<close>

theorem blame_sound:
  assumes "sorting_ok S"
    and "buildSnapshot S fs V tm cpu runq blkio network a = Some (snap, a')"
    and "t \<in> set (confidentTargets (received snap) gate)"
    and "g = (if gate \<le> 0 then cf_ConfidenceThreshold (a_cfg a) else gate)" and "0 < g"
  shows "\<not> sn_Healthy snap \<and>
     (if t_resource t = ''cpu''
      then (\<exists>v \<in> set (Victims snap). starved (a_cfg a) (cf_RunqWarn (a_cfg a)) v) \<and>
           (\<exists>r \<in> set cpu. named V CPU (cpu_CgroupID r) t \<and> quarter_of g (OnCpuNs r) (sum_list (map OnCpuNs cpu)))
      else if t_resource t = ''disk''
      then (\<exists>v \<in> set (IOVictims snap). starved (a_cfg a) (cf_IOWarn (a_cfg a)) v) \<and>
           (\<exists>r \<in> set blkio. named V Disk (bk_CgroupID r) t \<and> quarter_of g (bk_Bytes r) (sum_list (map bk_Bytes blkio)))
      else (\<exists>v \<in> set (NetVictims snap). net_starved (a_cfg a) v) \<and>
           (\<exists>r \<in> set network. named V Network (nt_CgroupID r) t \<and> quarter_of g (TxBytes r) (sum_list (map TxBytes network))))"
proof -
  from buildSnapshot_parts [OF assms(1,2)] obtain cw ids iw nw au where
    "snapshot_parts S fs V cpu runq blkio network a snap cw ids iw nw au" by blast
  note p = snapshot_partsD [OF this]
  note st = learned_starved [OF assms(1) p(1)]
  let ?l = "t_namespace t @ ''/'' @ t_pod t @ ''/'' @ t_container t"
  from targets_attributed [OF assms(3)] assms(4) p(3) have conf: "g \<le> t_confidence t"
    and src: "(?l, t_confidence t) \<in> (if t_resource t = ''cpu'' then (\<lambda>e. (of_Pod e, of_Confidence e)) ` set (sn_Offenders snap)
        else if t_resource t = ''disk'' then (\<lambda>e. (io_Pod e, io_Confidence e)) ` set (sn_IOOffenders snap)
        else (\<lambda>e. (no_Pod e, no_Confidence e)) ` set (sn_NetOffenders snap))"
    by (auto simp: received_def split: if_splits)
  have sets: "set (sort_cpu S cpu) = set cpu" "set (sort_blkio S blkio) = set blkio" "set (sort_net S network) = set network"
    using assms(1) sorts_by_set unfolding sorting_ok_def by blast+
  have ne: "Victims snap \<noteq> [] \<Longrightarrow> \<exists>v \<in> set (Victims snap). starved (a_cfg a) (cf_RunqWarn (a_cfg a)) v"
    "IOVictims snap \<noteq> [] \<Longrightarrow> \<exists>v \<in> set (IOVictims snap). starved (a_cfg a) (cf_IOWarn (a_cfg a)) v"
    "NetVictims snap \<noteq> [] \<Longrightarrow> \<exists>v \<in> set (NetVictims snap). net_starved (a_cfg a) v"
    using st nonempty_all by blast+
  consider (cpu) "t_resource t = ''cpu''" | (disk) "t_resource t = ''disk''" "t_resource t \<noteq> ''cpu''"
    | (net) "t_resource t \<noteq> ''cpu''" "t_resource t \<noteq> ''disk''" by blast
  then show ?thesis
  proof cases
    case cpu
    have "Victims snap \<noteq> [] \<and> (\<exists>r \<in> set (sort_cpu S cpu). named V CPU (cpu_CgroupID r) t \<and>
        quarter_of g (OnCpuNs r) (fst (cpu_totals V cpu)))"
      using src cpu by (intro blamed [OF p(4) _ assms(5) conf]) (simp, rule cpu_entry_fields(1), rule cpu_entry_fields(2), assumption, rule cpu_entry_conf)
    with cpu ne(1) p(2) sets show ?thesis by (simp add: cpu_totals_ns)
  next
    case disk
    have "IOVictims snap \<noteq> [] \<and> (\<exists>r \<in> set (sort_blkio S blkio). named V Disk (bk_CgroupID r) t \<and>
        quarter_of g (bk_Bytes r) (sum_list (map bk_Bytes blkio)))"
      using src disk by (intro blamed [OF p(5) _ assms(5) conf]) (auto simp: io_entry_def Let_def, blast)
    with disk ne(2) p(2) sets show ?thesis by simp
  next
    case net
    have "NetVictims snap \<noteq> [] \<and> (\<exists>r \<in> set (sort_net S network). named V Network (nt_CgroupID r) t \<and>
        quarter_of g (TxBytes r) (sum_list (map TxBytes network)))"
      using src net by (intro blamed [OF p(6) _ assms(5) conf]) (auto simp: net_entry_def Let_def, blast)
    with net ne(3) p(2) sets show ?thesis by simp
  qed
qed

definition demo_victim :: Victim where
  "demo_victim = \<lparr>vi_Pod = ''default/web/app'', P50us = 24, P99us = 24, vi_Degradation = 0, Events = 32\<rparr>"

definition demo_learned_agent :: Agent where
  "demo_learned_agent = demo_agent\<lparr>
     ioBaseline := \<lparr>alpha = 1 / 8, warmup = 3,
       bstate = [(7, \<lparr>avg_value = 24, samples = 1, touched = False, misses = 0\<rparr>)]\<rparr>,
     ioUsage := \<lparr>alpha = 1 / 8, warmup = 3,
       bstate = [(8, \<lparr>avg_value = 512, samples = 6, touched = False, misses = 0\<rparr>),
                 (7, \<lparr>avg_value = 1024, samples = 1, touched = False, misses = 0\<rparr>)]\<rparr>\<rparr>"

definition demo_judged_agent :: Agent where
  "demo_judged_agent = demo_agent\<lparr>ioBaseline := \<lparr>alpha = 1 / 8, warmup = 3,
     bstate = [(7, \<lparr>avg_value = 24, samples = 1, touched = False, misses = 0\<rparr>)]\<rparr>\<rparr>"

lemma demo_steps:
  "cpuVictims demo_sorting demo_view [] demo_agent = Some (([], 0, []), demo_agent)"
  "ioVictims demo_sorting demo_view demo_blkio demo_agent = Some (([demo_victim], 0), demo_judged_agent)"
  "netVictims demo_sorting demo_view [] demo_judged_agent = Some (([], 0), demo_judged_agent)"
  "trackNetUsage [] (trackIOUsage demo_blkio (trackCPUUsage [] demo_judged_agent)) = demo_learned_agent"
  by code_simp+

lemma demo_learned:
  "learned demo_sorting demo_view [] [] demo_blkio [] demo_agent =
     Some (([], 0, []), ([demo_victim], 0), ([], 0), demo_learned_agent)"
  by (simp add: learned_def demo_steps)

lemma demo_blame:
  "map_option (\<lambda>(s, a). confidentTargets (received s) (1 / 2))
     (blame demo_sorting (\<lambda>_. None) demo_view ''12:00:00'' [] [] demo_blkio []
       ([], 0, []) ([demo_victim], 0) ([], 0) demo_learned_agent) =
   Some [\<lparr>t_namespace = ''default'', t_pod = ''batch'', t_container = ''app'', t_resource = ''disk'', t_confidence = 1 / 2\<rparr>]"
  by code_simp

lemma demo_snap_targets:
  "map_option (\<lambda>(s, a). confidentTargets (received s) (1 / 2)) demo_snap =
     Some [\<lparr>t_namespace = ''default'', t_pod = ''batch'', t_container = ''app'', t_resource = ''disk'', t_confidence = 1 / 2\<rparr>]"
  using demo_blame by (simp add: demo_snap_def buildSnapshot_blame demo_learned)

theorem blame_sound_witness:
  "\<exists>r \<in> set demo_blkio. quarter_of (1 / 2) (bk_Bytes r) (sum_list (map bk_Bytes demo_blkio)) \<and>
     named demo_view Disk (bk_CgroupID r) \<lparr>t_namespace = ''default'', t_pod = ''batch'', t_container = ''app'',
       t_resource = ''disk'', t_confidence = 1 / 2\<rparr>"
proof -
  from demo_snap_targets obtain snap a' where s: "demo_snap = Some (snap, a')"
    and t: "confidentTargets (received snap) (1 / 2) =
      [\<lparr>t_namespace = ''default'', t_pod = ''batch'', t_container = ''app'', t_resource = ''disk'', t_confidence = 1 / 2\<rparr>]" by auto
  from blame_sound [OF demo_sorting_ok s [unfolded demo_snap_def], where gate = "1 / 2" and g = "1 / 2"] t show ?thesis by auto
qed

end
