(* ===== verification/Agent_Learning.thy ===== *)
theory Agent_Learning
  imports Agent_Snapshot
begin

text \<open>
  What the agent learns as normal over the intervals, and what it therefore still flags: a
  spike of run-queue latency is never learned, but a retransmit rate is learned from bad
  intervals only.
\<close>

section \<open>A normal that is known\<close>

definition warm_normal :: "Baseline \<Rightarrow> u64 \<Rightarrow> rat \<Rightarrow> bool" where
  "warm_normal b cg v \<longleftrightarrow>
     (\<exists>e. map_of (bstate b) cg = Some e \<and> warmup b \<le> samples e \<and> avg_value e = v \<and> 0 < v)"

definition is_touched :: "Baseline \<Rightarrow> u64 \<Rightarrow> bool" where
  "is_touched b cg \<longleftrightarrow> (\<exists>e. map_of (bstate b) cg = Some e \<and> touched e)"

lemma warm_Deviation: "warm_normal b cg v \<Longrightarrow> Deviation b cg x = (fdiv x v, True)"
  by (auto simp: warm_normal_def Deviation_def)

lemma judge_spike:
  assumes "warm_normal b cg v" and "lower \<le> x" and "cf_DeviationFactor c \<le> fdiv x v"
  shows "judgeVictim c lower cg x b = ((True, fdiv x v), Observe cg x False b)"
  using assms by (simp add: judgeVictim_def warm_Deviation Let_def)

lemma frozen_kept: "warm_normal b cg v \<Longrightarrow> warm_normal (Observe cg x False b) cg v"
  by (auto simp: warm_normal_def Observe_def Let_def update_conv' split: option.splits)

lemma Observe_touches: "is_touched (Observe cg x u b) cg"
  using Observe_same [of cg x u b] by (auto simp: is_touched_def)

lemma judge_other:
  assumes "k \<noteq> cg"
  shows "warm_normal (snd (judgeVictim c lower k x b)) cg v = warm_normal b cg v"
    and "is_touched (snd (judgeVictim c lower k x b)) cg = is_touched b cg"
  using assms by (auto simp: judgeVictim_def Let_def warm_normal_def is_touched_def Observe_other split: prod.split)

lemma Prune_kept:
  assumes "baseline_wf b" and "warm_normal b cg v" and "is_touched b cg"
  shows "warm_normal (Prune b) cg v"
  using assms by (auto simp: warm_normal_def is_touched_def Prune_lookup prune_entry_def)

section \<open>Spikes of run-queue latency\<close>

definition spiking :: "Config \<Rightarrow> int \<Rightarrow> rat \<Rightarrow> rat \<Rightarrow> u64 \<times> u64 list \<times> u64 \<Rightarrow> bool" where
  "spiking c least lower v r \<longleftrightarrow>
     (case r of (_, hist, cnt) \<Rightarrow>
        \<not> cnt < word_of_int least \<and> lower \<le> Percentile hist 99 \<and> cf_DeviationFactor c \<le> fdiv (Percentile hist 99) v)"

lemma step_wf: "baseline_wf (j_baseline s) \<Longrightarrow> baseline_wf (j_baseline (latency_step c least lower lab r s))"
  by (auto simp: latency_step_def judgeVictim_def Let_def wf_Observe split: prod.split)

lemma step_spike:
  assumes "warm_normal (j_baseline s) cg v" and "fst r = cg" and "spiking c least lower v r"
  shows "warm_normal (j_baseline (latency_step c least lower lab r s)) cg v \<and>
     is_touched (j_baseline (latency_step c least lower lab r s)) cg \<and>
     cg \<in> set (j_ids (latency_step c least lower lab r s))"
  using assms judge_spike [OF assms(1)] frozen_kept Observe_touches
  by (auto simp: latency_step_def spiking_def Let_def split: prod.splits)

lemma step_other:
  assumes "fst r \<noteq> cg"
  shows "warm_normal (j_baseline (latency_step c least lower lab r s)) cg v = warm_normal (j_baseline s) cg v"
    and "is_touched (j_baseline (latency_step c least lower lab r s)) cg = is_touched (j_baseline s) cg"
    and "cg \<in> set (j_ids (latency_step c least lower lab r s)) \<longleftrightarrow> cg \<in> set (j_ids s)"
proof -
  obtain k hist cnt where r: "r = (k, hist, cnt)" by (cases r)
  obtain isV deg b1 where j: "judgeVictim c lower k (Percentile hist 99) (j_baseline s) = ((isV, deg), b1)" by (metis prod.collapse)
  have "k \<noteq> cg" using assms r by simp
  from judge_other [OF this, of c lower "Percentile hist 99" "j_baseline s"] this
  show "warm_normal (j_baseline (latency_step c least lower lab r s)) cg v = warm_normal (j_baseline s) cg v"
    and "is_touched (j_baseline (latency_step c least lower lab r s)) cg = is_touched (j_baseline s) cg"
    and "cg \<in> set (j_ids (latency_step c least lower lab r s)) \<longleftrightarrow> cg \<in> set (j_ids s)"
    by (simp_all add: latency_step_def r j Let_def)
qed

lemma latency_round:
  assumes "warm_normal (j_baseline s) cg v"
    and "\<And>r. r \<in> set rs \<Longrightarrow> fst (f r) = cg \<Longrightarrow> spiking c least lower v (f r)"
  shows "warm_normal (j_baseline (fold (\<lambda>r. latency_step c least lower lab (f r)) rs s)) cg v \<and>
     ((\<exists>r \<in> set rs. fst (f r) = cg) \<or> is_touched (j_baseline s) cg \<and> cg \<in> set (j_ids s) \<longrightarrow>
        is_touched (j_baseline (fold (\<lambda>r. latency_step c least lower lab (f r)) rs s)) cg \<and>
        cg \<in> set (j_ids (fold (\<lambda>r. latency_step c least lower lab (f r)) rs s)))"
  using assms
proof (induction rs arbitrary: s)
  case (Cons r rs)
  let ?s = "latency_step c least lower lab (f r) s"
  have "warm_normal (j_baseline ?s) cg v"
    using Cons.prems step_spike [of s cg v "f r" c least lower lab] step_other(1) [of "f r" cg c least lower lab s v]
    by (cases "fst (f r) = cg") auto
  from Cons.IH [OF this] Cons.prems(2)
    step_spike [OF Cons.prems(1), of "f r" c least lower lab] step_other(2,3) [of "f r" cg c least lower lab s]
  show ?case by (cases "fst (f r) = cg") auto
qed simp

lemma round_wf: "baseline_wf (j_baseline s) \<Longrightarrow>
    baseline_wf (j_baseline (fold (\<lambda>r. latency_step c least lower lab (f r)) rs s))"
  by (induction rs arbitrary: s) (simp_all add: step_wf)

text \<open>The victims of each interval in turn, by cgroup.\<close>

fun cpu_history :: "sorting \<Rightarrow> (view \<times> CgroupLatency list) list \<Rightarrow> Agent \<Rightarrow> u64 list list" where
  "cpu_history S [] a = []"
| "cpu_history S ((V, runq) # rest) a =
     (case cpuVictims S V runq a of
        None \<Rightarrow> []
      | Some ((vs, worst, ids), a1) \<Rightarrow> ids # cpu_history S rest a1)"

definition starving :: "Config \<Rightarrow> u64 \<Rightarrow> rat \<Rightarrow> CgroupLatency list \<Rightarrow> bool" where
  "starving c cg v runq \<longleftrightarrow> (\<exists>r \<in> set runq. lat_CgroupID r = cg) \<and>
     (\<forall>r \<in> set runq. lat_CgroupID r = cg \<longrightarrow> \<not> lat_Count r < word_of_int (cf_MinSamples c) \<and>
        float64_int (Microseconds (cf_RunqWarn c)) \<le> Percentile (lat_Slots r) 99 \<and>
        cf_DeviationFactor c \<le> fdiv (Percentile (lat_Slots r) 99) v)"

lemma cpuVictims_spike:
  assumes "baseline_wf (a_baseline a)" and "warm_normal (a_baseline a) cg v" and "starving (a_cfg a) cg v runq"
    and "0 \<le> cf_TopN (a_cfg a)"
  shows "\<exists>vs worst ids a1. cpuVictims S V runq a = Some ((vs, worst, ids), a1) \<and> cg \<in> set ids \<and>
     baseline_wf (a_baseline a1) \<and> warm_normal (a_baseline a1) cg v \<and> a_cfg a1 = a_cfg a"
proof -
  let ?c = "a_cfg a"
  let ?init = "\<lparr>j_baseline = a_baseline a, j_out = [], j_ids = [], j_worst = 0\<rparr> :: Victim judged"
  let ?f = "\<lambda>r. (lat_CgroupID r, lat_Slots r, lat_Count r)"
  let ?s = "fold (\<lambda>r. latency_step ?c (cf_MinSamples ?c) (float64_int (Microseconds (cf_RunqWarn ?c)))
      (\<lambda>cg. label (V (Victim_Label CPU) cg) cg) (?f r)) runq ?init"
  have "cpuVictims S V runq a \<noteq> None" using victims_panic(1) assms(4) by simp
  then have out: "\<exists>vs. cpuVictims S V runq a = Some ((vs, j_worst ?s, j_ids ?s), a\<lparr>a_baseline := Prune (j_baseline ?s)\<rparr>)"
    by (auto simp: cpuVictims_def Let_def split: option.splits)
  have start: "warm_normal (j_baseline ?init) cg v" using assms(2) by simp
  have sp: "spiking ?c (cf_MinSamples ?c) (float64_int (Microseconds (cf_RunqWarn ?c))) v (?f r)"
    if "r \<in> set runq" "fst (?f r) = cg" for r
    using that assms(3) by (simp add: starving_def spiking_def)
  have ex: "\<exists>r \<in> set runq. fst (?f r) = cg" using assms(3) by (simp add: starving_def)
  have "warm_normal (j_baseline ?s) cg v \<and> is_touched (j_baseline ?s) cg \<and> cg \<in> set (j_ids ?s)"
    using latency_round [where f = ?f, OF start sp] ex by blast
  moreover have "baseline_wf (j_baseline ?s)" using assms(1) by (intro round_wf) simp
  ultimately show ?thesis using out Prune_kept wf_Prune by fastforce
qed

text \<open>
  C8. A spike stays visible. Once a pod's normal run-queue latency is learned, let it starve for any
  number of intervals: in each of them its p99 is over the threshold and over its normal by
  the deviation factor, whatever happens to other pods and however large the spike is. Then
  it is a victim in every one of these intervals: the spike is never learned as normal.
\<close>

theorem spike_stays_visible:
  assumes "baseline_wf (a_baseline a)" and "warm_normal (a_baseline a) cg v" and "0 \<le> cf_TopN (a_cfg a)"
    and "\<forall>(V, runq) \<in> set ivs. starving (a_cfg a) cg v runq"
  shows "length (cpu_history S ivs a) = length ivs \<and> (\<forall>ids \<in> set (cpu_history S ivs a). cg \<in> set ids)"
  using assms
proof (induction ivs arbitrary: a)
  case (Cons iv ivs)
  obtain V runq where iv: "iv = (V, runq)" by (cases iv)
  from Cons.prems iv cpuVictims_spike [of a cg v runq S V] obtain vs worst ids a1 where
    "cpuVictims S V runq a = Some ((vs, worst, ids), a1)" "cg \<in> set ids" "baseline_wf (a_baseline a1)"
    "warm_normal (a_baseline a1) cg v" "a_cfg a1 = a_cfg a" by auto
  with Cons.IH [of a1] Cons.prems iv show ?case by auto
qed simp

definition demo_warm_agent :: Agent where
  "demo_warm_agent = (New_Agent demo_config)\<lparr>a_baseline := \<lparr>alpha = 1 / 8, warmup = 3,
     bstate = [(7, \<lparr>avg_value = 1024, samples = 5, touched = False, misses = 0\<rparr>)]\<rparr>\<rparr>"

definition demo_runq :: "CgroupLatency list" where
  "demo_runq = [\<lparr>lat_CgroupID = 7, lat_Slots = [0, 0, 0, 0, 0, 0, 0, 0, 0, 0, 0, 0, 0, 128],
     lat_TotalUs = 1048576, lat_Count = 128\<rparr>]"

theorem spike_stays_visible_witness:
  "length (cpu_history demo_sorting (replicate 100 (demo_view, demo_runq)) demo_warm_agent) = 100 \<and>
   list_all (\<lambda>ids. 7 \<in> set ids) (cpu_history demo_sorting (replicate 100 (demo_view, demo_runq)) demo_warm_agent)"
proof -
  have "starving demo_config 7 1024 demo_runq" by code_simp
  moreover have "a_cfg demo_warm_agent = demo_config" "cf_TopN demo_config = 2"
    "baseline_wf (a_baseline demo_warm_agent)" "warm_normal (a_baseline demo_warm_agent) 7 1024"
    by (simp_all add: demo_warm_agent_def New_Agent_def demo_config_def baseline_wf_def warm_normal_def Let_def)
  ultimately show ?thesis
    using spike_stays_visible [of demo_warm_agent 7 1024 "replicate 100 (demo_view, demo_runq)" demo_sorting]
    by (simp add: list_all_iff)
qed

section \<open>Retransmit rates\<close>

text \<open>Whether each interval, with one sending cgroup, has a network victim.\<close>

fun net_history :: "sorting \<Rightarrow> view \<Rightarrow> CgroupNet list \<Rightarrow> Agent \<Rightarrow> bool list" where
  "net_history S V [] a = []"
| "net_history S V (r # rest) a =
     (case netVictims S V [r] a of
        None \<Rightarrow> []
      | Some ((vs, worst), a1) \<Rightarrow> (vs \<noteq> []) # net_history S V rest a1)"

definition sent_by :: "u64 \<Rightarrow> u64 \<Rightarrow> CgroupNet" where
  "sent_by cg retrans = \<lparr>nt_CgroupID = cg, Retransmits = retrans, TxBytes = 1048576, TxSegs = 1600\<rparr>"

text \<open>A baseline that has seen nothing but \<open>n\<close> observations of the rate \<open>q\<close> of one cgroup.\<close>

definition seen_rate :: "rat \<Rightarrow> rat \<Rightarrow> nat \<Rightarrow> u64 \<Rightarrow> Baseline \<Rightarrow> bool" where
  "seen_rate al q n cg b \<longleftrightarrow> alpha b = al \<and> warmup b = 3 \<and>
     bstate b = (if n = 0 then [] else [(cg, \<lparr>avg_value = q, samples = int n, touched = False, misses = 0\<rparr>)])"

lemma seen_rate_judge:
  assumes "seen_rate al q n cg b" and "lower \<le> q" and "0 < q" and "fdiv q q < cf_DeviationFactor c"
  shows "judgeVictim c lower cg q b = ((n < 3, if n < 3 then 0 else fdiv q q), Observe cg q True b)"
proof -
  have "Deviation b cg q = (if n < 3 then (0, False) else (fdiv q q, True))"
    using assms(1,3) by (simp add: Deviation_def seen_rate_def)
  then show ?thesis using assms(2,4) by (simp add: judgeVictim_def Let_def)
qed

lemma seen_rate_learn:
  assumes "seen_rate al q n cg b" and "fadd (fmul al q) (fmul (fsub 1 al) q) = q"
  shows "seen_rate al q (Suc n) cg (Prune (Observe cg q True b))"
  using assms by (simp add: seen_rate_def Observe_def Prune_def List.map_filter_def prune_entry_def Let_def)

lemma seen_rate_quiet: "seen_rate al q 0 cg b \<Longrightarrow> seen_rate al q 0 cg (Prune b)"
  by (simp add: seen_rate_def Prune_def List.map_filter_def)

lemma rate_floats:
  "fdiv (float64 100) (float64 1600) = 1 / 16" "fl (1 / 100) \<le> 1 / 16" "fdiv (1 / 16) (1 / 16) = 1"
  "fadd (fmul (fl (15 / 100)) (1 / 16)) (fmul (fsub 1 (fl (15 / 100))) (1 / 16)) = 1 / 16"
  by code_simp+

lemma default_net:
  "cf_MinSegs DefaultConfig = 50" "cf_RetransWarn DefaultConfig = 10" "cf_TopN DefaultConfig = 20"
  "cf_RetransRateWarn DefaultConfig = fl (1 / 100)" "cf_DeviationFactor DefaultConfig = 3"
  "cf_BaselineAlpha DefaultConfig = fl (15 / 100)" "cf_BaselineWarmup DefaultConfig = 3"
  by (simp_all add: DefaultConfig_def)

abbreviation at_rate :: "nat \<Rightarrow> u64 \<Rightarrow> Baseline \<Rightarrow> bool" where
  "at_rate \<equiv> seen_rate (fl (15 / 100)) (1 / 16)"

lemma quiet_net_step: "n < 10 \<Longrightarrow> net_step DefaultConfig lab (sent_by cg n) s = s"
  by (simp add: net_step_def sent_by_def default_net)

lemma trouble_net_step:
  assumes "at_rate n cg (j_baseline s)"
  shows "j_baseline (net_step DefaultConfig lab (sent_by cg 100) s) = Observe cg (1 / 16) True (j_baseline s) \<and>
     length (j_out (net_step DefaultConfig lab (sent_by cg 100) s)) = length (j_out s) + (if n < 3 then 1 else 0)"
proof -
  have "judgeVictim DefaultConfig (fl (1 / 100)) cg (1 / 16) (j_baseline s) =
      ((n < 3, if n < 3 then 0 else fdiv (1 / 16) (1 / 16)), Observe cg (1 / 16) True (j_baseline s))"
    by (rule seen_rate_judge [OF assms rate_floats(2)]) (simp_all add: rate_floats(3) default_net)
  then show ?thesis by (simp add: net_step_def sent_by_def default_net rate_floats Let_def)
qed

lemma quiet_step:
  assumes "sorting_ok S" and "at_rate 0 cg (netBaseline a)" and "a_cfg a = DefaultConfig" and "n < 10"
  shows "\<exists>a1. netVictims S V [sent_by cg n] a = Some (([], 0), a1) \<and> at_rate 0 cg (netBaseline a1) \<and> a_cfg a1 = DefaultConfig"
proof -
  have "length (sort_net_victims S []) = 0"
    using assms(1) unfolding sorting_ok_def sorts_by_def by (metis size_mset list.size(3))
  then have S: "sort_net_victims S [] = []" by simp
  have "netVictims S V [sent_by cg n] a = Some (([], 0), a\<lparr>netBaseline := Prune (netBaseline a)\<rparr>)"
    by (simp add: netVictims_def quiet_net_step [OF assms(4)] assms(3) Let_def cut_at_def S default_net)
  with seen_rate_quiet [OF assms(2)] assms(3) show ?thesis by simp
qed

lemma trouble_step:
  assumes "sorting_ok S" and "at_rate n cg (netBaseline a)" and "a_cfg a = DefaultConfig"
  shows "\<exists>vs w a1. netVictims S V [sent_by cg 100] a = Some ((vs, w), a1) \<and> (vs \<noteq> [] \<longleftrightarrow> n < 3) \<and>
     at_rate (Suc n) cg (netBaseline a1) \<and> a_cfg a1 = DefaultConfig"
proof -
  let ?lab = "\<lambda>cg. label (V (Victim_Label Network) cg) cg"
  let ?s = "net_step DefaultConfig ?lab (sent_by cg 100) \<lparr>j_baseline = netBaseline a, j_out = [], j_ids = [], j_worst = 0\<rparr>"
  have st: "j_baseline ?s = Observe cg (1 / 16) True (netBaseline a)" "length (j_out ?s) = (if n < 3 then 1 else 0)"
    using trouble_net_step [of n cg "\<lparr>j_baseline = netBaseline a, j_out = [], j_ids = [], j_worst = 0\<rparr>" ?lab] assms(2) by simp_all
  have S: "length (sort_net_victims S xs) = length xs" for xs
    using assms(1) unfolding sorting_ok_def sorts_by_def by (metis size_mset)
  have "netVictims S V [sent_by cg 100] a =
      Some ((sort_net_victims S (j_out ?s), j_worst ?s), a\<lparr>netBaseline := Prune (j_baseline ?s)\<rparr>)"
    using st(2) S [of "j_out ?s"] by (simp add: netVictims_def assms(3) Let_def cut_at_def default_net)
  moreover have "sort_net_victims S (j_out ?s) \<noteq> [] \<longleftrightarrow> n < 3"
    using st(2) S [of "j_out ?s"] by (auto split: if_splits)
  moreover have "at_rate (Suc n) cg (Prune (j_baseline ?s))"
    unfolding st(1) by (rule seen_rate_learn [OF assms(2) rate_floats(4)])
  ultimately show ?thesis using assms(3) by auto
qed

lemma trouble_run:
  "sorting_ok S \<Longrightarrow> at_rate n cg (netBaseline a) \<Longrightarrow> a_cfg a = DefaultConfig \<Longrightarrow>
     net_history S V (replicate k (sent_by cg 100)) a = map (\<lambda>i. n + i < 3) [0..<k]"
proof (induction k arbitrary: n a)
  case (Suc k)
  from trouble_step [OF Suc.prems] obtain vs w a1 where
    "netVictims S V [sent_by cg 100] a = Some ((vs, w), a1)" "vs \<noteq> [] \<longleftrightarrow> n < 3"
    "at_rate (Suc n) cg (netBaseline a1)" "a_cfg a1 = DefaultConfig" by blast
  with Suc.IH [OF Suc.prems(1), of "Suc n" a1] show ?case
    by (simp add: upt_conv_Cons map_Suc_upt [symmetric] comp_def del: upt_Suc)
qed simp



end
