(* ===== verification/Agent_Report.thy ===== *)
theory Agent_Report
  imports Agent_Snapshot
begin

text \<open>
  One tick of the agent, \<^verbatim>\<open>report\<close> in \<^verbatim>\<open>src/internal/agent/agent.go\<close>, with the store of
  \<^verbatim>\<open>src/internal/server/store.go\<close>: what failing readers do, what the dimensions have to do with
  each other, and what the agent keeps over its ticks.
\<close>

section \<open>The store\<close>

record Store =
  st_snap :: "report_Snapshot"

definition zero_snapshot :: report_Snapshot where
  "zero_snapshot = \<lparr>sn_NodeName = [], sn_Time = [], sn_Healthy = False, CgroupsSeen = 0, RunqWarnUs = 0,
     sn_MinSamples = 0, sn_ConfidenceMin = 0, MaxConfidence = 0, sn_Offenders = [], Victims = [],
     IOMaxConfidence = 0, sn_IOOffenders = [], IOVictims = [],
     NetMaxConfidence = 0, sn_NetOffenders = [], NetVictims = []\<rparr>"

definition NewStore :: Store where
  "NewStore = \<lparr>st_snap = zero_snapshot\<rparr>"

definition Store_Set :: "report_Snapshot \<Rightarrow> Store \<Rightarrow> Store" where
  "Store_Set s st = st\<lparr>st_snap := s\<rparr>"

definition Store_Get :: "Store \<Rightarrow> report_Snapshot" where
  "Store_Get st = st_snap st"

section \<open>One tick\<close>

text \<open>What the readers return; the observers of disk and network may be missing.\<close>

record readings =
  rd_cpu :: "string + CgroupCPUTime list"
  rd_runq :: "string + CgroupLatency list"
  rd_timeline :: "string + CgroupTimeline list"
  rd_blkio :: "(string + CgroupBlkio list) option"
  rd_net :: "(string + CgroupNet list) option"

definition best_effort :: "(string + 'a list) option \<Rightarrow> 'a list" where
  "best_effort r = (case r of Some (Inr xs) \<Rightarrow> xs | _ \<Rightarrow> [])"

text \<open>
  The result of a tick: the error, the agent and the store afterwards, and the snapshot that is
  sent to the controller; \<open>None\<close> is a panic.
\<close>

definition report :: "sorting \<Rightarrow> (string \<Rightarrow> (string \<times> string option) option) \<Rightarrow> view \<Rightarrow> string \<Rightarrow> readings \<Rightarrow>
    Agent \<Rightarrow> Store \<Rightarrow> (string option \<times> Agent \<times> Store \<times> report_Snapshot option) option" where
  "report S fs V tm rd a st =
     (case rd_cpu rd of
        Inl e \<Rightarrow> Some (Some e, a, st, None)
      | Inr cpu \<Rightarrow>
          (case rd_runq rd of
             Inl e \<Rightarrow> Some (Some e, a, st, None)
           | Inr runq \<Rightarrow>
               (let a1 = (case rd_timeline rd of Inl _ \<Rightarrow> a | Inr ts \<Rightarrow> a\<lparr>a_timeline := ts\<rparr>)
                in case buildSnapshot S fs V tm cpu runq (best_effort (rd_blkio rd)) (best_effort (rd_net rd)) a1 of
                     None \<Rightarrow> None
                   | Some (snap, a2) \<Rightarrow>
                       Some (None, a2, Store_Set snap st,
                         if cf_ControllerAddr (a_cfg a) \<noteq> [] then Some snap else None))))"

section \<open>Dimensions are judged apart\<close>

lemma cpu_entry_cong:
  assumes "cpuUsage a = cpuUsage a'" and "prevThrottle a = prevThrottle a'"
  shows "cpu_entry fs V a = cpu_entry fs V a'"
  by (intro ext) (simp only: cpu_entry_def cpu_offender_def assms)

lemma learned_cpu:
  assumes "learned S V cpu runq blkio network a = Some (cv, iv, nv, au)"
  shows "(\<exists>a1. cpuVictims S V runq a = Some (cv, a1)) \<and> prevThrottle au = prevThrottle a \<and> a_timeline au = a_timeline a \<and>
     cpuUsage au = Prune (fold (\<lambda>r. observeUsage (a_cfg a) (cpu_CgroupID r) (float64 (OnCpuNs r))) cpu (cpuUsage a))"
  using assms
  by (auto simp: learned_def cpuVictims_def ioVictims_def netVictims_def trackNetUsage_def trackIOUsage_def trackCPUUsage_def
      Let_def split: bind_splits option.splits)

definition cpu_part :: "report_Snapshot \<Rightarrow> Victim list \<times> Offender list \<times> rat" where
  "cpu_part s = (Victims s, sn_Offenders s, MaxConfidence s)"

lemma cpu_part_independent:
  assumes "sorting_ok S" and "buildSnapshot S fs V tm cpu runq blkio network a = Some (s1, a1)"
    and "buildSnapshot S fs V tm cpu runq blkio' network' a = Some (s2, a2)"
  shows "cpu_part s1 = cpu_part s2"
proof -
  from buildSnapshot_parts [OF assms(1,2)] obtain cw ids iw nw au where
    "snapshot_parts S fs V cpu runq blkio network a s1 cw ids iw nw au" by blast
  note p = snapshot_partsD [OF this]
  from buildSnapshot_parts [OF assms(1,3)] obtain cw' ids' iw' nw' au' where
    "snapshot_parts S fs V cpu runq blkio' network' a s2 cw' ids' iw' nw' au'" by blast
  note p' = snapshot_partsD [OF this]
  note l = learned_cpu [OF p(1)] and l' = learned_cpu [OF p'(1)]
  from l l' have "Victims s1 = Victims s2 \<and> cw = cw' \<and> ids = ids'" by auto
  moreover from l l' have "a_timeline au = a_timeline au'" "cpu_entry fs V au = cpu_entry fs V au'"
    by (simp_all add: cpu_entry_cong)
  ultimately show ?thesis using p(4) p'(4) by (auto simp: cpu_part_def part_ok_def split: if_splits)
qed

lemma empty_dimension:
  assumes "sorting_ok S" and "buildSnapshot S fs V tm cpu runq blkio network a = Some (s, a1)"
  shows "blkio = [] \<Longrightarrow> IOVictims s = [] \<and> sn_IOOffenders s = []"
    and "network = [] \<Longrightarrow> NetVictims s = [] \<and> sn_NetOffenders s = []"
proof -
  from buildSnapshot_parts [OF assms] obtain cw ids iw nw au where
    "snapshot_parts S fs V cpu runq blkio network a s cw ids iw nw au" by blast
  note p = snapshot_partsD [OF this]
  have nil: "sort_victims S [] = []" "sort_net_victims S [] = []"
    using assms(1) unfolding sorting_ok_def sorts_by_def by (metis mset_zero_iff mset.simps(1))+
  have "blkio = [] \<Longrightarrow> IOVictims s = []" "network = [] \<Longrightarrow> NetVictims s = []"
    using p(1) nil by (auto simp: learned_def ioVictims_def netVictims_def capVictims_def cut_at_def Let_def
        split: bind_splits if_splits)
  with p(5,6) show "blkio = [] \<Longrightarrow> IOVictims s = [] \<and> sn_IOOffenders s = []"
    "network = [] \<Longrightarrow> NetVictims s = [] \<and> sn_NetOffenders s = []" by (simp_all add: part_ok_def)
qed

lemma report_cases:
  assumes "report S fs V tm rd a st = Some (err, a1, st1, sent1)"
  obtains (failed) "err \<noteq> None" "a1 = a" "st1 = st" "sent1 = None" "isl (rd_cpu rd) \<or> isl (rd_runq rd)"
    "err = Some (if isl (rd_cpu rd) then projl (rd_cpu rd) else projl (rd_runq rd))"
  | (built) cpu runq b snap where "err = None" "rd_cpu rd = Inr cpu" "rd_runq rd = Inr runq"
    "\<not> isl (rd_cpu rd)" "\<not> isl (rd_runq rd)"
    "b = (case rd_timeline rd of Inl _ \<Rightarrow> a | Inr ts \<Rightarrow> a\<lparr>a_timeline := ts\<rparr>)"
    "buildSnapshot S fs V tm cpu runq (best_effort (rd_blkio rd)) (best_effort (rd_net rd)) b = Some (snap, a1)"
    "Store_Get st1 = snap"
  using assms by (auto simp: report_def Let_def Store_Set_def Store_Get_def split: sum.splits option.splits)


definition demo_readings :: "(string + CgroupBlkio list) option \<Rightarrow> readings" where
  "demo_readings blk = \<lparr>rd_cpu = Inr [\<lparr>cpu_CgroupID = 8, OnCpuNs = 4096\<rparr>], rd_runq = Inr [], rd_timeline = Inl ''closed'',
     rd_blkio = blk, rd_net = None\<rparr>"


section \<open>Throttle readings\<close>

lemma blame_agent:
  assumes "blame S fs V tm cpu runq blkio network (cvs, cw, ids) (ivs, iw) (nvs, nw) au = Some (s, a1)"
  shows "Victims s = cvs \<and> (if cvs = [] then a1 = au
     else \<exists>m0 out mc h. cpuOffenders S fs V cpu h ids m0 au = Some ((out, mc), a1))"
proof -
  have io: "Victims s2 = Victims s1 \<and> a2 = b" if "blame_io S V blkio (ivs, iw) (s1, b) = Some (s2, a2)" for s1 b s2 a2
    using that by (auto simp: blame_io_def split: if_splits option.splits)
  have net: "Victims s2 = Victims s1 \<and> a2 = b" if "blame_net S V network (nvs, nw) (s1, b) = Some (s2, a2)" for s1 b s2 a2
    using that by (auto simp: blame_net_def split: if_splits option.splits)
  have cpu: "(cvs = [] \<longrightarrow> s2 = s1 \<and> a2 = b) \<and> (cvs \<noteq> [] \<longrightarrow> Victims s2 = cvs \<and>
      (\<exists>out mc. cpuOffenders S fs V cpu (signalFromRatio cw) ids (MaxConfidence s1) b = Some ((out, mc), a2)))"
    if "blame_cpu S fs V cpu (cvs, cw, ids) (s1, b) = Some (s2, a2)" for s1 b s2 a2
    using that by (auto simp: blame_cpu_def split: if_splits option.splits)
  show ?thesis using assms
    by (auto simp: blame_def Let_def empty_snapshot_def split: if_splits bind_splits dest!: io net cpu)
qed

lemma buildSnapshot_agent:
  assumes "buildSnapshot S fs V tm cpu runq blkio network a = Some (s, a1)"
  obtains cw ids ivs iw nvs nw au where
    "learned S V cpu runq blkio network a = Some ((Victims s, cw, ids), (ivs, iw), (nvs, nw), au)"
    "if Victims s = [] then a1 = au
     else \<exists>m0 out mc h. cpuOffenders S fs V cpu h ids m0 au = Some ((out, mc), a1)"
proof -
  from assms obtain cvs cw ids ivs iw nvs nw au where
    l: "learned S V cpu runq blkio network a = Some ((cvs, cw, ids), (ivs, iw), (nvs, nw), au)"
    and "blame S fs V tm cpu runq blkio network (cvs, cw, ids) (ivs, iw) (nvs, nw) au = Some (s, a1)"
    unfolding buildSnapshot_blame by (auto split: bind_splits)
  from blame_agent [OF this(2)] l show ?thesis using that by blast
qed

lemma quiet_throttle:
  assumes "buildSnapshot S fs V tm cpu runq blkio network a = Some (s, a1)" and "Victims s = []"
  shows "prevThrottle a1 = prevThrottle a"
proof -
  obtain cw ids ivs iw nvs nw au where l: "learned S V cpu runq blkio network a = Some ((Victims s, cw, ids), (ivs, iw), (nvs, nw), au)"
    and a1: "if Victims s = [] then a1 = au
     else \<exists>m0 out mc h. cpuOffenders S fs V cpu h ids m0 au = Some ((out, mc), a1)"
    by (rule buildSnapshot_agent [OF assms(1)])
  from learned_cpu [OF l] a1 assms(2) show ?thesis by simp
qed

text \<open>The agent after ticks with the given surroundings and readings; \<open>None\<close> if one of them panics.\<close>

type_synonym tick = "sorting \<times> (string \<Rightarrow> (string \<times> string option) option) \<times> view \<times> string \<times> readings"

fun run_ticks :: "tick list \<Rightarrow> Agent \<times> Store \<Rightarrow> (Agent \<times> Store) option" where
  "run_ticks [] s = Some s"
| "run_ticks ((S, fs, V, tm, rd) # ticks) (a, st) =
     (case report S fs V tm rd a st of
        None \<Rightarrow> None
      | Some (err, a1, st1, msg) \<Rightarrow> run_ticks ticks (a1, st1))"

text \<open>No tick publishes a CPU victim.\<close>

fun no_cpu_victims :: "tick list \<Rightarrow> Agent \<times> Store \<Rightarrow> bool" where
  "no_cpu_victims [] s = True"
| "no_cpu_victims ((S, fs, V, tm, rd) # ticks) (a, st) =
     (case report S fs V tm rd a st of
        None \<Rightarrow> True
      | Some (err, a1, st1, msg) \<Rightarrow> Victims (Store_Get st1) = [] \<and> no_cpu_victims ticks (a1, st1))"

lemma report_throttle:
  assumes "report S fs V tm rd a st = Some (err, a1, st1, msg)" and "Victims (Store_Get st1) = []"
  shows "prevThrottle a1 = prevThrottle a"
proof (rule report_cases [OF assms(1)])
  fix cpu runq b snap
  assume "b = (case rd_timeline rd of Inl _ \<Rightarrow> a | Inr ts \<Rightarrow> a\<lparr>a_timeline := ts\<rparr>)"
    "buildSnapshot S fs V tm cpu runq (best_effort (rd_blkio rd)) (best_effort (rd_net rd)) b = Some (snap, a1)"
    "Store_Get st1 = snap"
  with quiet_throttle [of S fs V tm cpu runq _ _ b snap a1] assms(2) show ?thesis by (auto split: sum.splits)
qed simp

lemma ticks_throttle:
  "run_ticks ticks (a, st) = Some (a1, st1) \<Longrightarrow> no_cpu_victims ticks (a, st) \<Longrightarrow> prevThrottle a1 = prevThrottle a"
proof (induction ticks arbitrary: a st)
  case (Cons t ticks)
  obtain S fs V tm rd where t: "t = (S, fs, V, tm, rd)" by (cases t)
  with Cons.prems obtain err a2 st2 msg where r: "report S fs V tm rd a st = Some (err, a2, st2, msg)"
    and "run_ticks ticks (a2, st2) = Some (a1, st1)" "no_cpu_victims ticks (a2, st2)" "Victims (Store_Get st2) = []"
    by (auto split: option.splits)
  with Cons.IH report_throttle [OF r] show ?case by simp
qed simp

lemma quiet_report:
  assumes "sorting_ok S" and "0 \<le> cf_TopN (a_cfg a)" and "rd_cpu rd = Inr cpu" and "rd_runq rd = Inr []"
  obtains a1 st1 msg where "report S fs V tm rd a st = Some (None, a1, st1, msg)" and "Victims (Store_Get st1) = []"
    and "a_cfg a1 = a_cfg a"
proof -
  let ?b = "case rd_timeline rd of Inl _ \<Rightarrow> a | Inr ts \<Rightarrow> a\<lparr>a_timeline := ts\<rparr>"
  let ?build = "buildSnapshot S fs V tm cpu [] (best_effort (rd_blkio rd)) (best_effort (rd_net rd)) ?b"
  have cfg: "a_cfg ?b = a_cfg a" by (simp split: sum.split)
  with assms(2) have "?build \<noteq> None" by (simp add: build_None)
  then obtain snap a1 where b: "?build = Some (snap, a1)" by auto
  obtain cw ids ivs iw nvs nw au where
    l: "learned S V cpu [] (best_effort (rd_blkio rd)) (best_effort (rd_net rd)) ?b = Some ((Victims snap, cw, ids), (ivs, iw), (nvs, nw), au)"
    and a1: "if Victims snap = [] then a1 = au else \<exists>m0 out mc h. cpuOffenders S fs V cpu h ids m0 au = Some ((out, mc), a1)"
    by (rule buildSnapshot_agent [OF b])
  from assms(1) have "mset (sort_victims S []) = mset []" unfolding sorting_ok_def sorts_by_def by blast
  then have srt: "sort_victims S [] = []" by simp
  from learned_cpu [OF l] obtain a2 where "cpuVictims S V [] ?b = Some ((Victims snap, cw, ids), a2)" by blast
  then have v: "Victims snap = []"
    using assms(2) by (auto simp: cpuVictims_def srt capVictims_def cut_at_def cfg split: option.splits if_splits)
  from v a1 learned_cfg [OF l] cfg have "a_cfg a1 = a_cfg a" by simp
  with b v that show ?thesis using assms(3,4) by (simp add: report_def Store_Set_def Store_Get_def)
qed

lemma quiet_ticks:
  assumes "sorting_ok S" and "0 \<le> cf_TopN (a_cfg a)" and "rd_cpu rd = Inr cpu" and "rd_runq rd = Inr []"
  shows "run_ticks (replicate n (S, fs, V, tm, rd)) (a, st) \<noteq> None \<and> no_cpu_victims (replicate n (S, fs, V, tm, rd)) (a, st)"
  using assms(2)
proof (induction n arbitrary: a st)
  case (Suc n)
  obtain a1 st1 msg where "report S fs V tm rd a st = Some (None, a1, st1, msg)" "Victims (Store_Get st1) = []" "a_cfg a1 = a_cfg a"
    by (rule quiet_report [OF assms(1) Suc.prems assms(3,4)])
  with Suc.IH [of a1 st1] Suc.prems show ?case by simp
qed simp

text \<open>
  C32. Throttle pressure is measured since the last contention. While no CPU victim is published, for
  however many ticks, the agent keeps the \<^verbatim>\<open>cpu.stat\<close> readings it has. So when a pod is next
  examined as an offender, the fraction that is reported as the pressure of this interval is
  computed over all CFS periods since the tick in which it was last examined.
\<close>

theorem throttle_since_contention:
  assumes "run_ticks ticks (a, st) = Some (a1, st1)" and "no_cpu_victims ticks (a, st)"
    and "map_of (prevThrottle a) cg = Some old" and "ReadCPUStat fs cg r = Some new"
  shows "fst (throttleFraction fs (Some (r, now)) (prevThrottle a1) cg cur) = ThrottledFraction (Sub new old)"
  using ticks_throttle [OF assms(1,2)] assms(3,4) by (simp add: throttleFraction_def)

definition demo_stat :: "u64 \<Rightarrow> u64 \<Rightarrow> CPUStat" where
  "demo_stat p t = \<lparr>NrPeriods = p, NrThrottled = t, ThrottledUsec = 0\<rparr>"

definition demo_files :: "string \<Rightarrow> (string \<times> string option) option" where
  "demo_files path = Some (print_file (map print_line [(''nr_periods'', 8), (''nr_throttled'', 4)]), None)"

definition demo_throttled_agent :: Agent where
  "demo_throttled_agent = demo_agent\<lparr>prevThrottle := [(7, demo_stat 0 0)]\<rparr>"

text \<open>A tick in which a pod uses the CPU and nobody waits.\<close>

definition demo_quiet_tick :: tick where
  "demo_quiet_tick = (demo_sorting, demo_files, demo_view, [], \<lparr>rd_cpu = Inr [\<lparr>cpu_CgroupID = 7, OnCpuNs = 1000000\<rparr>],
     rd_runq = Inr [], rd_timeline = Inr [], rd_blkio = None, rd_net = None\<rparr>)"

theorem throttle_since_contention_witness:
  "\<exists>a1 st1. run_ticks (replicate 3 demo_quiet_tick) (demo_throttled_agent, NewStore) = Some (a1, st1) \<and>
     fst (throttleFraction demo_files (Some (\<lparr>r_cache = newTTLCache 30, r_paths = [(7, ''/a'')]\<rparr>, 0))
       (prevThrottle a1) 7 []) = 1 / 2"
proof -
  have "run_ticks (replicate 3 demo_quiet_tick) (demo_throttled_agent, NewStore) \<noteq> None \<and>
      no_cpu_victims (replicate 3 demo_quiet_tick) (demo_throttled_agent, NewStore)"
    unfolding demo_quiet_tick_def
    by (rule quiet_ticks [OF demo_sorting_ok])
      (simp_all add: demo_throttled_agent_def demo_agent_def New_Agent_def demo_config_def Let_def)
  then obtain a1 st1 where run: "run_ticks (replicate 3 demo_quiet_tick) (demo_throttled_agent, NewStore) = Some (a1, st1)"
    and quiet: "no_cpu_victims (replicate 3 demo_quiet_tick) (demo_throttled_agent, NewStore)" by auto
  have prev: "map_of (prevThrottle demo_throttled_agent) 7 = Some (demo_stat 0 0)" by (simp add: demo_throttled_agent_def)
  have stat: "ReadCPUStat demo_files 7 \<lparr>r_cache = newTTLCache 30, r_paths = [(7, ''/a'')]\<rparr> = Some (demo_stat 8 4)"
    using scan_print [of "map print_line [(''nr_periods'', 8), (''nr_throttled'', 4)]"]
      fold_parse_print [of "[(''nr_periods'', 8), (''nr_throttled'', 4)]" zero_stat]
    by (simp add: ReadCPUStat_def demo_files_def parseCPUStat_def demo_stat_def zero_stat_def line_ok_def print_line_def
        print_nat.simps digit_chr_def newline_def carriage_return_def max_token_def key_ok_def is_space_def)
  have "ThrottledFraction (Sub (demo_stat 8 4) (demo_stat 0 0)) = 1 / 2" by code_simp
  with run throttle_since_contention [OF run quiet prev stat, of 0 "[]"] show ?thesis by auto
qed

section \<open>What the agent keeps\<close>

inductive agent_reach :: "Config \<Rightarrow> Agent \<Rightarrow> Store \<Rightarrow> bool" for c where
  start: "agent_reach c (New_Agent c) NewStore"
| tick: "agent_reach c a st \<Longrightarrow> report S fs V tm rd a st = Some (err, a1, st1, msg) \<Longrightarrow> agent_reach c a1 st1"

definition agent_wf :: "Config \<Rightarrow> Agent \<Rightarrow> bool" where
  "agent_wf c a \<longleftrightarrow> a_cfg a = c \<and>
     (\<forall>b \<in> {a_baseline a, ioBaseline a, netBaseline a, cpuUsage a, ioUsage a, netUsage a}.
        baseline_wf b \<and> alpha b = cf_BaselineAlpha c \<and> warmup b = cf_BaselineWarmup c) \<and>
     distinct (map fst (prevThrottle a)) \<and> int (length (prevThrottle a)) \<le> max 0 (cf_TopN c)"

definition learner :: "Config \<Rightarrow> Baseline \<Rightarrow> bool" where
  "learner c b \<longleftrightarrow> baseline_wf b \<and> alpha b = cf_BaselineAlpha c \<and> warmup b = cf_BaselineWarmup c"

lemma learner_steps:
  assumes "learner c b"
  shows "learner c (Prune b)" "learner c (Observe k x u b)" "learner c (snd (judgeVictim c' lower k x b))"
    "learner c (observeUsage c' k x b)"
  using assms by (simp_all add: learner_def wf_Prune wf_Observe judgeVictim_def observeUsage_def Let_def split: prod.split)

lemma latency_learner: "learner c (j_baseline s) \<Longrightarrow> learner c (j_baseline (latency_step c' least lower lab r s))"
  using learner_steps(3) [of c "j_baseline s" c' lower "fst r" "Percentile (fst (snd r)) 99"]
  by (auto simp: latency_step_def Let_def split: prod.splits)

lemma net_learner: "learner c (j_baseline s) \<Longrightarrow> learner c (j_baseline (net_step c' lab r s))"
  using learner_steps(3) [of c "j_baseline s" c' "cf_RetransRateWarn c'" "nt_CgroupID r" "fdiv (float64 (Retransmits r)) (float64 (TxSegs r))"]
  by (auto simp: net_step_def Let_def split: prod.splits)

lemma fold_learner:
  "learner c (j_baseline s) \<Longrightarrow> learner c (j_baseline (fold (\<lambda>r. latency_step c' least lower lab (f r)) rs s))"
  "learner c (j_baseline t) \<Longrightarrow> learner c (j_baseline (fold (net_step c' lab) ns t))"
  by (induction rs arbitrary: s) (simp_all add: latency_learner, induction ns arbitrary: t, simp_all add: net_learner)

lemma agent_wf_learner:
  "agent_wf c a \<longleftrightarrow> a_cfg a = c \<and> learner c (a_baseline a) \<and> learner c (ioBaseline a) \<and> learner c (netBaseline a) \<and>
     learner c (cpuUsage a) \<and> learner c (ioUsage a) \<and> learner c (netUsage a) \<and>
     distinct (map fst (prevThrottle a)) \<and> int (length (prevThrottle a)) \<le> max 0 (cf_TopN c)"
  by (auto simp: agent_wf_def learner_def)

lemma victims_wf:
  assumes "agent_wf c a"
  shows "cpuVictims S V runq a = Some (cv, a1) \<Longrightarrow> agent_wf c a1" "ioVictims S V blkio a = Some (iv, a1) \<Longrightarrow> agent_wf c a1"
    "netVictims S V network a = Some (nv, a1) \<Longrightarrow> agent_wf c a1"
  using assms unfolding agent_wf_learner cpuVictims_def ioVictims_def netVictims_def Let_def
  by (auto split: option.splits intro!: learner_steps(1) fold_learner)

lemma usage_learner: "learner c b \<Longrightarrow> learner c (fold (\<lambda>r. observeUsage c' (k r) (x r)) rs b)"
  by (induction rs arbitrary: b) (simp_all add: learner_steps(4))

lemma track_wf: "agent_wf c a \<Longrightarrow> agent_wf c (trackNetUsage network (trackIOUsage blkio (trackCPUUsage cpu a)))"
  unfolding agent_wf_learner trackNetUsage_def trackIOUsage_def trackCPUUsage_def
  by (auto intro!: learner_steps(1) usage_learner)

lemma learned_wf:
  assumes "agent_wf c a" and "learned S V cpu runq blkio network a = Some (cv, iv, nv, au)"
  shows "agent_wf c au"
proof -
  from assms(2) obtain a1 a2 a3 where "cpuVictims S V runq a = Some (cv, a1)" "ioVictims S V blkio a1 = Some (iv, a2)"
    "netVictims S V network a2 = Some (nv, a3)" "au = trackNetUsage network (trackIOUsage blkio (trackCPUUsage cpu a3))"
    by (auto simp: learned_def split: bind_splits)
  then show ?thesis using assms(1) victims_wf track_wf by metis
qed

lemma length_update_le: "length (AList.update k v al) \<le> Suc (length al)"
  by (induction al) auto

lemma throttle_step:
  assumes "cpu_offender fs V a totalNs totalReq rings h ids r (out, mc, nt) = (out', mc', nt')" and "distinct (map fst nt)"
  shows "distinct (map fst nt') \<and> length nt' \<le> Suc (length nt)"
proof -
  have "nt' = nt \<or> (\<exists>x. nt' = AList.update (cpu_CgroupID r) x nt)"
    using assms(1) by (auto simp: cpu_offender_def throttleFraction_def Let_def split: option.splits prod.splits)
  then show ?thesis using assms(2) by (auto simp: distinct_update length_update_le)
qed

lemma throttle_fold:
  "fold (cpu_offender fs V a totalNs totalReq rings h ids) rs (out, mc, nt) = (out', mc', nt') \<Longrightarrow>
     distinct (map fst nt) \<Longrightarrow> distinct (map fst nt') \<and> length nt' \<le> length nt + length rs"
proof (induction rs arbitrary: out mc nt)
  case (Cons r rs)
  obtain o1 m1 n1 where s: "cpu_offender fs V a totalNs totalReq rings h ids r (out, mc, nt) = (o1, m1, n1)"
    by (metis prod.collapse)
  from Cons.IH [of o1 m1 n1] Cons.prems throttle_step [OF s Cons.prems(2)] s show ?case by simp
qed simp

lemma cpuOffenders_wf:
  assumes "agent_wf c a" and "cpuOffenders S fs V cpu h ids m0 a = Some ((out, mc), a1)"
  shows "agent_wf c a1"
proof -
  from assms(2) obtain rs nt o' m' where cut: "cut_at (cf_TopN (a_cfg a)) (sort_cpu S cpu) = Some rs"
    and f: "fold (cpu_offender fs V a (fst (cpu_totals V cpu)) (snd (cpu_totals V cpu)) (timelineByCgroup (a_timeline a)) h ids)
        rs ([], m0, []) = (o', m', nt)" and a1: "a1 = a\<lparr>prevThrottle := nt\<rparr>"
    by (auto simp: cpuOffenders_def Let_def split: option.splits prod.splits)
  have "int (length rs) \<le> max 0 (cf_TopN (a_cfg a))" using cut_at_Some [OF cut] by (auto simp: min_def)
  with throttle_fold [OF f] assms(1) a1 show ?thesis by (auto simp: agent_wf_learner)
qed

lemma cpuOffenders_timeline: "cpuOffenders S fs V cpu h ids m0 a = Some (res, a1) \<Longrightarrow> a_timeline a1 = a_timeline a"
  by (auto simp: cpuOffenders_def Let_def split: option.splits prod.splits)

lemma report_wf:
  assumes "agent_wf c a" and "report S fs V tm rd a st = Some (err, a1, st1, msg)"
  shows "agent_wf c a1"
proof (rule report_cases [OF assms(2)])
  fix cpu runq b snap
  assume b: "b = (case rd_timeline rd of Inl _ \<Rightarrow> a | Inr ts \<Rightarrow> a\<lparr>a_timeline := ts\<rparr>)"
    "buildSnapshot S fs V tm cpu runq (best_effort (rd_blkio rd)) (best_effort (rd_net rd)) b = Some (snap, a1)"
  have wf: "agent_wf c b" using assms(1) b(1) by (auto simp: agent_wf_learner split: sum.splits)
  obtain cw ids ivs iw nvs nw au where
    l: "learned S V cpu runq (best_effort (rd_blkio rd)) (best_effort (rd_net rd)) b = Some ((Victims snap, cw, ids), (ivs, iw), (nvs, nw), au)"
    and a1: "if Victims snap = [] then a1 = au
       else \<exists>m0 out mc h. cpuOffenders S fs V cpu h ids m0 au = Some ((out, mc), a1)"
    by (rule buildSnapshot_agent [OF b(2)])
  from learned_wf [OF wf l] a1 cpuOffenders_wf show ?thesis by (metis (no_types))
qed (use assms(1) in simp)

text \<open>
  C18. The agent's memory is sound and bounded. In every state the agent reaches by ticks, with any
  readings, failures and surroundings: its configuration is the one it was started with; each
  of the six learned normals has every cgroup at most once and keeps its smoothing and
  warm-up; and the \<^verbatim>\<open>cpu.stat\<close> readings kept for the next tick are of distinct cgroups, at
  most as many as the tables may be long.
\<close>

theorem agent_reachable_wf:
  assumes "agent_reach c a st"
  shows "agent_wf c a"
  using assms
proof induction
  case start
  show ?case by (simp add: agent_wf_learner learner_def New_Agent_def NewBaseline_def baseline_wf_def Let_def)
next
  case (tick a st S fs V tm rd err a1 st1 msg)
  then show ?case using report_wf by blast
qed

theorem agent_reachable_wf_witness:
  "\<exists>a st. agent_reach demo_config a st \<and> a \<noteq> New_Agent demo_config \<and> int (length (prevThrottle a)) \<le> 2"
proof -
  let ?rd = "\<lparr>rd_cpu = Inr [], rd_runq = Inr [], rd_timeline = Inr [\<lparr>tl_CgroupID = 7, RunqLatNs = [], RunqCount = [], CpuNs = [], CtxSwitch = []\<rparr>],
     rd_blkio = None, rd_net = None\<rparr>"
  have "buildSnapshot demo_sorting demo_files demo_view [] [] [] [] [] (New_Agent demo_config\<lparr>a_timeline := [\<lparr>tl_CgroupID = 7, RunqLatNs = [], RunqCount = [], CpuNs = [], CtxSwitch = []\<rparr>]\<rparr>) \<noteq> None"
    by (simp add: build_None New_Agent_def demo_config_def Let_def)
  then obtain a1 st1 msg where r: "report demo_sorting demo_files demo_view [] ?rd (New_Agent demo_config) NewStore = Some (None, a1, st1, msg)"
    by (auto simp: report_def best_effort_def)
  then have re: "agent_reach demo_config a1 st1" using agent_reach.intros by metis
  from r obtain snap where b: "buildSnapshot demo_sorting demo_files demo_view [] [] [] [] [] (New_Agent demo_config\<lparr>a_timeline := [\<lparr>tl_CgroupID = 7, RunqLatNs = [], RunqCount = [], CpuNs = [], CtxSwitch = []\<rparr>]\<rparr>) = Some (snap, a1)"
    by (auto simp: report_def best_effort_def split: option.splits)
  have "a_timeline a1 \<noteq> []"
    by (rule buildSnapshot_agent [OF b]) (auto dest!: learned_cpu cpuOffenders_timeline split: if_splits)
  then have "a1 \<noteq> New_Agent demo_config" by (auto simp: New_Agent_def Let_def)
  with re agent_reachable_wf [OF re] show ?thesis by (auto simp: agent_wf_def demo_config_def)
qed

end
