(* ===== verification/Watcher.thy ===== *)
theory Watcher
  imports Prelude
begin

text \<open>
  The watcher of the cgroup tree, \<^verbatim>\<open>src/internal/cgroup/watcher.go\<close>: file system events are
  collected until the tree has been quiet for a window, then the resolver is refreshed once.
\<close>

unbundle bit_operations_syntax

section \<open>The loop\<close>

definition debounceWindow :: int where
  "debounceWindow = 500 * 1000000"

text \<open>\<^verbatim>\<open>fsnotify.Create\<close> is the lowest bit of an operation.\<close>

definition fs_Create :: u32 where
  "fs_Create = 1"

text \<open>
  The watcher with the timer's deadline (\<^verbatim>\<open>timer\<close> and \<^verbatim>\<open>fire\<close> are nil together), the directories
  it watches, the times at which it has called \<^verbatim>\<open>onChange\<close>, and whether the loop has returned.
\<close>

record Watcher =
  w_timer :: "int option"
  w_watched :: "string list"
  w_calls :: "int list"
  w_returned :: bool

text \<open>
  An entry of a directory walk: its path, whether it could be read and is a directory, and
  whether the kernel accepts a watch on it.
\<close>

type_synonym walk_entry = "string \<times> bool \<times> bool"

definition addRecursive :: "walk_entry list \<Rightarrow> Watcher \<Rightarrow> Watcher" where
  "addRecursive entries w =
     w\<lparr>w_watched := fold (\<lambda>(path, is_dir, added) ws. if is_dir \<and> added then List.insert path ws else ws)
        entries (w_watched w)\<rparr>"

definition NewWatcher :: "walk_entry list \<Rightarrow> Watcher" where
  "NewWatcher entries = addRecursive entries \<lparr>w_timer = None, w_watched = [], w_calls = [], w_returned = False\<rparr>"

text \<open>The case that \<^verbatim>\<open>select\<close> takes; an event comes with the walk of its name, if that is a directory now.\<close>

datatype selected =
    Done
  | Event u32 "walk_entry list option"
  | Events_Closed
  | Fire
  | Error

text \<open>One round of the loop at a time; \<open>None\<close> if the case is not ready, or the loop has returned.\<close>

definition watch_step :: "int \<Rightarrow> selected \<Rightarrow> Watcher \<Rightarrow> Watcher option" where
  "watch_step now sel w =
     (if w_returned w then None
      else case sel of
        Done \<Rightarrow> Some (w\<lparr>w_returned := True\<rparr>)
      | Events_Closed \<Rightarrow> Some (w\<lparr>w_returned := True\<rparr>)
      | Event ev_op dir \<Rightarrow>
          (let w1 = (if ev_op AND fs_Create \<noteq> 0
                     then (case dir of None \<Rightarrow> w | Some entries \<Rightarrow> addRecursive entries w) else w)
           in Some (w1\<lparr>w_timer := Some (now + debounceWindow)\<rparr>))
      | Fire \<Rightarrow>
          (case w_timer w of
             None \<Rightarrow> None
           | Some deadline \<Rightarrow>
               (if deadline \<le> now then Some (w\<lparr>w_timer := None, w_calls := w_calls w @ [now]\<rparr>) else None))
      | Error \<Rightarrow> Some w)"

fun watch_run :: "(int \<times> selected) list \<Rightarrow> Watcher \<Rightarrow> Watcher option" where
  "watch_run [] w = Some w"
| "watch_run ((now, sel) # rest) w =
     (case watch_step now sel w of None \<Rightarrow> None | Some w1 \<Rightarrow> watch_run rest w1)"

section \<open>What the timer stands for\<close>

text \<open>The time of the last event that no call has answered yet.\<close>

fun unanswered :: "(int \<times> selected) list \<Rightarrow> int option \<Rightarrow> int option" where
  "unanswered [] u = u"
| "unanswered ((now, Event ev_op dir) # rest) u = unanswered rest (Some now)"
| "unanswered ((now, Fire) # rest) u = unanswered rest None"
| "unanswered ((now, _) # rest) u = unanswered rest u"

text \<open>Each call comes when an event is unanswered, and a window after it.\<close>

fun calls_justified :: "(int \<times> selected) list \<Rightarrow> int option \<Rightarrow> bool" where
  "calls_justified [] u = True"
| "calls_justified ((now, Event ev_op dir) # rest) u = calls_justified rest (Some now)"
| "calls_justified ((now, Fire) # rest) u =
     ((case u of None \<Rightarrow> False | Some t \<Rightarrow> t + debounceWindow \<le> now) \<and> calls_justified rest None)"
| "calls_justified ((now, _) # rest) u = calls_justified rest u"

fun call_times :: "(int \<times> selected) list \<Rightarrow> int list" where
  "call_times [] = []"
| "call_times ((now, Fire) # rest) = now # call_times rest"
| "call_times ((now, _) # rest) = call_times rest"

lemma addRecursive_frame [simp]:
  "w_timer (addRecursive es w) = w_timer w" "w_calls (addRecursive es w) = w_calls w"
  "w_returned (addRecursive es w) = w_returned w"
  by (simp_all add: addRecursive_def)

lemma addRecursive_watched:
  "set (w_watched (addRecursive es w)) = set (w_watched w) \<union> {path. (path, True, True) \<in> set es}"
proof -
  have "set (fold (\<lambda>(path, is_dir, added) ws. if is_dir \<and> added then List.insert path ws else ws) es ws) =
      set ws \<union> {path. (path, True, True) \<in> set es}" for ws
    by (induction es arbitrary: ws) (auto split: if_splits)
  then show ?thesis by (simp add: addRecursive_def)
qed

lemma watch_run_timer:
  assumes "watch_run tr w = Some w'" and "w_timer w = map_option (\<lambda>t. t + debounceWindow) u"
  shows "w_timer w' = map_option (\<lambda>t. t + debounceWindow) (unanswered tr u) \<and> calls_justified tr u \<and>
     w_calls w' = w_calls w @ call_times tr"
  using assms
proof (induction tr arbitrary: w u)
  case (Cons e tr)
  obtain now sel where e: "e = (now, sel)" by (cases e)
  from Cons.prems(1) e obtain w1 where st: "watch_step now sel w = Some w1" and run: "watch_run tr w1 = Some w'"
    by (auto split: option.splits)
  show ?case
  proof (cases sel)
    case (Event ev_op dir)
    with st have "w_timer w1 = Some (now + debounceWindow)" "w_calls w1 = w_calls w"
      by (auto simp: watch_step_def Let_def split: if_splits option.splits)
    with Cons.IH [OF run, of "Some now"] e Event show ?thesis by simp
  next
    case Fire
    with st Cons.prems(2) obtain t where "u = Some t" "t + debounceWindow \<le> now" "w_timer w1 = None" "w_calls w1 = w_calls w @ [now]"
      by (cases u) (auto simp: watch_step_def split: if_splits)
    with Cons.IH [OF run, of None] e Fire show ?thesis by simp
  next
    case Done
    with st Cons.IH [OF run, of u] Cons.prems(2) e show ?thesis by (auto simp: watch_step_def split: if_splits)
  next
    case Events_Closed
    with st Cons.IH [OF run, of u] Cons.prems(2) e show ?thesis by (auto simp: watch_step_def split: if_splits)
  next
    case Error
    with st Cons.IH [OF run, of u] Cons.prems(2) e show ?thesis by (auto simp: watch_step_def split: if_splits)
  qed
qed simp

lemma calls_justified_append:
  "calls_justified (tr @ tr') u \<longleftrightarrow> calls_justified tr u \<and> calls_justified tr' (unanswered tr u)"
  by (induction tr u rule: calls_justified.induct) auto

lemma unanswered_append: "unanswered (tr @ tr') u = unanswered tr' (unanswered tr u)"
  by (induction tr u rule: unanswered.induct) auto

lemma unanswered_latest:
  "sorted (map fst tr) \<Longrightarrow> unanswered tr None = Some u \<Longrightarrow> (t, Event ev_op dir) \<in> set tr \<Longrightarrow> t \<le> u"
proof (induction tr arbitrary: u rule: rev_induct)
  case (snoc e tr)
  obtain now sel where e: "e = (now, sel)" by (cases e)
  with snoc.prems have srt: "sorted (map fst tr)" "\<forall>x \<in> set tr. fst x \<le> now" by (auto simp: sorted_append)
  from snoc.prems(2) snoc.prems(3) snoc.IH [OF srt(1)] srt(2) e show ?case
    by (cases sel) (auto simp: unanswered_append)
qed simp

lemma unanswered_errors: "\<forall>e \<in> set tr. snd e = Error \<Longrightarrow> unanswered tr u = u"
  by (induction tr u rule: unanswered.induct) auto

section \<open>Property\<close>

text \<open>
  C27. Refreshes are debounced and none is lost. In every run of the loop with a clock that does not go
  back, whatever events, errors and walks it meets: a refresh answers an event that no
  earlier one has answered, and it happens only when the tree has been quiet for the whole
  window, that is no event was handled in the half second before it; and after an event, as
  long as the loop has not returned and no other event comes, a refresh can be taken exactly
  from half a second after the event on.
\<close>

theorem refresh_debounced:
  assumes "watch_run tr (NewWatcher entries) = Some w" and "sorted (map fst tr)"
  shows "(\<forall>pre t post. tr = pre @ (t, Fire) # post \<longrightarrow> unanswered pre None \<noteq> None \<and>
        (\<forall>s ev_op dir. (s, Event ev_op dir) \<in> set pre \<longrightarrow> s + debounceWindow \<le> t)) \<and>
     (\<forall>pre t ev_op dir post now. tr = pre @ (t, Event ev_op dir) # post \<and> (\<forall>e \<in> set post. snd e = Error) \<and>
        \<not> w_returned w \<longrightarrow> (watch_step now Fire w \<noteq> None \<longleftrightarrow> t + debounceWindow \<le> now))"
proof -
  have "w_timer (NewWatcher entries) = map_option (\<lambda>t. t + debounceWindow) None" by (simp add: NewWatcher_def)
  note run = watch_run_timer [OF assms(1) this]
  have 1: "unanswered pre None \<noteq> None \<and> (\<forall>s ev_op dir. (s, Event ev_op dir) \<in> set pre \<longrightarrow> s + debounceWindow \<le> t)"
    if tr: "tr = pre @ (t, Fire) # post" for pre t post
  proof -
    from run tr obtain u where u: "unanswered pre None = Some u" "u + debounceWindow \<le> t"
      by (auto simp: calls_justified_append split: option.splits)
    moreover have "sorted (map fst pre)" using assms(2) tr by (simp add: sorted_append)
    ultimately show ?thesis using unanswered_latest by fastforce
  qed
  have 2: "watch_step now Fire w \<noteq> None \<longleftrightarrow> t + debounceWindow \<le> now"
    if "tr = pre @ (t, Event ev_op dir) # post" "\<forall>e \<in> set post. snd e = Error" "\<not> w_returned w" for pre t ev_op dir post now
  proof -
    have "w_timer w = Some (t + debounceWindow)" using run that(1) unanswered_errors [OF that(2)] by (simp add: unanswered_append)
    then show ?thesis using that(3) by (simp add: watch_step_def)
  qed
  show ?thesis by (intro conjI [of "\<forall>pre t post. _ pre t post"] allI impI; (elim conjE)?; (rule 1 | rule 2))
qed

definition demo_trace :: "(int \<times> selected) list" where
  "demo_trace = [(0, Event 1 (Some [(''/a/b'', True, True)])), (400000000, Event 2 None), (900000000, Fire), (950000000, Event 4 None)]"

theorem refresh_debounced_witness:
  "\<exists>w. watch_run demo_trace (NewWatcher [(''/a'', True, True)]) = Some w \<and> w_watched w = [''/a/b'', ''/a''] \<and>
     watch_step 1450000000 Fire w \<noteq> None \<and> watch_step 1449999999 Fire w = None"
proof -
  obtain w where run: "watch_run demo_trace (NewWatcher [(''/a'', True, True)]) = Some w"
    and w: "w_watched w = [''/a/b'', ''/a'']" "\<not> w_returned w"
    by (simp add: demo_trace_def NewWatcher_def addRecursive_def watch_step_def fs_Create_def debounceWindow_def)
  have srt: "sorted (map fst demo_trace)" by (simp add: demo_trace_def)
  have "demo_trace = [(0, Event 1 (Some [(''/a/b'', True, True)])), (400000000, Event 2 None), (900000000, Fire)] @
      (950000000, Event 4 None) # []" by (simp add: demo_trace_def)
  from refresh_debounced [OF run srt, THEN conjunct2, rule_format, OF conjI [OF this conjI]] w(2)
  have fire: "watch_step now Fire w \<noteq> None \<longleftrightarrow> 950000000 + debounceWindow \<le> now" for now by simp
  show ?thesis using run w fire [of 1450000000] fire [of 1449999999] by (simp add: debounceWindow_def)
qed

end
