(* ===== verification/Spec2Isabelle.thy ===== *)
theory Spec2Isabelle
  imports Sched_Observer Blkio_Accounting Net_Monitor Cgroup_Monitor Program_Layout Kernel_Embedding
    Throttle_Ledger Cluster_Controller Log2_Loop Agent_Blame Agent_Learning Agent_Report Watcher
begin

text \<open>
  \<^bold>\<open>node-sentinel\<close> finds noisy neighbours on a Kubernetes node. Four eBPF programs in the kernel
  (\<^verbatim>\<open>src/internal/ebpf/bpf\<close>) measure CPU time, run-queue latency, disk and network use of each
  cgroup and report cgroup creation and removal. Go observers (\<^verbatim>\<open>src/internal/ebpf\<close>) drain
  their maps once per interval; the agent (\<^verbatim>\<open>src/internal/agent\<close>) compares each cgroup with its own
  past (\<^verbatim>\<open>src/internal/metrics\<close>), names it through a cache of pod names
  (\<^verbatim>\<open>src/internal/cgroup\<close>) and reports victims and likely offenders in a snapshot; the cluster
  controller (\<^verbatim>\<open>src/internal/controller\<close>) throttles confident offenders or announces them by Events.

  \<^bold>\<open>Theories and sources.\<close>
  \<^item> \<open>Prelude\<close>: words, bytes, generic lemmas on lists and association lists, the collections
    \<open>bpf_simps\<close>, \<open>wf_intros\<close>, \<open>frame_simps\<close>.
  \<^item> \<open>Bpf_Runtime\<close>: BPF hash maps, per-CPU maps, kernel memory reads; the contracts
    \<open>percpu_accumulator\<close> and \<open>stamp_store\<close> that the monitors are instances of.
    \<open>Log2_Histogram\<close>: the histogram of the latency monitors. \<open>Log2_Loop\<close>: its bucket loop as the
    C text has it. \<open>Demo_Kernel\<close>: a concrete kernel.
  \<^item> \<open>Sched_Monitor\<close>: \<^verbatim>\<open>sched_monitor.bpf.c\<close>, one definition per helper and tracepoint program on
    the record of its maps. \<open>Sched_System\<close>: runs of the programs on all CPUs with deletions by
    user space, reachable states, their invariant. \<open>Sched_Accounting\<close>: conservation of CPU time,
    waits, commutation of programs on different CPUs. \<open>Sched_Timeline\<close>: the ring of 64 windows
    refines an unbounded timeline. \<open>Sched_Observer\<close>: \<^verbatim>\<open>sched.go\<close>, the three readers.
  \<^item> \<open>Blkio_Monitor\<close>, \<open>Blkio_Accounting\<close>: \<^verbatim>\<open>blkio_monitor.bpf.c\<close> and \<^verbatim>\<open>blkio.go\<close>.
    \<open>Net_Monitor\<close>: \<^verbatim>\<open>net_monitor.bpf.c\<close> and \<^verbatim>\<open>net.go\<close>. \<open>Cgroup_Monitor\<close>:
    \<^verbatim>\<open>cgroup_monitor.bpf.c\<close> and \<^verbatim>\<open>cgroup.go\<close>, with the contract \<open>event_channel\<close>.
    \<open>Map_Drain\<close>: the drain loop of all observers as the contract \<open>percpu_drain\<close>.
  \<^item> \<open>Ctype_Layout\<close>: C types, sizes, member offsets, read paths. \<open>Kernel_Types_Core\<close>,
    \<open>Kernel_Types_Bpf\<close>, \<open>Kernel_Types_Subsystems\<close>: declarations of \<^verbatim>\<open>vmlinux.h\<close>.
    \<open>Program_Layout\<close>: read paths, structures and maps of the programs resolved in them.
    \<open>Kernel_Embedding\<close>: objects that contain the traced ones.
  \<^item> \<open>Ttl_Cache\<close>: \<^verbatim>\<open>ttlcache.go\<close> and \<^verbatim>\<open>podid.go\<close>. \<open>Cpu_Stat\<close>: \<^verbatim>\<open>cpustat.go\<close>.
    \<open>Resolver\<close>: \<^verbatim>\<open>resolver.go\<close> and the lifecycle handler of the agent, on the events of
    \<open>Cgroup_Monitor\<close>. \<open>Watcher\<close>: \<^verbatim>\<open>watcher.go\<close>.
  \<^item> \<open>Float64\<close>: binary floating-point numbers, their rounding and its error bounds. \<open>Percentile\<close>,
    \<open>Baseline\<close>, \<open>Correlation\<close>: \<^verbatim>\<open>histogram.go\<close>, \<^verbatim>\<open>baseline.go\<close>, \<^verbatim>\<open>correlation.go\<close>.
  \<^item> \<open>Agent_Judgement\<close>: \<^verbatim>\<open>config.go\<close>, the types of \<^verbatim>\<open>snapshot.go\<close> and \<^verbatim>\<open>agent.go\<close> from the judgement
    of one victim to \<^verbatim>\<open>buildSnapshot\<close>. \<open>Agent_Snapshot\<close>: what every snapshot satisfies.
    \<open>Agent_Blame\<close>: what the controller may conclude from it. \<open>Agent_Learning\<close>: many intervals.
    \<open>Agent_Report\<close>: \<^verbatim>\<open>report\<close> with the store of \<^verbatim>\<open>store.go\<close>, failing readers, reachable agents.
  \<^item> \<open>Remediation\<close>: \<^verbatim>\<open>remediation.go\<close>, \<^verbatim>\<open>resize.go\<close>, \<^verbatim>\<open>persist.go\<close>. \<open>Throttling\<close>: whom and when it
    acts, throttling and restoring. \<open>Throttle_Ledger\<close>: restarts. \<open>Policy\<close>: \<^verbatim>\<open>policy.go\<close>.
    \<open>Cluster_Controller\<close>: \<^verbatim>\<open>controller.go\<close> and the start-up in \<^verbatim>\<open>src/cmd/controller/main.go\<close>.
  \<^item> This theory: how the labels of the agent meet the controller.

  \<^bold>\<open>Reading the model.\<close> A BPF map is an association list with its capacity; a per-CPU value is a
  function of the CPU. Programs take the invocation context (clock, CPU, current cgroup,
  outcome of an allocation) and the kernel's memory as parameters and return the new state.
  Integers of the programs are words, so wrap-around is part of the model. A program run is
  one step: it runs on one CPU with preemption disabled and touches only that CPU's copies,
  the shared maps being updated by single helper calls; that programs on different CPUs
  commute is proved for context switches. User-space readers are split into their collecting
  and deleting loops where the interleaving matters. The Kubernetes API, the clock, the map
  iterator and the reservation of ring-buffer memory are parameters. Go maps are association
  lists; the theorems do not depend on their order. The order in which \<^verbatim>\<open>sort.Slice\<close> leaves equal
  elements, and what the cache answers at each of the look-ups of an interval while other
  goroutines change it, are parameters, too. A run-time panic of the agent is \<open>None\<close>. Times are
  integers in nanoseconds. In the metrics and the agent a \<^verbatim>\<open>float64\<close> is the rational number it
  stands for, rounded to even after each operation (\<open>fl\<close>), with gradual underflow; products and
  sums are not fused, and numbers beyond the largest finite one, infinities and NaN are left
  out. In the controller, confidences and CPU quantities are exact rationals. No fuel is used:
  every loop is structural or has a termination proof (\<open>log2_loop\<close>, \<open>scan_lines\<close>, \<open>parse_parts\<close>);
  the bucket loop is also given as a \<open>while_option\<close>, and that it stops is proved.

  \<^bold>\<open>What is shown.\<close> For the scheduler: every reachable state respects capacities, slot sums and
  windows; CPU time is charged exactly and conserved; each wake-up is measured at most once
  in the slot of its latency; the readers report exactly what was recorded, and which charges
  the two-loop drain loses. For disk and network: a request is charged once to its issuer,
  bytes are conserved, intervals are exact, a full map affects nobody already in it. For the
  lifecycle events: what is read is what was emitted, in order, also byte by byte. For the
  layouts: every \<^verbatim>\<open>BPF_CORE_READ\<close> path is well-typed in \<^verbatim>\<open>vmlinux.h\<close> and reads the field at
  the offset computed from the declarations. For naming: the cache refines a per-cgroup
  life cycle with an exact grace period, and a cgroup resolves to what the kernel's events
  prescribe; a refresh follows half a second of silence. For the metrics: the percentile of a
  histogram is an order statistic of the latencies, a baseline tracks exactly the recent keys,
  the correlation is the best over all lags. For the agent: a pod taken for a confident
  offender really used the resource while somebody was starved of it; a snapshot is consistent;
  a lasting spike is never learned as normal; failing readers do not affect other dimensions;
  and three places where it does not do what its comments say. For the rest of user space: the \<^verbatim>\<open>cpu.stat\<close> parser inverts the kernel's printer and
  ignores what it does not know; the controller acts only within policy, namespace, cooldown
  and confidence, its throttles are lifted with the original limit and survive restarts,
  except in one interleaving that is exhibited.

  \<^bold>\<open>Not modelled.\<close> Loading and attaching (\<^verbatim>\<open>loader.go\<close>, the constructors of the observers), the
  HTTP and metrics servers (\<^verbatim>\<open>local.go\<close>, \<^verbatim>\<open>prometheus.go\<close>), the client \<^verbatim>\<open>sentinelctl\<close>, the parsing of
  flags, the printed report and the POST to the controller are calls of libraries or format
  text. Of \<^verbatim>\<open>Run\<close> the select loop and the start of goroutines are left out: its ticks and
  lifecycle events are the steps of the models. Declarations of \<^verbatim>\<open>vmlinux.h\<close> that no traced
  object or BPF interface refers to are not transcribed. Data races inside a Go method are
  excluded by its lock and not modelled, except between the steps of a restore.
\<close>

section \<open>From a cgroup to a pod that can be acted on\<close>

text \<open>
  The agent names a cgroup by the pod in the resolver's cache, or as a system cgroup; the
  controller splits the name again.
\<close>

lemma splitPod_no_slash: "CHR ''/'' \<notin> set l \<Longrightarrow> splitPod l = None"
  by (auto simp: splitPod_def Let_def dropWhile_eq_Nil_conv)

lemma takeWhile_slash: "x \<notin> set xs \<Longrightarrow> takeWhile (\<lambda>ch. ch \<noteq> x) (xs @ x # ys) = xs"
  by (induction xs) auto

lemma dropWhile_slash: "x \<notin> set xs \<Longrightarrow> dropWhile (\<lambda>ch. ch \<noteq> x) (xs @ x # ys) = x # ys"
  by (induction xs) auto

lemma splitPod_join:
  assumes "CHR ''/'' \<notin> set ns" and "CHR ''/'' \<notin> set p" and "ns \<noteq> []" and "p \<noteq> []" and "c \<noteq> []"
  shows "splitPod (ns @ ''/'' @ p @ ''/'' @ c) = Some (ns, p, c)"
  using assms by (simp add: splitPod_def Let_def takeWhile_slash dropWhile_slash)

text \<open>
  C40. Labels identify containers from the agent to the controller. The controller reads the label
  the agent gives a cgroup back to the container the cache names at that time, and to no
  target at all when the cache has no name for the cgroup or one without a namespace.
\<close>

theorem label_identifies:
  assumes "\<And>p. resolve res cgroupID = Some p \<Longrightarrow> Namespace p \<noteq> [] \<Longrightarrow>
     CHR ''/'' \<notin> set (Namespace p) \<and> CHR ''/'' \<notin> set (Pod p) \<and> Pod p \<noteq> [] \<and> Container p \<noteq> []"
  shows "splitPod (label res cgroupID) =
     (case resolve res cgroupID of
        None \<Rightarrow> None
      | Some p \<Rightarrow> if Namespace p = [] then None else Some (Namespace p, Pod p, Container p))"
proof (cases "resolve res cgroupID")
  case None
  then show ?thesis
    by (simp add: label_def) (rule splitPod_no_slash, simp add: print_nat_no_slash)
next
  case (Some p)
  show ?thesis
  proof (cases "Namespace p = []")
    case True
    with Some show ?thesis by (simp add: label_def PodID_String_def splitPod_no_slash)
  next
    case False
    with Some assms [OF Some] splitPod_join [of "Namespace p" "Pod p" "Container p"] show ?thesis
      by (simp add: label_def PodID_String_def)
  qed
qed

theorem label_identifies_witness:
  "splitPod (label (demo_view (Offender_Label CPU) 7) 7) = Some (''default'', ''web'', ''app'')"
proof -
  have "resolve (demo_view (Offender_Label CPU) 7) 7 = Some (demo_pod ''web'' 1000)" by code_simp
  with label_identifies [of "demo_view (Offender_Label CPU) 7" 7] show ?thesis by (simp add: demo_pod_def)
qed

end
